(* ===== verification/Fleet_Prelude.thy ===== *)
theory Fleet_Prelude
  imports Main
    "HOL-Library.Word"
    "HOL-Library.AList"
    "HOL-Library.Countable"
    "HOL-Library.Product_Lexorder"
    "HOL-Library.List_Lexorder"
    "HOL-Library.Char_ord"
begin

text \<open>
  Shared vocabulary of the FleetFS development.

  \<^item> Machine integers: \<open>u8\<close>, \<open>u16\<close>, \<open>u32\<close> and \<open>u64\<close> are words, so that \<open>+\<close>, \<open>-\<close> and
    \<open>*\<close> wrap around as they do in the release build (\<^verbatim>\<open>Cargo.toml\<close> leaves
    \<^verbatim>\<open>overflow-checks\<close> off in \<^verbatim>\<open>[profile.release]\<close>).
  \<^item> Results: a Rust call returns \<open>Ok\<close>, returns \<open>Err\<close>, or panics (\<^verbatim>\<open>assert!\<close>,
    \<^verbatim>\<open>unwrap\<close>, \<^verbatim>\<open>unreachable!\<close>, indexing a missing key). The datatype \<open>res\<close> has one
    constructor for each, so that no panic of the source is lost in the model.
  \<^item> Positions: \<^verbatim>\<open>iter().position\<close>, which the cluster layout uses to number the nodes.
\<close>

section \<open>Types\<close>

type_synonym u8 = "8 word"
type_synonym u16 = "16 word"
type_synonym u32 = "32 word"
type_synonym u64 = "64 word"
type_synonym bytes = "8 word list"

text \<open>
  Collections of the development: \<open>res_simps\<close> evaluates the result combinators,
  \<open>table_simps\<close> the tables, \<open>stripe_simps\<close> the arithmetic of striped files and
  \<open>txn_simps\<close> the skeleton of a metadata transaction.
\<close>

named_theorems res_simps
named_theorems table_simps
named_theorems stripe_simps
named_theorems txn_simps

section \<open>Results: value, error or panic\<close>

datatype ('e, 'a) res = Ok 'a | Err 'e | Panic

primrec and_then :: "('e, 'a) res \<Rightarrow> ('a \<Rightarrow> ('e, 'b) res) \<Rightarrow> ('e, 'b) res" where
  "and_then (Ok a) f = f a"
| "and_then (Err e) f = Err e"
| "and_then Panic f = Panic"

primrec map_ok :: "('a \<Rightarrow> 'b) \<Rightarrow> ('e, 'a) res \<Rightarrow> ('e, 'b) res" where
  "map_ok f (Ok a) = Ok (f a)"
| "map_ok f (Err e) = Err e"
| "map_ok f Panic = Panic"

primrec map_err :: "('e \<Rightarrow> 'f) \<Rightarrow> ('e, 'a) res \<Rightarrow> ('f, 'a) res" where
  "map_err f (Ok a) = Ok a"
| "map_err f (Err e) = Err (f e)"
| "map_err f Panic = Panic"

primrec unwrap :: "('e, 'a) res \<Rightarrow> ('f, 'a) res" where
  "unwrap (Ok a) = Ok a"
| "unwrap (Err e) = Panic"
| "unwrap Panic = Panic"

primrec ok_or :: "'a option \<Rightarrow> 'e \<Rightarrow> ('e, 'a) res" where
  "ok_or None e = Err e"
| "ok_or (Some a) e = Ok a"

primrec expect :: "'a option \<Rightarrow> ('e, 'a) res" where
  "expect None = Panic"
| "expect (Some a) = Ok a"

definition assert_that :: "bool \<Rightarrow> ('e, unit) res" where
  "assert_that b = (if b then Ok () else Panic)"

text \<open>\<^verbatim>\<open>if !cond { return Err(e) }\<close>\<close>

definition ensure :: "bool \<Rightarrow> 'e \<Rightarrow> ('e, unit) res" where
  "ensure cond e = (if cond then Ok () else Err e)"

definition is_ok :: "('e, 'a) res \<Rightarrow> bool" where
  "is_ok r = (case r of Ok _ \<Rightarrow> True | _ \<Rightarrow> False)"

lemma is_ok_simps [simp, res_simps]:
  "is_ok (Ok a)" "\<not> is_ok (Err e)" "\<not> is_ok Panic"
  by (simp_all add: is_ok_def)

lemma assert_that_simps [simp, res_simps]:
  "assert_that True = Ok ()" "assert_that False = Panic"
  by (simp_all add: assert_that_def)

lemma ensure_simps [simp, res_simps]:
  "ensure True e = Ok ()" "ensure False e = Err e"
  "ensure cond e = Ok u \<longleftrightarrow> cond" "ensure cond e = Err e' \<longleftrightarrow> \<not> cond \<and> e' = e"
  "ensure cond e \<noteq> Panic"
  by (auto simp: ensure_def)

lemma and_then_assoc: "and_then (and_then x f) g = and_then x (\<lambda>a. and_then (f a) g)"
  by (cases x) simp_all

lemma and_then_eq_Ok [res_simps]:
  "and_then r f = Ok b \<longleftrightarrow> (\<exists>a. r = Ok a \<and> f a = Ok b)"
  by (cases r) auto

lemma and_then_eq_Err [res_simps]:
  "and_then r f = Err e \<longleftrightarrow> r = Err e \<or> (\<exists>a. r = Ok a \<and> f a = Err e)"
  by (cases r) auto

lemma and_then_eq_Panic [res_simps]:
  "and_then r f = Panic \<longleftrightarrow> r = Panic \<or> (\<exists>a. r = Ok a \<and> f a = Panic)"
  by (cases r) auto

lemma map_ok_eq_Ok [res_simps]: "map_ok f r = Ok b \<longleftrightarrow> (\<exists>a. r = Ok a \<and> b = f a)"
  by (cases r) auto

lemma map_err_eq_Ok [res_simps]: "map_err f r = Ok a \<longleftrightarrow> r = Ok a"
  by (cases r) auto

lemma ok_or_eq_Ok [res_simps]: "ok_or x e = Ok a \<longleftrightarrow> x = Some a"
  by (cases x) auto

lemma ok_or_eq_Err [res_simps]: "ok_or x e = Err e' \<longleftrightarrow> x = None \<and> e' = e"
  by (cases x) auto

lemma ok_or_not_Panic [simp, res_simps]: "ok_or x e \<noteq> Panic"
  by (cases x) auto

lemma expect_eq_Ok [res_simps]: "expect x = Ok a \<longleftrightarrow> x = Some a"
  by (cases x) auto

lemma unwrap_eq_Ok [res_simps]: "unwrap r = Ok a \<longleftrightarrow> r = Ok a"
  by (cases r) auto

lemma and_then_cong [fundef_cong]:
  "r = r' \<Longrightarrow> (\<And>a. r' = Ok a \<Longrightarrow> f a = f' a) \<Longrightarrow> and_then r f = and_then r' f'"
  by (cases r') auto

section \<open>Positions in a list\<close>

text \<open>\<^verbatim>\<open>iter().position(|x| *x == v)\<close>: the first index that holds the value.\<close>

primrec position :: "'a \<Rightarrow> 'a list \<Rightarrow> nat option" where
  "position v [] = None"
| "position v (x # xs) = (if x = v then Some 0 else map_option Suc (position v xs))"

lemma position_Some_nth: "position v xs = Some i \<Longrightarrow> i < length xs \<and> xs ! i = v"
  by (induction xs arbitrary: i) (auto split: if_splits)

lemma position_None_iff: "position v xs = None \<longleftrightarrow> v \<notin> set xs"
  by (induction xs) auto

lemma position_ex: "v \<in> set xs \<Longrightarrow> \<exists>i < length xs. position v xs = Some i"
  using position_None_iff position_Some_nth by (metis not_None_eq)

lemma position_Some_iff:
  assumes "distinct xs"
  shows "position v xs = Some i \<longleftrightarrow> i < length xs \<and> xs ! i = v"
proof
  assume "i < length xs \<and> xs ! i = v"
  moreover from this obtain j where "position v xs = Some j" "j < length xs"
    using position_ex [of v xs] by auto
  ultimately show "position v xs = Some i"
    using assms position_Some_nth [of v xs j] by (metis nth_eq_iff_index_eq)
qed (rule position_Some_nth)

section \<open>Association lists with distinct keys\<close>

lemma assoc_eqI:
  assumes "map fst xs = map fst ys" "set xs = set ys" "distinct (map fst xs)"
  shows "xs = ys"
  using assms
  by (metis (mono_tags, lifting) eq_key_imp_eq_value list.inj_map_strong surjective_pairing)

section \<open>Results with state\<close>

text \<open>
  A call that may fail and changes state on the way: its result and the state it leaves. The
  question mark of the source goes on with the value and the new state.
\<close>

definition and_then_st :: "('e, 'a) res \<times> 's \<Rightarrow> ('a \<Rightarrow> 's \<Rightarrow> ('e, 'b) res \<times> 's) \<Rightarrow> ('e, 'b) res \<times> 's" where
  "and_then_st rs f = (case rs of (Ok a, s) \<Rightarrow> f a s | (Err e, s) \<Rightarrow> (Err e, s) | (Panic, s) \<Rightarrow> (Panic, s))"

lemma and_then_st_simps [simp, res_simps]:
  "and_then_st (Ok a, s) f = f a s" "and_then_st (Err e, s) f = (Err e, s)" "and_then_st (Panic, s) f = (Panic, s)"
  by (simp_all add: and_then_st_def)

lemma and_then_st_pair:
  "and_then_st rs f = (case fst rs of Ok a \<Rightarrow> f a (snd rs) | Err e \<Rightarrow> (Err e, snd rs) | Panic \<Rightarrow> (Panic, snd rs))"
  by (simp add: and_then_st_def split: prod.split res.split)

section \<open>Words without wrap-around\<close>

lemma unat_bound: "unat a < 2 ^ 64" for a :: u64
  by (rule order.strict_trans2 [OF unsigned_less]) simp

lemma unat_add_ok: "unat a + unat b < 2 ^ 64 \<Longrightarrow> unat (a + b) = unat a + unat b" for a b :: u64
  using unat_add_lem [of a b] by simp

lemma unat_mult_ok: "unat a * unat b < 2 ^ 64 \<Longrightarrow> unat (a * b) = unat a * unat b" for a b :: u64
  using unat_mult_lem [of a b] by simp

lemma unat_ucast_up:
  fixes w :: "'a::len word"
  assumes "LENGTH('a) \<le> LENGTH('b::len)"
  shows "unat (ucast w :: 'b word) = unat w"
proof -
  have "unat w < 2 ^ LENGTH('b)"
    using unsigned_less [of w] assms by (rule order.strict_trans2 [OF _ power_increasing]) simp
  then show ?thesis by (simp add: unsigned_ucast_eq take_bit_nat_eq_self)
qed

lemma unat_ucast_to_u64 [simp]:
  "unat (ucast s :: u64) = unat s" "unat (ucast g :: u64) = unat g" for s :: u32 and g :: u16
  by (simp_all add: unat_ucast_up)

lemma word_between: "lo \<le> i \<Longrightarrow> i < lo + 1 \<Longrightarrow> i = lo" for lo i :: u64
  by uint_arith

end
