(* ===== verification/Message_Types.thy ===== *)
theory Message_Types
  imports Fleet_Prelude
begin

text \<open>
  The messages of the cluster: \<^verbatim>\<open>src/src/base/message_types.rs\<close>.

  Every struct is a \<^theory_text>\<open>record\<close> whose fields carry a prefix for the struct (\<open>em_inode\<close> is the
  field \<^verbatim>\<open>inode\<close> of \<^verbatim>\<open>EntryMetadata\<close>), so that the plain names stay free for arguments. Every
  enum is a \<^theory_text>\<open>datatype\<close> with the source's constructors, written with the type's name in
  front where two types share one (\<open>Request.Lock\<close> and \<open>Response.Lock\<close>). A Rust \<^verbatim>\<open>&str\<close> or \<^verbatim>\<open>String\<close> is the \<open>string\<close> of its
  UTF-8 bytes, \<^verbatim>\<open>i32\<close> and \<^verbatim>\<open>i64\<close> values (time stamps only) are \<open>int\<close>, and a \<^verbatim>\<open>HashMap\<close> that is
  iterated over is an association list. The wire format itself is produced by the
  \<^verbatim>\<open>zerialize\<close> crate; the definitions of later theories that use it take the encoder and the
  decoder as arguments.
\<close>

section \<open>Metadata of a request\<close>

datatype AccessType =
    ReadData
  | ReadMetadata
  | LockMetadata
  | WriteMetadata
  | WriteDataAndMetadata
  | NoAccess

datatype DistributionRequirement = Any | TransactionCoordinator | RaftGroup | Node

record RequestMetaInfo =
  meta_raft_group :: "u16 option"
  meta_inode :: "u64 option"
  meta_lock_id :: "u64 option"
  meta_access_type :: AccessType
  meta_distribution_requirement :: DistributionRequirement

section \<open>Error codes and file kinds\<close>

datatype ErrorCode =
    DoesNotExist
  | InodeDoesNotExist
  | FileTooLarge
  | AccessDenied
  | OperationNotPermitted
  | AlreadyExists
  | NameTooLong
  | NotEmpty
  | MissingXattrKey
  | BadResponse
  | BadRequest
  | Corrupted
  | RaftFailure
  | InvalidXattrNamespace
  | Uncategorized

datatype FileKind = File | Directory | Symlink

text \<open>The database encoding of a \<open>FileKind\<close>: \<open>from_bytes\<close> panics on any other byte.\<close>

definition FileKind_from_bytes :: "bytes \<Rightarrow> (unit, FileKind) res" where
  "FileKind_from_bytes data =
     (case data of
        [] \<Rightarrow> Panic
      | b # _ \<Rightarrow>
          if b = 1 then Ok File
          else if b = 2 then Ok Directory
          else if b = 3 then Ok Symlink
          else Panic)"

fun FileKind_as_bytes :: "FileKind \<Rightarrow> bytes" where
  "FileKind_as_bytes File = [1]"
| "FileKind_as_bytes Directory = [2]"
| "FileKind_as_bytes Symlink = [3]"

definition FileKind_fixed_width :: nat where
  "FileKind_fixed_width = 1"

section \<open>Plain structs\<close>

record CommitId =
  commit_term :: u64
  commit_index :: u64

record InodeUidPair =
  pair_inode :: u64
  pair_uid :: u32

record UserContext =
  ctx_uid :: u32
  ctx_gid :: u32

record Timestamp =
  ts_seconds :: int
  ts_nanos :: int

text \<open>
  \<^verbatim>\<open>impl From<Timestamp> for SystemTime\<close>: the seconds are cast to \<^verbatim>\<open>u64\<close> and the nanoseconds to
  \<^verbatim>\<open>u32\<close>, \<^verbatim>\<open>Duration::new\<close> carries whole seconds out of the nanoseconds (and panics when that
  overflows \<^verbatim>\<open>u64\<close>), and adding the duration to \<^verbatim>\<open>UNIX_EPOCH\<close> panics when the seconds do not
  fit in an \<^verbatim>\<open>i64\<close>. The result is the pair of seconds and nanoseconds after the epoch.
\<close>

definition SystemTime_from_Timestamp :: "Timestamp \<Rightarrow> (unit, int \<times> int) res" where
  "SystemTime_from_Timestamp timestamp =
     (let secs = ts_seconds timestamp mod 2 ^ 64;
          ns = ts_nanos timestamp mod 2 ^ 32;
          secs' = secs + ns div 1000000000
      in if 2 ^ 64 \<le> secs' then Panic
         else if 2 ^ 63 \<le> secs' then Panic
         else Ok (secs', ns mod 1000000000))"

record EntryMetadata =
  em_inode :: u64
  em_size_bytes :: u64
  em_size_blocks :: u64
  em_last_access_time :: Timestamp
  em_last_modified_time :: Timestamp
  em_last_metadata_modified_time :: Timestamp
  em_kind :: FileKind
  em_mode :: u16
  em_hard_links :: u32
  em_user_id :: u32
  em_group_id :: u32
  em_device_id :: u32
  em_block_size :: u32
  em_directory_entries :: "u32 option"

record DirectoryEntry =
  de_inode :: u64
  de_name :: string
  de_kind :: FileKind

record Checksum =
  cs_raft_group :: u16
  cs_checksum :: bytes

text \<open>\<^verbatim>\<open>OwnedDirectoryEntry\<close> has the fields of \<open>DirectoryEntry\<close>, with an owned name.\<close>

record OwnedDirectoryEntry =
  ode_inode :: u64
  ode_name :: string
  ode_kind :: FileKind

section \<open>Requests\<close>

datatype (plugins only: code size) Request =
    FilesystemReady
  | FilesystemInformation
  | FilesystemChecksum
  | FilesystemCheck
  | Fsync \<comment> \<open>inode\<close> u64
  | GetAttr \<comment> \<open>inode\<close> u64
  | ListDir \<comment> \<open>inode\<close> u64
  | Create \<comment> \<open>parent, name, uid, gid, mode, kind\<close> u64 string u32 u32 u16 FileKind
  | Mkdir \<comment> \<open>parent, name, uid, gid, mode\<close> u64 string u32 u32 u16
  | Unlink \<comment> \<open>parent, name, context\<close> u64 string UserContext
  | Rmdir \<comment> \<open>parent, name, context\<close> u64 string UserContext
  | Truncate \<comment> \<open>inode, new\_length, context\<close> u64 u64 UserContext
  | Rename \<comment> \<open>parent, name, new\_parent, new\_name, context\<close> u64 string u64 string UserContext
  | Lookup \<comment> \<open>parent, name, context\<close> u64 string UserContext
  | Chown \<comment> \<open>inode, uid, gid, context\<close> u64 "u32 option" "u32 option" UserContext
  | Chmod \<comment> \<open>inode, mode, context\<close> u64 u32 UserContext
  | Utimens \<comment> \<open>inode, atime, mtime, context\<close> u64 "Timestamp option" "Timestamp option" UserContext
  | Hardlink \<comment> \<open>inode, new\_parent, new\_name, context\<close> u64 u64 string UserContext
  | ListXattrs \<comment> \<open>inode\<close> u64
  | GetXattr \<comment> \<open>inode, key, context\<close> u64 string UserContext
  | SetXattr \<comment> \<open>inode, key, value, context\<close> u64 string bytes UserContext
  | RemoveXattr \<comment> \<open>inode, key, context\<close> u64 string UserContext
  | ReadRaw \<comment> \<open>required\_commit, inode, offset, read\_size\<close> CommitId u64 u64 u32
  | Read \<comment> \<open>inode, offset, read\_size\<close> u64 u64 u32
  | Write \<comment> \<open>inode, offset, data\<close> u64 u64 bytes
  | LatestCommit \<comment> \<open>raft\_group\<close> u16
  | RaftGroupLeader \<comment> \<open>raft\_group\<close> u16
  | ConsensusMessage \<comment> \<open>raft\_group, data\<close> u16 bytes
  | Lock \<comment> \<open>inode\<close> u64
  | Unlock \<comment> \<open>inode, lock\_id\<close> u64 u64
  | HardlinkRollback \<comment> \<open>inode, last\_modified\_time\<close> u64 Timestamp
  | CreateLink \<comment> \<open>parent, name, inode, kind, lock\_id, context\<close>
      u64 string u64 FileKind "u64 option" UserContext
  | ReplaceLink \<comment> \<open>parent, name, new\_inode, kind, lock\_id, context\<close>
      u64 string u64 FileKind "u64 option" UserContext
  | RemoveLink \<comment> \<open>parent, name, link\_inode\_and\_uid, lock\_id, context\<close>
      u64 string "InodeUidPair option" "u64 option" UserContext
  | CreateInode \<comment> \<open>raft\_group, parent, uid, gid, mode, kind\<close> u16 u64 u32 u32 u16 FileKind
  | HardlinkIncrement \<comment> \<open>inode\<close> u64
  | UpdateParent \<comment> \<open>inode, new\_parent, lock\_id\<close> u64 u64 "u64 option"
  | UpdateMetadataChangedTime \<comment> \<open>inode, lock\_id\<close> u64 "u64 option"
  | DecrementInode \<comment> \<open>inode, decrement\_count, lock\_id\<close> u64 u32 "u64 option"


section \<open>Responses\<close>

text \<open>
  \<^verbatim>\<open>WireResponse\<close> is generic in how its three lists are stored; \<^verbatim>\<open>List\<close> hands out the items
  in order, so a list of items stands for each of them.
\<close>

datatype (plugins only: code size) WireResponse =
    Lock \<comment> \<open>lock\_id\<close> u64
  | FilesystemInformation \<comment> \<open>block\_size, max\_name\_length\<close> u32 u32
  | NodeId \<comment> \<open>id\<close> u64
  | Inode \<comment> \<open>id\<close> u64
  | RemovedInode \<comment> \<open>id, complete\<close> u64 bool
  | Written \<comment> \<open>bytes\_written\<close> u32
  | Xattrs \<comment> \<open>attrs\<close> "string list"
  | Read \<comment> \<open>data\<close> bytes
  | LatestCommit \<comment> \<open>term, index\<close> u64 u64
  | DirectoryListing "DirectoryEntry list"
  | EntryMetadata EntryMetadata
  | HardlinkTransaction \<comment> \<open>rollback\_last\_modified, attrs\<close> Timestamp EntryMetadata
  | Empty
  | ErrorOccurred ErrorCode
  | Checksums "Checksum list"

datatype (plugins only: code size) Response =
    Lock \<comment> \<open>lock\_id\<close> u64
  | FilesystemInformation \<comment> \<open>block\_size, max\_name\_length\<close> u32 u32
  | NodeId \<comment> \<open>id\<close> u64
  | Inode \<comment> \<open>id\<close> u64
  | RemovedInode \<comment> \<open>id, complete\<close> u64 bool
  | Written \<comment> \<open>bytes\_written\<close> u32
  | Xattrs \<comment> \<open>attrs\<close> "string list"
  | Read \<comment> \<open>data\<close> bytes
  | LatestCommit \<comment> \<open>term, index\<close> u64 u64
  | DirectoryListing "OwnedDirectoryEntry list"
  | EntryMetadata EntryMetadata
  | HardlinkTransaction \<comment> \<open>rollback\_last\_modified, attrs\<close> Timestamp EntryMetadata
  | Empty
  | ErrorOccurred ErrorCode
  | Checksums \<comment> \<open>a HashMap\<close> "(u16 \<times> bytes) list"

definition DirectoryEntryList_get :: "OwnedDirectoryEntry \<Rightarrow> DirectoryEntry" where
  "DirectoryEntryList_get entry =
     \<lparr>de_inode = ode_inode entry, de_name = ode_name entry, de_kind = ode_kind entry\<rparr>"

definition ChecksumList_get :: "u16 \<times> bytes \<Rightarrow> Checksum" where
  "ChecksumList_get p = \<lparr>cs_raft_group = fst p, cs_checksum = snd p\<rparr>"

fun as_view :: "Response \<Rightarrow> WireResponse" where
  "as_view (Response.Lock lock_id) = WireResponse.Lock lock_id"
| "as_view (Response.FilesystemInformation block_size max_name_length) =
     WireResponse.FilesystemInformation block_size max_name_length"
| "as_view (Response.NodeId i) = WireResponse.NodeId i"
| "as_view (Response.Inode i) = WireResponse.Inode i"
| "as_view (Response.RemovedInode i complete) = WireResponse.RemovedInode i complete"
| "as_view (Response.Written bytes_written) = WireResponse.Written bytes_written"
| "as_view (Response.Xattrs attrs) = WireResponse.Xattrs attrs"
| "as_view (Response.Read data) = WireResponse.Read data"
| "as_view (Response.LatestCommit trm index) = WireResponse.LatestCommit trm index"
| "as_view (Response.DirectoryListing es) =
     WireResponse.DirectoryListing (map DirectoryEntryList_get es)"
| "as_view (Response.EntryMetadata metadata) = WireResponse.EntryMetadata metadata"
| "as_view (Response.HardlinkTransaction rollback_last_modified attrs) =
     WireResponse.HardlinkTransaction rollback_last_modified attrs"
| "as_view Response.Empty = WireResponse.Empty"
| "as_view (Response.ErrorOccurred error_code) = WireResponse.ErrorOccurred error_code"
| "as_view (Response.Checksums cs) = WireResponse.Checksums (map ChecksumList_get cs)"

section \<open>The wire format\<close>

text \<open>
  \<^verbatim>\<open>encode_request\<close>, \<^verbatim>\<open>decode_request\<close>, \<^verbatim>\<open>encode_response\<close> and \<^verbatim>\<open>decode_response\<close> delegate to the
  \<^verbatim>\<open>zerialize\<close> crate. Its four entry points are the fields of \<open>zerialize\<close>, an argument of every
  definition that uses the wire format; \<open>None\<close> is its decoding error.
\<close>

record zerialize =
  zerialize_encode_request :: "Request \<Rightarrow> bytes"
  zerialize_decode_request :: "bytes \<Rightarrow> Request option"
  zerialize_encode_response :: "WireResponse \<Rightarrow> bytes"
  zerialize_decode_response :: "bytes \<Rightarrow> WireResponse option"

definition encode_response :: "zerialize \<Rightarrow> Response \<Rightarrow> bytes" where
  "encode_response z response = zerialize_encode_response z (as_view response)"

definition decode_response :: "zerialize \<Rightarrow> bytes \<Rightarrow> WireResponse option" where
  "decode_response z buffer = zerialize_decode_response z buffer"

definition encode_request :: "zerialize \<Rightarrow> Request \<Rightarrow> bytes" where
  "encode_request z request = zerialize_encode_request z request"

definition decode_request :: "zerialize \<Rightarrow> bytes \<Rightarrow> Request option" where
  "decode_request z buffer = zerialize_decode_request z buffer"

section \<open>What a log line shows of a request\<close>

text \<open>Decimal rendering of an unsigned integer, as \<^verbatim>\<open>{inode}\<close> prints it.\<close>

fun show_nat :: "nat \<Rightarrow> string" where
  "show_nat n =
     (if n < 10 then [char_of (48 + n)] else show_nat (n div 10) @ [char_of (48 + n mod 10)])"

declare show_nat.simps [simp del]

abbreviation show_word :: "'a::len word \<Rightarrow> string" where
  "show_word w \<equiv> show_nat (unat w)"

definition Request_fmt :: "Request \<Rightarrow> string" where
  "Request_fmt r =
     (case r of
        Request.FilesystemReady \<Rightarrow> ''FilesystemReady''
      | Request.FilesystemInformation \<Rightarrow> ''FilesystemInformation''
      | Request.FilesystemChecksum \<Rightarrow> ''FilesystemChecksum''
      | Request.FilesystemCheck \<Rightarrow> ''FilesystemCheck''
      | Request.Create _ _ _ _ _ _ \<Rightarrow> ''Create''
      | Request.Mkdir _ _ _ _ _ \<Rightarrow> ''Mkdir''
      | Request.Unlink _ _ _ \<Rightarrow> ''Unlink''
      | Request.Truncate _ _ _ \<Rightarrow> ''Truncate''
      | Request.Rmdir _ _ _ \<Rightarrow> ''Rmdir''
      | Request.Rename _ _ _ _ _ \<Rightarrow> ''Rename''
      | Request.Lookup _ _ _ \<Rightarrow> ''Lookup''
      | Request.Chown _ _ _ _ \<Rightarrow> ''Chown''
      | Request.Chmod _ _ _ \<Rightarrow> ''Chmod''
      | Request.Utimens _ _ _ _ \<Rightarrow> ''Utimens''
      | Request.Hardlink _ _ _ _ \<Rightarrow> ''Hardlink''
      | Request.CreateLink _ _ _ _ _ _ \<Rightarrow> ''CreateLink''
      | Request.ReplaceLink _ _ _ _ _ _ \<Rightarrow> ''ReplaceLink''
      | Request.RemoveLink _ _ _ _ _ \<Rightarrow> ''RemoveLink''
      | Request.CreateInode _ _ _ _ _ _ \<Rightarrow> ''CreateInode''
      | Request.Fsync inode \<Rightarrow> ''Fsync: '' @ show_word inode
      | Request.GetAttr inode \<Rightarrow> ''GetAttr: '' @ show_word inode
      | Request.ListDir inode \<Rightarrow> ''ListDir: '' @ show_word inode
      | Request.ListXattrs inode \<Rightarrow> ''ListXattrs: '' @ show_word inode
      | Request.GetXattr _ _ _ \<Rightarrow> ''GetXattr''
      | Request.SetXattr _ _ _ _ \<Rightarrow> ''SetXattr''
      | Request.RemoveXattr _ _ _ \<Rightarrow> ''RemoveXattr''
      | Request.Write inode _ _ \<Rightarrow> ''Write: '' @ show_word inode
      | Request.Read inode _ _ \<Rightarrow> ''Read: '' @ show_word inode
      | Request.ReadRaw _ inode _ _ \<Rightarrow> ''ReadRaw: '' @ show_word inode
      | Request.LatestCommit raft_group \<Rightarrow> ''LatestCommit: '' @ show_word raft_group
      | Request.RaftGroupLeader raft_group \<Rightarrow> ''RaftGroupLeader: '' @ show_word raft_group
      | Request.ConsensusMessage raft_group _ \<Rightarrow> ''ConsensusMessage: '' @ show_word raft_group
      | Request.Lock inode \<Rightarrow> ''Lock: '' @ show_word inode
      | Request.Unlock inode lock_id \<Rightarrow>
          ''Unlock: '' @ show_word inode @ '', '' @ show_word lock_id
      | Request.HardlinkRollback inode _ \<Rightarrow> ''HardlinkRollback: '' @ show_word inode
      | Request.HardlinkIncrement inode \<Rightarrow> ''HardlinkIncrement: '' @ show_word inode
      | Request.DecrementInode inode _ _ \<Rightarrow> ''DecrementInode: '' @ show_word inode
      | Request.UpdateParent inode _ _ \<Rightarrow> ''UpdateParent: '' @ show_word inode
      | Request.UpdateMetadataChangedTime inode _ \<Rightarrow>
          ''UpdateMetadataChangedTime: '' @ show_word inode)"

section \<open>Routing and locking metadata\<close>

fun meta_info :: "Request \<Rightarrow> RequestMetaInfo" where
  "meta_info Request.FilesystemReady =
     \<lparr>meta_raft_group = None, meta_inode = None, meta_lock_id = None,
      meta_access_type = NoAccess, meta_distribution_requirement = Any\<rparr>"
| "meta_info Request.FilesystemInformation =
     \<lparr>meta_raft_group = None, meta_inode = None, meta_lock_id = None,
      meta_access_type = NoAccess, meta_distribution_requirement = Any\<rparr>"
| "meta_info Request.FilesystemCheck =
     \<lparr>meta_raft_group = None, meta_inode = None, meta_lock_id = None,
      meta_access_type = NoAccess, meta_distribution_requirement = Any\<rparr>"
| "meta_info Request.FilesystemChecksum =
     \<lparr>meta_raft_group = None, meta_inode = None, meta_lock_id = None,
      meta_access_type = NoAccess, meta_distribution_requirement = Any\<rparr>"
| "meta_info (Request.Fsync inode) =
     \<lparr>meta_raft_group = None, meta_inode = Some inode, meta_lock_id = None,
      meta_access_type = NoAccess, meta_distribution_requirement = RaftGroup\<rparr>"
| "meta_info (Request.ReadRaw required_commit inode offset read_size) =
     \<lparr>meta_raft_group = None, meta_inode = Some inode, meta_lock_id = None,
      meta_access_type = ReadData, meta_distribution_requirement = RaftGroup\<rparr>"
| "meta_info (Request.Read inode offset read_size) =
     \<lparr>meta_raft_group = None, meta_inode = Some inode, meta_lock_id = None,
      meta_access_type = ReadData, meta_distribution_requirement = RaftGroup\<rparr>"
| "meta_info (Request.SetXattr inode key value context) =
     \<lparr>meta_raft_group = None, meta_inode = Some inode, meta_lock_id = None,
      meta_access_type = WriteMetadata, meta_distribution_requirement = RaftGroup\<rparr>"
| "meta_info (Request.RemoveXattr inode key context) =
     \<lparr>meta_raft_group = None, meta_inode = Some inode, meta_lock_id = None,
      meta_access_type = WriteMetadata, meta_distribution_requirement = RaftGroup\<rparr>"
| "meta_info (Request.Unlink parent name context) =
     \<lparr>meta_raft_group = None, meta_inode = Some parent, meta_lock_id = None,
      meta_access_type = WriteMetadata, meta_distribution_requirement = RaftGroup\<rparr>"
| "meta_info (Request.Rmdir parent name context) =
     \<lparr>meta_raft_group = None, meta_inode = Some parent, meta_lock_id = None,
      meta_access_type = WriteMetadata, meta_distribution_requirement = RaftGroup\<rparr>"
| "meta_info (Request.Hardlink inode new_parent new_name context) =
     \<lparr>meta_raft_group = None, meta_inode = None, meta_lock_id = None,
      meta_access_type = WriteMetadata, meta_distribution_requirement = TransactionCoordinator\<rparr>"
| "meta_info (Request.Rename parent name new_parent new_name context) =
     \<lparr>meta_raft_group = None, meta_inode = None, meta_lock_id = None,
      meta_access_type = WriteMetadata, meta_distribution_requirement = TransactionCoordinator\<rparr>"
| "meta_info (Request.Write inode offset data) =
     \<lparr>meta_raft_group = None, meta_inode = Some inode, meta_lock_id = None,
      meta_access_type = WriteDataAndMetadata, meta_distribution_requirement = RaftGroup\<rparr>"
| "meta_info (Request.ListXattrs inode) =
     \<lparr>meta_raft_group = None, meta_inode = Some inode, meta_lock_id = None,
      meta_access_type = ReadMetadata, meta_distribution_requirement = RaftGroup\<rparr>"
| "meta_info (Request.GetXattr inode key context) =
     \<lparr>meta_raft_group = None, meta_inode = Some inode, meta_lock_id = None,
      meta_access_type = ReadMetadata, meta_distribution_requirement = RaftGroup\<rparr>"
| "meta_info (Request.Lookup parent name context) =
     \<lparr>meta_raft_group = None, meta_inode = Some parent, meta_lock_id = None,
      meta_access_type = ReadMetadata, meta_distribution_requirement = RaftGroup\<rparr>"
| "meta_info (Request.ListDir inode) =
     \<lparr>meta_raft_group = None, meta_inode = Some inode, meta_lock_id = None,
      meta_access_type = ReadMetadata, meta_distribution_requirement = RaftGroup\<rparr>"
| "meta_info (Request.GetAttr inode) =
     \<lparr>meta_raft_group = None, meta_inode = Some inode, meta_lock_id = None,
      meta_access_type = ReadMetadata, meta_distribution_requirement = RaftGroup\<rparr>"
| "meta_info (Request.LatestCommit raft_group) =
     \<lparr>meta_raft_group = Some raft_group, meta_inode = None, meta_lock_id = None,
      meta_access_type = NoAccess, meta_distribution_requirement = RaftGroup\<rparr>"
| "meta_info (Request.RaftGroupLeader raft_group) =
     \<lparr>meta_raft_group = Some raft_group, meta_inode = None, meta_lock_id = None,
      meta_access_type = NoAccess, meta_distribution_requirement = RaftGroup\<rparr>"
| "meta_info (Request.ConsensusMessage raft_group data) =
     \<lparr>meta_raft_group = Some raft_group, meta_inode = None, meta_lock_id = None,
      meta_access_type = NoAccess, meta_distribution_requirement = RaftGroup\<rparr>"
| "meta_info (Request.Lock inode) =
     \<lparr>meta_raft_group = None, meta_inode = Some inode, meta_lock_id = None,
      meta_access_type = LockMetadata, meta_distribution_requirement = RaftGroup\<rparr>"
| "meta_info (Request.Unlock inode lock_id) =
     \<lparr>meta_raft_group = None, meta_inode = Some inode, meta_lock_id = Some lock_id,
      meta_access_type = NoAccess, meta_distribution_requirement = RaftGroup\<rparr>"
| "meta_info (Request.CreateInode raft_group parent uid gid mode kind) =
     \<lparr>meta_raft_group = Some raft_group, meta_inode = None, meta_lock_id = None,
      meta_access_type = WriteMetadata, meta_distribution_requirement = RaftGroup\<rparr>"
| "meta_info (Request.Mkdir parent name uid gid mode) =
     \<lparr>meta_raft_group = None, meta_inode = Some parent, meta_lock_id = None,
      meta_access_type = WriteMetadata, meta_distribution_requirement = TransactionCoordinator\<rparr>"
| "meta_info (Request.Create parent name uid gid mode kind) =
     \<lparr>meta_raft_group = None, meta_inode = Some parent, meta_lock_id = None,
      meta_access_type = WriteMetadata, meta_distribution_requirement = TransactionCoordinator\<rparr>"
| "meta_info (Request.RemoveLink parent name link_inode_and_uid lock_id context) =
     \<lparr>meta_raft_group = None, meta_inode = Some parent, meta_lock_id = lock_id,
      meta_access_type = WriteMetadata, meta_distribution_requirement = RaftGroup\<rparr>"
| "meta_info (Request.CreateLink parent name inode kind lock_id context) =
     \<lparr>meta_raft_group = None, meta_inode = Some parent, meta_lock_id = lock_id,
      meta_access_type = WriteMetadata, meta_distribution_requirement = RaftGroup\<rparr>"
| "meta_info (Request.DecrementInode inode decrement_count lock_id) =
     \<lparr>meta_raft_group = None, meta_inode = Some inode, meta_lock_id = lock_id,
      meta_access_type = WriteMetadata, meta_distribution_requirement = RaftGroup\<rparr>"
| "meta_info (Request.UpdateParent inode new_parent lock_id) =
     \<lparr>meta_raft_group = None, meta_inode = Some inode, meta_lock_id = lock_id,
      meta_access_type = WriteMetadata, meta_distribution_requirement = RaftGroup\<rparr>"
| "meta_info (Request.UpdateMetadataChangedTime inode lock_id) =
     \<lparr>meta_raft_group = None, meta_inode = Some inode, meta_lock_id = lock_id,
      meta_access_type = WriteMetadata, meta_distribution_requirement = RaftGroup\<rparr>"
| "meta_info (Request.ReplaceLink parent name new_inode kind lock_id context) =
     \<lparr>meta_raft_group = None, meta_inode = Some parent, meta_lock_id = lock_id,
      meta_access_type = WriteMetadata, meta_distribution_requirement = RaftGroup\<rparr>"
| "meta_info (Request.Truncate inode new_length context) =
     \<lparr>meta_raft_group = None, meta_inode = Some inode, meta_lock_id = None,
      meta_access_type = WriteDataAndMetadata, meta_distribution_requirement = RaftGroup\<rparr>"
| "meta_info (Request.HardlinkRollback inode last_modified_time) =
     \<lparr>meta_raft_group = None, meta_inode = Some inode, meta_lock_id = None,
      meta_access_type = WriteMetadata, meta_distribution_requirement = RaftGroup\<rparr>"
| "meta_info (Request.Chown inode uid gid context) =
     \<lparr>meta_raft_group = None, meta_inode = Some inode, meta_lock_id = None,
      meta_access_type = WriteMetadata, meta_distribution_requirement = RaftGroup\<rparr>"
| "meta_info (Request.Chmod inode mode context) =
     \<lparr>meta_raft_group = None, meta_inode = Some inode, meta_lock_id = None,
      meta_access_type = WriteMetadata, meta_distribution_requirement = RaftGroup\<rparr>"
| "meta_info (Request.HardlinkIncrement inode) =
     \<lparr>meta_raft_group = None, meta_inode = Some inode, meta_lock_id = None,
      meta_access_type = WriteMetadata, meta_distribution_requirement = RaftGroup\<rparr>"
| "meta_info (Request.Utimens inode atime mtime context) =
     \<lparr>meta_raft_group = None, meta_inode = Some inode, meta_lock_id = None,
      meta_access_type = WriteMetadata, meta_distribution_requirement = RaftGroup\<rparr>"

section \<open>Reading a decoded response\<close>

text \<open>
  The checksums are collected in a \<^verbatim>\<open>HashMap\<close>: a later entry for the same group replaces an
  earlier one.
\<close>

definition as_checksum_response :: "WireResponse \<Rightarrow> (u16 \<times> bytes) list option" where
  "as_checksum_response r =
     (case r of
        WireResponse.Checksums checksums \<Rightarrow>
          Some (fold (\<lambda>c. AList.update (cs_raft_group c) (cs_checksum c)) checksums [])
      | _ \<Rightarrow> None)"

definition as_attr_response :: "WireResponse \<Rightarrow> EntryMetadata option" where
  "as_attr_response r = (case r of WireResponse.EntryMetadata attr \<Rightarrow> Some attr | _ \<Rightarrow> None)"

definition as_directory_listing_response :: "WireResponse \<Rightarrow> DirectoryEntry list option" where
  "as_directory_listing_response r =
     (case r of WireResponse.DirectoryListing es \<Rightarrow> Some es | _ \<Rightarrow> None)"

definition as_error_response :: "WireResponse \<Rightarrow> ErrorCode option" where
  "as_error_response r =
     (case r of WireResponse.ErrorOccurred error_code \<Rightarrow> Some error_code | _ \<Rightarrow> None)"

definition as_empty_response :: "WireResponse \<Rightarrow> unit option" where
  "as_empty_response r = (case r of WireResponse.Empty \<Rightarrow> Some () | _ \<Rightarrow> None)"

definition as_read_response :: "WireResponse \<Rightarrow> bytes option" where
  "as_read_response r = (case r of WireResponse.Read data \<Rightarrow> Some data | _ \<Rightarrow> None)"

definition as_xattrs_response :: "WireResponse \<Rightarrow> string list option" where
  "as_xattrs_response r = (case r of WireResponse.Xattrs attrs \<Rightarrow> Some attrs | _ \<Rightarrow> None)"

definition as_bytes_written_response :: "WireResponse \<Rightarrow> u32 option" where
  "as_bytes_written_response r =
     (case r of WireResponse.Written bytes_written \<Rightarrow> Some bytes_written | _ \<Rightarrow> None)"

definition as_inode_response :: "WireResponse \<Rightarrow> u64 option" where
  "as_inode_response r = (case r of WireResponse.Inode i \<Rightarrow> Some i | _ \<Rightarrow> None)"

definition as_latest_commit_response :: "WireResponse \<Rightarrow> (u64 \<times> u64) option" where
  "as_latest_commit_response r =
     (case r of WireResponse.LatestCommit trm index \<Rightarrow> Some (trm, index) | _ \<Rightarrow> None)"

end
