(* ===== verification/Lock_Table.thy ===== *)
theory Lock_Table
  imports Message_Types
begin

text \<open>
  The inode locks of a group: \<^verbatim>\<open>src/src/storage/lock_table.rs\<close>.

  A transaction that spans several groups locks the inodes it works on; requests on a locked
  inode wait in a queue until it is unlocked. A pending response (a \<^verbatim>\<open>oneshot::Sender\<close>) is the
  number of its channel. The table is only touched under a mutex, so each operation is a function
  on the table; a panic leaves the table as the operation had changed it so far.
\<close>

section \<open>Definitions\<close>

type_synonym Sender = nat

type_synonym PendingRequest = "bytes \<times> Sender option"

datatype FileLockType = ExclusiveMetadataWriteConcurrentReadsAllowed

record LockTable =
  lt_pending_requests :: "u64 \<rightharpoonup> PendingRequest list"
  lt_lock_ids :: "u64 \<rightharpoonup> u64 \<times> FileLockType"
  lt_next_id :: u64

definition LockTable_new :: LockTable where
  "LockTable_new = \<lparr>lt_pending_requests = Map.empty, lt_lock_ids = Map.empty, lt_next_id = 0\<rparr>"

fun access_blocked :: "FileLockType \<Rightarrow> AccessType \<Rightarrow> (ErrorCode, bool) res" where
  "access_blocked ExclusiveMetadataWriteConcurrentReadsAllowed ReadData = Panic"
| "access_blocked ExclusiveMetadataWriteConcurrentReadsAllowed ReadMetadata = Panic"
| "access_blocked ExclusiveMetadataWriteConcurrentReadsAllowed LockMetadata = Ok True"
| "access_blocked ExclusiveMetadataWriteConcurrentReadsAllowed WriteMetadata = Ok True"
| "access_blocked ExclusiveMetadataWriteConcurrentReadsAllowed WriteDataAndMetadata = Ok True"
| "access_blocked ExclusiveMetadataWriteConcurrentReadsAllowed NoAccess = Ok False"

definition is_locked :: "LockTable \<Rightarrow> RequestMetaInfo \<Rightarrow> (ErrorCode, bool) res" where
  "is_locked lt meta =
     (case meta_inode meta of
        None \<Rightarrow> Ok False
      | Some inode \<Rightarrow>
          (case meta_lock_id meta of
             Some i \<Rightarrow>
               and_then (expect (lt_lock_ids lt inode)) (\<lambda>(held, _).
               and_then (assert_that (held = i)) (\<lambda>_. Ok False))
           | None \<Rightarrow>
               (case lt_lock_ids lt inode of
                  None \<Rightarrow> Ok False
                | Some (_, lock_type) \<Rightarrow> access_blocked lock_type (meta_access_type meta))))"

definition wait_for_lock :: "LockTable \<Rightarrow> u64 \<Rightarrow> PendingRequest \<Rightarrow> (ErrorCode, unit) res \<times> LockTable" where
  "wait_for_lock lt inode request =
     (if lt_lock_ids lt inode = None then (Panic, lt)
      else
        let queue = (case lt_pending_requests lt inode of None \<Rightarrow> [] | Some q \<Rightarrow> q)
        in (Ok (), lt\<lparr>lt_pending_requests := (lt_pending_requests lt)(inode \<mapsto> queue @ [request])\<rparr>))"

definition lock :: "LockTable \<Rightarrow> u64 \<Rightarrow> (ErrorCode, u64) res \<times> LockTable" where
  "lock lt inode =
     (if lt_lock_ids lt inode \<noteq> None then (Panic, lt)
      else
        let lock_id = lt_next_id lt
        in (Ok lock_id,
            lt\<lparr>lt_next_id := lt_next_id lt + 1,
               lt_lock_ids := (lt_lock_ids lt)(inode \<mapsto> (lock_id, ExclusiveMetadataWriteConcurrentReadsAllowed))\<rparr>))"

fun is_Lock_request :: "Request \<Rightarrow> bool" where
  "is_Lock_request (Request.Lock _) = True"
| "is_Lock_request _ = False"

text \<open>The position of the first lock request in a queue.\<close>

primrec find_lock :: "zerialize \<Rightarrow> PendingRequest list \<Rightarrow> (ErrorCode, nat option) res" where
  "find_lock z [] = Ok None"
| "find_lock z (p # queue) =
     and_then (expect (decode_request z (fst p))) (\<lambda>request.
     if is_Lock_request request then Ok (Some 0) else map_ok (map_option Suc) (find_lock z queue))"

definition unlock ::
    "zerialize \<Rightarrow> LockTable \<Rightarrow> u64 \<Rightarrow> u64 \<Rightarrow> (ErrorCode, PendingRequest list \<times> u64 option) res \<times> LockTable" where
  "unlock z lt inode lock_id =
     (case lt_lock_ids lt inode of
        None \<Rightarrow> (Panic, lt)
      | Some (existing_lock_id, _) \<Rightarrow>
          let lt = lt\<lparr>lt_lock_ids := (lt_lock_ids lt)(inode := None)\<rparr>
          in if existing_lock_id \<noteq> lock_id then (Panic, lt)
             else
               case lt_pending_requests lt inode of
                 None \<Rightarrow> (Ok ([], None), lt)
               | Some queue \<Rightarrow>
                   and_then_st (find_lock z queue, lt) (\<lambda>found lt.
                   and_then_st
                     (case found of
                        None \<Rightarrow> (Ok (length queue, None), lt)
                      | Some i \<Rightarrow> and_then_st (lock lt inode) (\<lambda>new_id lt. (Ok (i + 1, Some new_id), lt)))
                     (\<lambda>(requests_to_process, new_id) lt.
                        (Ok (take requests_to_process queue, new_id),
                         lt\<lparr>lt_pending_requests :=
                              (lt_pending_requests lt)(inode \<mapsto> drop requests_to_process queue)\<rparr>))))"

section \<open>The invariant\<close>

definition queue_of :: "LockTable \<Rightarrow> u64 \<Rightarrow> PendingRequest list" where
  "queue_of lt inode = (case lt_pending_requests lt inode of None \<Rightarrow> [] | Some q \<Rightarrow> q)"

definition held_by :: "LockTable \<Rightarrow> u64 \<rightharpoonup> u64" where
  "held_by lt inode = map_option fst (lt_lock_ids lt inode)"

text \<open>
  Requests wait only for locked inodes, every waiting request decodes to one that the lock blocks,
  and the lock ids in use are distinct and below the counter.
\<close>

definition waiting_ok :: "zerialize \<Rightarrow> u64 \<Rightarrow> PendingRequest \<Rightarrow> bool" where
  "waiting_ok z inode p \<longleftrightarrow>
     (case decode_request z (fst p) of
        None \<Rightarrow> False
      | Some request \<Rightarrow>
          meta_inode (meta_info request) = Some inode \<and> meta_lock_id (meta_info request) = None \<and>
          meta_access_type (meta_info request) \<in> {LockMetadata, WriteMetadata, WriteDataAndMetadata})"

definition locks_wf :: "zerialize \<Rightarrow> LockTable \<Rightarrow> bool" where
  "locks_wf z lt \<longleftrightarrow>
     (\<forall>inode. held_by lt inode = None \<longrightarrow> queue_of lt inode = []) \<and>
     (\<forall>inode. \<forall>p\<in>set (queue_of lt inode). waiting_ok z inode p) \<and>
     (\<forall>inode i. held_by lt inode = Some i \<longrightarrow> i < lt_next_id lt) \<and>
     (\<forall>inode inode' i. held_by lt inode = Some i \<longrightarrow> held_by lt inode' = Some i \<longrightarrow> inode = inode')"

lemma LockTable_new_wf: "locks_wf z LockTable_new"
  by (simp add: locks_wf_def LockTable_new_def held_by_def queue_of_def)

lemma queue_of_simps [simp]:
  "queue_of (lt\<lparr>lt_lock_ids := f\<rparr>) inode = queue_of lt inode"
  "queue_of (lt\<lparr>lt_next_id := n\<rparr>) inode = queue_of lt inode"
  "queue_of (lt\<lparr>lt_pending_requests := (lt_pending_requests lt)(i \<mapsto> q)\<rparr>) inode
    = (if inode = i then q else queue_of lt inode)"
  by (simp_all add: queue_of_def)

lemma held_by_simps [simp]:
  "held_by (lt\<lparr>lt_pending_requests := q\<rparr>) = held_by lt"
  "held_by (lt\<lparr>lt_next_id := n\<rparr>) = held_by lt"
  "held_by (lt\<lparr>lt_lock_ids := (lt_lock_ids lt)(i := v)\<rparr>) = (held_by lt)(i := map_option fst v)"
  by (simp_all add: held_by_def fun_eq_iff)

lemma held_by_None: "lt_lock_ids lt inode = None \<longleftrightarrow> held_by lt inode = None"
  by (simp add: held_by_def)

lemma held_by_Some: "held_by lt inode = Some i \<Longrightarrow> \<exists>ty. lt_lock_ids lt inode = Some (i, ty)"
  by (auto simp: held_by_def)

section \<open>What the operations do\<close>

lemma wait_for_lock_Ok:
  assumes "held_by lt inode \<noteq> None"
  shows "fst (wait_for_lock lt inode p) = Ok ()"
    "queue_of (snd (wait_for_lock lt inode p)) = (queue_of lt)(inode := queue_of lt inode @ [p])"
    "held_by (snd (wait_for_lock lt inode p)) = held_by lt"
    "lt_next_id (snd (wait_for_lock lt inode p)) = lt_next_id lt"
  using assms by (simp_all add: wait_for_lock_def Let_def fun_eq_iff queue_of_def [symmetric] held_by_None)

lemma lock_Ok:
  assumes "held_by lt inode = None"
  shows "fst (lock lt inode) = Ok (lt_next_id lt)"
    "queue_of (snd (lock lt inode)) = queue_of lt"
    "held_by (snd (lock lt inode)) = (held_by lt)(inode \<mapsto> lt_next_id lt)"
    "lt_next_id (snd (lock lt inode)) = lt_next_id lt + 1"
  using assms unfolding lock_def Let_def held_by_None
  by (simp_all add: fun_eq_iff queue_of_def) (simp add: held_by_def)

text \<open>A queue up to and including its first lock request, and what is left.\<close>

definition asks_lock :: "zerialize \<Rightarrow> PendingRequest \<Rightarrow> bool" where
  "asks_lock z p = (case decode_request z (fst p) of None \<Rightarrow> False | Some r \<Rightarrow> is_Lock_request r)"

fun split_queue :: "zerialize \<Rightarrow> PendingRequest list \<Rightarrow> PendingRequest list \<times> PendingRequest list \<times> bool" where
  "split_queue z [] = ([], [], False)"
| "split_queue z (p # q) =
     (if asks_lock z p then ([p], q, True)
      else let (now, later, hit) = split_queue z q in (p # now, later, hit))"

lemma split_queue_append: "split_queue z q = (now, later, hit) \<Longrightarrow> q = now @ later"
  by (induction q arbitrary: "now") (auto split: if_splits prod.splits)

lemma split_queue_more:
  "split_queue z q = (now, later, True) \<Longrightarrow>
   now \<noteq> [] \<and> asks_lock z (last now) \<and> (\<forall>p\<in>set (butlast now). \<not> asks_lock z p)"
  by (induction q arbitrary: "now") (auto split: if_splits prod.splits)

lemma split_queue_all:
  "split_queue z q = (now, later, False) \<Longrightarrow> now = q \<and> later = [] \<and> (\<forall>p\<in>set q. \<not> asks_lock z p)"
  by (induction q arbitrary: "now") (auto split: if_splits prod.splits)

lemma find_lock_split:
  "\<forall>p\<in>set q. decode_request z (fst p) \<noteq> None \<Longrightarrow> split_queue z q = (now, later, hit) \<Longrightarrow>
   find_lock z q = Ok (if hit then Some (length now - 1) else None)"
proof (induction q arbitrary: "now" later hit)
  case (Cons p q)
  obtain r where r: "decode_request z (fst p) = Some r" using Cons.prems(1) by auto
  obtain now' later' hit' where sp: "split_queue z q = (now', later', hit')" by (cases "split_queue z q")
  have "hit' \<Longrightarrow> 0 < length now'" using split_queue_more [of z q now' later'] sp by auto
  then show ?case
    using Cons.IH [OF _ sp] Cons.prems r by (auto simp: asks_lock_def sp split: if_splits)
qed simp

lemma queue_decodes: "locks_wf z lt \<Longrightarrow> \<forall>p\<in>set (queue_of lt inode). decode_request z (fst p) \<noteq> None"
  by (auto simp: locks_wf_def waiting_ok_def split: option.splits)

lemma unlock_Ok:
  assumes wf: "locks_wf z lt" and held: "held_by lt inode = Some i"
    and sp: "split_queue z (queue_of lt inode) = (now, later, hit)"
  shows "fst (unlock z lt inode i) = Ok (now, if hit then Some (lt_next_id lt) else None)"
    and "queue_of (snd (unlock z lt inode i)) = (queue_of lt)(inode := later)"
    and "held_by (snd (unlock z lt inode i)) = (held_by lt)(inode := if hit then Some (lt_next_id lt) else None)"
    and "lt_next_id (snd (unlock z lt inode i)) = (if hit then lt_next_id lt + 1 else lt_next_id lt)"
proof -
  obtain ty where ty: "lt_lock_ids lt inode = Some (i, ty)" using held_by_Some [OF held] by blast
  let ?lt = "lt\<lparr>lt_lock_ids := (lt_lock_ids lt)(inode := None)\<rparr>"
  have free: "held_by ?lt inode = None" by simp
  have find: "find_lock z (queue_of lt inode) = Ok (if hit then Some (length now - 1) else None)"
    by (rule find_lock_split [OF queue_decodes [OF wf] sp])
  have q: "queue_of lt inode = now @ later" by (rule split_queue_append [OF sp])
  have h: "hit \<Longrightarrow> Suc (length now - 1) = length now" using split_queue_more [of z _ "now" later] sp by (cases hit) auto
  have nh: "\<not> hit \<Longrightarrow> later = []" using split_queue_all [of z _ "now" later] sp by (cases hit) auto
  have upd: "queue_of (t\<lparr>lt_pending_requests := (lt_pending_requests t)(inode \<mapsto> q)\<rparr>) = (queue_of t)(inode := q)" for t q
    by (simp add: fun_eq_iff)
  have "fst (unlock z lt inode i) = Ok (now, if hit then Some (lt_next_id lt) else None) \<and>
    queue_of (snd (unlock z lt inode i)) = (queue_of lt)(inode := later) \<and>
    held_by (snd (unlock z lt inode i)) = (held_by lt)(inode := if hit then Some (lt_next_id lt) else None) \<and>
    lt_next_id (snd (unlock z lt inode i)) = (if hit then lt_next_id lt + 1 else lt_next_id lt)"
  proof (cases "lt_pending_requests lt inode")
    case None
    then have "queue_of lt inode = []" by (simp add: queue_of_def)
    then show ?thesis using sp None by (auto simp: unlock_def Let_def ty fun_eq_iff)
  next
    case (Some queue)
    then have qq: "queue = now @ later" using q by (simp add: queue_of_def)
    have find': "find_lock z (now @ later) = Ok (if hit then Some (length now - 1) else None)"
      using find q by simp
    show ?thesis
    proof (cases hit)
      case True
      with h have "Suc (length now - 1) = length now" by simp
      then show ?thesis
        using True lock_Ok [OF free] find' by (simp add: unlock_def Let_def ty Some qq and_then_st_pair upd fun_eq_iff)
    next
      case False
      then show ?thesis using nh find' by (simp add: unlock_def Let_def ty Some qq fun_eq_iff) (simp add: queue_of_def)
    qed
  qed
  then show "fst (unlock z lt inode i) = Ok (now, if hit then Some (lt_next_id lt) else None)"
    "queue_of (snd (unlock z lt inode i)) = (queue_of lt)(inode := later)"
    "held_by (snd (unlock z lt inode i)) = (held_by lt)(inode := if hit then Some (lt_next_id lt) else None)"
    "lt_next_id (snd (unlock z lt inode i)) = (if hit then lt_next_id lt + 1 else lt_next_id lt)"
    by simp_all
qed

lemma unlock_wrong_id:
  "held_by lt inode \<noteq> Some i \<Longrightarrow> fst (unlock z lt inode i) = Panic"
  by (auto simp: unlock_def Let_def held_by_def split: option.split)

section \<open>The invariant is kept\<close>

lemma wait_for_lock_wf:
  assumes "locks_wf z lt" "held_by lt inode \<noteq> None" "waiting_ok z inode p"
  shows "locks_wf z (snd (wait_for_lock lt inode p))"
  using assms by (auto simp: locks_wf_def wait_for_lock_Ok [OF assms(2)])

lemma lock_id_fresh:
  "locks_wf z lt \<Longrightarrow> held_by lt inode \<noteq> Some (lt_next_id lt)"
  by (auto simp: locks_wf_def)

text \<open>The id counter can hand out \<open>n\<close> more ids.\<close>

definition ids_left :: "LockTable \<Rightarrow> nat \<Rightarrow> bool" where
  "ids_left lt n \<longleftrightarrow> unat (lt_next_id lt) + n < 2 ^ 64"

lemma next_id_less: "ids_left lt (Suc n) \<Longrightarrow> lt_next_id lt < lt_next_id lt + 1"
  by (simp add: ids_left_def word_less_nat_alt unat_add_ok)

lemma ids_left_next: "ids_left lt (Suc n) \<Longrightarrow> lt_next_id lt' = lt_next_id lt + 1 \<Longrightarrow> ids_left lt' n"
  by (simp add: ids_left_def unat_add_ok)

lemma held_less_next:
  assumes "locks_wf z lt" "ids_left lt (Suc n)" "held_by lt inode = Some i"
  shows "i < lt_next_id lt + 1"
  using assms next_id_less [OF assms(2)] unfolding locks_wf_def by (meson less_trans)

lemma lock_wf:
  assumes "locks_wf z lt" "held_by lt inode = None" "ids_left lt (Suc n)"
  shows "locks_wf z (snd (lock lt inode))"
  using assms(1,2) lock_id_fresh [OF assms(1)] next_id_less [OF assms(3)] held_less_next [OF assms(1,3)]
  by (auto simp: locks_wf_def lock_Ok [OF assms(2)])

lemma unlock_wf:
  assumes wf: "locks_wf z lt" and held: "held_by lt inode = Some i" and ids: "ids_left lt (Suc n)"
  shows "locks_wf z (snd (unlock z lt inode i))"
proof -
  obtain "now" later hit where sp: "split_queue z (queue_of lt inode) = (now, later, hit)"
    by (cases "split_queue z (queue_of lt inode)")
  note u = unlock_Ok [OF wf held sp]
  have "set later \<subseteq> set (queue_of lt inode)" using split_queue_append [OF sp] by simp
  moreover have "\<not> hit \<Longrightarrow> later = []" using split_queue_all [of z _ "now" later] sp by (cases hit) auto
  ultimately show ?thesis
    using wf lock_id_fresh [OF wf] next_id_less [OF ids] held_less_next [OF wf ids]
    by (cases hit) (auto simp: locks_wf_def u)
qed

section \<open>The contract of the locks\<close>

text \<open>
  What the node that applies the log relies on. \<open>room\<close> bounds how many more locks can be given
  out; the holder that releases a lock learns which waiting requests are served now and who holds
  the lock next.
\<close>

locale lock_service =
  fixes wf :: "'t \<Rightarrow> bool"
    and room :: "'t \<Rightarrow> nat \<Rightarrow> bool"
    and held :: "'t \<Rightarrow> u64 \<rightharpoonup> u64"
    and waiting :: "'t \<Rightarrow> u64 \<Rightarrow> 'q list"
    and may_wait :: "u64 \<Rightarrow> 'q \<Rightarrow> bool"
    and acquire :: "'t \<Rightarrow> u64 \<Rightarrow> (ErrorCode, u64) res \<times> 't"
    and enqueue :: "'t \<Rightarrow> u64 \<Rightarrow> 'q \<Rightarrow> (ErrorCode, unit) res \<times> 't"
    and release :: "'t \<Rightarrow> u64 \<Rightarrow> u64 \<Rightarrow> (ErrorCode, 'q list \<times> u64 option) res \<times> 't"
  assumes acquire_free: "wf t \<Longrightarrow> room t (Suc n) \<Longrightarrow> held t i = None \<Longrightarrow>
        \<exists>k t'. acquire t i = (Ok k, t') \<and> wf t' \<and> room t' n \<and> held t' = (held t)(i \<mapsto> k) \<and>
          (\<forall>j. held t j \<noteq> Some k) \<and> waiting t' = waiting t"
    and enqueue_held: "wf t \<Longrightarrow> held t i \<noteq> None \<Longrightarrow> may_wait i q \<Longrightarrow>
        \<exists>t'. enqueue t i q = (Ok (), t') \<and> wf t' \<and> held t' = held t \<and> (room t n \<longrightarrow> room t' n) \<and>
          waiting t' = (waiting t)(i := waiting t i @ [q])"
    and release_held: "wf t \<Longrightarrow> room t (Suc n) \<Longrightarrow> held t i = Some k \<Longrightarrow>
        \<exists>served new t'. release t i k = (Ok (served, new), t') \<and> wf t' \<and> room t' n \<and>
          held t' = (held t)(i := new) \<and> waiting t i = served @ waiting t' i \<and>
          (\<forall>j. j \<noteq> i \<longrightarrow> waiting t' j = waiting t j) \<and>
          (new = None \<longrightarrow> waiting t' i = []) \<and> (new \<noteq> None \<longrightarrow> served \<noteq> [])"
    and room_mono: "room t n \<Longrightarrow> m \<le> n \<Longrightarrow> room t m"

text \<open>Each holder of a lock releases it, up to \<open>n\<close> holders in turn; what is served on the way.\<close>

primrec release_all ::
    "('t \<Rightarrow> u64 \<Rightarrow> u64 \<Rightarrow> (ErrorCode, 'q list \<times> u64 option) res \<times> 't) \<Rightarrow> nat \<Rightarrow> 't \<Rightarrow> u64 \<Rightarrow> u64 option \<Rightarrow> 'q list \<times> 't" where
  "release_all release 0 t i holder = ([], t)"
| "release_all release (Suc n) t i holder =
     (case holder of
        None \<Rightarrow> ([], t)
      | Some k \<Rightarrow>
          (case release t i k of
             (Ok (served, new), t') \<Rightarrow>
               let (rest, t'') = release_all release n t' i new in (served @ rest, t'')
           | (_, t') \<Rightarrow> ([], t')))"

context lock_service
begin

lemma release_all_serves:
  "wf t \<Longrightarrow> room t (Suc n) \<Longrightarrow> held t i = Some k \<Longrightarrow> length (waiting t i) \<le> n \<Longrightarrow>
   fst (release_all release (Suc n) t i (Some k)) = waiting t i \<and>
   held (snd (release_all release (Suc n) t i (Some k))) = (held t)(i := None) \<and>
   waiting (snd (release_all release (Suc n) t i (Some k))) i = []"
proof (induction n arbitrary: t k)
  case (0 t k)
  obtain served new t' where r: "release t i k = (Ok (served, new), t')" "held t' = (held t)(i := new)"
    "waiting t i = served @ waiting t' i" "new \<noteq> None \<longrightarrow> served \<noteq> []" "new = None \<longrightarrow> waiting t' i = []"
    using release_held [OF 0(1,2,3)] by blast
  with 0(4) show ?case by auto
next
  case (Suc n t k)
  obtain served new t' where r: "release t i k = (Ok (served, new), t')" "wf t'" "room t' (Suc n)"
    "held t' = (held t)(i := new)" "waiting t i = served @ waiting t' i" "new \<noteq> None \<longrightarrow> served \<noteq> []"
    "new = None \<longrightarrow> waiting t' i = []"
    using release_held [OF Suc.prems(1,2,3)] by blast
  show ?case
  proof (cases new)
    case None
    with r show ?thesis by simp
  next
    case (Some k')
    then have "length (waiting t' i) \<le> n" using r(5,6) Suc.prems(4) by (cases served) auto
    from Suc.IH [OF r(2,3) _ this, of k'] r(4) Some
    have ih: "fst (release_all release (Suc n) t' i new) = waiting t' i"
      "held (snd (release_all release (Suc n) t' i new)) = (held t)(i := None)"
      "waiting (snd (release_all release (Suc n) t' i new)) i = []"
      by (simp_all del: release_all.simps add: fun_eq_iff)
    have "release_all release (Suc (Suc n)) t i (Some k)
        = (served @ fst (release_all release (Suc n) t' i new), snd (release_all release (Suc n) t' i new))"
      using r(1) by (simp add: split_beta)
    then show ?thesis using ih r(5) by simp
  qed
qed

lemma handover_exclusive:
  assumes "wf t" "room t (Suc n)" "held t i = Some k" "release t i k = (Ok (served, Some k'), t')"
  shows "held t' i = Some k'"
  using release_held [OF assms(1-3)] assms(4) by auto

end

interpretation locks: lock_service "locks_wf z" ids_left held_by queue_of "waiting_ok z" lock wait_for_lock "unlock z" for z
proof
  fix t n i
  assume "locks_wf z t" "ids_left t (Suc n)" "held_by t i = None"
  then show "\<exists>k t'. lock t i = (Ok k, t') \<and> locks_wf z t' \<and> ids_left t' n \<and> held_by t' = (held_by t)(i \<mapsto> k) \<and>
      (\<forall>j. held_by t j \<noteq> Some k) \<and> queue_of t' = queue_of t"
    using lock_Ok [of t i] lock_wf [of z t i n] lock_id_fresh [of z t] ids_left_next [of t n "snd (lock t i)"]
    by (intro exI [of _ "lt_next_id t"] exI [of _ "snd (lock t i)"]) (simp add: prod_eq_iff)
next
  fix t i p n
  assume "locks_wf z t" "held_by t i \<noteq> None" "waiting_ok z i p"
  then show "\<exists>t'. wait_for_lock t i p = (Ok (), t') \<and> locks_wf z t' \<and> held_by t' = held_by t \<and>
      (ids_left t n \<longrightarrow> ids_left t' n) \<and> queue_of t' = (queue_of t)(i := queue_of t i @ [p])"
    using wait_for_lock_Ok [of t i p] wait_for_lock_wf [of z t i p]
    by (intro exI [of _ "snd (wait_for_lock t i p)"]) (simp add: prod_eq_iff ids_left_def)
next
  fix t n i k
  assume a: "locks_wf z t" "ids_left t (Suc n)" "held_by t i = Some k"
  obtain "now" later hit where sp: "split_queue z (queue_of t i) = (now, later, hit)"
    by (cases "split_queue z (queue_of t i)")
  note u = unlock_Ok [OF a(1,3) sp]
  have "ids_left (snd (unlock z t i k)) n"
    using a(2) ids_left_next [of t n "snd (unlock z t i k)"] u(4) by (cases hit) (auto simp: ids_left_def)
  moreover have "\<not> hit \<Longrightarrow> later = []" "hit \<Longrightarrow> now \<noteq> []"
    using split_queue_all [of z _ "now" later] split_queue_more [of z _ "now" later] sp by (cases hit; auto)+
  ultimately show "\<exists>served new t'. unlock z t i k = (Ok (served, new), t') \<and> locks_wf z t' \<and> ids_left t' n \<and>
      held_by t' = (held_by t)(i := new) \<and> queue_of t i = served @ queue_of t' i \<and>
      (\<forall>j. j \<noteq> i \<longrightarrow> queue_of t' j = queue_of t j) \<and>
      (new = None \<longrightarrow> queue_of t' i = []) \<and> (new \<noteq> None \<longrightarrow> served \<noteq> [])"
    using u unlock_wf [OF a(1,3,2)] split_queue_append [OF sp]
    by (intro exI [of _ "now"] exI [of _ "if hit then Some (lt_next_id t) else None"] exI [of _ "snd (unlock z t i k)"])
      (auto simp: prod_eq_iff)
qed (simp add: ids_left_def)

section \<open>Properties\<close>

text \<open>A codec of two requests on inode 5, and a table where inode 5 is locked and four requests wait.\<close>

definition small_codec :: zerialize where
  "small_codec = \<lparr>zerialize_encode_request = (\<lambda>r. if is_Lock_request r then [1] else [2]),
     zerialize_decode_request =
       (\<lambda>b. if b = [1] then Some (Request.Lock 5) else Some (Request.HardlinkIncrement 5)),
     zerialize_encode_response = (\<lambda>r. []), zerialize_decode_response = (\<lambda>b. None)\<rparr>"

definition busy_table :: LockTable where
  "busy_table = LockTable_new\<lparr>
     lt_lock_ids := [5 \<mapsto> (0, ExclusiveMetadataWriteConcurrentReadsAllowed)], lt_next_id := 1,
     lt_pending_requests := [5 \<mapsto> [([2], Some 7), ([1], Some 8), ([2], None), ([2], Some 9)]]\<rparr>"

lemma busy_table_simps [simp]:
  "held_by busy_table = [5 \<mapsto> 0]"
  "queue_of busy_table i = (if i = 5 then [([2], Some 7), ([1], Some 8), ([2], None), ([2], Some 9)] else [])"
  "lt_next_id busy_table = 1"
  by (simp_all add: busy_table_def LockTable_new_def held_by_def queue_of_def fun_eq_iff)

lemma busy_table_wf: "locks_wf small_codec busy_table" "ids_left busy_table 10"
  by (auto simp: locks_wf_def waiting_ok_def small_codec_def decode_request_def ids_left_def word_less_nat_alt
      split: if_splits)

text \<open>
  C20. Unlocking serves the waiting requests in order. The holder's \<^verbatim>\<open>unlock\<close> takes from the front of
  the queue of the inode, up to and including the first lock request, or all of it when there is
  none. A new lock id, not in use, is returned exactly when the last request taken asks for the
  lock, and the inode is then locked under that id; otherwise it is free and nobody waits. The
  other inodes and their queues are untouched. An unlock with an id that is not the holder's panics.
\<close>
theorem unlock_serves_in_order:
  assumes "locks_wf z lt" "held_by lt inode = Some i" "ids_left lt 1"
  shows "(\<exists>served new lt'. unlock z lt inode i = (Ok (served, new), lt') \<and> locks_wf z lt' \<and>
      queue_of lt inode = served @ queue_of lt' inode \<and>
      (\<forall>j. j \<noteq> inode \<longrightarrow> queue_of lt' j = queue_of lt j \<and> held_by lt' j = held_by lt j) \<and>
      held_by lt' inode = new \<and>
      (case new of
         None \<Rightarrow> queue_of lt' inode = [] \<and> \<not> list_ex (asks_lock z) served
       | Some k \<Rightarrow> served \<noteq> [] \<and> asks_lock z (last served) \<and> \<not> list_ex (asks_lock z) (butlast served) \<and>
           (\<forall>j. held_by lt j \<noteq> Some k)))
    \<and> (i' \<noteq> i \<longrightarrow> fst (unlock z lt inode i') = Panic)"
proof -
  obtain "now" later hit where sp: "split_queue z (queue_of lt inode) = (now, later, hit)"
    by (cases "split_queue z (queue_of lt inode)")
  note u = unlock_Ok [OF assms(1,2) sp]
  have "locks_wf z (snd (unlock z lt inode i))" using unlock_wf [OF assms(1,2), of 0] assms(3) by simp
  moreover have "i' \<noteq> i \<longrightarrow> fst (unlock z lt inode i') = Panic"
    using unlock_wrong_id [of lt inode i' z] assms(2) by simp
  moreover have "case (if hit then Some (lt_next_id lt) else None) of
      None \<Rightarrow> later = [] \<and> \<not> list_ex (asks_lock z) now
    | Some k \<Rightarrow> now \<noteq> [] \<and> asks_lock z (last now) \<and> \<not> list_ex (asks_lock z) (butlast now) \<and> (\<forall>j. held_by lt j \<noteq> Some k)"
    using sp split_queue_more [of z "queue_of lt inode" "now" later]
      split_queue_all [of z "queue_of lt inode" "now" later] lock_id_fresh [OF assms(1)]
    by (cases hit) (auto simp: list_ex_iff)
  ultimately show ?thesis
    using u split_queue_append [OF sp]
    by (intro conjI exI [of _ "now"] exI [of _ "if hit then Some (lt_next_id lt) else None"] exI [of _ "snd (unlock z lt inode i)"])
      (simp_all add: prod_eq_iff split: if_splits)
qed

theorem unlock_serves_in_order_witness:
  "\<exists>lt'. unlock small_codec busy_table 5 0 = (Ok ([([2], Some 7), ([1], Some 8)], Some 1), lt')
     \<and> queue_of lt' 5 = [([2], None), ([2], Some 9)]"
proof -
  have sp: "split_queue small_codec (queue_of busy_table 5)
      = ([([2], Some 7), ([1], Some 8)], [([2], None), ([2], Some 9)], True)"
    by (simp add: asks_lock_def small_codec_def decode_request_def)
  note u = unlock_Ok [OF busy_table_wf(1) _ sp, of 0]
  have "fst (unlock small_codec busy_table 5 3) = Panic"
    using unlock_serves_in_order [of small_codec busy_table 5 0 3] busy_table_wf by (simp add: ids_left_def)
  with u show ?thesis by (intro exI [of _ "snd (unlock small_codec busy_table 5 0)"]) (simp add: prod_eq_iff)
qed

text \<open>
  C21. Everybody who waits is served. When the holder of a lock, and each holder that a lock request
  in the queue makes, releases the lock in turn, then after at most one release per waiting request
  and one more all of them have been served, in the order of their arrival, and the inode is free.
\<close>
theorem waiters_all_served:
  assumes "locks_wf z lt" "held_by lt inode = Some i"
    and "ids_left lt (Suc n)" "length (queue_of lt inode) \<le> n"
  shows "fst (release_all (unlock z) (Suc n) lt inode (Some i)) = queue_of lt inode
    \<and> held_by (snd (release_all (unlock z) (Suc n) lt inode (Some i))) = (held_by lt)(inode := None)
    \<and> queue_of (snd (release_all (unlock z) (Suc n) lt inode (Some i))) inode = []"
  by (rule locks.release_all_serves [OF assms(1,3,2,4)])

theorem waiters_all_served_witness:
  "fst (release_all (unlock small_codec) (Suc 4) busy_table 5 (Some 0))
     = [([2], Some 7), ([1], Some 8), ([2], None), ([2], Some 9)]"
  using waiters_all_served [of small_codec busy_table 5 0 4] busy_table_wf
  by (simp add: ids_left_def del: release_all.simps)



end
