(* ===== verification/KV_Table.thy ===== *)
theory KV_Table
  imports Fleet_Prelude
begin

text \<open>
  Ordered key-value tables.

  The metadata of a raft group lives in four \<^verbatim>\<open>redb\<close> tables. What the program uses of a
  table is \<^verbatim>\<open>get\<close>, \<^verbatim>\<open>insert\<close>, \<^verbatim>\<open>remove\<close>, \<^verbatim>\<open>range\<close>, \<^verbatim>\<open>iter\<close> and \<^verbatim>\<open>retain_in\<close> on a range; the
  locale \<open>kv_table\<close> states the laws of these operations that the metadata layer relies on
  (they are the documented behaviour of an ordered key-value table) and derives from them
  the facts about range scans. The type \<open>table\<close> of strictly sorted association lists
  carries the model's state and is the instance on which the locale is interpreted.
\<close>

section \<open>The interface\<close>

locale kv_table =
  fixes empty :: "'t"
    and get :: "'t \<Rightarrow> 'k::linorder \<Rightarrow> 'v option"
    and ins :: "'k \<Rightarrow> 'v \<Rightarrow> 't \<Rightarrow> 't"
    and rem :: "'k \<Rightarrow> 't \<Rightarrow> 't"
    and clear :: "'k \<Rightarrow> 'k \<Rightarrow> 't \<Rightarrow> 't"
    and scan :: "'k \<Rightarrow> 'k \<Rightarrow> 't \<Rightarrow> ('k \<times> 'v) list"
  assumes get_empty: "get empty k = None"
    and get_ins: "get (ins k v t) k' = (if k' = k then Some v else get t k')"
    and get_rem: "get (rem k t) k' = (if k' = k then None else get t k')"
    and get_clear: "get (clear lo hi t) k' = (if lo \<le> k' \<and> k' < hi then None else get t k')"
    and scan_sorted: "sorted_wrt (<) (map fst (scan lo hi t))"
    and scan_mem: "(k, v) \<in> set (scan lo hi t) \<longleftrightarrow> lo \<le> k \<and> k < hi \<and> get t k = Some v"
    and get_eqI: "(\<And>k. get t k = get t' k) \<Longrightarrow> t = t'"
begin

lemma scan_distinct: "distinct (map fst (scan lo hi t))"
  using scan_sorted strict_sorted_iff by blast

lemma scan_keys: "fst ` set (scan lo hi t) = {k. lo \<le> k \<and> k < hi \<and> get t k \<noteq> None}"
  using scan_mem by force

lemma scan_empty_iff:
  "scan lo hi t = [] \<longleftrightarrow> (\<forall>k. lo \<le> k \<longrightarrow> k < hi \<longrightarrow> get t k = None)"
proof -
  have "scan lo hi t = [] \<longleftrightarrow> fst ` set (scan lo hi t) = {}" by simp
  also have "\<dots> \<longleftrightarrow> (\<forall>k. lo \<le> k \<longrightarrow> k < hi \<longrightarrow> get t k = None)"
    unfolding scan_keys by auto
  finally show ?thesis .
qed

lemma scan_card: "length (scan lo hi t) = card {k. lo \<le> k \<and> k < hi \<and> get t k \<noteq> None}"
proof -
  have "length (scan lo hi t) = card (set (map fst (scan lo hi t)))"
    by (simp only: distinct_card [OF scan_distinct] length_map)
  then show ?thesis by (simp only: set_map scan_keys)
qed

text \<open>A scan depends only on the entries in its range.\<close>

lemma scan_cong:
  assumes "\<And>k. lo \<le> k \<Longrightarrow> k < hi \<Longrightarrow> get t k = get t' k"
  shows "scan lo hi t = scan lo hi t'"
proof (rule assoc_eqI)
  show "map fst (scan lo hi t) = map fst (scan lo hi t')"
    using scan_sorted assms by (intro strict_sorted_equal) (auto simp: scan_keys)
  show "set (scan lo hi t) = set (scan lo hi t')"
    using assms by (auto simp: scan_mem)
qed (rule scan_distinct)

lemma scan_ins_outside: "\<not> (lo \<le> k \<and> k < hi) \<Longrightarrow> scan lo hi (ins k v t) = scan lo hi t"
  by (rule scan_cong) (auto simp: get_ins)

lemma scan_rem_outside: "\<not> (lo \<le> k \<and> k < hi) \<Longrightarrow> scan lo hi (rem k t) = scan lo hi t"
  by (rule scan_cong) (auto simp: get_rem)

text \<open>Storing back what is there, and undoing an insertion, change nothing.\<close>

lemma ins_same: "get t k = Some v \<Longrightarrow> ins k v t = t"
  by (rule get_eqI) (simp add: get_ins)

lemma ins_ins: "ins k v (ins k w t) = ins k v t"
  by (rule get_eqI) (simp add: get_ins)

lemma rem_ins: "get t k = None \<Longrightarrow> rem k (ins k v t) = t"
  by (rule get_eqI) (simp add: get_ins get_rem)

lemma clear_unused: "scan lo hi t = [] \<Longrightarrow> clear lo hi t = t"
  by (rule get_eqI) (simp add: get_clear scan_empty_iff)

end

section \<open>Sorted association lists\<close>

typedef (overloaded) ('k::linorder, 'v) table =
  "{xs :: ('k \<times> 'v) list. sorted_wrt (<) (map fst xs)}"
  morphisms entries Abs_table
  by (rule exI [of _ "[]"]) simp

setup_lifting type_definition_table

lemma sorted_map_fst_filter:
  "sorted_wrt (<) (map fst xs) \<Longrightarrow> sorted_wrt (<) (map fst (filter P xs))"
  by (induction xs) auto

lift_definition table_empty :: "('k::linorder, 'v) table" is "[]"
  by simp

lift_definition table_get :: "('k::linorder, 'v) table \<Rightarrow> 'k \<Rightarrow> 'v option" is map_of .

lift_definition table_insert :: "'k::linorder \<Rightarrow> 'v \<Rightarrow> ('k, 'v) table \<Rightarrow> ('k, 'v) table"
  is "\<lambda>k v xs. filter (\<lambda>p. fst p < k) xs @ (k, v) # filter (\<lambda>p. k < fst p) xs"
  by (auto simp: sorted_wrt_append sorted_map_fst_filter)

lift_definition table_remove :: "'k::linorder \<Rightarrow> ('k, 'v) table \<Rightarrow> ('k, 'v) table"
  is "\<lambda>k xs. filter (\<lambda>p. fst p \<noteq> k) xs"
  by (rule sorted_map_fst_filter)

lift_definition table_clear :: "'k::linorder \<Rightarrow> 'k \<Rightarrow> ('k, 'v) table \<Rightarrow> ('k, 'v) table"
  is "\<lambda>lo hi xs. filter (\<lambda>p. \<not> (lo \<le> fst p \<and> fst p < hi)) xs"
  by (rule sorted_map_fst_filter)

lift_definition table_range ::
    "'k::linorder \<Rightarrow> 'k \<Rightarrow> ('k, 'v) table \<Rightarrow> ('k \<times> 'v) list"
  is "\<lambda>lo hi xs. filter (\<lambda>p. lo \<le> fst p \<and> fst p < hi) xs" .

lift_definition table_iter :: "('k::linorder, 'v) table \<Rightarrow> ('k \<times> 'v) list" is "\<lambda>xs. xs" .

lemma map_of_filter_key:
  "map_of (filter (\<lambda>p. P (fst p)) xs) k = (if P k then map_of xs k else None)"
  by (induction xs) auto

lemma strict_sorted_assoc_distinct: "sorted_wrt (<) (map fst xs) \<Longrightarrow> distinct (map fst xs)"
  for xs :: "('k::linorder \<times> 'v) list"
  using strict_sorted_iff by blast

lemma assoc_map_of_eqI:
  fixes xs ys :: "('k::linorder \<times> 'v) list"
  assumes xs: "sorted_wrt (<) (map fst xs)" and ys: "sorted_wrt (<) (map fst ys)"
    and eq: "\<And>k. map_of xs k = map_of ys k"
  shows "xs = ys"
proof (rule assoc_eqI)
  from eq have "map_of xs = map_of ys" by (rule ext)
  then show set_eq: "set xs = set ys"
    using xs ys by (simp add: map_of_inject_set [symmetric] strict_sorted_assoc_distinct)
  then show "map fst xs = map fst ys"
    using xs ys by (intro strict_sorted_equal) auto
qed (rule strict_sorted_assoc_distinct [OF xs])

lemma table_eqI: "(\<And>k. table_get t k = table_get t' k) \<Longrightarrow> t = t'"
  by transfer (rule assoc_map_of_eqI)

interpretation kv: kv_table table_empty table_get table_insert table_remove table_clear table_range
proof (unfold_locales, goal_cases)
  case (1 k)
  show ?case by transfer simp
next
  case (2 k v t k')
  show ?case
    by transfer (auto simp: map_add_def map_of_filter_key [where P = "\<lambda>a. a < k" for k]
        map_of_filter_key [where P = "\<lambda>a. k < a" for k] split: option.splits)
next
  case (3 k t k')
  show ?case by transfer (subst map_of_filter_key [where P = "\<lambda>a. a \<noteq> k" for k], simp)
next
  case (4 lo hi t k')
  show ?case by transfer (subst map_of_filter_key [where P = "\<lambda>a. \<not> (lo \<le> a \<and> a < hi)" for lo hi], simp)
next
  case (5 lo hi t)
  show ?case by transfer (rule sorted_map_fst_filter)
next
  case (6 k v lo hi t)
  show ?case
    by transfer (auto dest: strict_sorted_assoc_distinct)
next
  case (7 t t')
  then show ?case by (rule table_eqI)
qed

lemmas table_get_simps [simp, table_simps] = kv.get_empty kv.get_ins kv.get_rem kv.get_clear

lemma table_iter_mem: "(k, v) \<in> set (table_iter t) \<longleftrightarrow> table_get t k = Some v"
  by transfer (auto dest: strict_sorted_assoc_distinct)

end
