(* ===== verification/Base_Utils.thy ===== *)
theory Base_Utils
  imports Message_Types
begin

unbundle bit_operations_syntax

text \<open>
  Helpers of the base crate: \<^verbatim>\<open>src/src/base/utils.rs\<close> and \<^verbatim>\<open>src/src/base/local_context.rs\<close>.

  Permission checks, the placement of raft groups on nodes, the numbering of the nodes of a
  cluster. An \<^verbatim>\<open>i32\<close> access mask is a 32-bit word, an \<^verbatim>\<open>usize\<close> is a \<open>nat\<close> (the sizes here are
  numbers of nodes). The hash that numbers IPv6 nodes (\<^verbatim>\<open>DefaultHasher\<close>, whose algorithm the
  standard library leaves open) is an argument.
\<close>

section \<open>Definitions\<close>

definition response_or_error :: "zerialize \<Rightarrow> bytes \<Rightarrow> (ErrorCode, WireResponse) res" where
  "response_or_error z buffer =
     and_then (expect (decode_response z buffer))
       (\<lambda>response. case as_error_response response of
           Some error_code \<Rightarrow> Err error_code
         | None \<Rightarrow> Ok response)"

definition node_contains_raft_group :: "nat \<Rightarrow> nat \<Rightarrow> u16 \<Rightarrow> nat \<Rightarrow> (ErrorCode, bool) res" where
  "node_contains_raft_group node_index total_nodes raft_group_id replicas_per_raft_group =
     (if replicas_per_raft_group = 0 then Panic
      else if total_nodes mod replicas_per_raft_group \<noteq> 0 then Panic
      else
        let node_group = node_index div replicas_per_raft_group;
            node_groups = total_nodes div replicas_per_raft_group
        in if (of_nat node_groups :: u16) = 0 then Panic
           else
             let assigned_node_group = raft_group_id mod of_nat node_groups
             in Ok (node_group = unat assigned_node_group))"

definition F_OK :: u32 where "F_OK = 0"
definition X_OK :: u32 where "X_OK = 1"
definition W_OK :: u32 where "W_OK = 2"
definition R_OK :: u32 where "R_OK = 4"

definition check_access :: "u32 \<Rightarrow> u32 \<Rightarrow> u16 \<Rightarrow> u32 \<Rightarrow> u32 \<Rightarrow> u32 \<Rightarrow> bool" where
  "check_access file_uid file_gid file_mode uid gid access_mask =
     (if access_mask = F_OK then True
      else
        let fmode = (ucast file_mode :: u32) in
        if uid = 0 then
          let m0 = access_mask AND X_OK;
              m1 = m0 - (m0 AND drop_bit 6 fmode);
              m2 = m1 - (m1 AND drop_bit 3 fmode);
              m3 = m2 - (m2 AND fmode)
          in m3 = 0
        else if uid = file_uid then access_mask - (access_mask AND drop_bit 6 fmode) = 0
        else if gid = file_gid then access_mask - (access_mask AND drop_bit 3 fmode) = 0
        else access_mask - (access_mask AND fmode) = 0)"

datatype IpAddr = V4 u8 u8 u8 u8 | V6 "128 word"

record SocketAddr =
  sa_ip :: IpAddr
  sa_port :: u16

definition node_id_from_address :: "(128 word \<Rightarrow> u16 \<Rightarrow> u64) \<Rightarrow> SocketAddr \<Rightarrow> u64" where
  "node_id_from_address v6_hash address =
     (case sa_ip address of
        V4 o0 o1 o2 o3 \<Rightarrow>
          push_bit 40 (ucast o0) OR push_bit 32 (ucast o1) OR push_bit 24 (ucast o2)
            OR push_bit 16 (ucast o3) OR ucast (sa_port address)
      | V6 v6 \<Rightarrow> v6_hash v6 (sa_port address))"

record LocalContext =
  lc_data_dir :: string
  lc_server_ip_port :: SocketAddr
  lc_peers :: "SocketAddr list"
  lc_node_id :: u64
  lc_replicas_per_raft_group :: nat

definition LocalContext_new ::
    "string \<Rightarrow> SocketAddr \<Rightarrow> SocketAddr list \<Rightarrow> u64 \<Rightarrow> nat \<Rightarrow> LocalContext" where
  "LocalContext_new data_dir server_ip_port peers node_id replicas_per_raft_group =
     \<lparr>lc_data_dir = data_dir, lc_server_ip_port = server_ip_port, lc_peers = peers,
      lc_node_id = node_id, lc_replicas_per_raft_group = replicas_per_raft_group\<rparr>"

definition total_nodes :: "LocalContext \<Rightarrow> nat" where
  "total_nodes c = length (lc_peers c) + 1"

definition sorted_node_ids :: "(128 word \<Rightarrow> u16 \<Rightarrow> u64) \<Rightarrow> LocalContext \<Rightarrow> u64 list" where
  "sorted_node_ids v6_hash c = sort (lc_node_id c # map (node_id_from_address v6_hash) (lc_peers c))"

definition node_index :: "(128 word \<Rightarrow> u16 \<Rightarrow> u64) \<Rightarrow> LocalContext \<Rightarrow> (ErrorCode, nat) res" where
  "node_index v6_hash c = expect (position (lc_node_id c) (sorted_node_ids v6_hash c))"

primrec indices_of ::
    "(128 word \<Rightarrow> u16 \<Rightarrow> u64) \<Rightarrow> u64 list \<Rightarrow> SocketAddr list
      \<Rightarrow> (ErrorCode, (SocketAddr \<times> nat) list) res" where
  "indices_of v6_hash ids [] = Ok []"
| "indices_of v6_hash ids (peer # prs) =
     and_then (expect (position (node_id_from_address v6_hash peer) ids))
       (\<lambda>index. map_ok ((#) (peer, index)) (indices_of v6_hash ids prs))"

definition peers_with_node_indices ::
    "(128 word \<Rightarrow> u16 \<Rightarrow> u64) \<Rightarrow> LocalContext \<Rightarrow> (ErrorCode, (SocketAddr \<times> nat) list) res" where
  "peers_with_node_indices v6_hash c = indices_of v6_hash (sorted_node_ids v6_hash c) (lc_peers c)"

section \<open>Permission bits\<close>

text \<open>
  The permissions that a file grants to a user, as a set of bit positions of the access
  mask: position 0 is execute, 1 write, 2 read. The superuser is refused only execution of
  a file without any execute bit.
\<close>

definition granted :: "u32 \<Rightarrow> u32 \<Rightarrow> u16 \<Rightarrow> u32 \<Rightarrow> u32 \<Rightarrow> nat set" where
  "granted file_uid file_gid file_mode uid gid =
     (if uid = 0 then {k. k \<noteq> 0 \<or> bit file_mode 6 \<or> bit file_mode 3 \<or> bit file_mode 0}
      else if uid = file_uid then {k. bit file_mode (k + 6)}
      else if gid = file_gid then {k. bit file_mode (k + 3)}
      else {k. bit file_mode k})"

lemma minus_and_eq: "x - (x AND y) = x AND NOT y" for x y :: "'a::len word"
  by (metis (no_types, lifting) bit.conj_disj_distrib bit.de_Morgan_conj
      disjunctive_diff_eq_and_not word_and_not word_ao_absorbs(8) word_bw_comms(1))

lemma and_not_eq_0_iff: "x AND NOT y = 0 \<longleftrightarrow> {k. bit x k} \<subseteq> {k. bit y k}"
  for x y :: "'a::len word"
  by (auto simp: bit_eq_iff bit_simps dest: bit_imp_le_length)

lemma bit_mode: "bit (drop_bit n (ucast m :: u32)) k \<longleftrightarrow> bit m (k + n)" for m :: u16
  by (auto simp: bit_simps add.commute dest: bit_imp_le_length)

lemma bit_mode_0: "bit (ucast m :: u32) k \<longleftrightarrow> bit m k" for m :: u16
  using bit_mode [of 0 m k] by simp

lemma X_OK_and: "{k. bit (x AND X_OK) k} = {k. k = 0 \<and> bit x 0}" for x :: u32
  by (auto simp: X_OK_def bit_simps)

lemma check_access_iff_granted:
  "check_access file_uid file_gid file_mode uid gid access_mask
    \<longleftrightarrow> {k. bit access_mask k} \<subseteq> granted file_uid file_gid file_mode uid gid"
proof -
  let ?f = "ucast file_mode :: u32"
  have root: "((access_mask AND X_OK) AND NOT (drop_bit 6 ?f OR (drop_bit 3 ?f OR ?f))) = 0
    \<longleftrightarrow> {k. bit access_mask k}
      \<subseteq> {k. k \<noteq> 0 \<or> bit file_mode 6 \<or> bit file_mode 3 \<or> bit file_mode 0}"
    unfolding and_not_eq_0_iff X_OK_and by (auto simp: bit_or_iff bit_mode bit_mode_0)
  consider "access_mask = 0" | "access_mask \<noteq> 0" "uid = 0" | "access_mask \<noteq> 0" "uid \<noteq> 0" by blast
  then show ?thesis
  proof cases
    case 1
    then show ?thesis by (simp add: check_access_def F_OK_def)
  next
    case 2
    then have "check_access file_uid file_gid file_mode uid gid access_mask
      \<longleftrightarrow> ((access_mask AND X_OK) AND NOT (drop_bit 6 ?f OR (drop_bit 3 ?f OR ?f))) = 0"
      by (simp add: check_access_def F_OK_def Let_def minus_and_eq and.assoc bit.de_Morgan_disj)
    with 2 root show ?thesis by (simp add: granted_def)
  next
    case 3
    then show ?thesis
      by (simp add: check_access_def granted_def F_OK_def Let_def minus_and_eq and_not_eq_0_iff
          bit_mode bit_mode_0)
  qed
qed

section \<open>Placement of raft groups\<close>

lemma div_eq_iff_interval: "0 < r \<Longrightarrow> i div r = a \<longleftrightarrow> a * r \<le> i \<and> i < a * r + r" for i :: nat
  using div_nat_eqI [of r a i] dividend_less_div_times [of r i] div_times_less_eq_dividend [of i r]
  by (auto simp: algebra_simps)

lemma node_contains_raft_group_eq:
  assumes "0 < r" "n mod r = 0" "0 < n div r" "n div r < 2 ^ 16"
  shows "node_contains_raft_group i n g r = Ok (i div r = unat g mod (n div r))"
proof -
  have u: "unat (of_nat (n div r) :: u16) = n div r"
    using assms(4) by (simp add: unat_of_nat)
  then have "(of_nat (n div r) :: u16) \<noteq> 0"
    using assms(3) by (metis gr_implies_not0 unat_0)
  with assms u show ?thesis
    by (simp add: node_contains_raft_group_def Let_def unat_mod)
qed

lemma raft_group_members:
  assumes "0 < r" "n mod r = 0" "0 < n div r" "n div r < 2 ^ 16"
  shows "{i. i < n \<and> node_contains_raft_group i n g r = Ok True}
    = {unat g mod (n div r) * r ..< unat g mod (n div r) * r + r}"
proof -
  let ?a = "unat g mod (n div r)"
  have "?a < n div r" using assms(3) by simp
  then have "?a * r + r \<le> n"
    by (metis Suc_leI add.commute div_times_less_eq_dividend le_trans mult_Suc mult_le_mono1)
  then show ?thesis
    using assms by (auto simp: node_contains_raft_group_eq div_eq_iff_interval)
qed

section \<open>Numbering of the nodes\<close>

abbreviation cluster_ids :: "(128 word \<Rightarrow> u16 \<Rightarrow> u64) \<Rightarrow> LocalContext \<Rightarrow> u64 list" where
  "cluster_ids v6_hash c \<equiv> lc_node_id c # map (node_id_from_address v6_hash) (lc_peers c)"

lemma indices_of_Ok:
  assumes "node_id_from_address h ` set ps \<subseteq> set ids"
  shows "indices_of h ids ps
    = Ok (map (\<lambda>p. (p, the (position (node_id_from_address h p) ids))) ps)"
  using assms
proof (induction ps)
  case Nil
  then show ?case by simp
next
  case (Cons p ps)
  moreover from this obtain i where "position (node_id_from_address h p) ids = Some i"
    by (auto dest: position_ex)
  ultimately show ?case by simp
qed

lemma node_index_Ok:
  assumes "distinct (cluster_ids h c)"
  obtains i where "node_index h c = Ok i" "i < total_nodes c"
    "sort (cluster_ids h c) ! i = lc_node_id c"
proof -
  have "lc_node_id c \<in> set (sort (cluster_ids h c))" by (simp only: set_sort list.set_intros)
  from position_ex [OF this] obtain i where i: "i < length (sort (cluster_ids h c))"
    "position (lc_node_id c) (sort (cluster_ids h c)) = Some i" by blast
  then have "node_index h c = Ok i"
    by (simp only: node_index_def sorted_node_ids_def expect.simps)
  moreover have "i < total_nodes c" using i(1) by (simp add: total_nodes_def)
  moreover have "sort (cluster_ids h c) ! i = lc_node_id c"
    using position_Some_nth [OF i(2)] by blast
  ultimately show ?thesis by (rule that)
qed

lemma sort_eqI:
  fixes xs ys :: "'a::linorder list"
  assumes "distinct xs" "distinct ys" "set xs = set ys"
  shows "sort xs = sort ys"
  using assms by (intro sorted_distinct_set_unique) auto

lemma peer_index_agrees:
  assumes "distinct (cluster_ids h c)" "distinct (cluster_ids h c')"
    "set (cluster_ids h c) = set (cluster_ids h c')"
    "p \<in> set (lc_peers c)" "node_id_from_address h p = lc_node_id c'"
  shows "\<exists>i idx. node_index h c' = Ok i \<and> i < total_nodes c
    \<and> peers_with_node_indices h c = Ok idx \<and> (p, i) \<in> set idx"
proof -
  have s: "sorted_node_ids h c = sorted_node_ids h c'"
    unfolding sorted_node_ids_def using assms(1-3) by (rule sort_eqI)
  from node_index_Ok [OF assms(2)] obtain i
    where i: "node_index h c' = Ok i" "i < total_nodes c'" by metis
  have "total_nodes c = total_nodes c'"
    using assms(1-3) distinct_card [OF assms(1)] distinct_card [OF assms(2)]
    by (simp add: total_nodes_def)
  moreover have "peers_with_node_indices h c
      = Ok (map (\<lambda>p. (p, the (position (node_id_from_address h p) (sorted_node_ids h c))))
          (lc_peers c))"
    unfolding peers_with_node_indices_def
    by (rule indices_of_Ok) (auto simp: sorted_node_ids_def set_insort_key)
  moreover have "the (position (node_id_from_address h p) (sorted_node_ids h c)) = i"
    using i(1) assms(5) by (simp add: s node_index_def expect_eq_Ok)
  ultimately show ?thesis
    using i assms(4) by fastforce
qed

section \<open>Node identifiers\<close>

lemma bit_octet:
  fixes w :: u8
  assumes "m \<le> 56"
  shows "bit (push_bit m (ucast w :: u64)) n \<longleftrightarrow> m \<le> n \<and> n < m + 8 \<and> bit w (n - m)"
  using assms bit_imp_le_length [of w "n - m"] by (auto simp: bit_push_bit_iff bit_ucast_iff)

lemma bit_port: "bit (ucast w :: u64) n \<longleftrightarrow> n < 16 \<and> bit w n" for w :: u16
  using bit_imp_le_length [of w n] by (auto simp: bit_ucast_iff)

lemma bit_v4_node_id:
  assumes "sa_ip a = V4 o0 o1 o2 o3"
  shows "bit (node_id_from_address h a) n \<longleftrightarrow>
    40 \<le> n \<and> n < 48 \<and> bit o0 (n - 40) \<or> 32 \<le> n \<and> n < 40 \<and> bit o1 (n - 32)
    \<or> 24 \<le> n \<and> n < 32 \<and> bit o2 (n - 24) \<or> 16 \<le> n \<and> n < 24 \<and> bit o3 (n - 16)
    \<or> n < 16 \<and> bit (sa_port a) n"
  using assms by (simp add: node_id_from_address_def bit_or_iff bit_octet bit_port disj_assoc)

lemma node_id_v4_inj:
  assumes a: "sa_ip a = V4 a0 a1 a2 a3" and b: "sa_ip b = V4 b0 b1 b2 b3"
    and eq: "node_id_from_address h a = node_id_from_address h b"
  shows "a = b"
proof -
  note bits = bit_v4_node_id [OF a, of h] bit_v4_node_id [OF b, of h]
  have B: "bit (node_id_from_address h a) n = bit (node_id_from_address h b) n" for n
    using eq by simp
  have "bit a0 k = bit b0 k" if "k < 8" for k
    using B [of "k + 40"] that by (simp add: bits)
  moreover have "bit a1 k = bit b1 k" if "k < 8" for k
    using B [of "k + 32"] that by (simp add: bits)
  moreover have "bit a2 k = bit b2 k" if "k < 8" for k
    using B [of "k + 24"] that by (simp add: bits)
  moreover have "bit a3 k = bit b3 k" if "k < 8" for k
    using B [of "k + 16"] that by (simp add: bits)
  moreover have "bit (sa_port a) k = bit (sa_port b) k" if "k < 16" for k
    using B [of k] that by (simp add: bits)
  ultimately have "a0 = b0" "a1 = b1" "a2 = b2" "a3 = b3" "sa_port a = sa_port b"
    by (auto intro!: bit_word_eqI)
  with a b show ?thesis by (cases a; cases b) simp
qed

end
