(* ===== verification/Metadata_Storage.thy ===== *)
theory Metadata_Storage
  imports KV_Table Base_Utils Data_Storage
begin

text \<open>
  The metadata of a raft group: \<^verbatim>\<open>src/src/storage/local/metadata_storage.rs\<close>.

  The four \<^verbatim>\<open>redb\<close> tables are the record \<open>tables\<close>; the database is their committed state, the
  state of the last durable commit (what a crash leaves) and the poison flag of the mutex
  around it. A write transaction is \<open>write_txn\<close>: it takes the lock, ticks the durability
  counter, runs the body on the committed tables, and commits what the body made; a body
  that returns early commits nothing, a body that panics poisons the mutex. The clock is the
  argument \<open>now\<close>: \<open>now i\<close> is the \<open>i\<close>-th reading an operation takes.
\<close>

section \<open>Tables and attributes\<close>

definition MAX_NAME_LENGTH :: u32 where "MAX_NAME_LENGTH = 255"
definition MAX_FILE_SIZE :: u64 where "MAX_FILE_SIZE = 1024 * 1024 * 1024 * 1024"

record InodeAttributes =
  attr_inode :: u64
  attr_size :: u64
  attr_last_accessed :: Timestamp
  attr_last_modified :: Timestamp
  attr_last_metadata_changed :: Timestamp
  attr_kind :: FileKind
  attr_mode :: u16
  attr_hardlinks :: u32
  attr_uid :: u32
  attr_gid :: u32

definition blocks :: "InodeAttributes \<Rightarrow> u64" where
  "blocks attrs = attr_size attrs div BLOCK_SIZE"

record tables =
  PARENTS_TABLE :: "(u64, u64) table"
  DIRECTORY_TABLE :: "(u64 \<times> string, u64 \<times> FileKind) table"
  XATTR_TABLE :: "(u64 \<times> string, bytes) table"
  ATTR_TABLE :: "(u64, InodeAttributes) table"

type_synonym clock = "nat \<Rightarrow> Timestamp"

section \<open>Extended attributes\<close>

datatype XattrNamespace = SECURITY | SYSTEM | TRUSTED | USER

definition parse_xattr_namespace :: "string \<Rightarrow> (ErrorCode, XattrNamespace) res" where
  "parse_xattr_namespace key =
     (let namespace = takeWhile (\<lambda>c. c \<noteq> CHR ''.'') key
      in if namespace = ''security'' then Ok SECURITY
         else if namespace = ''system'' then Ok SYSTEM
         else if namespace = ''trusted'' then Ok TRUSTED
         else if namespace = ''user'' then Ok USER
         else Err InvalidXattrNamespace)"

abbreviation may_access :: "InodeAttributes \<Rightarrow> UserContext \<Rightarrow> u32 \<Rightarrow> bool" where
  "may_access attrs context access \<equiv>
     check_access (attr_uid attrs) (attr_gid attrs) (attr_mode attrs) (ctx_uid context) (ctx_gid context) access"

definition xattr_access_check ::
    "string \<Rightarrow> u32 \<Rightarrow> InodeAttributes \<Rightarrow> UserContext \<Rightarrow> (ErrorCode, unit) res" where
  "xattr_access_check key access_mask inode_attrs context =
     and_then (parse_xattr_namespace key)
       (\<lambda>namespace. case namespace of
          SECURITY \<Rightarrow> ensure (\<not> (access_mask \<noteq> R_OK \<and> ctx_uid context \<noteq> 0)) OperationNotPermitted
        | TRUSTED \<Rightarrow> ensure (ctx_uid context = 0) OperationNotPermitted
        | SYSTEM \<Rightarrow>
            if key = ''system.posix_acl_access''
            then ensure (may_access inode_attrs context access_mask) OperationNotPermitted
            else ensure (ctx_uid context = 0) OperationNotPermitted
        | USER \<Rightarrow> ensure (may_access inode_attrs context access_mask) OperationNotPermitted)"

section \<open>The storage and its transactions\<close>

record metadata_storage =
  ms_storage :: tables
  ms_durable :: tables
  ms_poisoned :: bool
  ms_next_inode :: u64
  ms_durability_counter :: u64
  ms_num_raft_groups :: u64

text \<open>
  Each raft group hands out the inode numbers that are its own number modulo the number of
  groups. The search for the first one need not end when the group's number is too large.
\<close>

partial_function (option) start_inode_loop :: "u64 \<Rightarrow> u64 \<Rightarrow> u64 \<Rightarrow> u64 option" where
  "start_inode_loop num_raft_groups raft_group start_inode =
     (if start_inode mod num_raft_groups \<noteq> raft_group
      then start_inode_loop num_raft_groups raft_group (start_inode + 1)
      else Some start_inode)"

definition empty_tables :: tables where
  "empty_tables = \<lparr>PARENTS_TABLE = table_empty, DIRECTORY_TABLE = table_empty,
     XATTR_TABLE = table_empty, ATTR_TABLE = table_empty\<rparr>"

definition root_attributes :: "clock \<Rightarrow> InodeAttributes" where
  "root_attributes now =
     \<lparr>attr_inode = ROOT_INODE, attr_size = 0, attr_last_accessed = now 0, attr_last_modified = now 1,
      attr_last_metadata_changed = now 2, attr_kind = Directory, attr_mode = 0x1FF,
      attr_hardlinks = 2, attr_uid = 0, attr_gid = 0\<rparr>"

text \<open>
  \<^verbatim>\<open>Database::create\<close> opens the database \<open>db\<close> that is there (\<open>empty_tables\<close> when there is none).
  The result is \<open>None\<close> when the search for the first inode number does not end.
\<close>

definition MetadataStorage_new ::
    "clock \<Rightarrow> u16 \<Rightarrow> u16 \<Rightarrow> tables \<Rightarrow> (ErrorCode, metadata_storage) res option" where
  "MetadataStorage_new now raft_group num_raft_groups db =
     (let t = db\<lparr>PARENTS_TABLE := table_insert ROOT_INODE ROOT_INODE (PARENTS_TABLE db),
                 ATTR_TABLE := table_insert ROOT_INODE (root_attributes now) (ATTR_TABLE db)\<rparr>
      in if num_raft_groups = 0 then Some Panic
         else map_option
           (\<lambda>start_inode. Ok
              \<lparr>ms_storage = t, ms_durable = t, ms_poisoned = False, ms_next_inode = start_inode,
               ms_durability_counter = 0, ms_num_raft_groups = ucast num_raft_groups\<rparr>)
           (start_inode_loop (ucast num_raft_groups) (ucast raft_group) (ROOT_INODE + 1)))"

definition durability_tick :: "metadata_storage \<Rightarrow> bool \<times> metadata_storage" where
  "durability_tick m =
     (let count = ms_durability_counter m
      in (count mod 100 = 0, m\<lparr>ms_durability_counter := count + 1\<rparr>))"

definition read_txn :: "metadata_storage \<Rightarrow> (tables \<Rightarrow> (ErrorCode, 'a) res) \<Rightarrow> (ErrorCode, 'a) res" where
  "read_txn m body = (if ms_poisoned m then Err Corrupted else body (ms_storage m))"

text \<open>
  The body returns its result and the tables it commits, or \<open>None\<close> for the tables when it
  ends the transaction without a commit.
\<close>

definition write_txn ::
    "metadata_storage \<Rightarrow> (tables \<Rightarrow> (ErrorCode, 'a \<times> tables option) res)
      \<Rightarrow> (ErrorCode, 'a) res \<times> metadata_storage" where
  "write_txn m body =
     (if ms_poisoned m then (Err Corrupted, m)
      else
        let (durable, m') = durability_tick m
        in case body (ms_storage m) of
             Ok (a, Some t) \<Rightarrow>
               (Ok a, m'\<lparr>ms_storage := t, ms_durable := if durable then t else ms_durable m\<rparr>)
           | Ok (a, None) \<Rightarrow> (Ok a, m')
           | Err e \<Rightarrow> (Err e, m')
           | Panic \<Rightarrow> (Panic, m'\<lparr>ms_poisoned := True\<rparr>))"

definition attrs_of :: "tables \<Rightarrow> u64 \<Rightarrow> (ErrorCode, InodeAttributes) res" where
  "attrs_of t inode = ok_or (table_get (ATTR_TABLE t) inode) InodeDoesNotExist"

definition put_attrs :: "u64 \<Rightarrow> InodeAttributes \<Rightarrow> tables \<Rightarrow> tables" where
  "put_attrs inode attrs t = t\<lparr>ATTR_TABLE := table_insert inode attrs (ATTR_TABLE t)\<rparr>"

text \<open>The keys \<^verbatim>\<open>(inode, "")..(inode + 1, "")\<close> of one inode.\<close>

abbreviation entries_of :: "u64 \<Rightarrow> (u64 \<times> string, 'v) table \<Rightarrow> ((u64 \<times> string) \<times> 'v) list" where
  "entries_of inode t \<equiv> table_range (inode, []) (inode + 1, []) t"

section \<open>Reading\<close>

definition non_directory_inodes :: "metadata_storage \<Rightarrow> (ErrorCode, u64 list) res" where
  "non_directory_inodes m =
     read_txn m (\<lambda>t. Ok (map fst (filter (\<lambda>(inode, attrs). attr_kind attrs \<noteq> Directory)
                              (table_iter (ATTR_TABLE t)))))"

definition lookup_entry :: "tables \<Rightarrow> u64 \<Rightarrow> string \<Rightarrow> UserContext \<Rightarrow> (ErrorCode, u64 option) res" where
  "lookup_entry t parent name context =
     and_then (attrs_of t parent) (\<lambda>parent_attrs.
     and_then (ensure (may_access parent_attrs context X_OK) AccessDenied) (\<lambda>_.
     Ok (map_option fst (table_get (DIRECTORY_TABLE t) (parent, name)))))"

definition lookup ::
    "metadata_storage \<Rightarrow> u64 \<Rightarrow> string \<Rightarrow> UserContext \<Rightarrow> (ErrorCode, u64 option) res" where
  "lookup m parent name context =
     and_then (ensure (length name \<le> unat MAX_NAME_LENGTH) NameTooLong) (\<lambda>_.
     read_txn m (\<lambda>t. lookup_entry t parent name context))"

definition get_xattr :: "metadata_storage \<Rightarrow> u64 \<Rightarrow> string \<Rightarrow> UserContext \<Rightarrow> (ErrorCode, bytes) res" where
  "get_xattr m inode key context =
     read_txn m (\<lambda>t.
     and_then (attrs_of t inode) (\<lambda>inode_attrs.
     and_then (xattr_access_check key R_OK inode_attrs context) (\<lambda>_.
     ok_or (table_get (XATTR_TABLE t) (inode, key)) MissingXattrKey)))"

definition list_xattrs :: "metadata_storage \<Rightarrow> u64 \<Rightarrow> (ErrorCode, string list) res" where
  "list_xattrs m inode =
     read_txn m (\<lambda>t. Ok (map (\<lambda>(key, _). snd key) (entries_of inode (XATTR_TABLE t))))"

definition readdir :: "metadata_storage \<Rightarrow> u64 \<Rightarrow> (ErrorCode, (u64 \<times> string \<times> FileKind) list) res" where
  "readdir m inode =
     read_txn m (\<lambda>t.
     and_then (ensure (table_get (ATTR_TABLE t) inode \<noteq> None) DoesNotExist) (\<lambda>_.
     and_then (ok_or (table_get (PARENTS_TABLE t) inode) InodeDoesNotExist) (\<lambda>parent_inode.
     Ok ((inode, ''.'', Directory) # (parent_inode, ''..'', Directory)
         # map (\<lambda>(key, value). (fst value, snd key, snd value)) (entries_of inode (DIRECTORY_TABLE t))))))"

definition get_attributes ::
    "metadata_storage \<Rightarrow> u64 \<Rightarrow> (ErrorCode, InodeAttributes \<times> u32 option) res" where
  "get_attributes m inode =
     read_txn m (\<lambda>t.
     and_then (attrs_of t inode) (\<lambda>attributes.
     Ok (attributes,
         if attr_kind attributes = Directory
         then Some (of_nat (length (entries_of inode (DIRECTORY_TABLE t)))) else None)))"

section \<open>Extended attributes: writing\<close>

definition set_xattr ::
    "clock \<Rightarrow> metadata_storage \<Rightarrow> u64 \<Rightarrow> string \<Rightarrow> bytes \<Rightarrow> UserContext
      \<Rightarrow> (ErrorCode, unit) res \<times> metadata_storage" where
  "set_xattr now m inode key value context =
     write_txn m (\<lambda>t.
     and_then (attrs_of t inode) (\<lambda>inode_attrs.
     and_then (xattr_access_check key W_OK inode_attrs context) (\<lambda>_.
     let t' = t\<lparr>XATTR_TABLE := table_insert (inode, key) value (XATTR_TABLE t)\<rparr>
     in Ok ((), Some (put_attrs inode (inode_attrs\<lparr>attr_last_metadata_changed := now 0\<rparr>) t')))))"

definition remove_xattr ::
    "clock \<Rightarrow> metadata_storage \<Rightarrow> u64 \<Rightarrow> string \<Rightarrow> UserContext
      \<Rightarrow> (ErrorCode, unit) res \<times> metadata_storage" where
  "remove_xattr now m inode key context =
     write_txn m (\<lambda>t.
     and_then (attrs_of t inode) (\<lambda>inode_attrs.
     and_then (xattr_access_check key W_OK inode_attrs context) (\<lambda>_.
     and_then (ensure (table_get (XATTR_TABLE t) (inode, key) \<noteq> None) MissingXattrKey) (\<lambda>_.
     let t' = t\<lparr>XATTR_TABLE := table_remove (inode, key) (XATTR_TABLE t)\<rparr>
     in Ok ((), Some (put_attrs inode (inode_attrs\<lparr>attr_last_metadata_changed := now 0\<rparr>) t'))))))"

section \<open>Attributes: writing\<close>

definition UTIME_NOW :: int where "UTIME_NOW = 2 ^ 30 - 1"

definition is_now :: "Timestamp option \<Rightarrow> bool" where
  "is_now time = (case time of None \<Rightarrow> False | Some x \<Rightarrow> ts_nanos x = UTIME_NOW)"

definition utimens ::
    "clock \<Rightarrow> metadata_storage \<Rightarrow> u64 \<Rightarrow> Timestamp option \<Rightarrow> Timestamp option \<Rightarrow> UserContext
      \<Rightarrow> (ErrorCode, unit) res \<times> metadata_storage" where
  "utimens now m inode atime mtime context =
     write_txn m (\<lambda>t.
     and_then (attrs_of t inode) (\<lambda>inode_attrs.
     and_then (ensure (\<not> (attr_uid inode_attrs \<noteq> ctx_uid context \<and> ctx_uid context \<noteq> 0
         \<and> (\<not> is_now atime \<or> \<not> is_now mtime))) OperationNotPermitted) (\<lambda>_.
     and_then (ensure (\<not> (attr_uid inode_attrs \<noteq> ctx_uid context
         \<and> \<not> may_access inode_attrs context W_OK)) AccessDenied) (\<lambda>_.
     let a1 = (case atime of
                 None \<Rightarrow> inode_attrs
               | Some atime' \<Rightarrow>
                   inode_attrs\<lparr>attr_last_accessed := if is_now atime then now 0 else atime'\<rparr>);
         a2 = (case mtime of
                 None \<Rightarrow> a1
               | Some mtime' \<Rightarrow>
                   a1\<lparr>attr_last_modified :=
                        if is_now mtime then now (if is_now atime then 1 else 0) else mtime'\<rparr>)
     in Ok ((), Some (put_attrs inode a2 t))))))"

definition S_ISUID :: u32 where "S_ISUID = 0x800"
definition S_ISGID :: u32 where "S_ISGID = 0x400"
definition S_ISVTX :: u32 where "S_ISVTX = 0x200"

definition chmod ::
    "clock \<Rightarrow> metadata_storage \<Rightarrow> u64 \<Rightarrow> u32 \<Rightarrow> UserContext
      \<Rightarrow> (ErrorCode, unit) res \<times> metadata_storage" where
  "chmod now m inode mode context =
     write_txn m (\<lambda>t.
     and_then (attrs_of t inode) (\<lambda>inode_attrs.
     and_then (ensure (\<not> (ctx_uid context \<noteq> 0 \<and> attr_uid inode_attrs \<noteq> ctx_uid context))
         OperationNotPermitted) (\<lambda>_.
     let mode' = mode AND NOT (S_ISUID OR S_ISGID);
         a = inode_attrs\<lparr>attr_mode := ucast mode', attr_last_metadata_changed := now 0\<rparr>
     in Ok ((), Some (put_attrs inode a t)))))"

definition chown ::
    "clock \<Rightarrow> metadata_storage \<Rightarrow> u64 \<Rightarrow> u32 option \<Rightarrow> u32 option \<Rightarrow> UserContext
      \<Rightarrow> (ErrorCode, unit) res \<times> metadata_storage" where
  "chown now m inode uid gid context =
     write_txn m (\<lambda>t.
     and_then (attrs_of t inode) (\<lambda>inode_attrs.
     and_then (ensure (case uid of
           None \<Rightarrow> True
         | Some u \<Rightarrow> \<not> (ctx_uid context \<noteq> 0
             \<and> \<not> (u = attr_uid inode_attrs \<and> ctx_uid context = attr_uid inode_attrs)))
         OperationNotPermitted) (\<lambda>_.
     and_then (ensure (\<not> (gid \<noteq> None \<and> ctx_uid context \<noteq> 0 \<and> ctx_uid context \<noteq> attr_uid inode_attrs))
         OperationNotPermitted) (\<lambda>_.
     let a1 = (case uid of None \<Rightarrow> inode_attrs | Some u \<Rightarrow> inode_attrs\<lparr>attr_uid := u\<rparr>);
         a2 = (case gid of None \<Rightarrow> a1 | Some g \<Rightarrow> a1\<lparr>attr_gid := g\<rparr>);
         a3 = (if uid \<noteq> None \<or> gid \<noteq> None then a2\<lparr>attr_last_metadata_changed := now 0\<rparr> else a2)
     in Ok ((), Some (put_attrs inode a3 t))))))"

definition hardlink_stage0_link_increment ::
    "clock \<Rightarrow> metadata_storage \<Rightarrow> u64 \<Rightarrow> (ErrorCode, Timestamp) res \<times> metadata_storage" where
  "hardlink_stage0_link_increment now m inode =
     write_txn m (\<lambda>t.
     and_then (attrs_of t inode) (\<lambda>inode_attrs.
     let a = inode_attrs\<lparr>attr_hardlinks := attr_hardlinks inode_attrs + 1,
                         attr_last_metadata_changed := now 0\<rparr>
     in Ok (attr_last_metadata_changed inode_attrs, Some (put_attrs inode a t))))"

definition hardlink_rollback ::
    "metadata_storage \<Rightarrow> u64 \<Rightarrow> Timestamp \<Rightarrow> (ErrorCode, unit) res \<times> metadata_storage" where
  "hardlink_rollback m inode last_metadata_changed =
     write_txn m (\<lambda>t.
     and_then (attrs_of t inode) (\<lambda>inode_attrs.
     let a = inode_attrs\<lparr>attr_hardlinks := attr_hardlinks inode_attrs - 1,
                         attr_last_metadata_changed := last_metadata_changed\<rparr>
     in Ok ((), Some (put_attrs inode a t))))"

definition update_metadata_changed_time ::
    "clock \<Rightarrow> metadata_storage \<Rightarrow> u64 \<Rightarrow> (ErrorCode, unit) res \<times> metadata_storage" where
  "update_metadata_changed_time now m inode =
     write_txn m (\<lambda>t.
     and_then (attrs_of t inode) (\<lambda>inode_attrs.
     Ok ((), Some (put_attrs inode (inode_attrs\<lparr>attr_last_metadata_changed := now 0\<rparr>) t))))"

text \<open>\<^verbatim>\<open>MetadataStorage::truncate\<close>.\<close>

definition truncate_attrs ::
    "clock \<Rightarrow> metadata_storage \<Rightarrow> u64 \<Rightarrow> u64 \<Rightarrow> UserContext
      \<Rightarrow> (ErrorCode, unit) res \<times> metadata_storage" where
  "truncate_attrs now m inode new_length context =
     (if MAX_FILE_SIZE < new_length then (Err FileTooLarge, m)
      else
        write_txn m (\<lambda>t.
        and_then (attrs_of t inode) (\<lambda>inode_attrs.
        and_then (ensure (may_access inode_attrs context W_OK) AccessDenied) (\<lambda>_.
        let a = inode_attrs\<lparr>attr_size := new_length, attr_last_metadata_changed := now 0,
                            attr_last_modified := now 1\<rparr>
        in Ok ((), Some (put_attrs inode a t))))))"

text \<open>\<^verbatim>\<open>MetadataStorage::write\<close>.\<close>

definition write_attrs ::
    "clock \<Rightarrow> metadata_storage \<Rightarrow> u64 \<Rightarrow> u64 \<Rightarrow> u32 \<Rightarrow> (ErrorCode, unit) res \<times> metadata_storage" where
  "write_attrs now m inode offset len =
     write_txn m (\<lambda>t.
     and_then (attrs_of t inode) (\<lambda>inode_attrs.
     let a = inode_attrs\<lparr>attr_size := max (attr_size inode_attrs) (ucast len + offset),
                         attr_last_metadata_changed := now 0, attr_last_modified := now 1\<rparr>
     in Ok ((), Some (put_attrs inode a t))))"

section \<open>Directory entries: writing\<close>

definition create_link ::
    "clock \<Rightarrow> metadata_storage \<Rightarrow> u64 \<Rightarrow> u64 \<Rightarrow> string \<Rightarrow> UserContext \<Rightarrow> FileKind
      \<Rightarrow> (ErrorCode, unit) res \<times> metadata_storage" where
  "create_link now m inode parent name context inode_kind =
     (case lookup m parent name context of
        Err e \<Rightarrow> (Err e, m)
      | Panic \<Rightarrow> (Panic, m)
      | Ok (Some _) \<Rightarrow> (Err AlreadyExists, m)
      | Ok None \<Rightarrow>
          write_txn m (\<lambda>t.
          and_then (attrs_of t parent) (\<lambda>parent_attrs.
          and_then (ensure (may_access parent_attrs context W_OK) AccessDenied) (\<lambda>_.
          let a = parent_attrs\<lparr>attr_last_modified := now 0, attr_last_metadata_changed := now 1\<rparr>;
              t' = put_attrs parent a t
          in Ok ((), Some (t'\<lparr>DIRECTORY_TABLE :=
               table_insert (parent, name) (inode, inode_kind) (DIRECTORY_TABLE t')\<rparr>))))))"

text \<open>The entry to replace must be there: \<^verbatim>\<open>insert(..).unwrap().unwrap()\<close>.\<close>

definition replace_link ::
    "clock \<Rightarrow> metadata_storage \<Rightarrow> u64 \<Rightarrow> string \<Rightarrow> u64 \<Rightarrow> FileKind \<Rightarrow> UserContext
      \<Rightarrow> (ErrorCode, u64) res \<times> metadata_storage" where
  "replace_link now m parent name new_inode inode_kind context =
     write_txn m (\<lambda>t.
     and_then (attrs_of t parent) (\<lambda>parent_attrs.
     and_then (ensure (may_access parent_attrs context W_OK) AccessDenied) (\<lambda>_.
     let a = parent_attrs\<lparr>attr_last_modified := now 0, attr_last_metadata_changed := now 1\<rparr>;
         t' = put_attrs parent a t
     in and_then (expect (table_get (DIRECTORY_TABLE t') (parent, name))) (\<lambda>(old_inode, _).
        Ok (old_inode, Some (t'\<lparr>DIRECTORY_TABLE :=
          table_insert (parent, name) (new_inode, inode_kind) (DIRECTORY_TABLE t')\<rparr>))))))"

definition update_parent ::
    "metadata_storage \<Rightarrow> u64 \<Rightarrow> u64 \<Rightarrow> (ErrorCode, unit) res \<times> metadata_storage" where
  "update_parent m inode new_parent =
     write_txn m (\<lambda>t.
     and_then (expect (table_get (ATTR_TABLE t) inode)) (\<lambda>attrs.
     and_then (assert_that (attr_kind attrs = Directory)) (\<lambda>_.
     Ok ((), Some (t\<lparr>PARENTS_TABLE := table_insert inode new_parent (PARENTS_TABLE t)\<rparr>)))))"

text \<open>
  The result is the inode of the entry and whether it was removed. The mutex is taken with
  \<^verbatim>\<open>unwrap\<close> here.
\<close>

definition remove_link ::
    "clock \<Rightarrow> metadata_storage \<Rightarrow> u64 \<Rightarrow> string \<Rightarrow> (u64 \<times> u32) option \<Rightarrow> UserContext
      \<Rightarrow> (ErrorCode, u64 \<times> bool) res \<times> metadata_storage" where
  "remove_link now m parent name link_inode_and_uid context =
     (if ms_poisoned m then (Panic, m)
      else
        write_txn m (\<lambda>t.
        and_then (attrs_of t parent) (\<lambda>parent_attrs.
        and_then (ok_or (table_get (DIRECTORY_TABLE t) (parent, name)) DoesNotExist) (\<lambda>(inode, _).
        if (case link_inode_and_uid of None \<Rightarrow> False | Some (retrieved_inode, _) \<Rightarrow> retrieved_inode \<noteq> inode)
        then Ok ((inode, False), None)
        else if \<not> may_access parent_attrs context W_OK then Err AccessDenied
        else
          let uid = ctx_uid context;
              sticky = attr_mode parent_attrs AND ucast S_ISVTX \<noteq> 0 \<and> uid \<noteq> attr_uid parent_attrs \<and> uid \<noteq> 0;
              a = parent_attrs\<lparr>attr_last_metadata_changed := now 0, attr_last_modified := now 1\<rparr>;
              t' = put_attrs parent a t;
              commit = Ok ((inode, True),
                Some (t'\<lparr>DIRECTORY_TABLE := table_remove (parent, name) (DIRECTORY_TABLE t')\<rparr>))
          in if sticky then
               case link_inode_and_uid of
                 Some (_, inode_uid) \<Rightarrow> if uid \<noteq> inode_uid then Err AccessDenied else commit
               | None \<Rightarrow> Ok ((inode, False), None)
             else commit))))"

section \<open>Inodes\<close>

definition allocate_inode :: "metadata_storage \<Rightarrow> u64 \<times> metadata_storage" where
  "allocate_inode m =
     (ms_next_inode m, m\<lparr>ms_next_inode := ms_next_inode m + ms_num_raft_groups m\<rparr>)"

text \<open>The attributes a new inode starts with (directories have a self link).\<close>

definition new_inode_metadata :: "clock \<Rightarrow> u64 \<Rightarrow> u32 \<Rightarrow> u32 \<Rightarrow> u16 \<Rightarrow> FileKind \<Rightarrow> InodeAttributes" where
  "new_inode_metadata now inode uid gid mode kind =
     \<lparr>attr_inode = inode,
      attr_size = if kind = Directory then BLOCK_SIZE else 0,
      attr_last_accessed = now 0, attr_last_modified = now 1, attr_last_metadata_changed = now 2,
      attr_kind = kind,
      attr_mode = mode AND ucast (NOT (S_ISUID OR S_ISGID)),
      attr_hardlinks = if kind = Directory then 2 else 1,
      attr_uid = uid, attr_gid = gid\<rparr>"

definition create_inode ::
    "clock \<Rightarrow> metadata_storage \<Rightarrow> u64 \<Rightarrow> u32 \<Rightarrow> u32 \<Rightarrow> u16 \<Rightarrow> FileKind
      \<Rightarrow> (ErrorCode, u64 \<times> InodeAttributes) res \<times> metadata_storage" where
  "create_inode now m parent uid gid mode kind =
     (if ms_poisoned m then (Err Corrupted, m)
      else
        let (inode, m') = allocate_inode m;
            inode_metadata = new_inode_metadata now inode uid gid mode kind
        in write_txn m' (\<lambda>t.
             let t1 = put_attrs inode inode_metadata t;
                 t2 = (if kind = Directory
                       then t1\<lparr>PARENTS_TABLE := table_insert inode parent (PARENTS_TABLE t1)\<rparr> else t1)
             in Ok ((inode, inode_metadata), Some t2)))"

definition decrement_inode_link_count ::
    "clock \<Rightarrow> metadata_storage \<Rightarrow> u64 \<Rightarrow> u32 \<Rightarrow> (ErrorCode, u64 option) res \<times> metadata_storage" where
  "decrement_inode_link_count now m inode count =
     write_txn m (\<lambda>t.
     and_then (attrs_of t inode) (\<lambda>inode_attrs.
     let a = inode_attrs\<lparr>attr_hardlinks := attr_hardlinks inode_attrs - count,
                         attr_last_metadata_changed := now 0\<rparr>
     in if attr_hardlinks a = 0 then
          let t1 = t\<lparr>ATTR_TABLE := table_remove inode (ATTR_TABLE t)\<rparr>;
              t2 = t1\<lparr>XATTR_TABLE := table_clear (inode, []) (inode + 1, []) (XATTR_TABLE t1)\<rparr>
          in if attr_kind a = Directory then
               let t3 = t2\<lparr>PARENTS_TABLE := table_remove inode (PARENTS_TABLE t2)\<rparr>
               in and_then (assert_that (entries_of inode (DIRECTORY_TABLE t3) = [])) (\<lambda>_. Ok (None, Some t3))
             else Ok (Some inode, Some t2)
        else Ok (None, Some (put_attrs inode a t))))"

end
