(* ===== verification/File_Storage.thy ===== *)
theory File_Storage
  imports Metadata_Storage Data_Storage
begin

text \<open>
  The file storage of a raft group on one node: \<^verbatim>\<open>src/src/storage/local/file_storage.rs\<close>, and the
  application of a committed request to it, \<^verbatim>\<open>src/src/storage/message_handlers/write_handler.rs\<close>.

  A file storage is a metadata storage and a data storage. The methods keep the source's names
  with the prefix \<open>fs_\<close>; each returns its result and the storage it leaves.
\<close>

section \<open>File storage\<close>

record 'p file_storage =
  fs_data :: "'p data_storage"
  fs_metadata :: metadata_storage

definition build_fileattr_response :: "InodeAttributes \<Rightarrow> u32 option \<Rightarrow> EntryMetadata" where
  "build_fileattr_response attributes directory_entries =
     \<lparr>em_inode = attr_inode attributes,
      em_size_bytes = attr_size attributes,
      em_size_blocks = blocks attributes,
      em_last_access_time = attr_last_accessed attributes,
      em_last_modified_time = attr_last_modified attributes,
      em_last_metadata_modified_time = attr_last_metadata_changed attributes,
      em_kind = attr_kind attributes,
      em_mode = attr_mode attributes,
      em_hard_links = attr_hardlinks attributes,
      em_user_id = attr_uid attributes,
      em_group_id = attr_gid attributes,
      em_device_id = 0,
      em_block_size = ucast BLOCK_SIZE,
      em_directory_entries = directory_entries\<rparr>"

definition to_fileattr_response :: "InodeAttributes \<Rightarrow> u32 option \<Rightarrow> Response" where
  "to_fileattr_response attributes directory_entries =
     Response.EntryMetadata (build_fileattr_response attributes directory_entries)"

text \<open>
  \<open>connect\<close> stands for \<^verbatim>\<open>TcpPeerClient::new\<close>, \<open>db\<close> and \<open>files\<close> for what the directories hold. Peers
  with the same node id replace each other in the \<^verbatim>\<open>HashMap\<close>; the result is \<open>None\<close> when the start
  of the metadata storage does not end.
\<close>

definition FileStorage_new ::
    "(128 word \<Rightarrow> u16 \<Rightarrow> u64) \<Rightarrow> (SocketAddr \<Rightarrow> 'p) \<Rightarrow> clock \<Rightarrow> u64 \<Rightarrow> u16 \<Rightarrow> u16 \<Rightarrow> string
      \<Rightarrow> SocketAddr list \<Rightarrow> tables \<Rightarrow> (string \<rightharpoonup> bytes) \<Rightarrow> (ErrorCode, 'p file_storage) res option" where
  "FileStorage_new v6_hash connect now node_id raft_group num_raft_groups storage_dir peers db files =
     (let peer_clients = foldl (\<lambda>m peer. AList.update (node_id_from_address v6_hash peer) (connect peer) m) [] peers;
          data_dir = path_join storage_dir ''data''
      in map_option
           (\<lambda>m. and_then (DataStorage_new node_id data_dir peer_clients files)
              (\<lambda>d. map_ok (\<lambda>metadata. \<lparr>fs_data = d, fs_metadata = metadata\<rparr>) m))
           (MetadataStorage_new now raft_group num_raft_groups db))"

definition on_metadata ::
    "'p file_storage \<Rightarrow> (metadata_storage \<Rightarrow> ('e, 'a) res \<times> metadata_storage) \<Rightarrow> ('e, 'a) res \<times> 'p file_storage" where
  "on_metadata fs op =
     (let (r, m) = op (fs_metadata fs) in (r, fs\<lparr>fs_metadata := m\<rparr>))"

definition on_data ::
    "'p file_storage \<Rightarrow> ('p data_storage \<Rightarrow> ('e, 'a) res \<times> 'p data_storage) \<Rightarrow> ('e, 'a) res \<times> 'p file_storage" where
  "on_data fs op = (let (r, d) = op (fs_data fs) in (r, fs\<lparr>fs_data := d\<rparr>))"

subsection \<open>Reading\<close>

primrec check_inodes :: "'p data_storage \<Rightarrow> u64 list \<Rightarrow> (ErrorCode, unit) res" where
  "check_inodes d [] = Ok ()"
| "check_inodes d (inode # inodes) =
     (if \<not> file_inode_exists d inode then Err Corrupted else check_inodes d inodes)"

definition fs_local_data_checksum ::
    "(bytes \<Rightarrow> bytes) \<Rightarrow> (string \<Rightarrow> (string \<rightharpoonup> bytes) \<Rightarrow> (io_error, string \<times> bool) res list)
      \<Rightarrow> 'p file_storage \<Rightarrow> (ErrorCode, bytes) res" where
  "fs_local_data_checksum sha256 walk fs =
     and_then (non_directory_inodes (fs_metadata fs)) (\<lambda>inodes.
     and_then (check_inodes (fs_data fs) inodes) (\<lambda>_.
     map_err (\<lambda>_. Uncategorized) (local_data_checksum sha256 walk (fs_data fs))))"

definition fs_statfs :: Response where
  "fs_statfs = Response.FilesystemInformation (ucast BLOCK_SIZE) MAX_NAME_LENGTH"

definition fs_lookup :: "'p file_storage \<Rightarrow> u64 \<Rightarrow> string \<Rightarrow> UserContext \<Rightarrow> (ErrorCode, Response) res" where
  "fs_lookup fs parent name context =
     and_then (lookup (fs_metadata fs) parent name context) (\<lambda>maybe_inode.
     case maybe_inode of Some inode \<Rightarrow> Ok (Response.Inode inode) | None \<Rightarrow> Err DoesNotExist)"

definition fs_readdir :: "'p file_storage \<Rightarrow> u64 \<Rightarrow> (ErrorCode, Response) res" where
  "fs_readdir fs inode =
     map_ok (\<lambda>listing. Response.DirectoryListing
         (map (\<lambda>(inode, filename, file_type). \<lparr>ode_inode = inode, ode_name = filename, ode_kind = file_type\<rparr>) listing))
       (readdir (fs_metadata fs) inode)"

definition fs_getattr :: "'p file_storage \<Rightarrow> u64 \<Rightarrow> (ErrorCode, Response) res" where
  "fs_getattr fs inode =
     map_ok (\<lambda>(attributes, directory_entries). to_fileattr_response attributes directory_entries)
       (get_attributes (fs_metadata fs) inode)"

definition fs_fsync :: "'p file_storage \<Rightarrow> u64 \<Rightarrow> (ErrorCode, Response) res" where
  "fs_fsync fs inode = map_ok (\<lambda>_. Response.Empty) (fsync (fs_data fs) inode)"

definition fs_read ::
    "('p \<Rightarrow> u64 \<Rightarrow> u64 \<Rightarrow> u32 \<Rightarrow> CommitId \<Rightarrow> (io_error, bytes) res)
      \<Rightarrow> 'p file_storage \<Rightarrow> u64 \<Rightarrow> u64 \<Rightarrow> u32 \<Rightarrow> CommitId \<Rightarrow> (ErrorCode, Response) res" where
  "fs_read peer_read_raw fs inode offset read_size required_commit =
     map_ok Response.Read (read peer_read_raw (fs_data fs) inode offset read_size required_commit)"

definition fs_read_raw :: "'p file_storage \<Rightarrow> u64 \<Rightarrow> u64 \<Rightarrow> u32 \<Rightarrow> (ErrorCode, Response) res" where
  "fs_read_raw fs inode offset read_size =
     map_ok Response.Read (map_err into_error_code (read_raw (fs_data fs) inode offset read_size))"

definition fs_get_xattr :: "'p file_storage \<Rightarrow> u64 \<Rightarrow> string \<Rightarrow> UserContext \<Rightarrow> (ErrorCode, Response) res" where
  "fs_get_xattr fs inode key context = map_ok Response.Read (get_xattr (fs_metadata fs) inode key context)"

definition fs_list_xattrs :: "'p file_storage \<Rightarrow> u64 \<Rightarrow> (ErrorCode, Response) res" where
  "fs_list_xattrs fs inode = map_ok Response.Xattrs (list_xattrs (fs_metadata fs) inode)"

subsection \<open>Writing\<close>

text \<open>\<open>answer\<close> ends a method: the operation on the metadata, and the response to a success.\<close>

definition answer :: "('a \<Rightarrow> Response) \<Rightarrow> (ErrorCode, 'a) res \<times> 'p file_storage \<Rightarrow> (ErrorCode, Response) res \<times> 'p file_storage" where
  "answer f rs = (map_ok f (fst rs), snd rs)"

definition fs_truncate ::
    "clock \<Rightarrow> 'p file_storage \<Rightarrow> u64 \<Rightarrow> u64 \<Rightarrow> UserContext \<Rightarrow> (ErrorCode, Response) res \<times> 'p file_storage" where
  "fs_truncate now fs inode new_length context =
     and_then_st (on_metadata fs (\<lambda>m. truncate_attrs now m inode new_length context)) (\<lambda>_ fs.
     let (r, fs) = on_data fs (\<lambda>d. Data_Storage.truncate d inode new_length)
     in (and_then (unwrap r) (\<lambda>_. Ok Response.Empty), fs))"

definition fs_utimens ::
    "clock \<Rightarrow> 'p file_storage \<Rightarrow> u64 \<Rightarrow> Timestamp option \<Rightarrow> Timestamp option \<Rightarrow> UserContext
      \<Rightarrow> (ErrorCode, Response) res \<times> 'p file_storage" where
  "fs_utimens now fs inode atime mtime context =
     (if inode = ROOT_INODE then (Panic, fs)
      else answer (\<lambda>_. Response.Empty) (on_metadata fs (\<lambda>m. utimens now m inode atime mtime context)))"

definition fs_chmod ::
    "clock \<Rightarrow> 'p file_storage \<Rightarrow> u64 \<Rightarrow> u32 \<Rightarrow> UserContext \<Rightarrow> (ErrorCode, Response) res \<times> 'p file_storage" where
  "fs_chmod now fs inode mode context =
     (if inode = ROOT_INODE then (Panic, fs)
      else answer (\<lambda>_. Response.Empty) (on_metadata fs (\<lambda>m. chmod now m inode mode context)))"

definition fs_chown ::
    "clock \<Rightarrow> 'p file_storage \<Rightarrow> u64 \<Rightarrow> u32 option \<Rightarrow> u32 option \<Rightarrow> UserContext
      \<Rightarrow> (ErrorCode, Response) res \<times> 'p file_storage" where
  "fs_chown now fs inode uid gid context =
     (if inode = ROOT_INODE then (Panic, fs)
      else answer (\<lambda>_. Response.Empty) (on_metadata fs (\<lambda>m. chown now m inode uid gid context)))"

text \<open>\<^verbatim>\<open>FileStorage::write\<close>: the reply is the size of the whole write, not of this node's share.\<close>

definition fs_write ::
    "clock \<Rightarrow> 'p file_storage \<Rightarrow> u64 \<Rightarrow> u64 \<Rightarrow> bytes \<Rightarrow> (ErrorCode, Response) res \<times> 'p file_storage" where
  "fs_write now fs inode offset data =
     and_then_st (on_metadata fs (\<lambda>m. write_attrs now m inode offset (of_nat (length data)))) (\<lambda>_ fs.
     let (write_result, fs) = on_data fs (\<lambda>d. write_local_blocks d inode offset data);
         total_bytes = of_nat (length data)
     in (map_err into_error_code (map_ok (\<lambda>_. Response.Written total_bytes) write_result), fs))"

definition fs_hardlink_stage0_link_increment ::
    "clock \<Rightarrow> 'p file_storage \<Rightarrow> u64 \<Rightarrow> (ErrorCode, Response) res \<times> 'p file_storage" where
  "fs_hardlink_stage0_link_increment now fs inode =
     and_then_st (on_metadata fs (\<lambda>m. hardlink_stage0_link_increment now m inode)) (\<lambda>rollback fs.
     (map_ok (\<lambda>(attributes, directory_size).
          Response.HardlinkTransaction rollback (build_fileattr_response attributes directory_size))
        (get_attributes (fs_metadata fs) inode), fs))"

definition fs_create_link ::
    "clock \<Rightarrow> 'p file_storage \<Rightarrow> u64 \<Rightarrow> u64 \<Rightarrow> string \<Rightarrow> UserContext \<Rightarrow> FileKind
      \<Rightarrow> (ErrorCode, Response) res \<times> 'p file_storage" where
  "fs_create_link now fs inode new_parent new_name context inode_kind =
     answer (\<lambda>_. Response.Empty)
       (on_metadata fs (\<lambda>m. create_link now m inode new_parent new_name context inode_kind))"

definition fs_replace_link ::
    "clock \<Rightarrow> 'p file_storage \<Rightarrow> u64 \<Rightarrow> string \<Rightarrow> u64 \<Rightarrow> FileKind \<Rightarrow> UserContext
      \<Rightarrow> (ErrorCode, Response) res \<times> 'p file_storage" where
  "fs_replace_link now fs parent name new_inode kind context =
     answer Response.Inode (on_metadata fs (\<lambda>m. replace_link now m parent name new_inode kind context))"

definition fs_update_parent ::
    "'p file_storage \<Rightarrow> u64 \<Rightarrow> u64 \<Rightarrow> (ErrorCode, Response) res \<times> 'p file_storage" where
  "fs_update_parent fs inode new_parent =
     answer (\<lambda>_. Response.Empty) (on_metadata fs (\<lambda>m. update_parent m inode new_parent))"

definition fs_update_metadata_changed_time ::
    "clock \<Rightarrow> 'p file_storage \<Rightarrow> u64 \<Rightarrow> (ErrorCode, Response) res \<times> 'p file_storage" where
  "fs_update_metadata_changed_time now fs inode =
     answer (\<lambda>_. Response.Empty) (on_metadata fs (\<lambda>m. update_metadata_changed_time now m inode))"

definition fs_hardlink_rollback ::
    "'p file_storage \<Rightarrow> u64 \<Rightarrow> Timestamp \<Rightarrow> (ErrorCode, Response) res \<times> 'p file_storage" where
  "fs_hardlink_rollback fs inode last_metadata_changed =
     answer (\<lambda>_. Response.Empty) (on_metadata fs (\<lambda>m. hardlink_rollback m inode last_metadata_changed))"

definition fs_set_xattr ::
    "clock \<Rightarrow> 'p file_storage \<Rightarrow> u64 \<Rightarrow> string \<Rightarrow> bytes \<Rightarrow> UserContext
      \<Rightarrow> (ErrorCode, Response) res \<times> 'p file_storage" where
  "fs_set_xattr now fs inode key value context =
     answer (\<lambda>_. Response.Empty) (on_metadata fs (\<lambda>m. set_xattr now m inode key value context))"

definition fs_remove_xattr ::
    "clock \<Rightarrow> 'p file_storage \<Rightarrow> u64 \<Rightarrow> string \<Rightarrow> UserContext
      \<Rightarrow> (ErrorCode, Response) res \<times> 'p file_storage" where
  "fs_remove_xattr now fs inode key context =
     answer (\<lambda>_. Response.Empty) (on_metadata fs (\<lambda>m. remove_xattr now m inode key context))"

definition fs_remove_link ::
    "clock \<Rightarrow> 'p file_storage \<Rightarrow> u64 \<Rightarrow> string \<Rightarrow> (u64 \<times> u32) option \<Rightarrow> UserContext
      \<Rightarrow> (ErrorCode, Response) res \<times> 'p file_storage" where
  "fs_remove_link now fs parent name link_inode_and_uid context =
     answer (\<lambda>(deleted_inode, processed). Response.RemovedInode deleted_inode processed)
       (on_metadata fs (\<lambda>m. remove_link now m parent name link_inode_and_uid context))"

definition fs_decrement_inode_link_count ::
    "clock \<Rightarrow> 'p file_storage \<Rightarrow> u64 \<Rightarrow> u32 \<Rightarrow> (ErrorCode, Response) res \<times> 'p file_storage" where
  "fs_decrement_inode_link_count now fs inode count =
     and_then_st (on_metadata fs (\<lambda>m. decrement_inode_link_count now m inode count)) (\<lambda>deleted fs.
     case deleted of
       None \<Rightarrow> (Ok Response.Empty, fs)
     | Some deleted_inode \<Rightarrow>
         let (r, fs) = on_data fs (\<lambda>d. delete d deleted_inode)
         in (and_then (unwrap r) (\<lambda>_. Ok Response.Empty), fs))"

definition fs_create_inode ::
    "clock \<Rightarrow> 'p file_storage \<Rightarrow> u64 \<Rightarrow> u32 \<Rightarrow> u32 \<Rightarrow> u16 \<Rightarrow> FileKind
      \<Rightarrow> (ErrorCode, Response) res \<times> 'p file_storage" where
  "fs_create_inode now fs parent uid gid mode kind =
     and_then_st (on_metadata fs (\<lambda>m. create_inode now m parent uid gid mode kind)) (\<lambda>(_, attributes) fs.
     let (r, fs) = (if kind \<noteq> Directory then on_data fs (\<lambda>d. Data_Storage.truncate d (attr_inode attributes) 0)
                    else (Ok (), fs));
         directory_entries = (if kind = Directory then Some 0 else None)
     in (and_then (unwrap r) (\<lambda>_. Ok (to_fileattr_response attributes directory_entries)), fs))"

section \<open>Applying a committed request\<close>

fun commit_write ::
    "clock \<Rightarrow> Request \<Rightarrow> 'p file_storage \<Rightarrow> (ErrorCode, Response) res \<times> 'p file_storage" where
  "commit_write now (Request.Fsync inode) fs = (fs_fsync fs inode, fs)"
| "commit_write now (Request.HardlinkRollback inode last_modified_time) fs =
     fs_hardlink_rollback fs inode last_modified_time"
| "commit_write now (Request.Utimens inode atime mtime context) fs =
     fs_utimens now fs inode atime mtime context"
| "commit_write now (Request.SetXattr inode key value context) fs =
     fs_set_xattr now fs inode key value context"
| "commit_write now (Request.RemoveXattr inode key context) fs = fs_remove_xattr now fs inode key context"
| "commit_write now (Request.Chmod inode mode context) fs = fs_chmod now fs inode mode context"
| "commit_write now (Request.Chown inode uid gid context) fs = fs_chown now fs inode uid gid context"
| "commit_write now (Request.Truncate inode new_length context) fs =
     fs_truncate now fs inode new_length context"
| "commit_write now (Request.Write inode offset data) fs = fs_write now fs inode offset data"
| "commit_write now (Request.RemoveLink parent name link_inode_and_uid lock_id context) fs =
     fs_remove_link now fs parent name
       (map_option (\<lambda>x. (pair_inode x, pair_uid x)) link_inode_and_uid) context"
| "commit_write now (Request.ReplaceLink parent name new_inode kind lock_id context) fs =
     fs_replace_link now fs parent name new_inode kind context"
| "commit_write now (Request.CreateLink parent name inode kind lock_id context) fs =
     fs_create_link now fs inode parent name context kind"
| "commit_write now (Request.CreateInode raft_group parent uid gid mode kind) fs =
     fs_create_inode now fs parent uid gid mode kind"
| "commit_write now (Request.HardlinkIncrement inode) fs = fs_hardlink_stage0_link_increment now fs inode"
| "commit_write now (Request.UpdateParent inode new_parent lock_id) fs = fs_update_parent fs inode new_parent"
| "commit_write now (Request.UpdateMetadataChangedTime inode lock_id) fs =
     fs_update_metadata_changed_time now fs inode"
| "commit_write now (Request.DecrementInode inode decrement_count lock_id) fs =
     fs_decrement_inode_link_count now fs inode decrement_count"
| "commit_write now _ fs = (Panic, fs)"

end
