(* ===== verification/Metadata_Invariants.thy ===== *)
theory Metadata_Invariants
  imports Metadata_Storage
begin

text \<open>
  What every history of metadata operations keeps: the laws of a transaction (\<open>write_txn\<close>),
  the invariant \<open>storage_wf\<close> of the tables and the inode counter, its preservation by each
  operation, and the step relation \<open>metadata_step\<close> over all of them.
\<close>

section \<open>Transactions\<close>

lemma durability_tick_simps [simp]:
  "fst (durability_tick m) = (ms_durability_counter m mod 100 = 0)"
  "snd (durability_tick m) = m\<lparr>ms_durability_counter := ms_durability_counter m + 1\<rparr>"
  by (simp_all add: durability_tick_def Let_def)

lemma write_txn_fst [txn_simps]:
  "fst (write_txn m body) = (if ms_poisoned m then Err Corrupted else map_ok fst (body (ms_storage m)))"
  by (simp add: write_txn_def split_beta split: res.split option.split)

lemma write_txn_frame [simp]:
  "ms_next_inode (snd (write_txn m body)) = ms_next_inode m"
  "ms_num_raft_groups (snd (write_txn m body)) = ms_num_raft_groups m"
  by (simp_all add: write_txn_def split_beta split: res.split option.split)

definition committed :: "('e, 'a \<times> tables option) res \<Rightarrow> tables \<Rightarrow> tables" where
  "committed r t = (case r of Ok (_, Some t') \<Rightarrow> t' | _ \<Rightarrow> t)"

lemma committed_simps [simp]:
  "committed (Ok (a, Some t')) t = t'" "committed (Ok (a, None)) t = t"
  "committed (Err e) t = t" "committed Panic t = t"
  by (simp_all add: committed_def)

lemma write_txn_storage [txn_simps]:
  "ms_storage (snd (write_txn m body)) =
     (if ms_poisoned m then ms_storage m else committed (body (ms_storage m)) (ms_storage m))"
  by (simp add: write_txn_def split_beta split: res.split option.split)

lemma write_txn_durable:
  "ms_durable (snd (write_txn m body)) = ms_durable m \<or>
   ms_durable (snd (write_txn m body)) = ms_storage (snd (write_txn m body))"
  by (simp add: write_txn_def split_beta split: res.split option.split)

lemma write_txn_poisoned [txn_simps]:
  "ms_poisoned (snd (write_txn m body)) \<longleftrightarrow> ms_poisoned m \<or> body (ms_storage m) = Panic"
  by (simp add: write_txn_def split_beta split: res.split option.split)

text \<open>A failed transaction leaves the tables as they were.\<close>

lemma write_txn_failed:
  "\<not> is_ok (fst (write_txn m body)) \<Longrightarrow> ms_storage (snd (write_txn m body)) = ms_storage m"
  by (simp add: write_txn_fst write_txn_storage split: if_splits)
    (cases "body (ms_storage m)", auto)

lemma attrs_of_eq_Ok [res_simps]: "attrs_of t inode = Ok a \<longleftrightarrow> table_get (ATTR_TABLE t) inode = Some a"
  by (simp add: attrs_of_def ok_or_eq_Ok)

lemma put_attrs_tables [simp]:
  "ATTR_TABLE (put_attrs inode a t) = table_insert inode a (ATTR_TABLE t)"
  "XATTR_TABLE (put_attrs inode a t) = XATTR_TABLE t"
  "DIRECTORY_TABLE (put_attrs inode a t) = DIRECTORY_TABLE t"
  "PARENTS_TABLE (put_attrs inode a t) = PARENTS_TABLE t"
  by (simp_all add: put_attrs_def)

section \<open>The invariant\<close>

definition no_set_id :: "u16 \<Rightarrow> bool" where
  "no_set_id mode \<longleftrightarrow> mode AND ucast (S_ISUID OR S_ISGID) = 0"

text \<open>
  An attribute row is stored under its own inode number, which is the root's or one that this
  group has handed out, and carries no set-id bits; extended attributes belong to an inode; the
  inodes with a parent are the directories; names fit the limit.
\<close>

definition attrs_wf :: "u64 \<Rightarrow> u64 \<Rightarrow> u64 \<Rightarrow> (u64, InodeAttributes) table \<Rightarrow> bool" where
  "attrs_wf n g next_inode attrs \<longleftrightarrow>
     (\<forall>i a. table_get attrs i = Some a \<longrightarrow>
        attr_inode a = i \<and> no_set_id (attr_mode a) \<and> (i = ROOT_INODE \<or> i mod n = g \<and> i < next_inode))"

definition xattrs_wf :: "(u64, InodeAttributes) table \<Rightarrow> (u64 \<times> string, bytes) table \<Rightarrow> bool" where
  "xattrs_wf attrs xattrs \<longleftrightarrow>
     (\<forall>i key. table_get attrs i = None \<longrightarrow> table_get xattrs (i, key) = None)"

definition kind_of :: "(u64, InodeAttributes) table \<Rightarrow> u64 \<Rightarrow> FileKind option" where
  "kind_of attrs i = map_option attr_kind (table_get attrs i)"

definition parents_wf :: "(u64, InodeAttributes) table \<Rightarrow> (u64, u64) table \<Rightarrow> bool" where
  "parents_wf attrs parents \<longleftrightarrow>
     (\<forall>i. table_get parents i = None \<longleftrightarrow> kind_of attrs i \<noteq> Some Directory)"

definition names_wf :: "(u64 \<times> string, u64 \<times> FileKind) table \<Rightarrow> bool" where
  "names_wf dirs \<longleftrightarrow>
     (\<forall>p name. unat MAX_NAME_LENGTH < length name \<longrightarrow> table_get dirs (p, name) = None)"

definition tables_wf :: "u64 \<Rightarrow> u64 \<Rightarrow> u64 \<Rightarrow> tables \<Rightarrow> bool" where
  "tables_wf n g next_inode t \<longleftrightarrow>
     attrs_wf n g next_inode (ATTR_TABLE t) \<and> xattrs_wf (ATTR_TABLE t) (XATTR_TABLE t) \<and>
     parents_wf (ATTR_TABLE t) (PARENTS_TABLE t) \<and> names_wf (DIRECTORY_TABLE t)"

definition storage_wf :: "u64 \<Rightarrow> metadata_storage \<Rightarrow> bool" where
  "storage_wf g m \<longleftrightarrow>
     g < ms_num_raft_groups m \<and> ms_next_inode m mod ms_num_raft_groups m = g \<and> ROOT_INODE < ms_next_inode m \<and>
     tables_wf (ms_num_raft_groups m) g (ms_next_inode m) (ms_storage m) \<and>
     tables_wf (ms_num_raft_groups m) g (ms_next_inode m) (ms_durable m)"

lemma tables_wf_mono: "tables_wf n g k t \<Longrightarrow> k \<le> k' \<Longrightarrow> tables_wf n g k' t"
  unfolding tables_wf_def attrs_wf_def by (meson less_le_trans)

lemma write_txn_wf:
  assumes "storage_wf g m"
    and "\<And>a t'. body (ms_storage m) = Ok (a, Some t') \<Longrightarrow>
      tables_wf (ms_num_raft_groups m) g (ms_next_inode m) t'"
  shows "storage_wf g (snd (write_txn m body))"
proof -
  let ?wf = "tables_wf (ms_num_raft_groups m) g (ms_next_inode m)"
  have "?wf (ms_storage (snd (write_txn m body)))"
    using assms unfolding write_txn_storage committed_def storage_wf_def
    by (auto split: res.split option.split)
  then show ?thesis
    using assms(1) write_txn_durable [of m body] unfolding storage_wf_def by auto
qed

text \<open>Updates of one row that keep its identity.\<close>

lemma kind_of_simps [simp]:
  "kind_of (table_insert i a attrs) j = (if j = i then Some (attr_kind a) else kind_of attrs j)"
  "kind_of (table_remove i attrs) j = (if j = i then None else kind_of attrs j)"
  "table_get attrs i = Some a \<Longrightarrow> kind_of attrs i = Some (attr_kind a)"
  "table_get attrs i = None \<Longrightarrow> kind_of attrs i = None"
  by (simp_all add: kind_of_def)

lemma attrs_update_wf:
  assumes "table_get attrs i = Some a" "attr_kind a' = attr_kind a"
  shows "xattrs_wf (table_insert i a' attrs) xattrs = xattrs_wf attrs xattrs"
    and "parents_wf (table_insert i a' attrs) parents = parents_wf attrs parents"
proof -
  have "table_get (table_insert i a' attrs) j = None \<longleftrightarrow> table_get attrs j = None"
    "kind_of (table_insert i a' attrs) j = kind_of attrs j" for j
    using assms by simp_all
  then show "xattrs_wf (table_insert i a' attrs) xattrs = xattrs_wf attrs xattrs"
    "parents_wf (table_insert i a' attrs) parents = parents_wf attrs parents"
    unfolding xattrs_wf_def parents_wf_def by (simp_all only:)
qed

lemma put_attrs_wf:
  assumes "tables_wf n g k t" "table_get (ATTR_TABLE t) i = Some a"
    and "attr_inode a' = attr_inode a" "attr_kind a' = attr_kind a" "no_set_id (attr_mode a')"
  shows "tables_wf n g k (put_attrs i a' t)"
  using assms by (simp add: tables_wf_def attrs_update_wf [OF assms(2,4)] attrs_wf_def)

lemma tables_wf_mode: "tables_wf n g k t \<Longrightarrow> table_get (ATTR_TABLE t) i = Some a \<Longrightarrow> no_set_id (attr_mode a)"
  by (simp add: tables_wf_def attrs_wf_def)

lemma directory_wf:
  "tables_wf n g k t \<Longrightarrow> length name \<le> unat MAX_NAME_LENGTH \<Longrightarrow>
   tables_wf n g k (t\<lparr>DIRECTORY_TABLE := table_insert (p, name) v (DIRECTORY_TABLE t)\<rparr>)"
  "tables_wf n g k t \<Longrightarrow>
   tables_wf n g k (t\<lparr>DIRECTORY_TABLE := table_remove (p, name) (DIRECTORY_TABLE t)\<rparr>)"
  by (simp_all add: tables_wf_def names_wf_def)

lemma xattr_wf:
  assumes "tables_wf n g k t" "table_get (ATTR_TABLE t) i = Some a"
  shows "tables_wf n g k (t\<lparr>XATTR_TABLE := table_insert (i, key) v (XATTR_TABLE t)\<rparr>)"
    and "tables_wf n g k (t\<lparr>XATTR_TABLE := table_remove (i, key) (XATTR_TABLE t)\<rparr>)"
proof -
  have "xattrs_wf (ATTR_TABLE t) (table_insert (i, key) v (XATTR_TABLE t))"
    "xattrs_wf (ATTR_TABLE t) (table_remove (i, key) (XATTR_TABLE t))"
    using assms unfolding tables_wf_def xattrs_wf_def by (auto simp: kv.get_ins kv.get_rem)
  with assms show "tables_wf n g k (t\<lparr>XATTR_TABLE := table_insert (i, key) v (XATTR_TABLE t)\<rparr>)"
    "tables_wf n g k (t\<lparr>XATTR_TABLE := table_remove (i, key) (XATTR_TABLE t)\<rparr>)"
    by (simp_all add: tables_wf_def)
qed

lemma no_set_id_chmod: "no_set_id (ucast (mode AND NOT (S_ISUID OR S_ISGID)))" for mode :: u32
  unfolding no_set_id_def
  by (rule bit_eqI) (simp only: bit_and_iff bit_not_iff bit_ucast_iff bit_0_eq; blast)

lemma no_set_id_create: "no_set_id (mode AND ucast (NOT (S_ISUID OR S_ISGID)))"
  unfolding no_set_id_def
  by (rule bit_eqI) (simp only: bit_and_iff bit_not_iff bit_ucast_iff bit_0_eq; blast)

section \<open>The operations keep the invariant\<close>

lemma storage_wf_tables:
  "storage_wf g m \<Longrightarrow> tables_wf (ms_num_raft_groups m) g (ms_next_inode m) (ms_storage m)"
  by (simp add: storage_wf_def)

lemma put_attrs_body_wf:
  assumes "storage_wf g m"
    and "map_option attr_inode (table_get (ATTR_TABLE (ms_storage m)) i) = Some (attr_inode a')"
    and "map_option attr_kind (table_get (ATTR_TABLE (ms_storage m)) i) = Some (attr_kind a')"
    and "no_set_id (attr_mode a') \<or>
      map_option attr_mode (table_get (ATTR_TABLE (ms_storage m)) i) = Some (attr_mode a')"
  shows "tables_wf (ms_num_raft_groups m) g (ms_next_inode m) (put_attrs i a' (ms_storage m))"
proof -
  note wf = storage_wf_tables [OF assms(1)]
  obtain a where a: "table_get (ATTR_TABLE (ms_storage m)) i = Some a" using assms(2) by auto
  with assms show ?thesis
    using put_attrs_wf [OF wf a] tables_wf_mode [OF wf a] by auto
qed

lemma utimens_wf: "storage_wf g m \<Longrightarrow> storage_wf g (snd (utimens now m inode atime mtime context))"
  unfolding utimens_def Let_def
  by (rule write_txn_wf, assumption) (auto simp: res_simps intro!: put_attrs_body_wf split: option.split)

lemma chmod_wf: "storage_wf g m \<Longrightarrow> storage_wf g (snd (chmod now m inode mode context))"
  unfolding chmod_def Let_def
  by (rule write_txn_wf, assumption) (auto simp: res_simps no_set_id_chmod [simplified] intro!: put_attrs_body_wf)

lemma chown_wf: "storage_wf g m \<Longrightarrow> storage_wf g (snd (chown now m inode uid gid context))"
  unfolding chown_def Let_def
  by (rule write_txn_wf, assumption) (auto simp: res_simps intro!: put_attrs_body_wf split: option.split)

lemma attribute_ops_wf:
  assumes "storage_wf g m"
  shows "storage_wf g (snd (hardlink_stage0_link_increment now m inode))"
    and "storage_wf g (snd (hardlink_rollback m inode time))"
    and "storage_wf g (snd (update_metadata_changed_time now m inode))"
    and "storage_wf g (snd (truncate_attrs now m inode new_length context))"
    and "storage_wf g (snd (write_attrs now m inode off len))"
  using assms
  by (auto simp: hardlink_stage0_link_increment_def hardlink_rollback_def
        update_metadata_changed_time_def truncate_attrs_def write_attrs_def res_simps Let_def
      intro!: write_txn_wf put_attrs_body_wf)

lemma xattr_body_wf:
  fixes time :: Timestamp
  assumes "storage_wf g m" "table_get (ATTR_TABLE (ms_storage m)) inode = Some a"
  defines "touch \<equiv> \<lambda>x. put_attrs inode (a\<lparr>attr_last_metadata_changed := time\<rparr>) (ms_storage m\<lparr>XATTR_TABLE := x\<rparr>)"
  shows "tables_wf (ms_num_raft_groups m) g (ms_next_inode m)
      (touch (table_insert (inode, key) v (XATTR_TABLE (ms_storage m))))"
    and "tables_wf (ms_num_raft_groups m) g (ms_next_inode m)
      (touch (table_remove (inode, key) (XATTR_TABLE (ms_storage m))))"
  unfolding touch_def
  using xattr_wf [OF storage_wf_tables [OF assms(1)] assms(2)] assms(2)
    tables_wf_mode [OF storage_wf_tables [OF assms(1)] assms(2)]
  by (auto intro!: put_attrs_wf)

lemma xattr_ops_wf:
  assumes "storage_wf g m"
  shows "storage_wf g (snd (set_xattr now m inode key value context))"
    and "storage_wf g (snd (remove_xattr now m inode key context))"
  using assms unfolding set_xattr_def remove_xattr_def Let_def
  by (auto simp: res_simps intro!: write_txn_wf xattr_body_wf)

lemma lookup_name: "lookup m parent name context = Ok r \<Longrightarrow> length name \<le> unat MAX_NAME_LENGTH"
  by (simp add: lookup_def res_simps)

text \<open>The row of the parent is touched together with one of its entries.\<close>

lemma link_body_wf:
  fixes x y :: Timestamp
  assumes "storage_wf g m" "table_get (ATTR_TABLE (ms_storage m)) parent = Some a"
  defines "t \<equiv> put_attrs parent (a\<lparr>attr_last_modified := x, attr_last_metadata_changed := y\<rparr>) (ms_storage m)"
  shows "length name \<le> unat MAX_NAME_LENGTH \<Longrightarrow> tables_wf (ms_num_raft_groups m) g (ms_next_inode m)
      (t\<lparr>DIRECTORY_TABLE := table_insert (parent, name) v (DIRECTORY_TABLE (ms_storage m))\<rparr>)"
    and "tables_wf (ms_num_raft_groups m) g (ms_next_inode m)
      (t\<lparr>DIRECTORY_TABLE := table_remove (parent, name) (DIRECTORY_TABLE (ms_storage m))\<rparr>)"
proof -
  have "tables_wf (ms_num_raft_groups m) g (ms_next_inode m) t"
    unfolding t_def using assms(1,2) by (intro put_attrs_body_wf) simp_all
  moreover have "DIRECTORY_TABLE t = DIRECTORY_TABLE (ms_storage m)" by (simp add: t_def)
  ultimately show "length name \<le> unat MAX_NAME_LENGTH \<Longrightarrow> tables_wf (ms_num_raft_groups m) g (ms_next_inode m)
      (t\<lparr>DIRECTORY_TABLE := table_insert (parent, name) v (DIRECTORY_TABLE (ms_storage m))\<rparr>)"
    "tables_wf (ms_num_raft_groups m) g (ms_next_inode m)
      (t\<lparr>DIRECTORY_TABLE := table_remove (parent, name) (DIRECTORY_TABLE (ms_storage m))\<rparr>)"
    using directory_wf [of _ _ _ t] by metis+
qed

lemma create_link_wf:
  "storage_wf g m \<Longrightarrow> storage_wf g (snd (create_link now m inode parent name context kind))"
  unfolding create_link_def Let_def
  by (auto simp: res_simps intro!: write_txn_wf link_body_wf lookup_name split: res.split option.split)

lemma replace_link_wf:
  assumes "storage_wf g m"
  shows "storage_wf g (snd (replace_link now m parent name inode kind context))"
proof -
  have "length name \<le> unat MAX_NAME_LENGTH"
    if "table_get (DIRECTORY_TABLE (ms_storage m)) (parent, name) = Some v" for v
    using storage_wf_tables [OF assms] that unfolding tables_wf_def names_wf_def by (metis not_le option.distinct(1))
  with assms show ?thesis
    unfolding replace_link_def Let_def by (auto simp: res_simps intro!: write_txn_wf link_body_wf)
qed

lemma remove_link_wf:
  assumes "storage_wf g m"
  shows "storage_wf g (snd (remove_link now m parent name link context))"
proof -
  have swap: "a\<lparr>attr_last_metadata_changed := x, attr_last_modified := y\<rparr>
      = a\<lparr>attr_last_modified := y, attr_last_metadata_changed := x\<rparr>" for a :: InodeAttributes and x y
    by simp
  show ?thesis
    using assms unfolding remove_link_def Let_def swap
    by (auto simp: res_simps intro!: write_txn_wf link_body_wf split: if_splits option.splits)
qed

lemma update_parent_wf:
  "storage_wf g m \<Longrightarrow> storage_wf g (snd (update_parent m inode new_parent))"
  unfolding update_parent_def
  by (rule write_txn_wf, assumption)
    (auto simp: storage_wf_def tables_wf_def parents_wf_def res_simps assert_that_def split: if_splits)

text \<open>
  The counter stays on the group's numbers as long as it does not wrap around, so that a new
  inode number is larger than all that were handed out before.
\<close>

lemma next_inode_step:
  fixes k n g :: u64
  assumes "k mod n = g" "g < n" "unat k + unat n < 2 ^ 64"
  shows "(k + n) mod n = g" "k < k + n"
proof -
  have u: "unat (k + n) = unat k + unat n" using assms(3) by (rule unat_add_ok)
  show "(k + n) mod n = g" using assms(1) by (simp add: word_unat_eq_iff unat_mod u)
  have "0 < unat n" using assms(2) by (simp add: word_less_nat_alt)
  then show "k < k + n" by (simp add: word_less_nat_alt u)
qed

lemma new_row_wf:
  assumes "tables_wf n g k t" "k mod n = g" "k < k'" "attr_inode a = k" "no_set_id (attr_mode a)"
    and fresh: "table_get (ATTR_TABLE t) k = None"
  shows "attr_kind a \<noteq> Directory \<Longrightarrow> tables_wf n g k' (put_attrs k a t)"
    and "attr_kind a = Directory \<Longrightarrow>
      tables_wf n g k' ((put_attrs k a t)\<lparr>PARENTS_TABLE := table_insert k parent (PARENTS_TABLE t)\<rparr>)"
  using tables_wf_mono [OF assms(1) less_imp_le [OF assms(3)]] assms(2-5) fresh
  by (auto simp: tables_wf_def attrs_wf_def xattrs_wf_def parents_wf_def split: if_splits)

lemma storage_wf_fresh:
  assumes "storage_wf g m"
  shows "table_get (ATTR_TABLE (ms_storage m)) (ms_next_inode m) = None"
proof (rule ccontr)
  assume "table_get (ATTR_TABLE (ms_storage m)) (ms_next_inode m) \<noteq> None"
  then have "ms_next_inode m = ROOT_INODE \<or> ms_next_inode m < ms_next_inode m"
    using storage_wf_tables [OF assms] unfolding tables_wf_def attrs_wf_def by blast
  then show False using assms by (auto simp: storage_wf_def)
qed

lemma create_inode_wf:
  assumes "storage_wf g m" "unat (ms_next_inode m) + unat (ms_num_raft_groups m) < 2 ^ 64"
  shows "storage_wf g (snd (create_inode now m parent uid gid mode kind))"
proof -
  let ?k = "ms_next_inode m" and ?n = "ms_num_raft_groups m"
  let ?m = "m\<lparr>ms_next_inode := ?k + ?n\<rparr>"
  have k: "?k mod ?n = g" "g < ?n" using assms(1) by (simp_all add: storage_wf_def)
  note next_k = next_inode_step [OF k assms(2)]
  have m: "storage_wf g ?m"
    using assms(1) next_k tables_wf_mono [OF _ less_imp_le [OF next_k(2)]]
    unfolding storage_wf_def by auto
  let ?a = "new_inode_metadata now ?k uid gid mode kind"
  have a: "attr_inode ?a = ?k" "attr_kind ?a = kind" "no_set_id (attr_mode ?a)"
    using no_set_id_create [of mode] by (simp_all add: new_inode_metadata_def)
  note row = new_row_wf [OF storage_wf_tables [OF assms(1)] k(1) next_k(2) a(1,3) storage_wf_fresh [OF assms(1)]]
  show ?thesis
    unfolding create_inode_def allocate_inode_def Let_def prod.case
    using assms(1) m row a(2) by (auto intro!: write_txn_wf)
qed

text \<open>The keys of one inode, as long as the number after it exists.\<close>

lemma entries_of_range:
  fixes inode i :: u64 and name :: string
  assumes "unat inode + 1 < 2 ^ 64"
  shows "(inode, []) \<le> (i, name) \<and> (i, name) < (inode + 1, []) \<longleftrightarrow> i = inode"
proof -
  have "inode < inode + 1" using assms by (simp add: word_less_nat_alt unat_add_ok)
  then show ?thesis
    by (auto simp: less_eq_prod_def less_prod_def intro: word_between)
qed

lemma entries_of_empty_iff:
  "unat inode + 1 < 2 ^ 64 \<Longrightarrow> entries_of inode t = [] \<longleftrightarrow> (\<forall>name. table_get t (inode, name) = None)"
  unfolding kv.scan_empty_iff by (metis entries_of_range surj_pair)

lemma get_clear_inode:
  fixes inode i :: u64 and name :: string
  assumes "unat inode + 1 < 2 ^ 64"
  shows "table_get (table_clear (inode, []) (inode + 1, []) t) (i, name)
    = (if i = inode then None else table_get t (i, name))"
  unfolding kv.get_clear entries_of_range [OF assms] ..

lemma remove_row_wf:
  assumes "tables_wf n g k t" "unat inode + 1 < 2 ^ 64"
  defines "t' \<equiv> t\<lparr>ATTR_TABLE := table_remove inode (ATTR_TABLE t),
      XATTR_TABLE := table_clear (inode, []) (inode + 1, []) (XATTR_TABLE t)\<rparr>"
  shows "kind_of (ATTR_TABLE t) inode \<noteq> Some Directory \<Longrightarrow> tables_wf n g k t'"
    and "tables_wf n g k (t'\<lparr>PARENTS_TABLE := table_remove inode (PARENTS_TABLE t)\<rparr>)"
proof -
  have clear: "table_get (XATTR_TABLE t') (i, key)
      = (if i = inode then None else table_get (XATTR_TABLE t) (i, key))" for i key
    by (simp add: t'_def get_clear_inode [OF assms(2)] del: table_get_simps)
  have attrs: "ATTR_TABLE t' = table_remove inode (ATTR_TABLE t)" by (simp add: t'_def)
  have "attrs_wf n g k (ATTR_TABLE t')" "names_wf (DIRECTORY_TABLE t')"
    using assms(1) by (auto simp: tables_wf_def t'_def attrs_wf_def)
  moreover have "xattrs_wf (ATTR_TABLE t') (XATTR_TABLE t')"
    using assms(1) unfolding tables_wf_def xattrs_wf_def clear attrs by simp
  moreover have "parents_wf (ATTR_TABLE t') (table_remove inode (PARENTS_TABLE t))"
    "kind_of (ATTR_TABLE t) inode \<noteq> Some Directory \<Longrightarrow> parents_wf (ATTR_TABLE t') (PARENTS_TABLE t')"
    using assms(1) by (auto simp: tables_wf_def t'_def parents_wf_def)
  ultimately show "kind_of (ATTR_TABLE t) inode \<noteq> Some Directory \<Longrightarrow> tables_wf n g k t'"
    "tables_wf n g k (t'\<lparr>PARENTS_TABLE := table_remove inode (PARENTS_TABLE t)\<rparr>)"
    by (simp_all add: tables_wf_def)
qed

lemma stored_inode_bound:
  assumes "storage_wf g m" "table_get (ATTR_TABLE (ms_storage m)) inode = Some a"
  shows "unat inode + 1 < 2 ^ 64"
proof -
  have "attrs_wf (ms_num_raft_groups m) g (ms_next_inode m) (ATTR_TABLE (ms_storage m))"
    "ROOT_INODE < ms_next_inode m"
    using assms(1) by (simp_all add: storage_wf_def tables_wf_def)
  then have "inode < ms_next_inode m" using assms(2) unfolding attrs_wf_def by metis
  then show ?thesis
    using unat_bound [of "ms_next_inode m"] by (simp add: word_less_nat_alt)
qed

lemma decrement_inode_link_count_wf:
  assumes "storage_wf g m"
  shows "storage_wf g (snd (decrement_inode_link_count now m inode count))"
proof -
  let ?t = "ms_storage m"
  let ?t' = "?t\<lparr>ATTR_TABLE := table_remove inode (ATTR_TABLE ?t),
      XATTR_TABLE := table_clear (inode, []) (inode + 1, []) (XATTR_TABLE ?t)\<rparr>"
  let ?wf = "tables_wf (ms_num_raft_groups m) g (ms_next_inode m)"
  have "?wf (?t'\<lparr>PARENTS_TABLE := table_remove inode (PARENTS_TABLE ?t)\<rparr>)"
    "attr_kind a \<noteq> Directory \<Longrightarrow> ?wf ?t'" if "table_get (ATTR_TABLE ?t) inode = Some a" for a
    using remove_row_wf [OF storage_wf_tables [OF assms] stored_inode_bound [OF assms that]] that by auto
  then show ?thesis
    unfolding decrement_inode_link_count_def Let_def
    by (intro write_txn_wf assms)
      (auto simp: res_simps assms intro!: put_attrs_body_wf split: if_splits)
qed

section \<open>The initial state\<close>

text \<open>The search stops at the first number of the group, within one round.\<close>

lemma start_inode_loop_first:
  "(\<And>j. j < k \<Longrightarrow> (s + of_nat j) mod n \<noteq> g) \<Longrightarrow> (s + of_nat k) mod n = g \<Longrightarrow>
   start_inode_loop n g s = Some (s + of_nat k)"
proof (induction k arbitrary: s)
  case 0
  then show ?case by (subst start_inode_loop.simps) simp
next
  case (Suc k)
  have "start_inode_loop n g s = start_inode_loop n g (s + 1)"
    using Suc.prems(1) [of 0] by (subst start_inode_loop.simps) simp
  also have "\<dots> = Some (s + 1 + of_nat k)"
  proof (rule Suc.IH)
    show "(s + 1 + of_nat j) mod n \<noteq> g" if "j < k" for j
      using Suc.prems(1) [of "Suc j"] that by (simp add: ac_simps)
    show "(s + 1 + of_nat k) mod n = g" using Suc.prems(2) by (simp add: ac_simps)
  qed
  finally show ?case by (simp add: ac_simps)
qed

lemma ex_next_residue: "g < n \<Longrightarrow> \<exists>k<n. (s + k) mod n = g" for g n s :: nat
proof -
  assume "g < n"
  let ?k = "(g + (n - s mod n)) mod n"
  have "(s + ?k) mod n = (s mod n + (g + (n - s mod n))) mod n"
    by (simp add: mod_simps)
  also have "s mod n + (g + (n - s mod n)) = g + n" 
    using mod_less_divisor [of n s] \<open>g < n\<close> by linarith
  finally have "(s + ?k) mod n = g" using \<open>g < n\<close> by simp
  moreover have "?k < n" using \<open>g < n\<close> by simp
  ultimately show ?thesis by blast
qed

lemma start_inode_loop_returns:
  assumes "g < n" "unat s + unat n < 2 ^ 64"
  obtains x where "start_inode_loop n g s = Some x" "x mod n = g" "s \<le> x" "unat x < unat s + unat n"
proof -
  let ?P = "\<lambda>k. (unat s + k) mod unat n = unat g"
  obtain k0 where k0: "k0 < unat n" "?P k0"
    using ex_next_residue [of "unat g" "unat n" "unat s"] assms(1) by (auto simp: word_less_nat_alt)
  define k where "k = (LEAST k. ?P k)"
  have k: "?P k" "k \<le> k0" using k0(2) by (auto simp: k_def intro: LeastI Least_le)
  have first: "\<not> ?P j" if "j < k" for j using that not_less_Least [of j ?P] by (simp add: k_def)
  have u: "unat (s + of_nat j) = unat s + j" if "j \<le> k" for j
  proof -
    have "unat (of_nat j :: u64) = j" using that k(2) k0(1) assms(2) by (simp add: unat_of_nat)
    then show ?thesis using that k(2) k0(1) assms(2) by (subst unat_add_ok) simp_all
  qed
  show thesis
  proof (rule that)
    show "start_inode_loop n g s = Some (s + of_nat k)"
      using first k(1) by (intro start_inode_loop_first) (simp_all add: word_unat_eq_iff unat_mod u)
    show "(s + of_nat k) mod n = g" using k(1) by (simp add: word_unat_eq_iff unat_mod u)
    show "s \<le> s + of_nat k" by (simp add: word_le_nat_alt u)
    show "unat (s + of_nat k) < unat s + unat n" using k(2) k0(1) by (simp add: u)
  qed
qed

text \<open>What it returns is a number of the group; so with a group number out of range it never returns.\<close>

lemma start_inode_loop_sound: "start_inode_loop n g s = Some x \<Longrightarrow> x mod n = g"
  by (rule start_inode_loop.raw_induct [where P = "\<lambda>n g s x. x mod n = g"]) (auto split: if_splits)

lemma start_inode_loop_diverges:
  assumes "0 < n" "n \<le> g"
  shows "start_inode_loop n g s = None"
proof (rule ccontr)
  assume "start_inode_loop n g s \<noteq> None"
  then obtain x where "x mod n = g" using start_inode_loop_sound by blast
  moreover have "x mod n < n" using assms(1) by (simp add: word_less_nat_alt unat_mod)
  ultimately show False using assms(2) by simp
qed

lemma empty_tables_new_wf:
  fixes now :: clock
  assumes "ROOT_INODE < k"
  defines "t \<equiv> empty_tables\<lparr>PARENTS_TABLE := table_insert ROOT_INODE ROOT_INODE (PARENTS_TABLE empty_tables),
      ATTR_TABLE := table_insert ROOT_INODE (root_attributes now) (ATTR_TABLE empty_tables)\<rparr>"
  shows "tables_wf n g k t"
proof -
  have "no_set_id 0x1FF" unfolding no_set_id_def S_ISUID_def S_ISGID_def by simp
  then have "attrs_wf n g k (ATTR_TABLE t)" "parents_wf (ATTR_TABLE t) (PARENTS_TABLE t)"
    by (auto simp: t_def attrs_wf_def parents_wf_def empty_tables_def root_attributes_def
        kv.get_ins kv.get_empty)
  then show ?thesis
    by (simp add: tables_wf_def t_def xattrs_wf_def names_wf_def empty_tables_def)
qed

lemma MetadataStorage_new_returns:
  assumes "raft_group < num_raft_groups"
  obtains m where "MetadataStorage_new now raft_group num_raft_groups empty_tables = Some (Ok m)"
    "storage_wf (ucast raft_group) m" "ms_num_raft_groups m = ucast num_raft_groups"
    "unat (ms_next_inode m) < 2 + unat num_raft_groups" "\<not> ms_poisoned m"
proof -
  let ?n = "ucast num_raft_groups :: u64" and ?g = "ucast raft_group :: u64"
  have lt: "?g < ?n" using assms by (simp add: word_less_nat_alt)
  have n: "unat ?n < 2 ^ 16" by (simp add: unsigned_less [THEN order.strict_trans2])
  have "unat (ROOT_INODE + 1 :: u64) + unat ?n < 2 ^ 64" using n by (simp add: ROOT_INODE_def)
  then obtain x where x: "start_inode_loop ?n ?g (ROOT_INODE + 1) = Some x" "x mod ?n = ?g"
    "ROOT_INODE + 1 \<le> x" "unat x < unat (ROOT_INODE + 1) + unat ?n"
    by (rule start_inode_loop_returns [OF lt])
  have r: "ROOT_INODE < x" using x(3) by (simp add: ROOT_INODE_def word_less_nat_alt word_le_nat_alt)
  have "num_raft_groups \<noteq> 0" using assms by auto
  then show thesis
    using that x lt r empty_tables_new_wf [OF r]
    by (simp add: MetadataStorage_new_def Let_def storage_wf_def ROOT_INODE_def)
qed

section \<open>Histories\<close>

text \<open>
  One metadata operation, with any clock and any arguments; inodes are created as long as the
  counter has room.
\<close>

inductive metadata_step :: "metadata_storage \<Rightarrow> metadata_storage \<Rightarrow> bool" where
  "metadata_step m (snd (set_xattr now m inode key value context))"
| "metadata_step m (snd (remove_xattr now m inode key context))"
| "metadata_step m (snd (utimens now m inode atime mtime context))"
| "metadata_step m (snd (chmod now m inode mode32 context))"
| "metadata_step m (snd (chown now m inode new_uid new_gid context))"
| "metadata_step m (snd (hardlink_stage0_link_increment now m inode))"
| "metadata_step m (snd (hardlink_rollback m inode time))"
| "metadata_step m (snd (update_metadata_changed_time now m inode))"
| "metadata_step m (snd (truncate_attrs now m inode len context))"
| "metadata_step m (snd (write_attrs now m inode off len32))"
| "metadata_step m (snd (create_link now m inode parent name context kind))"
| "metadata_step m (snd (replace_link now m parent name inode kind context))"
| "metadata_step m (snd (update_parent m inode parent))"
| "metadata_step m (snd (remove_link now m parent name link context))"
| "unat (ms_next_inode m) + unat (ms_num_raft_groups m) < 2 ^ 64 \<Longrightarrow>
   metadata_step m (snd (create_inode now m parent uid gid mode kind))"
| "metadata_step m (snd (decrement_inode_link_count now m inode count))"

abbreviation metadata_steps :: "metadata_storage \<Rightarrow> metadata_storage \<Rightarrow> bool" where
  "metadata_steps \<equiv> metadata_step\<^sup>*\<^sup>*"

lemma metadata_step_wf: "metadata_step m m' \<Longrightarrow> storage_wf g m \<Longrightarrow> storage_wf g m'"
  by (induction rule: metadata_step.induct)
    (simp_all add: xattr_ops_wf utimens_wf chmod_wf chown_wf attribute_ops_wf create_link_wf replace_link_wf
      update_parent_wf remove_link_wf create_inode_wf decrement_inode_link_count_wf)

lemma metadata_steps_wf: "metadata_steps m m' \<Longrightarrow> storage_wf g m \<Longrightarrow> storage_wf g m'"
  by (induction rule: rtranclp_induct) (auto intro: metadata_step_wf)

text \<open>The number of groups is fixed, and the counter never goes back.\<close>

lemma create_link_frame [simp]:
  "ms_num_raft_groups (snd (create_link now m inode parent name context kind)) = ms_num_raft_groups m"
  "ms_next_inode (snd (create_link now m inode parent name context kind)) = ms_next_inode m"
  by (simp_all add: create_link_def split: res.split option.split)

lemma metadata_step_frame:
  assumes "metadata_step m m'"
  shows "ms_num_raft_groups m' = ms_num_raft_groups m \<and> ms_next_inode m \<le> ms_next_inode m'"
  using assms
proof (cases rule: metadata_step.cases)
  case (15 now parent uid gid mode kind)
  then show ?thesis
    by (simp add: create_inode_def allocate_inode_def Let_def word_le_nat_alt unat_add_ok)
qed (simp_all add: set_xattr_def remove_xattr_def utimens_def chmod_def chown_def
    hardlink_stage0_link_increment_def hardlink_rollback_def update_metadata_changed_time_def
    truncate_attrs_def write_attrs_def replace_link_def update_parent_def remove_link_def
    decrement_inode_link_count_def)

lemma metadata_steps_frame:
  "metadata_steps m m' \<Longrightarrow> ms_num_raft_groups m' = ms_num_raft_groups m \<and> ms_next_inode m \<le> ms_next_inode m'"
  by (induction rule: rtranclp_induct) (auto dest: metadata_step_frame)

definition metadata_reachable :: "u16 \<Rightarrow> u16 \<Rightarrow> metadata_storage \<Rightarrow> bool" where
  "metadata_reachable raft_group num_raft_groups m \<longleftrightarrow>
     (\<exists>now m0. MetadataStorage_new now raft_group num_raft_groups empty_tables = Some (Ok m0)
        \<and> metadata_steps m0 m)"

lemma metadata_reachable_wf:
  assumes "metadata_reachable g n m" "g < n"
  shows "storage_wf (ucast g) m \<and> ms_num_raft_groups m = ucast n"
proof -
  obtain now m0 where m0: "MetadataStorage_new now g n empty_tables = Some (Ok m0)" "metadata_steps m0 m"
    using assms(1) by (auto simp: metadata_reachable_def)
  obtain m1 where "MetadataStorage_new now g n empty_tables = Some (Ok m1)"
    "storage_wf (ucast g) m1" "ms_num_raft_groups m1 = ucast n"
    using MetadataStorage_new_returns [OF assms(2)] by blast
  with m0 show ?thesis
    using metadata_steps_wf metadata_steps_frame by force
qed

end
