(* ===== verification/Metadata_Laws.thy ===== *)
theory Metadata_Laws
  imports Metadata_Invariants
begin

text \<open>
  What the metadata operations do: effects and permissions of each, round trips, what a
  directory listing holds, how far the durable state lags behind, and what a restart does.
\<close>

section \<open>Successful transactions\<close>

lemma write_txn_Ok:
  assumes "fst (write_txn m body) = Ok a"
  obtains t where "\<not> ms_poisoned m" "body (ms_storage m) = Ok (a, t)"
    "ms_storage (snd (write_txn m body)) = (case t of None \<Rightarrow> ms_storage m | Some t' \<Rightarrow> t')"
    "\<not> ms_poisoned (snd (write_txn m body))"
  using assms by (auto simp: write_txn_def split_beta split: if_splits res.splits option.splits)

section \<open>Effects\<close>

lemma lookup_eq_Ok:
  "lookup m parent name context = Ok r \<longleftrightarrow>
     length name \<le> unat MAX_NAME_LENGTH \<and> \<not> ms_poisoned m \<and>
     (\<exists>a. table_get (ATTR_TABLE (ms_storage m)) parent = Some a \<and> may_access a context X_OK) \<and>
     r = map_option fst (table_get (DIRECTORY_TABLE (ms_storage m)) (parent, name))"
  by (auto simp: lookup_def read_txn_def lookup_entry_def res_simps)

lemma get_xattr_eq_Ok:
  "get_xattr m inode key context = Ok v \<longleftrightarrow>
     \<not> ms_poisoned m \<and> (\<exists>a. table_get (ATTR_TABLE (ms_storage m)) inode = Some a
       \<and> xattr_access_check key R_OK a context = Ok ())
     \<and> table_get (XATTR_TABLE (ms_storage m)) (inode, key) = Some v"
  by (auto simp: get_xattr_def read_txn_def res_simps)

lemma xattr_access_cong:
  "attr_uid a = attr_uid b \<Longrightarrow> attr_gid a = attr_gid b \<Longrightarrow> attr_mode a = attr_mode b \<Longrightarrow>
   xattr_access_check key access a context = xattr_access_check key access b context"
  by (simp add: xattr_access_check_def cong: XattrNamespace.case_cong)

lemma set_xattr_Ok:
  assumes "fst (set_xattr now m inode key value context) = Ok ()"
  obtains a where "table_get (ATTR_TABLE (ms_storage m)) inode = Some a"
    "xattr_access_check key W_OK a context = Ok ()" "\<not> ms_poisoned m"
    "ms_storage (snd (set_xattr now m inode key value context))
      = put_attrs inode (a\<lparr>attr_last_metadata_changed := now 0\<rparr>)
          ((ms_storage m)\<lparr>XATTR_TABLE := table_insert (inode, key) value (XATTR_TABLE (ms_storage m))\<rparr>)"
    "\<not> ms_poisoned (snd (set_xattr now m inode key value context))"
  using assms unfolding set_xattr_def Let_def
  by (elim write_txn_Ok) (auto simp: res_simps)

lemma set_xattr_get_xattr:
  assumes "fst (set_xattr now m inode key value context) = Ok ()"
  shows "get_xattr (snd (set_xattr now m inode key value context)) inode key context'
    = map_ok (\<lambda>_. value) (and_then (attrs_of (ms_storage m) inode) (\<lambda>a. xattr_access_check key R_OK a context'))"
  using assms
proof (rule set_xattr_Ok)
  fix a
  assume a: "table_get (ATTR_TABLE (ms_storage m)) inode = Some a"
    and upd: "ms_storage (snd (set_xattr now m inode key value context))
      = put_attrs inode (a\<lparr>attr_last_metadata_changed := now 0\<rparr>)
          ((ms_storage m)\<lparr>XATTR_TABLE := table_insert (inode, key) value (XATTR_TABLE (ms_storage m))\<rparr>)"
    and p: "\<not> ms_poisoned (snd (set_xattr now m inode key value context))"
  have "xattr_access_check key R_OK (a\<lparr>attr_last_metadata_changed := now 0\<rparr>) context'
      = xattr_access_check key R_OK a context'"
    by (rule xattr_access_cong) simp_all
  then show ?thesis
    using a upd p by (simp add: get_xattr_def read_txn_def attrs_of_def)
      (cases "xattr_access_check key R_OK a context'"; simp)
qed

text \<open>What a scan of one inode's keys lists.\<close>

lemma entries_of_mem:
  fixes inode i :: u64
  assumes "unat inode + 1 < 2 ^ 64"
  shows "((i, name), v) \<in> set (entries_of inode t) \<longleftrightarrow> i = inode \<and> table_get t (inode, name) = Some v"
  using entries_of_range [OF assms, of i name] by (auto simp: kv.scan_mem)

lemma entries_of_names:
  fixes inode :: u64
  assumes "unat inode + 1 < 2 ^ 64"
  shows "sorted_wrt (<) (map (\<lambda>(key, _). snd key) (entries_of inode t))"
proof -
  have "(k, v) \<in> set (entries_of inode t) \<Longrightarrow> fst k = inode" for k v
    by (cases k) (simp add: entries_of_mem [OF assms])
  then have eq: "fst (fst x) = inode" if "x \<in> set (entries_of inode t)" for x
    using that by (cases x) auto
  have "sorted_wrt (\<lambda>x y. fst x < fst y) (entries_of inode t)"
    using kv.scan_sorted [of "(inode, [])" "(inode + 1, [])" t] by (simp add: sorted_wrt_map)
  then have "sorted_wrt (\<lambda>x y. snd (fst x) < snd (fst y)) (entries_of inode t)"
    by (rule sorted_wrt_mono_rel [rotated]) (auto simp: less_prod_def dest!: eq)
  then show ?thesis by (simp add: sorted_wrt_map split_beta)
qed

section \<open>Links\<close>

lemma create_link_Ok:
  assumes "fst (create_link now m inode parent name context kind) = Ok ()"
  obtains a where "table_get (ATTR_TABLE (ms_storage m)) parent = Some a"
    "may_access a context X_OK" "may_access a context W_OK" "length name \<le> unat MAX_NAME_LENGTH"
    "table_get (DIRECTORY_TABLE (ms_storage m)) (parent, name) = None" "\<not> ms_poisoned m"
    "\<not> ms_poisoned (snd (create_link now m inode parent name context kind))"
    "ms_storage (snd (create_link now m inode parent name context kind))
      = (put_attrs parent (a\<lparr>attr_last_modified := now 0, attr_last_metadata_changed := now 1\<rparr>) (ms_storage m))
          \<lparr>DIRECTORY_TABLE := table_insert (parent, name) (inode, kind) (DIRECTORY_TABLE (ms_storage m))\<rparr>"
proof -
  have l: "lookup m parent name context = Ok None"
    using assms by (auto simp: create_link_def split: res.splits option.splits)
  then obtain a where a: "table_get (ATTR_TABLE (ms_storage m)) parent = Some a" "may_access a context X_OK"
      "length name \<le> unat MAX_NAME_LENGTH" "\<not> ms_poisoned m"
      "table_get (DIRECTORY_TABLE (ms_storage m)) (parent, name) = None"
    by (auto simp: lookup_eq_Ok)
  moreover from this have "may_access a context W_OK"
    using assms by (auto simp: create_link_def l txn_simps attrs_of_def ensure_def split: if_splits)
  ultimately show thesis
    using that by (simp add: create_link_def l txn_simps attrs_of_def)
qed

text \<open>The permission to look a name up depends only on the owner, group and mode of the parent.\<close>

lemma lookup_unchanged_attrs:
  assumes "table_get (ATTR_TABLE (ms_storage m')) parent = Some a'"
    and "table_get (ATTR_TABLE (ms_storage m)) parent = Some a"
    and "attr_uid a' = attr_uid a" "attr_gid a' = attr_gid a" "attr_mode a' = attr_mode a"
    and "may_access a context X_OK" "\<not> ms_poisoned m'" "length name \<le> unat MAX_NAME_LENGTH"
  shows "lookup m' parent name context = Ok (map_option fst (table_get (DIRECTORY_TABLE (ms_storage m')) (parent, name)))"
  using assms by (simp add: lookup_eq_Ok)

lemma create_link_lookup:
  assumes "fst (create_link now m inode parent name context kind) = Ok ()"
  shows "lookup (snd (create_link now m inode parent name context kind)) parent name context = Ok (Some inode)"
    and "(parent', name') \<noteq> (parent, name) \<Longrightarrow>
      lookup (snd (create_link now m inode parent name context kind)) parent' name' context'
        = lookup m parent' name' context'"
proof -
  let ?m = "snd (create_link now m inode parent name context kind)"
  obtain a where a: "table_get (ATTR_TABLE (ms_storage m)) parent = Some a"
    "may_access a context X_OK" "length name \<le> unat MAX_NAME_LENGTH" "\<not> ms_poisoned m" "\<not> ms_poisoned ?m"
    and st: "ms_storage ?m
      = (put_attrs parent (a\<lparr>attr_last_modified := now 0, attr_last_metadata_changed := now 1\<rparr>) (ms_storage m))
          \<lparr>DIRECTORY_TABLE := table_insert (parent, name) (inode, kind) (DIRECTORY_TABLE (ms_storage m))\<rparr>"
    by (rule create_link_Ok [OF assms])
  show "lookup ?m parent name context = Ok (Some inode)"
    using a by (simp add: lookup_eq_Ok st)
  assume "(parent', name') \<noteq> (parent, name)"
  then show "lookup ?m parent' name' context' = lookup m parent' name' context'"
    using a by (simp add: lookup_def read_txn_def lookup_entry_def attrs_of_def st)
qed

definition sticky_applies :: "InodeAttributes \<Rightarrow> UserContext \<Rightarrow> bool" where
  "sticky_applies a context \<longleftrightarrow>
     attr_mode a AND ucast S_ISVTX \<noteq> 0 \<and> ctx_uid context \<noteq> attr_uid a \<and> ctx_uid context \<noteq> 0"

lemma remove_link_Ok:
  assumes "fst (remove_link now m parent name link context) = Ok (inode, complete)"
  obtains a kind where "table_get (ATTR_TABLE (ms_storage m)) parent = Some a"
    "table_get (DIRECTORY_TABLE (ms_storage m)) (parent, name) = Some (inode, kind)" "\<not> ms_poisoned m"
    "complete \<Longrightarrow> may_access a context W_OK \<and>
       (link \<noteq> None \<longrightarrow> fst (the link) = inode) \<and>
       (sticky_applies a context \<longrightarrow> (\<exists>uid. link = Some (inode, uid) \<and> uid = ctx_uid context))"
    "ms_storage (snd (remove_link now m parent name link context)) =
       (if complete then
          (put_attrs parent (a\<lparr>attr_last_metadata_changed := now 0, attr_last_modified := now 1\<rparr>) (ms_storage m))
            \<lparr>DIRECTORY_TABLE := table_remove (parent, name) (DIRECTORY_TABLE (ms_storage m))\<rparr>
        else ms_storage m)"
    "\<not> ms_poisoned (snd (remove_link now m parent name link context))"
proof -
  have np: "\<not> ms_poisoned m" using assms by (auto simp: remove_link_def split: if_splits)
  obtain a where a: "table_get (ATTR_TABLE (ms_storage m)) parent = Some a"
    using assms np
    by (cases "table_get (ATTR_TABLE (ms_storage m)) parent") (auto simp: remove_link_def txn_simps attrs_of_def)
  obtain i kind where e: "table_get (DIRECTORY_TABLE (ms_storage m)) (parent, name) = Some (i, kind)"
    using assms np a
    by (cases "table_get (DIRECTORY_TABLE (ms_storage m)) (parent, name)")
      (auto simp: remove_link_def txn_simps attrs_of_def)
  show thesis
  proof (cases link)
    case None
    show thesis
      using assms np a e by (intro that [of a kind])
        (auto simp: None remove_link_def txn_simps attrs_of_def Let_def sticky_applies_def split: if_splits)
  next
    case (Some l)
    show thesis
      using assms np a e by (intro that [of a kind])
        (auto simp: Some remove_link_def txn_simps attrs_of_def Let_def sticky_applies_def
          split: if_splits prod.splits)
  qed
qed

text \<open>Removing the link just created restores the directory, and nothing else of it changes.\<close>

lemma create_remove_link:
  assumes "fst (create_link now m inode parent name context kind) = Ok ()"
    and "\<not> sticky_applies a context" "table_get (ATTR_TABLE (ms_storage m)) parent = Some a"
  shows "fst (remove_link now' (snd (create_link now m inode parent name context kind)) parent name None context)
      = Ok (inode, True)"
    and "DIRECTORY_TABLE (ms_storage (snd (remove_link now'
        (snd (create_link now m inode parent name context kind)) parent name None context)))
      = DIRECTORY_TABLE (ms_storage m)"
proof -
  let ?m = "snd (create_link now m inode parent name context kind)"
  obtain a' where a': "table_get (ATTR_TABLE (ms_storage m)) parent = Some a'" "may_access a' context W_OK"
    "table_get (DIRECTORY_TABLE (ms_storage m)) (parent, name) = None" "\<not> ms_poisoned ?m"
    and st: "ms_storage ?m
      = (put_attrs parent (a'\<lparr>attr_last_modified := now 0, attr_last_metadata_changed := now 1\<rparr>) (ms_storage m))
          \<lparr>DIRECTORY_TABLE := table_insert (parent, name) (inode, kind) (DIRECTORY_TABLE (ms_storage m))\<rparr>"
    by (rule create_link_Ok [OF assms(1)])
  have "a' = a" using a'(1) assms(3) by simp
  then show "fst (remove_link now' ?m parent name None context) = Ok (inode, True)"
    "DIRECTORY_TABLE (ms_storage (snd (remove_link now' ?m parent name None context)))
      = DIRECTORY_TABLE (ms_storage m)"
    using a' assms(2)
    by (auto simp: remove_link_def txn_simps attrs_of_def st Let_def sticky_applies_def kv.rem_ins)
qed

section \<open>Rollbacks\<close>

lemma hardlink_rollback_inverse:
  assumes "fst (hardlink_stage0_link_increment now m inode) = Ok old"
  shows "fst (hardlink_rollback (snd (hardlink_stage0_link_increment now m inode)) inode old) = Ok ()"
    and "ms_storage (snd (hardlink_rollback (snd (hardlink_stage0_link_increment now m inode)) inode old))
      = ms_storage m"
proof -
  let ?m = "snd (hardlink_stage0_link_increment now m inode)"
  obtain a where a: "table_get (ATTR_TABLE (ms_storage m)) inode = Some a"
    "old = attr_last_metadata_changed a" "\<not> ms_poisoned ?m"
    and st: "ms_storage ?m = put_attrs inode (a\<lparr>attr_hardlinks := attr_hardlinks a + 1,
        attr_last_metadata_changed := now 0\<rparr>) (ms_storage m)"
    using assms unfolding hardlink_stage0_link_increment_def Let_def
    by (elim write_txn_Ok) (auto simp: res_simps)
  then show "fst (hardlink_rollback ?m inode old) = Ok ()"
    "ms_storage (snd (hardlink_rollback ?m inode old)) = ms_storage m"
    by (simp_all add: hardlink_rollback_def txn_simps attrs_of_def put_attrs_def kv.ins_ins kv.ins_same Let_def)
qed

lemma create_inode_Ok:
  assumes "fst (create_inode now m parent uid gid mode kind) = Ok (inode, a)"
  shows "inode = ms_next_inode m" "a = new_inode_metadata now inode uid gid mode kind"
    "\<not> ms_poisoned (snd (create_inode now m parent uid gid mode kind))"
    "ms_storage (snd (create_inode now m parent uid gid mode kind)) =
      (if kind = Directory
       then (put_attrs inode a (ms_storage m))\<lparr>PARENTS_TABLE := table_insert inode parent (PARENTS_TABLE (ms_storage m))\<rparr>
       else put_attrs inode a (ms_storage m))"
  using assms
  by (auto simp: create_inode_def allocate_inode_def txn_simps Let_def split: if_splits)

lemma storage_wf_unused:
  assumes "storage_wf g m" "unat (ms_next_inode m) + unat (ms_num_raft_groups m) < 2 ^ 64"
  shows "unat (ms_next_inode m) + 1 < 2 ^ 64" "table_get (PARENTS_TABLE (ms_storage m)) (ms_next_inode m) = None"
    "table_get (XATTR_TABLE (ms_storage m)) (ms_next_inode m, key) = None"
proof -
  have "0 < unat (ms_num_raft_groups m)" using assms(1) by (auto simp: storage_wf_def word_less_nat_alt)
  with assms(2) show "unat (ms_next_inode m) + 1 < 2 ^ 64" by simp
  show "table_get (PARENTS_TABLE (ms_storage m)) (ms_next_inode m) = None"
    "table_get (XATTR_TABLE (ms_storage m)) (ms_next_inode m, key) = None"
    using storage_wf_tables [OF assms(1)] storage_wf_fresh [OF assms(1)]
    by (simp_all add: tables_wf_def parents_wf_def xattrs_wf_def)
qed

lemma create_decrement_inode:
  assumes "storage_wf g m" "unat (ms_next_inode m) + unat (ms_num_raft_groups m) < 2 ^ 64"
    and "fst (create_inode now m parent uid gid mode kind) = Ok (inode, a)"
    and "\<And>name. table_get (DIRECTORY_TABLE (ms_storage m)) (inode, name) = None"
  defines "m' \<equiv> snd (create_inode now m parent uid gid mode kind)"
  shows "fst (decrement_inode_link_count now' m' inode (attr_hardlinks a))
      = Ok (if kind = Directory then None else Some inode)"
    and "ms_storage (snd (decrement_inode_link_count now' m' inode (attr_hardlinks a))) = ms_storage m"
proof -
  note c = create_inode_Ok [OF assms(3), folded m'_def]
  note unused = storage_wf_unused [OF assms(1,2)]
  have a: "attr_kind a = kind" "table_get (ATTR_TABLE (ms_storage m')) inode = Some a"
    using c by (simp_all add: new_inode_metadata_def)
  have e: "entries_of inode (DIRECTORY_TABLE (ms_storage m)) = []"
    using unused(1) c(1) assms(4) by (subst entries_of_empty_iff) simp_all
  have x: "table_clear (inode, []) (inode + 1, []) (XATTR_TABLE (ms_storage m)) = XATTR_TABLE (ms_storage m)"
    using unused(1,3) c(1) by (intro kv.clear_unused) (subst entries_of_empty_iff, simp_all)
  have d: "table_remove inode (table_insert inode a (ATTR_TABLE (ms_storage m))) = ATTR_TABLE (ms_storage m)"
    "table_remove inode (table_insert inode parent (PARENTS_TABLE (ms_storage m))) = PARENTS_TABLE (ms_storage m)"
    using c(1) unused(2) storage_wf_fresh [OF assms(1)] by (simp_all add: kv.rem_ins)
  show "fst (decrement_inode_link_count now' m' inode (attr_hardlinks a))
      = Ok (if kind = Directory then None else Some inode)"
    "ms_storage (snd (decrement_inode_link_count now' m' inode (attr_hardlinks a))) = ms_storage m"
    using a c(3,4) e by (auto simp: decrement_inode_link_count_def txn_simps attrs_of_def Let_def x d put_attrs_def)
qed

text \<open>A directory is deleted only when it is empty; the attempt panics otherwise.\<close>

lemma decrement_nonempty:
  assumes "\<not> ms_poisoned m" "table_get (ATTR_TABLE (ms_storage m)) inode = Some a" "attr_kind a = Directory"
    and "attr_hardlinks a = count" "unat inode + 1 < 2 ^ 64"
    and "table_get (DIRECTORY_TABLE (ms_storage m)) (inode, name) = Some v"
  shows "fst (decrement_inode_link_count now m inode count) = Panic"
    and "ms_storage (snd (decrement_inode_link_count now m inode count)) = ms_storage m"
proof -
  have "entries_of inode (DIRECTORY_TABLE (ms_storage m)) \<noteq> []"
    using entries_of_empty_iff [OF assms(5)] assms(6) by (metis option.distinct(1))
  with assms show "fst (decrement_inode_link_count now m inode count) = Panic"
    "ms_storage (snd (decrement_inode_link_count now m inode count)) = ms_storage m"
    by (auto simp: decrement_inode_link_count_def txn_simps attrs_of_def Let_def)
qed

section \<open>Permissions\<close>

lemma chmod_eq:
  assumes "\<not> ms_poisoned m" "table_get (ATTR_TABLE (ms_storage m)) inode = Some a"
  shows "fst (chmod now m inode mode context) =
      (if ctx_uid context = 0 \<or> ctx_uid context = attr_uid a then Ok () else Err OperationNotPermitted)"
    and "ms_storage (snd (chmod now m inode mode context)) =
      (if ctx_uid context = 0 \<or> ctx_uid context = attr_uid a
       then put_attrs inode (a\<lparr>attr_mode := ucast (mode AND NOT (S_ISUID OR S_ISGID)),
              attr_last_metadata_changed := now 0\<rparr>) (ms_storage m)
       else ms_storage m)"
  using assms by (auto simp: chmod_def txn_simps attrs_of_def Let_def ensure_def)

definition may_chown :: "InodeAttributes \<Rightarrow> u32 option \<Rightarrow> u32 option \<Rightarrow> UserContext \<Rightarrow> bool" where
  "may_chown a uid gid context \<longleftrightarrow>
     (uid = None \<or> ctx_uid context = 0 \<or> uid = Some (attr_uid a) \<and> ctx_uid context = attr_uid a) \<and>
     (gid = None \<or> ctx_uid context = 0 \<or> ctx_uid context = attr_uid a)"

lemma chown_eq:
  assumes "\<not> ms_poisoned m" "table_get (ATTR_TABLE (ms_storage m)) inode = Some a"
  shows "fst (chown now m inode uid gid context)
      = (if may_chown a uid gid context then Ok () else Err OperationNotPermitted)"
    and "may_chown a uid gid context \<Longrightarrow>
      \<exists>a'. ms_storage (snd (chown now m inode uid gid context)) = put_attrs inode a' (ms_storage m)
      \<and> attr_uid a' = (case uid of None \<Rightarrow> attr_uid a | Some u \<Rightarrow> u)
      \<and> attr_gid a' = (case gid of None \<Rightarrow> attr_gid a | Some g \<Rightarrow> g) \<and> attr_mode a' = attr_mode a"
    and "\<not> may_chown a uid gid context \<Longrightarrow> ms_storage (snd (chown now m inode uid gid context)) = ms_storage m"
proof -
  show "fst (chown now m inode uid gid context)
      = (if may_chown a uid gid context then Ok () else Err OperationNotPermitted)"
    "\<not> may_chown a uid gid context \<Longrightarrow> ms_storage (snd (chown now m inode uid gid context)) = ms_storage m"
    using assms
    by (cases uid; cases gid; auto simp: chown_def may_chown_def txn_simps attrs_of_def Let_def ensure_def)+
  let ?a1 = "case uid of None \<Rightarrow> a | Some u \<Rightarrow> a\<lparr>attr_uid := u\<rparr>"
  let ?a2 = "case gid of None \<Rightarrow> ?a1 | Some g \<Rightarrow> ?a1\<lparr>attr_gid := g\<rparr>"
  let ?a3 = "if uid \<noteq> None \<or> gid \<noteq> None then ?a2\<lparr>attr_last_metadata_changed := now 0\<rparr> else ?a2"
  assume "may_chown a uid gid context"
  then have "ms_storage (snd (chown now m inode uid gid context)) = put_attrs inode ?a3 (ms_storage m)"
    using assms
    by (cases uid; cases gid; auto simp: chown_def may_chown_def txn_simps attrs_of_def Let_def ensure_def)
  then show "\<exists>a'. ms_storage (snd (chown now m inode uid gid context)) = put_attrs inode a' (ms_storage m)
      \<and> attr_uid a' = (case uid of None \<Rightarrow> attr_uid a | Some u \<Rightarrow> u)
      \<and> attr_gid a' = (case gid of None \<Rightarrow> attr_gid a | Some g \<Rightarrow> g) \<and> attr_mode a' = attr_mode a"
    by (intro exI [of _ ?a3]) (auto split: option.split)
qed

section \<open>Listings\<close>

lemma readdir_Ok:
  assumes "storage_wf g m" "readdir m inode = Ok result"
  obtains parent where "table_get (PARENTS_TABLE (ms_storage m)) inode = Some parent"
    "take 2 result = [(inode, ''.'', Directory), (parent, ''..'', Directory)]"
    "sorted_wrt (<) (map (\<lambda>(_, name, _). name) (drop 2 result))"
    "\<And>i name kind. (i, name, kind) \<in> set (drop 2 result) \<longleftrightarrow>
       table_get (DIRECTORY_TABLE (ms_storage m)) (inode, name) = Some (i, kind)"
proof -
  obtain a parent where a: "table_get (ATTR_TABLE (ms_storage m)) inode = Some a"
    and p: "table_get (PARENTS_TABLE (ms_storage m)) inode = Some parent"
    and r: "result = (inode, ''.'', Directory) # (parent, ''..'', Directory)
         # map (\<lambda>(key, value). (fst value, snd key, snd value)) (entries_of inode (DIRECTORY_TABLE (ms_storage m)))"
    using assms(2) by (auto simp: readdir_def read_txn_def res_simps split: if_splits)
  note b = stored_inode_bound [OF assms(1) a]
  show thesis
  proof (rule that [OF p])
    show "take 2 result = [(inode, ''.'', Directory), (parent, ''..'', Directory)]"
      by (simp add: r)
    have "map (\<lambda>(_, name, _). name) (drop 2 result)
        = map (\<lambda>(key, _). snd key) (entries_of inode (DIRECTORY_TABLE (ms_storage m)))"
      by (simp add: r split_beta comp_def)
    then show "sorted_wrt (<) (map (\<lambda>(_, name, _). name) (drop 2 result))"
      using entries_of_names [OF b, of "DIRECTORY_TABLE (ms_storage m)"] by simp
    show "(i, name, kind) \<in> set (drop 2 result) \<longleftrightarrow>
       table_get (DIRECTORY_TABLE (ms_storage m)) (inode, name) = Some (i, kind)" for i name kind
    proof -
      have "(i, name, kind) \<in> set (drop 2 result) \<longleftrightarrow>
          (\<exists>p. ((p, name), (i, kind)) \<in> set (entries_of inode (DIRECTORY_TABLE (ms_storage m))))"
        by (force simp: r simp del: table_get_simps)
      then show ?thesis by (simp add: entries_of_mem [OF b])
    qed
  qed
qed

section \<open>Durability\<close>

lemma write_txn_durable_eq:
  "ms_durable (snd (write_txn m body)) =
     (if ms_poisoned m \<or> ms_durability_counter m mod 100 \<noteq> 0 then ms_durable m
      else committed (body (ms_storage m)) (ms_durable m))"
  by (simp add: write_txn_def split_beta split: res.split option.split)

lemma metadata_step_durable:
  assumes "metadata_step m m'"
  shows "ms_durable m' = ms_durable m \<or> ms_durable m' = ms_storage m'"
  using assms
proof (cases rule: metadata_step.cases)
  case (11 now inode parent name ctx kind)
  then show ?thesis
    using write_txn_durable [of m] by (auto simp: create_link_def split: res.split option.split)
next
  case (15 now parent uid gid mode kind)
  then show ?thesis
    by (simp add: create_inode_def allocate_inode_def Let_def txn_simps write_txn_durable_eq)
qed (use write_txn_durable [of m] in \<open>auto simp: set_xattr_def remove_xattr_def utimens_def chmod_def chown_def
    hardlink_stage0_link_increment_def hardlink_rollback_def update_metadata_changed_time_def
    truncate_attrs_def write_attrs_def replace_link_def update_parent_def remove_link_def
    decrement_inode_link_count_def\<close>)

lemma metadata_steps_durable:
  assumes "metadata_steps m0 m" "ms_durable m0 = ms_storage m0"
  shows "\<exists>m1. metadata_steps m0 m1 \<and> metadata_steps m1 m \<and> ms_durable m = ms_storage m1"
  using assms(1)
proof (induction rule: rtranclp_induct)
  case base
  then show ?case using assms(2) by blast
next
  case (step m m')
  then obtain m1 where "metadata_steps m0 m1" "metadata_steps m1 m" "ms_durable m = ms_storage m1" by blast
  with step.hyps metadata_step_durable [OF step.hyps(2)] show ?case
    by (metis rtranclp.rtrancl_into_rtrancl rtranclp.rtrancl_refl)
qed

text \<open>A transaction that is not committed still uses up its turn of the durability counter.\<close>

lemma write_txn_counter:
  "\<not> ms_poisoned m \<Longrightarrow> ms_durability_counter (snd (write_txn m body)) = ms_durability_counter m + 1"
  by (simp add: write_txn_def split_beta split: res.split option.split)

lemma write_txn_not_durable:
  assumes "ms_durability_counter m mod 100 = 0 \<longrightarrow> committed (body (ms_storage m)) (ms_durable m) = ms_durable m"
  shows "ms_durable (snd (write_txn m body)) = ms_durable m"
  using assms by (simp add: write_txn_durable_eq)

section \<open>Properties\<close>

text \<open>A freshly started storage of the only group, and a link made in its root directory.\<close>

definition epoch :: clock where
  "epoch i = \<lparr>ts_seconds = 0, ts_nanos = 0\<rparr>"

definition root_user :: UserContext where
  "root_user = \<lparr>ctx_uid = 0, ctx_gid = 0\<rparr>"

definition fresh_tables :: tables where
  "fresh_tables = empty_tables\<lparr>
     PARENTS_TABLE := table_insert ROOT_INODE ROOT_INODE (PARENTS_TABLE empty_tables),
     ATTR_TABLE := table_insert ROOT_INODE (root_attributes epoch) (ATTR_TABLE empty_tables)\<rparr>"

definition fresh_storage :: metadata_storage where
  "fresh_storage = \<lparr>ms_storage = fresh_tables, ms_durable = fresh_tables, ms_poisoned = False,
     ms_next_inode = 2, ms_durability_counter = 0, ms_num_raft_groups = 1\<rparr>"

lemma fresh_storage_new: "MetadataStorage_new epoch 0 1 empty_tables = Some (Ok fresh_storage)"
proof -
  have "start_inode_loop 1 0 2 = Some 2" by (subst start_inode_loop.simps) simp
  then show ?thesis
    by (simp add: MetadataStorage_new_def fresh_storage_def fresh_tables_def ROOT_INODE_def Let_def)
qed

lemma fresh_storage_reachable: "metadata_reachable 0 1 fresh_storage"
  using fresh_storage_new unfolding metadata_reachable_def by blast

lemma fresh_storage_wf: "storage_wf 0 fresh_storage"
  using metadata_reachable_wf [OF fresh_storage_reachable] by simp

text \<open>Group \<open>g\<close> of two, whose first inode number is \<open>k\<close>.\<close>

definition second_group :: "u16 \<Rightarrow> u64 \<Rightarrow> metadata_storage" where
  "second_group g k = fresh_storage\<lparr>ms_next_inode := k, ms_num_raft_groups := 2\<rparr>"

lemma second_group_reachable: "metadata_reachable 0 2 (second_group 0 2)" "metadata_reachable 1 2 (second_group 1 3)"
proof -
  have l: "start_inode_loop 2 0 2 = Some 2" "start_inode_loop 2 1 2 = Some 3"
    by (subst start_inode_loop.simps, simp)+
  have "MetadataStorage_new epoch 0 2 empty_tables = Some (Ok (second_group 0 2))"
    "MetadataStorage_new epoch 1 2 empty_tables = Some (Ok (second_group 1 3))"
    using l by (simp_all add: MetadataStorage_new_def second_group_def fresh_storage_def fresh_tables_def
        ROOT_INODE_def Let_def)
  then show "metadata_reachable 0 2 (second_group 0 2)" "metadata_reachable 1 2 (second_group 1 3)"
    unfolding metadata_reachable_def by blast+
qed

lemma fresh_storage_fields [simp]:
  "ms_storage fresh_storage = fresh_tables" "ms_durable fresh_storage = fresh_tables"
  "\<not> ms_poisoned fresh_storage" "ms_next_inode fresh_storage = 2" "ms_num_raft_groups fresh_storage = 1"
  "ms_durability_counter fresh_storage = 0"
  by (simp_all add: fresh_storage_def)

lemma fresh_tables_get [simp]:
  "table_get (ATTR_TABLE fresh_tables) i = (if i = ROOT_INODE then Some (root_attributes epoch) else None)"
  "table_get (PARENTS_TABLE fresh_tables) i = (if i = ROOT_INODE then Some ROOT_INODE else None)"
  "table_get (DIRECTORY_TABLE fresh_tables) k = None" "table_get (XATTR_TABLE fresh_tables) k = None"
  by (simp_all add: fresh_tables_def empty_tables_def)

lemma root_access [simp]: "may_access (root_attributes epoch) root_user access"
  unfolding check_access_iff_granted by (auto simp: granted_def root_attributes_def root_user_def)

text \<open>
  C25. The metadata invariant. In every state that a group's storage reaches from an empty
  database, the attribute rows are stored under their own inode number, which is the root's or a
  number of this group below the counter; no row has a set-id bit; extended attributes belong to
  existing inodes; exactly the directories have a parent; entry names fit the limit. The same
  holds of the durable state, which is what a crash would leave.
\<close>

theorem metadata_invariant:
  assumes "metadata_reachable g n m" "g < n"
  shows "tables_wf (ucast n) (ucast g) (ms_next_inode m) (ms_storage m)
    \<and> tables_wf (ucast n) (ucast g) (ms_next_inode m) (ms_durable m)
    \<and> ms_next_inode m mod ucast n = ucast g"
  using metadata_reachable_wf [OF assms] by (auto simp: storage_wf_def)

theorem metadata_invariant_witness:
  "tables_wf (ucast (1 :: u16)) (ucast (0 :: u16)) (ms_next_inode fresh_storage) (ms_storage fresh_storage)"
  using metadata_invariant [OF fresh_storage_reachable] by simp




text \<open>
  C31. A crash never leaves a state that was not committed: at any point of a history, the durable
  tables are the tables of an earlier state of the same history.
\<close>

theorem durable_state_is_past:
  assumes "MetadataStorage_new now g n empty_tables = Some (Ok m0)" "metadata_steps m0 m"
  shows "\<exists>m1. metadata_steps m0 m1 \<and> metadata_steps m1 m \<and> ms_durable m = ms_storage m1"
proof -
  have "ms_durable m0 = ms_storage m0"
    using assms(1) by (auto simp: MetadataStorage_new_def Let_def split: if_splits)
  then show ?thesis using metadata_steps_durable [OF assms(2)] by blast
qed

theorem durable_state_is_past_witness:
  "\<exists>m1. metadata_steps fresh_storage m1
     \<and> metadata_steps m1 (snd (chmod epoch fresh_storage 1 0 root_user))
     \<and> ms_durable (snd (chmod epoch fresh_storage 1 0 root_user)) = ms_storage m1"
  using durable_state_is_past [OF fresh_storage_new, of "snd (chmod epoch fresh_storage 1 0 root_user)"]
    metadata_step.intros(4) by blast

text \<open>
  C33. Extended attributes read back: after a successful \<^verbatim>\<open>set_xattr\<close>, \<^verbatim>\<open>get_xattr\<close> of that key
  returns the value to every user who passes the read check on the inode (and the check's error to
  every other), and \<^verbatim>\<open>list_xattrs\<close> lists the key.
\<close>

theorem xattr_roundtrip:
  assumes "storage_wf g m" "fst (set_xattr now m inode key value context) = Ok ()"
  shows "get_xattr (snd (set_xattr now m inode key value context)) inode key context'
      = map_ok (\<lambda>_. value) (and_then (attrs_of (ms_storage m) inode) (\<lambda>a. xattr_access_check key R_OK a context'))
    \<and> (\<exists>keys. list_xattrs (snd (set_xattr now m inode key value context)) inode = Ok keys \<and> key \<in> set keys)"
proof -
  obtain a where a: "table_get (ATTR_TABLE (ms_storage m)) inode = Some a"
    and st: "ms_storage (snd (set_xattr now m inode key value context))
      = put_attrs inode (a\<lparr>attr_last_metadata_changed := now 0\<rparr>)
          ((ms_storage m)\<lparr>XATTR_TABLE := table_insert (inode, key) value (XATTR_TABLE (ms_storage m))\<rparr>)"
    and p: "\<not> ms_poisoned (snd (set_xattr now m inode key value context))"
    using assms(2) by (rule set_xattr_Ok)
  let ?x = "table_insert (inode, key) value (XATTR_TABLE (ms_storage m))"
  have "((inode, key), value) \<in> set (entries_of inode ?x)"
    by (simp add: entries_of_mem [OF stored_inode_bound [OF assms(1) a]])
  then have "key \<in> set (map (\<lambda>(key, _). snd key) (entries_of inode ?x))" by force
  then show ?thesis
    using set_xattr_get_xattr [OF assms(2)] p st by (simp add: list_xattrs_def read_txn_def)
qed

theorem xattr_roundtrip_witness:
  "get_xattr (snd (set_xattr epoch fresh_storage 1 ''user.a'' [7] root_user)) 1 ''user.a'' root_user = Ok [7]"
proof -
  have "xattr_access_check ''user.a'' access (root_attributes epoch) root_user = Ok ()" for access
    by (simp add: xattr_access_check_def parse_xattr_namespace_def)
  moreover from this have "fst (set_xattr epoch fresh_storage 1 ''user.a'' [7] root_user) = Ok ()"
    by (simp add: set_xattr_def txn_simps attrs_of_def ROOT_INODE_def)
  ultimately show ?thesis
    using xattr_roundtrip [OF fresh_storage_wf, of epoch 1 "''user.a''" "[7]" root_user root_user]
    by (simp add: attrs_of_def ROOT_INODE_def)
qed

text \<open>
  C34. Links read back: a successful \<^verbatim>\<open>create_link\<close> is what \<^verbatim>\<open>lookup\<close> of that name then finds, every
  other lookup answers as before, and the link of an unrestricted directory can be removed again,
  which restores the directory table.
\<close>

theorem link_roundtrip:
  assumes "fst (create_link now m inode parent name context kind) = Ok ()"
  defines "m' \<equiv> snd (create_link now m inode parent name context kind)"
  shows "lookup m' parent name context = Ok (Some inode)
    \<and> ((parent', name') \<noteq> (parent, name) \<longrightarrow> lookup m' parent' name' context' = lookup m parent' name' context')
    \<and> (table_get (ATTR_TABLE (ms_storage m)) parent = Some a \<longrightarrow> \<not> sticky_applies a context \<longrightarrow>
        fst (remove_link now' m' parent name None context) = Ok (inode, True) \<and>
        DIRECTORY_TABLE (ms_storage (snd (remove_link now' m' parent name None context))) = DIRECTORY_TABLE (ms_storage m))"
  using create_link_lookup [OF assms(1)] create_remove_link [OF assms(1)] unfolding m'_def by blast

theorem link_roundtrip_witness:
  "lookup (snd (create_link epoch fresh_storage 2 1 ''f'' root_user File)) 1 ''f'' root_user = Ok (Some 2)"
proof -
  have "lookup fresh_storage 1 ''f'' root_user = Ok None"
    by (simp add: lookup_eq_Ok ROOT_INODE_def MAX_NAME_LENGTH_def)
  then have "fst (create_link epoch fresh_storage 2 1 ''f'' root_user File) = Ok ()"
    by (simp add: create_link_def txn_simps attrs_of_def ROOT_INODE_def)
  then show ?thesis using link_roundtrip by blast
qed

text \<open>
  C35. Undoing a hard link leaves no trace in the tables: \<^verbatim>\<open>hardlink_rollback\<close> with the timestamp
  that \<^verbatim>\<open>hardlink_stage0_link_increment\<close> returned restores the tables exactly.
\<close>

theorem hardlink_rollback_restores:
  assumes "fst (hardlink_stage0_link_increment now m inode) = Ok old"
  shows "fst (hardlink_rollback (snd (hardlink_stage0_link_increment now m inode)) inode old) = Ok ()
    \<and> ms_storage (snd (hardlink_rollback (snd (hardlink_stage0_link_increment now m inode)) inode old))
      = ms_storage m"
  using hardlink_rollback_inverse [OF assms] by blast

theorem hardlink_rollback_restores_witness:
  "ms_storage (snd (hardlink_rollback (snd (hardlink_stage0_link_increment epoch fresh_storage 1)) 1 (epoch 2)))
     = fresh_tables"
  using hardlink_rollback_restores [of epoch fresh_storage 1 "epoch 2"]
  by (simp add: hardlink_stage0_link_increment_def txn_simps attrs_of_def ROOT_INODE_def root_attributes_def)

text \<open>
  C36. Undoing an inode creation leaves no trace in the tables: taking all links of a new inode
  away removes its rows again, and asks for its contents to be deleted exactly when it is not a
  directory.
\<close>

theorem create_inode_rollback_restores:
  assumes "storage_wf g m" "unat (ms_next_inode m) + unat (ms_num_raft_groups m) < 2 ^ 64"
    and "fst (create_inode now m parent uid gid mode kind) = Ok (inode, a)"
    and "\<And>name. table_get (DIRECTORY_TABLE (ms_storage m)) (inode, name) = None"
  shows "fst (decrement_inode_link_count now' (snd (create_inode now m parent uid gid mode kind)) inode (attr_hardlinks a))
      = Ok (if kind = Directory then None else Some inode)
    \<and> ms_storage (snd (decrement_inode_link_count now' (snd (create_inode now m parent uid gid mode kind)) inode
        (attr_hardlinks a))) = ms_storage m"
  using create_decrement_inode [OF assms] by blast

theorem create_inode_rollback_restores_witness:
  "ms_storage (snd (decrement_inode_link_count epoch (snd (create_inode epoch fresh_storage 1 0 0 0 Directory)) 2 2))
     = fresh_tables"
  using create_inode_rollback_restores [OF fresh_storage_wf, of epoch 1 0 0 0 Directory 2
      "new_inode_metadata epoch 2 0 0 0 Directory" epoch]
  by (simp add: create_inode_def allocate_inode_def txn_simps Let_def new_inode_metadata_def)

text \<open>
  C28. Who may remove a link. When \<^verbatim>\<open>remove_link\<close> reports a completed removal, the entry named that
  inode, the caller may write the directory, a link inode that the caller passed is the entry's,
  and, where the sticky bit applies, the caller owns the file of the entry; the entry is gone and
  all others are as before. When it reports an incomplete removal the tables are unchanged.
\<close>

theorem remove_link_authorised:
  assumes "fst (remove_link now m parent name link context) = Ok (inode, complete)"
  shows "\<exists>a kind. table_get (ATTR_TABLE (ms_storage m)) parent = Some a
    \<and> table_get (DIRECTORY_TABLE (ms_storage m)) (parent, name) = Some (inode, kind)
    \<and> (complete \<longrightarrow> may_access a context W_OK \<and> (link \<noteq> None \<longrightarrow> fst (the link) = inode)
        \<and> (sticky_applies a context \<longrightarrow> link = Some (inode, ctx_uid context))
        \<and> DIRECTORY_TABLE (ms_storage (snd (remove_link now m parent name link context)))
            = table_remove (parent, name) (DIRECTORY_TABLE (ms_storage m)))
    \<and> (\<not> complete \<longrightarrow> ms_storage (snd (remove_link now m parent name link context)) = ms_storage m)"
  using assms by (rule remove_link_Ok) auto

theorem remove_link_authorised_witness:
  "\<exists>a kind. table_get (DIRECTORY_TABLE (ms_storage (snd (create_link epoch fresh_storage 2 1 ''f'' root_user File)))) (1, ''f'')
       = Some (2, kind) \<and> may_access a root_user W_OK"
proof -
  let ?m = "snd (create_link epoch fresh_storage 2 1 ''f'' root_user File)"
  have "lookup fresh_storage 1 ''f'' root_user = Ok None"
    by (simp add: lookup_eq_Ok ROOT_INODE_def MAX_NAME_LENGTH_def)
  then have "fst (create_link epoch fresh_storage 2 1 ''f'' root_user File) = Ok ()"
    by (simp add: create_link_def txn_simps attrs_of_def ROOT_INODE_def)
  from create_remove_link(1) [OF this, of "root_attributes epoch" epoch]
  have "fst (remove_link epoch ?m 1 ''f'' None root_user) = Ok (2, True)"
    by (simp add: sticky_applies_def root_user_def ROOT_INODE_def)
  from remove_link_authorised [OF this] show ?thesis by auto
qed

text \<open>
  C29. Who may change permissions and owners. \<^verbatim>\<open>chmod\<close> succeeds exactly for root and the owner and
  then sets the mode without its set-id bits; \<^verbatim>\<open>chown\<close> succeeds exactly when the owner is changed by
  root (or kept by the owner) and the group is changed by root or the owner, and then sets what was
  asked for and keeps the mode. A refused call changes no table.
\<close>

theorem chmod_chown_permissions:
  assumes "\<not> ms_poisoned m" "table_get (ATTR_TABLE (ms_storage m)) inode = Some a"
  shows "fst (chmod now m inode mode context) =
      (if ctx_uid context = 0 \<or> ctx_uid context = attr_uid a then Ok () else Err OperationNotPermitted)
    \<and> fst (chown now m inode uid gid context) = (if may_chown a uid gid context then Ok () else Err OperationNotPermitted)
    \<and> (ctx_uid context = 0 \<or> ctx_uid context = attr_uid a \<longrightarrow>
        ms_storage (snd (chmod now m inode mode context)) =
          put_attrs inode (a\<lparr>attr_mode := ucast (mode AND NOT (S_ISUID OR S_ISGID)),
            attr_last_metadata_changed := now 0\<rparr>) (ms_storage m))
    \<and> (may_chown a uid gid context \<longrightarrow>
        (\<exists>a'. ms_storage (snd (chown now m inode uid gid context)) = put_attrs inode a' (ms_storage m)
          \<and> attr_uid a' = (case uid of None \<Rightarrow> attr_uid a | Some u \<Rightarrow> u)
          \<and> attr_gid a' = (case gid of None \<Rightarrow> attr_gid a | Some g \<Rightarrow> g) \<and> attr_mode a' = attr_mode a))
    \<and> (\<not> (ctx_uid context = 0 \<or> ctx_uid context = attr_uid a) \<longrightarrow>
        ms_storage (snd (chmod now m inode mode context)) = ms_storage m)
    \<and> (\<not> may_chown a uid gid context \<longrightarrow> ms_storage (snd (chown now m inode uid gid context)) = ms_storage m)"
  using chown_eq(2) [OF assms] by (simp add: chmod_eq [OF assms] chown_eq(1,3) [OF assms])

theorem chmod_chown_permissions_witness:
  "fst (chmod epoch fresh_storage 1 0x1ED \<lparr>ctx_uid = 5, ctx_gid = 5\<rparr>) = Err OperationNotPermitted
   \<and> fst (chown epoch fresh_storage 1 (Some 5) None root_user) = Ok ()"
  using chmod_chown_permissions [of fresh_storage 1 "root_attributes epoch" epoch "0x1ED" "\<lparr>ctx_uid = 5, ctx_gid = 5\<rparr>"]
    chmod_chown_permissions [of fresh_storage 1 "root_attributes epoch" epoch 0 root_user "Some 5" None]
  by (simp add: ROOT_INODE_def root_attributes_def root_user_def may_chown_def)

text \<open>
  C37. A directory listing is complete and exact: \<^verbatim>\<open>readdir\<close> returns the directory itself and its
  parent under the names dot and dot-dot, and then exactly the entries of the directory, each
  once, in increasing order of their names.
\<close>

theorem readdir_exact:
  assumes "storage_wf g m" "readdir m inode = Ok result"
  shows "\<exists>parent. table_get (PARENTS_TABLE (ms_storage m)) inode = Some parent
    \<and> take 2 result = [(inode, ''.'', Directory), (parent, ''..'', Directory)]
    \<and> sorted_wrt (<) (map (\<lambda>(_, name, _). name) (drop 2 result))
    \<and> (\<forall>i name kind. (i, name, kind) \<in> set (drop 2 result) \<longleftrightarrow>
         table_get (DIRECTORY_TABLE (ms_storage m)) (inode, name) = Some (i, kind))"
  using assms by (rule readdir_Ok) blast

theorem readdir_exact_witness:
  "take 2 [(1 :: u64, ''.'', Directory), (1, ''..'', Directory)] = [(1, ''.'', Directory), (1, ''..'', Directory)]
   \<and> readdir fresh_storage 1 = Ok [(1, ''.'', Directory), (1, ''..'', Directory)]"
proof -
  have "entries_of (1 :: u64) (DIRECTORY_TABLE fresh_tables) = []" by (simp add: kv.scan_empty_iff)
  then have r: "readdir fresh_storage 1 = Ok [(1, ''.'', Directory), (1, ''..'', Directory)]"
    by (simp add: readdir_def read_txn_def ROOT_INODE_def)
  show ?thesis using readdir_exact [OF fresh_storage_wf r] r by simp
qed

text \<open>
  C38. A non-empty directory is never deleted: taking its last links away panics and commits
  nothing.
\<close>

theorem nonempty_directory_not_deleted:
  assumes "storage_wf g m" "\<not> ms_poisoned m"
    and "table_get (ATTR_TABLE (ms_storage m)) inode = Some a" "attr_kind a = Directory" "attr_hardlinks a = count"
    and "table_get (DIRECTORY_TABLE (ms_storage m)) (inode, name) = Some v"
  shows "fst (decrement_inode_link_count now m inode count) = Panic
    \<and> ms_storage (snd (decrement_inode_link_count now m inode count)) = ms_storage m"
  using decrement_nonempty [OF assms(2-5) stored_inode_bound [OF assms(1,3)] assms(6)] by blast

theorem nonempty_directory_not_deleted_witness:
  "fst (decrement_inode_link_count epoch (snd (create_link epoch fresh_storage 2 1 ''f'' root_user File)) 1 2) = Panic"
proof -
  let ?m = "snd (create_link epoch fresh_storage 2 1 ''f'' root_user File)"
  have "lookup fresh_storage 1 ''f'' root_user = Ok None"
    by (simp add: lookup_eq_Ok ROOT_INODE_def MAX_NAME_LENGTH_def)
  then have "\<not> ms_poisoned ?m"
    "table_get (ATTR_TABLE (ms_storage ?m)) 1 = Some ((root_attributes epoch)\<lparr>attr_last_modified := epoch 0,
       attr_last_metadata_changed := epoch 1\<rparr>)"
    "table_get (DIRECTORY_TABLE (ms_storage ?m)) (1, ''f'') = Some (2, File)"
    by (simp_all add: create_link_def txn_simps attrs_of_def ROOT_INODE_def)
  from nonempty_directory_not_deleted [OF create_link_wf [OF fresh_storage_wf] this(1,2) _ _ this(3), of 2 epoch]
  show ?thesis by (simp add: root_attributes_def)
qed

text \<open>
  Which transactions reach the disk. The durability counter picks one transaction in a
  hundred, and a transaction that is not committed uses up its turn: when every transaction whose
  turn comes fails, no state becomes durable, however many others were committed in between.
\<close>

theorem durability_turn_lost_on_failure:
  fixes bodies :: "(tables \<Rightarrow> (ErrorCode, 'a \<times> tables option) res) list"
  assumes "unat (ms_durability_counter m) + length bodies < 2 ^ 64"
    and "\<And>i t. i < length bodies \<Longrightarrow> (unat (ms_durability_counter m) + i) mod 100 = 0 \<Longrightarrow> \<not> is_ok ((bodies ! i) t)"
  shows "ms_durable (foldl (\<lambda>m body. snd (write_txn m body)) m bodies) = ms_durable m"
  using assms
proof (induction bodies arbitrary: m)
  case (Cons body bodies)
  let ?m = "snd (write_txn m body)"
  have "ms_durability_counter m mod 100 = 0 \<Longrightarrow> \<not> is_ok (body (ms_storage m))"
    using Cons.prems(2) [of 0 "ms_storage m"] by (simp add: word_unat_eq_iff unat_mod)
  then have d: "ms_durable ?m = ms_durable m"
    by (cases "ms_durability_counter m mod 100 = 0"; cases "body (ms_storage m)") (simp_all add: write_txn_durable_eq)
  show ?case
  proof (cases "ms_poisoned m")
    case True
    then have "snd (write_txn m b) = m" for b :: "tables \<Rightarrow> (ErrorCode, 'a \<times> tables option) res"
      by (simp add: write_txn_def)
    then have "foldl (\<lambda>m body. snd (write_txn m body)) m bs = m" for bs :: "(tables \<Rightarrow> (ErrorCode, 'a \<times> tables option) res) list"
      by (induction bs) simp_all
    then show ?thesis by (simp only:)
  next
    case False
    then have u: "unat (ms_durability_counter ?m) = unat (ms_durability_counter m) + 1"
      using Cons.prems(1) by (simp add: write_txn_counter unat_add_ok)
    have "ms_durable (foldl (\<lambda>m body. snd (write_txn m body)) ?m bodies) = ms_durable ?m"
    proof (rule Cons.IH)
      show "unat (ms_durability_counter ?m) + length bodies < 2 ^ 64" using Cons.prems(1) u by simp
      show "\<not> is_ok ((bodies ! i) t)"
        if "i < length bodies" "(unat (ms_durability_counter ?m) + i) mod 100 = 0" for i t
        using Cons.prems(2) [of "Suc i" t] that u by simp
    qed
    with d show ?thesis by simp
  qed
qed simp

theorem durability_turn_lost_on_failure_witness:
  "ms_durable (foldl (\<lambda>m body. snd (write_txn m body)) fresh_storage
     [\<lambda>t. Err AccessDenied, \<lambda>t. Ok ((), Some empty_tables)]) = fresh_tables"
proof -
  let ?bodies = "[\<lambda>t. Err AccessDenied, \<lambda>t. Ok ((), Some empty_tables)]"
  have "ms_durable (foldl (\<lambda>m body. snd (write_txn m body)) fresh_storage ?bodies) = ms_durable fresh_storage"
  proof (rule durability_turn_lost_on_failure)
    fix i t
    assume "i < length ?bodies" "(unat (ms_durability_counter fresh_storage) + i) mod 100 = 0"
    then have "i = 0" by (cases i) auto
    then show "\<not> is_ok ((?bodies ! i) t)" by simp
  qed simp
  then show ?thesis by simp
qed

text \<open>
  C40. A restart hands out used inode numbers. A storage started over the tables that an earlier
  run left begins to count where the earlier run began, so that its first \<^verbatim>\<open>create_inode\<close> returns
  the number that the first one of the earlier run returned, and replaces the attributes of that
  inode when it still exists.
\<close>

theorem restart_reuses_inode_numbers:
  assumes "MetadataStorage_new now g n empty_tables = Some (Ok m0)"
    and "MetadataStorage_new now' g n (ms_durable m) = Some (Ok m1)"
    and "fst (create_inode c m0 parent uid gid mode kind) = Ok (i, a)"
    and "fst (create_inode c' m1 parent' uid' gid' mode' kind') = Ok (j, b)"
  shows "j = i \<and> table_get (ATTR_TABLE (ms_storage (snd (create_inode c' m1 parent' uid' gid' mode' kind')))) i = Some b"
proof -
  have "ms_next_inode m1 = ms_next_inode m0"
    using assms(1,2) by (auto simp: MetadataStorage_new_def Let_def split: if_splits)
  with create_inode_Ok [OF assms(3)] create_inode_Ok [OF assms(4)] show ?thesis by simp
qed

theorem restart_reuses_inode_numbers_witness:
  "\<exists>m1 b. MetadataStorage_new epoch 0 1 (ms_durable (snd (create_inode epoch fresh_storage 1 7 7 0 File))) = Some (Ok m1)
     \<and> table_get (ATTR_TABLE (ms_durable (snd (create_inode epoch fresh_storage 1 7 7 0 File)))) 2
         = Some (new_inode_metadata epoch 2 7 7 0 File)
     \<and> table_get (ATTR_TABLE (ms_storage (snd (create_inode epoch m1 1 8 8 0 File)))) 2 = Some b \<and> attr_uid b = 8"
proof -
  let ?m = "snd (create_inode epoch fresh_storage 1 7 7 0 File)"
  have "start_inode_loop 1 0 2 = Some 2" by (subst start_inode_loop.simps) simp
  then obtain m1 where m1: "MetadataStorage_new epoch 0 1 (ms_durable ?m) = Some (Ok m1)"
    "\<not> ms_poisoned m1" "ms_next_inode m1 = 2"
    by (simp add: MetadataStorage_new_def ROOT_INODE_def Let_def)
  have c: "fst (create_inode epoch fresh_storage 1 7 7 0 File) = Ok (2, new_inode_metadata epoch 2 7 7 0 File)"
    "fst (create_inode epoch m1 1 8 8 0 File) = Ok (2, new_inode_metadata epoch 2 8 8 0 File)"
    using m1 by (simp_all add: create_inode_def allocate_inode_def txn_simps Let_def)
  have "table_get (ATTR_TABLE (ms_durable ?m)) 2 = Some (new_inode_metadata epoch 2 7 7 0 File)"
    by (simp add: create_inode_def allocate_inode_def write_txn_durable_eq Let_def)
  then show ?thesis
    using restart_reuses_inode_numbers [OF fresh_storage_new m1(1) c] m1(1) by (auto simp: new_inode_metadata_def)
qed

end
