(* ===== verification/Striping.thy ===== *)
theory Striping
  imports Data_Storage
begin

text \<open>
  What striping means: the arithmetic of \<^verbatim>\<open>data_storage.rs\<close> over natural numbers, the share
  \<open>shard\<close> of the whole file that a rank holds, and for each operation of a node that it acts on
  the shares as the plain operation acts on the whole file. The bounds \<open>fits\<close> say that no
  64-bit index of the operation wraps around.
\<close>

section \<open>Striping over natural numbers\<close>

text \<open>
  The arithmetic of striping without wrap-around: \<open>global_of j r n\<close> is the position in the
  whole file of byte \<open>j\<close> of rank \<open>r\<close>'s share among \<open>n\<close> nodes, \<open>local_ceiling g r n\<close> the
  number of bytes of the first \<open>g\<close> that rank \<open>r\<close> holds.
\<close>

definition global_of :: "nat \<Rightarrow> nat \<Rightarrow> nat \<Rightarrow> nat" where
  "global_of j r n = j div 512 * 512 * n + r * 512 + j mod 512"

definition local_ceiling :: "nat \<Rightarrow> nat \<Rightarrow> nat \<Rightarrow> nat" where
  "local_ceiling g r n =
     (let b = g div 512; q = b div n * 512; m = b mod n
      in if r < m then q + 512 else if r = m then q + g mod 512 else q)"

definition owner :: "nat \<Rightarrow> nat \<Rightarrow> nat" where
  "owner g n = g div 512 mod n"

lemma lex_less:
  fixes x y u v k :: nat
  assumes "u < k" "v < k"
  shows "x * k + u < y * k + v \<longleftrightarrow> x < y \<or> x = y \<and> u < v"
proof -
  have "x * k + u < y * k + v" if "x < y"
  proof -
    have "x * k + u < (x + 1) * k" using assms by simp
    also have "\<dots> \<le> y * k" using that by (intro mult_le_mono1) simp
    finally show ?thesis by simp
  qed
  moreover have "\<not> x * k + u < y * k + v" if "y < x"
  proof -
    have "y * k + v < (y + 1) * k" using assms by simp
    also have "\<dots> \<le> x * k" using that by (intro mult_le_mono1) simp
    finally show ?thesis by simp
  qed
  ultimately show ?thesis using linorder_less_linear [of x y] by auto
qed

lemma lex_eq:
  fixes x y u v k :: nat
  assumes "u < k" "v < k"
  shows "x * k + u = y * k + v \<longleftrightarrow> x = y \<and> u = v"
  using lex_less [OF assms, of x y] lex_less [OF assms(2,1), of y x] by auto

lemma global_of_block: "global_of j r n = (j div 512 * n + r) * 512 + j mod 512"
  by (simp add: global_of_def algebra_simps)

lemma block_split: "g = (g div 512 div n * n + g div 512 mod n) * 512 + g mod 512" for g :: nat
  by (metis div_mult_mod_eq)

text \<open>The ceiling and the global index form a Galois connection.\<close>

lemma less_local_ceiling_iff:
  assumes "r < n"
  shows "j < local_ceiling g r n \<longleftrightarrow> global_of j r n < g"
proof -
  let ?a = "j div 512" and ?c = "j mod 512"
  let ?q = "g div 512 div n" and ?m = "g div 512 mod n" and ?e = "g mod 512"
  have c: "?c < 512" "?e < 512" by simp_all
  have m: "?m < n" using assms by simp
  have j: "j = ?a * 512 + ?c" by simp
  have "global_of j r n < g \<longleftrightarrow> (?a * n + r) * 512 + ?c < (?q * n + ?m) * 512 + ?e"
    using block_split [of g n] by (simp add: global_of_block)
  also have "\<dots> \<longleftrightarrow> ?a < ?q \<or> ?a = ?q \<and> (r < ?m \<or> r = ?m \<and> ?c < ?e)"
    unfolding lex_less [OF c] lex_less [OF assms m] lex_eq [OF assms m] by auto
  also have "\<dots> \<longleftrightarrow> j < local_ceiling g r n"
  proof -
    have "j < ?q * 512 + 512 \<longleftrightarrow> ?a \<le> ?q" by linarith
    moreover have "j < ?q * 512 \<longleftrightarrow> ?a < ?q" by linarith
    moreover have "j < ?q * 512 + ?e \<longleftrightarrow> ?a < ?q \<or> ?a = ?q \<and> ?c < ?e"
      using lex_less [OF c, of ?a ?q] by simp
    ultimately show ?thesis by (auto simp: local_ceiling_def Let_def)
  qed
  finally show ?thesis by simp
qed

lemma block_div: "(a * 512 + c mod 512) div 512 = a" for a c :: nat
  by simp

lemma owner_global_of: "r < n \<Longrightarrow> owner (global_of j r n) n = r"
  unfolding owner_def global_of_block block_div by simp

lemma global_of_less_iff: "r < n \<Longrightarrow> global_of i r n < global_of j r n \<longleftrightarrow> i < j"
proof -
  assume "r < n"
  have "i mod 512 < 512" "j mod 512 < 512" by simp_all
  note lex = lex_less [OF this]
  have n: "r < n" by fact
  have "global_of i r n < global_of j r n
      \<longleftrightarrow> i div 512 < j div 512 \<or> i div 512 = j div 512 \<and> i mod 512 < j mod 512"
    unfolding global_of_block lex lex_less [OF n n] lex_eq [OF n n] by auto
  also have "\<dots> \<longleftrightarrow> i < j"
    using lex [of "i div 512" "j div 512"] by simp
  finally show ?thesis .
qed

lemma global_of_ge: "r < n \<Longrightarrow> g \<le> global_of (local_ceiling g r n) r n"
  using less_local_ceiling_iff [of r n "local_ceiling g r n" g] by simp

lemma global_of_ceiling:
  assumes "r < n" "owner g n = r"
  shows "global_of (local_ceiling g r n) r n = g"
proof -
  have "local_ceiling g r n = g div 512 div n * 512 + g mod 512"
    using assms by (simp add: local_ceiling_def owner_def Let_def)
  then show ?thesis
    using assms block_split [of g n] by (simp add: global_of_block owner_def)
qed

lemma local_ceiling_mono: "r < n \<Longrightarrow> g \<le> g' \<Longrightarrow> local_ceiling g r n \<le> local_ceiling g' r n"
  by (metis less_le_trans less_local_ceiling_iff linorder_not_less order_less_irrefl)

lemma local_ceiling_0 [simp]: "local_ceiling 0 r n = 0"
  by (simp add: local_ceiling_def)

lemma local_ceiling_max:
  "r < n \<Longrightarrow> local_ceiling (max g g') r n = max (local_ceiling g r n) (local_ceiling g' r n)"
  using local_ceiling_mono by (cases "g \<le> g'") (auto simp: max_def intro: antisym)

lemma local_ceiling_min:
  "r < n \<Longrightarrow> local_ceiling (min g g') r n = min (local_ceiling g r n) (local_ceiling g' r n)"
  using local_ceiling_mono by (cases "g \<le> g'") (auto simp: min_def intro: antisym)

text \<open>Counting one byte more changes the share of its owner, by one.\<close>

lemma local_ceiling_Suc:
  assumes "r < n"
  shows "local_ceiling (Suc g) r n = (if owner g n = r then Suc (local_ceiling g r n) else local_ceiling g r n)"
proof -
  have "j < local_ceiling (Suc g) r n \<longleftrightarrow> j < local_ceiling g r n \<or> global_of j r n = g" for j
    using assms by (auto simp: less_local_ceiling_iff less_Suc_eq)
  moreover have "global_of j r n = g \<longleftrightarrow> owner g n = r \<and> j = local_ceiling g r n" for j
    using assms global_of_ceiling [of r n g] owner_global_of [of r n j]
    by (metis global_of_less_iff nat_neq_iff)
  ultimately have *: "j < local_ceiling (Suc g) r n
      \<longleftrightarrow> j < (if owner g n = r then Suc (local_ceiling g r n) else local_ceiling g r n)" for j
    by (auto simp: less_Suc_eq)
  then show ?thesis by (metis nat_neq_iff)
qed

section \<open>The share of a rank\<close>

definition shard :: "nat \<Rightarrow> nat \<Rightarrow> bytes \<Rightarrow> bytes" where
  "shard r n content = nths content {i. i div 512 mod n = r}"

lemma shard_conv_map:
  assumes "r < n"
  shows "shard r n content = map (\<lambda>j. content ! global_of j r n) [0..<local_ceiling (length content) r n]"
proof (induction content rule: rev_induct)
  case Nil
  then show ?case by (simp add: shard_def)
next
  case (snoc x xs)
  have old: "map (\<lambda>j. (xs @ [x]) ! global_of j r n) [0..<local_ceiling (length xs) r n]
      = map (\<lambda>j. xs ! global_of j r n) [0..<local_ceiling (length xs) r n]"
    using assms by (simp add: nth_append less_local_ceiling_iff)
  show ?case
  proof (cases "owner (length xs) n = r")
    case True
    then have "shard r n (xs @ [x]) = shard r n xs @ [x]"
      by (simp add: shard_def nths_append owner_def)
    with True assms show ?thesis
      by (simp add: local_ceiling_Suc snoc old global_of_ceiling)
  next
    case False
    then have "shard r n (xs @ [x]) = shard r n xs"
      by (simp add: shard_def nths_append owner_def)
    with False assms show ?thesis
      by (simp add: local_ceiling_Suc snoc old)
  qed
qed

lemma length_shard [simp]: "r < n \<Longrightarrow> length (shard r n content) = local_ceiling (length content) r n"
  by (simp add: shard_conv_map)

lemma nth_shard:
  "r < n \<Longrightarrow> j < local_ceiling (length content) r n \<Longrightarrow> shard r n content ! j = content ! global_of j r n"
  by (simp add: shard_conv_map)

lemma shard_Nil [simp]: "shard r n [] = []"
  by (simp add: shard_def)

section \<open>Buffers\<close>

lemma length_write_at [simp]: "length (write_at f off d) = max (length f) (off + length d)"
  by (auto simp: write_at_def max_def)

lemma nth_write_at:
  "i < max (length f) (off + length d) \<Longrightarrow>
   write_at f off d ! i =
     (if i < off then if i < length f then f ! i else 0
      else if i < off + length d then d ! (i - off) else f ! i)"
  by (auto simp: write_at_def nth_append min_def)

lemma write_at_Nil: "write_at f off [] = (if length f < off then set_len f off else f)"
  by (simp add: write_at_def set_len_def)

lemma length_set_len [simp]: "length (set_len f n) = n"
  by (simp add: set_len_def)

lemma nth_set_len: "i < n \<Longrightarrow> set_len f n ! i = (if i < length f then f ! i else 0)"
  by (simp add: set_len_def nth_append)

lemma length_slice [simp]: "length (slice xs a b) = min (b - a) (length xs - a)"
  by (simp add: slice_def)

lemma nth_slice: "i < b - a \<Longrightarrow> i < length xs - a \<Longrightarrow> slice xs a b ! i = xs ! (a + i)"
  by (simp add: slice_def)

lemma slice_conv_map: "b \<le> length xs \<Longrightarrow> slice xs a b = map ((!) xs) [a..<b]"
  by (rule nth_equalityI) (auto simp: nth_slice)

section \<open>Words and natural numbers\<close>

lemma unat_BLOCK_SIZE [simp]: "unat BLOCK_SIZE = 512"
  by (simp add: BLOCK_SIZE_def)

lemma unat_to_local_index_ceiling [stripe_simps]:
  assumes "unat g + 512 < 2 ^ 64"
  shows "unat (to_local_index_ceiling g r n) = local_ceiling (unat g) (unat r) (unat n)"
proof -
  let ?q = "unat g div 512 div unat n"
  have "?q * 512 \<le> unat g div 512 * 512" by simp
  also have "\<dots> \<le> unat g" by simp
  finally have q: "?q * 512 \<le> unat g" .
  have div: "unat (g div BLOCK_SIZE div n) = ?q" by (simp add: unat_div)
  have blocks: "unat (g div BLOCK_SIZE div n * BLOCK_SIZE) = ?q * 512"
    using q assms by (subst unat_mult_ok) (simp_all add: div)
  have full: "unat (g div BLOCK_SIZE div n * BLOCK_SIZE + BLOCK_SIZE) = ?q * 512 + 512"
    using q assms by (subst unat_add_ok) (simp_all add: blocks)
  have "unat g mod 512 < 512" by simp
  then have part: "unat (g div BLOCK_SIZE div n * BLOCK_SIZE + g mod BLOCK_SIZE)
      = ?q * 512 + unat g mod 512"
    using q assms by (subst unat_add_ok) (simp_all add: blocks unat_mod)
  show ?thesis
    by (simp add: to_local_index_ceiling_def local_ceiling_def Let_def word_less_nat_alt
        unat_mod unat_div full part blocks word_unat_eq_iff)
qed

lemma stores_index_iff [stripe_simps]:
  "stores_index g r n \<longleftrightarrow> owner (unat g) (unat n) = unat r"
  by (auto simp: stores_index_def owner_def Let_def unat_mod unat_div word_unat_eq_iff)

lemma unat_to_global_index [stripe_simps]:
  assumes "global_of (unat j) (unat r) (unat n) < 2 ^ 64"
  shows "unat (to_global_index j r n) = global_of (unat j) (unat r) (unat n)"
proof -
  let ?s = "unat j div 512" and ?m = "unat j mod 512"
  have g: "?s * 512 * unat n + unat r * 512 + ?m < 2 ^ 64"
    using assms by (simp add: global_of_def)
  have s: "unat (j div BLOCK_SIZE * BLOCK_SIZE) = ?s * 512"
    using unat_bound [of j] by (subst unat_mult_ok) (simp_all add: unat_div)
  have "?s * 512 * unat n < 2 ^ 64" using g by linarith
  with s have sn: "unat (j div BLOCK_SIZE * BLOCK_SIZE * n) = ?s * 512 * unat n"
    using unat_mult_ok [of "j div BLOCK_SIZE * BLOCK_SIZE" n] by metis
  have r: "unat (r * BLOCK_SIZE) = unat r * 512"
    using g by (subst unat_mult_ok) auto
  have sr: "unat (j div BLOCK_SIZE * BLOCK_SIZE * n + r * BLOCK_SIZE) = ?s * 512 * unat n + unat r * 512"
    using g by (subst unat_add_ok) (simp_all add: sn r)
  show ?thesis
    unfolding to_global_index_def Let_def
    using g by (subst unat_add_ok) (simp_all add: sr unat_mod global_of_def)
qed

section \<open>Runs of bytes inside a block\<close>

lemma div_mod_run:
  fixes j k m :: nat
  assumes "j mod m + k < m"
  shows "(j + k) div m = j div m" "(j + k) mod m = j mod m + k"
proof -
  have "j + k = j div m * m + (j mod m + k)" by simp
  with assms show "(j + k) div m = j div m" "(j + k) mod m = j mod m + k"
    by (metis div_mult_self3 mod_mult_self3 add_cancel_right_right div_less gr_implies_not0 less_imp_le_nat mod_less not_gr_zero add.commute)+
qed

lemma global_of_run:
  assumes "j mod 512 + k < 512"
  shows "global_of (j + k) r n = global_of j r n + k"
  unfolding global_of_def div_mod_run [OF assms] by simp

lemma global_of_next_block:
  assumes "0 < n"
  shows "global_of (j + (512 - j mod 512)) r n = global_of j r n + (512 - j mod 512) + (n - 1) * 512"
proof -
  let ?a = "j div 512" and ?m = "j mod 512"
  have m: "?m < 512" by simp
  have "i + (512 - k) = (a + 1) * 512" if "a * 512 + k = i" "k < 512" for i a k :: nat
    using that by auto
  from this [OF div_mult_mod_eq m] have "j + (512 - ?m) = (?a + 1) * 512" .
  then have "global_of (j + (512 - ?m)) r n = (?a + 1) * 512 * n + r * 512"
    by (simp add: global_of_def)
  moreover have "(?a + 1) * 512 * n = ?a * 512 * n + 512 + (n - 1) * 512"
    using assms by (cases n) (simp_all add: algebra_simps)
  ultimately show ?thesis
    using m by (simp add: global_of_def)
qed

text \<open>A run of the data up to the end of a block is the share's bytes of that block.\<close>

lemma slice_run:
  assumes "r < n" "off \<le> global_of j r n"
  defines "start \<equiv> global_of j r n - off" and "k \<equiv> 512 - j mod 512"
  shows "slice data start (min (start + k) (length data))
    = map (\<lambda>i. data ! (global_of i r n - off)) [j..<min (j + k) (local_ceiling (off + length data) r n)]"
proof (rule nth_equalityI)
  let ?e = "local_ceiling (off + length data) r n"
  have idx: "j + i < ?e \<longleftrightarrow> start + i < length data" if "i < k" for i
  proof -
    have "j mod 512 < 512" by simp
    with that have "j mod 512 + i < 512" unfolding k_def by linarith
    then have "global_of (j + i) r n = global_of j r n + i" by (rule global_of_run)
    with assms show ?thesis by (auto simp: less_local_ceiling_iff)
  qed
  have "j mod 512 < 512" by simp
  then have k: "0 < k" by (simp add: k_def)
  have len: "min (j + k) ?e - j = min k (length data - start)"
  proof (cases "start + k \<le> length data")
    case True
    then have "j + (k - 1) < ?e" using k idx [of "k - 1"] by simp
    with k True show ?thesis by linarith
  next
    case False
    show ?thesis
    proof (cases "start < length data")
      case True
      then have "j + (length data - start - 1) < ?e" "\<not> j + (length data - start) < ?e"
        using False idx [of "length data - start - 1"] idx [of "length data - start"] by auto
      with False True show ?thesis by linarith
    next
      case f: False
      then have "\<not> j + 0 < ?e" using k idx [of 0] by auto
      with f show ?thesis by simp
    qed
  qed
  then show "length (slice data start (min (start + k) (length data)))
      = length (map (\<lambda>i. data ! (global_of i r n - off)) [j..<min (j + k) ?e])"
    by auto
  fix i
  assume "i < length (slice data start (min (start + k) (length data)))"
  then have i: "i < k" "start + i < length data" by auto
  have "j mod 512 + i < 512" using i(1) \<open>j mod 512 < 512\<close> unfolding k_def by linarith
  then have "global_of (j + i) r n = global_of j r n + i" by (rule global_of_run)
  then have "data ! (global_of (j + i) r n - off) = data ! (start + i)"
    using assms(2) by (simp add: start_def)
  moreover have "[j..<min (j + k) ?e] ! i = j + i" "i < length [j..<min (j + k) ?e]"
    using i idx [of i] by auto
  ultimately show "slice data start (min (start + k) (length data)) ! i
      = map (\<lambda>i. data ! (global_of i r n - off)) [j..<min (j + k) ?e] ! i"
    using i by (simp add: nth_slice del: length_upt)
qed

section \<open>Writing\<close>

abbreviation share :: "bytes \<Rightarrow> nat \<Rightarrow> nat \<Rightarrow> nat \<Rightarrow> nat \<Rightarrow> bytes" where
  "share data off r n j \<equiv>
     map (\<lambda>i. data ! (global_of i r n - off)) [j..<local_ceiling (off + length data) r n]"

lemma upt_split_min: "j \<le> k \<Longrightarrow> [j..<min k e] @ [k..<e] = [j..<e]"
  using upt_add_eq_append [of j k "e - k"] by (cases "k \<le> e") (auto simp: min_def)

lemma write_loop_share:
  assumes "r < n" "off \<le> global_of j r n" "j mod 512 = 0"
  shows "write_loop n data (global_of j r n - off) acc = acc @ share data off r n j"
  using assms
proof (induction "length data + off - global_of j r n" arbitrary: j acc rule: less_induct)
  case less
  let ?s = "global_of j r n - off" and ?e = "local_ceiling (off + length data) r n"
  show ?case
  proof (cases "?s < length data")
    case False
    then have "?e \<le> j" using less.prems less_local_ceiling_iff [of r n j "off + length data"] by auto
    with False show ?thesis by (subst write_loop.simps) simp
  next
    case True
    have g: "global_of (j + 512) r n = global_of j r n + n * 512"
      using global_of_next_block [of n j r] less.prems(1,3) by (cases n) simp_all
    have "write_loop n data ?s acc
        = write_loop n data (global_of (j + 512) r n - off)
            (acc @ slice data ?s (min (?s + 512) (length data)))"
      using True less.prems g by (subst write_loop.simps) (simp add: Let_def)
    also have "\<dots> = (acc @ slice data ?s (min (?s + 512) (length data))) @ share data off r n (j + 512)"
    proof (rule less.hyps)
      show "length data + off - global_of (j + 512) r n < length data + off - global_of j r n"
        using True g less.prems(1) by simp
      show "(j + 512) mod 512 = 0" using less.prems(3) by simp
    qed (use g less.prems in simp_all)
    also have "slice data ?s (min (?s + 512) (length data))
        = map (\<lambda>i. data ! (global_of i r n - off)) [j..<min (j + 512) ?e]"
      using slice_run [of r n off j data] less.prems by simp
    finally show ?thesis
      by (simp flip: map_append add: upt_split_min)
  qed
qed

lemma local_ceiling_aligned:
  "r < n \<Longrightarrow> owner g n \<noteq> r \<Longrightarrow> local_ceiling g r n mod 512 = 0"
  by (auto simp: local_ceiling_def owner_def Let_def)

lemma local_ceiling_owner_mod:
  "r < n \<Longrightarrow> owner g n = r \<Longrightarrow> local_ceiling g r n mod 512 = g mod 512"
  by (auto simp: local_ceiling_def owner_def Let_def)

lemma next_block_aligned: "(j + (512 - j mod 512)) mod 512 = 0" for j :: nat
proof -
  have "a * 512 + k + (512 - k) = (a + 1) * 512" if "k < 512" for a k :: nat
    using that by simp
  from this [of "j mod 512" "j div 512"] show ?thesis by simp
qed

text \<open>Room for the last stripe: no index of the operation wraps around.\<close>

abbreviation fits :: "nat \<Rightarrow> nat \<Rightarrow> bool" where
  "fits g n \<equiv> g + (n + 1) * 512 < 2 ^ 64"

lemma global_of_ceiling_le: "r < n \<Longrightarrow> global_of (local_ceiling g r n) r n \<le> g + n * 512"
proof (cases "owner g n = r")
  case True
  assume "r < n"
  with True show ?thesis by (simp add: global_of_ceiling)
next
  case False
  assume r: "r < n"
  show ?thesis
  proof (cases "local_ceiling g r n")
    case 0
    with r have "global_of (local_ceiling g r n) r n \<le> n * 512" by (simp add: global_of_def)
    then show ?thesis by simp
  next
    case (Suc j)
    then have "global_of j r n < g" using less_local_ceiling_iff [OF r, of j g] by simp
    moreover have "(j + 1) mod 512 = 0"
      using local_ceiling_aligned [OF r False] Suc by simp
    then have "j mod 512 = 511" by (simp add: mod_Suc split: if_splits)
    then have "global_of (j + 1) r n = global_of j r n + 1 + (n - 1) * 512"
      using global_of_next_block [of n j r] r by simp
    moreover have "1 + (n - 1) * 512 \<le> n * 512" using r by (cases n) simp_all
    ultimately show ?thesis using Suc by simp
  qed
qed

text \<open>The words of the operation, read as natural numbers.\<close>

lemma rank_words:
  assumes "unat (ds_local_rank d) = r" "fits (unat off) n"
  shows "unat (of_nat n :: u64) = n"
    and "unat (to_local_index_ceiling off (ds_local_rank d) (of_nat n)) = local_ceiling (unat off) r n"
    and "stores_index off (ds_local_rank d) (of_nat n) \<longleftrightarrow> owner (unat off) n = r"
proof -
  show tot: "unat (of_nat n :: u64) = n" using assms(2) by (simp add: unat_of_nat)
  show "unat (to_local_index_ceiling off (ds_local_rank d) (of_nat n)) = local_ceiling (unat off) r n"
    using assms by (subst unat_to_local_index_ceiling) (simp_all add: tot)
  show "stores_index off (ds_local_rank d) (of_nat n) \<longleftrightarrow> owner (unat off) n = r"
    by (simp add: stores_index_iff tot assms(1))
qed

lemma unat_partial_first_block:
  "unat (BLOCK_SIZE - off mod BLOCK_SIZE) = 512 - unat off mod 512"
proof -
  have "unat off mod 512 < 512" by simp
  then show ?thesis by (subst unat_sub) (auto simp: word_le_nat_alt unat_mod)
qed

lemma local_blocks_stored:
  assumes len: "length (ds_node_ids d) = n" and r: "unat (ds_local_rank d) = r" "r < n"
    and fits: "fits (unat off) n" and own: "owner (unat off) n = r"
  shows "local_blocks d off data = share data (unat off) r n (local_ceiling (unat off) r n)"
proof -
  let ?o = "unat off"
  let ?c = "local_ceiling ?o r n"
  note st = rank_words(3) [OF r(1) fits]
  note p = unat_partial_first_block
  have g: "global_of ?c r n = ?o" using r(2) own by (rule global_of_ceiling)
  have cm: "?c mod 512 = ?o mod 512" using r(2) own by (rule local_ceiling_owner_mod)
  let ?k = "512 - ?o mod 512"
  have st': "unat (BLOCK_SIZE - off mod BLOCK_SIZE + of_nat (n - 1) * BLOCK_SIZE) = ?k + (n - 1) * 512"
  proof -
    have "unat (of_nat (n - 1) :: u64) = n - 1" using fits by (simp add: unat_of_nat)
    moreover from this have "unat (of_nat (n - 1) * BLOCK_SIZE) = (n - 1) * 512"
      using fits by (subst unat_mult_ok) simp_all
    ultimately show ?thesis using fits p [of off] by (subst unat_add_ok) simp_all
  qed
  have nb: "global_of (?c + ?k) r n - ?o = ?k + (n - 1) * 512"
    using global_of_next_block [of n ?c r] r(2) by (simp add: cm g)
  have "local_blocks d off data
      = write_loop n data (global_of (?c + ?k) r n - ?o) (slice data 0 (min ?k (length data)))"
    unfolding local_blocks_def Let_def len using own by (simp only: st p st' nb if_True refl)
  also have "\<dots> = slice data 0 (min ?k (length data)) @ share data ?o r n (?c + ?k)"
  proof (rule write_loop_share [OF r(2)])
    have "(?c + (512 - ?c mod 512)) mod 512 = 0" by (rule next_block_aligned)
    then show "(?c + ?k) mod 512 = 0" by (simp only: cm)
    show "?o \<le> global_of (?c + ?k) r n"
      using global_of_next_block [of n ?c r] r(2) by (simp add: cm g)
  qed
  also have "slice data 0 (min ?k (length data))
      = map (\<lambda>i. data ! (global_of i r n - ?o)) [?c..<min (?c + ?k) (local_ceiling (?o + length data) r n)]"
    using slice_run [OF r(2), of ?o ?c data] by (simp add: g cm)
  finally show ?thesis by (simp flip: map_append add: upt_split_min)
qed

lemma local_blocks_skipped:
  assumes len: "length (ds_node_ids d) = n" and r: "unat (ds_local_rank d) = r" "r < n"
    and fits: "fits (unat off) n" and own: "owner (unat off) n \<noteq> r"
  shows "local_blocks d off data = share data (unat off) r n (local_ceiling (unat off) r n)"
proof -
  let ?o = "unat off"
  let ?c = "local_ceiling ?o r n"
  note tot = rank_words(1) [OF r(1) fits] and c = rank_words(2) [OF r(1) fits]
    and st = rank_words(3) [OF r(1) fits]
  have "global_of ?c r n < 2 ^ 64" using global_of_ceiling_le [OF r(2), of ?o] fits by simp
  then have "unat (to_global_index (to_local_index_ceiling off (ds_local_rank d) (of_nat n))
      (ds_local_rank d) (of_nat n)) = global_of ?c r n"
    using unat_to_global_index [of "to_local_index_ceiling off (ds_local_rank d) (of_nat n)"
        "ds_local_rank d" "of_nat n"] by (simp add: tot c r(1))
  then have "unat (to_global_index (to_local_index_ceiling off (ds_local_rank d) (of_nat n))
      (ds_local_rank d) (of_nat n) - off) = global_of ?c r n - ?o"
    using global_of_ge [OF r(2), of ?o] by (subst unat_sub) (simp_all add: word_le_nat_alt)
  then have "local_blocks d off data = write_loop n data (global_of ?c r n - ?o) []"
    unfolding local_blocks_def Let_def len using own by (simp only: st if_False)
  also have "\<dots> = [] @ share data ?o r n ?c"
    using r(2) global_of_ge [OF r(2)] local_ceiling_aligned [OF r(2) own] by (rule write_loop_share)
  finally show ?thesis by simp
qed

lemma local_blocks_share:
  "length (ds_node_ids d) = n \<Longrightarrow> unat (ds_local_rank d) = r \<Longrightarrow> r < n \<Longrightarrow> fits (unat off) n \<Longrightarrow>
   local_blocks d off data = share data (unat off) r n (local_ceiling (unat off) r n)"
  using local_blocks_stored local_blocks_skipped by blast

lemma write_at_shard:
  assumes r: "r < n"
  shows "write_at (shard r n content) (local_ceiling off r n) (share data off r n (local_ceiling off r n))
    = shard r n (write_at content off data)"
proof (rule nth_equalityI)
  let ?c = "\<lambda>g. local_ceiling g r n"
  have mono: "?c off \<le> ?c (off + length data)" using r by (intro local_ceiling_mono) simp_all
  then show len: "length (write_at (shard r n content) (?c off) (share data off r n (?c off)))
      = length (shard r n (write_at content off data))"
    using r by (simp add: local_ceiling_max)
  fix j assume "j < length (write_at (shard r n content) (?c off) (share data off r n (?c off)))"
  then have j: "j < max (?c (length content)) (?c (off + length data))"
    using r mono by simp
  then have g: "global_of j r n < max (length content) (off + length data)"
    using less_local_ceiling_iff [OF r, of j "max (length content) (off + length data)"]
    by (simp only: local_ceiling_max [OF r])
  have j': "j < local_ceiling (length (write_at content off data)) r n"
    using j by (simp only: length_write_at local_ceiling_max [OF r])
  have "write_at (shard r n content) (?c off) (share data off r n (?c off)) ! j
      = (if j < ?c off then if j < ?c (length content) then content ! global_of j r n else 0
         else if j < ?c (off + length data) then data ! (global_of j r n - off)
         else content ! global_of j r n)"
    using j r mono by (subst nth_write_at) (auto simp: nth_shard)
  also have "\<dots> = write_at content off data ! global_of j r n"
    using g by (simp only: less_local_ceiling_iff [OF r] nth_write_at)
  also have "\<dots> = shard r n (write_at content off data) ! j"
    using r j' by (simp add: nth_shard)
  finally show "write_at (shard r n content) (?c off) (share data off r n (?c off)) ! j
      = shard r n (write_at content off data) ! j" .
qed

lemma set_len_shard:
  assumes r: "r < n"
  shows "set_len (shard r n content) (local_ceiling g r n) = shard r n (set_len content g)"
proof (rule nth_equalityI)
  fix j assume "j < length (set_len (shard r n content) (local_ceiling g r n))"
  then show "set_len (shard r n content) (local_ceiling g r n) ! j = shard r n (set_len content g) ! j"
    using r by (simp add: nth_set_len nth_shard less_local_ceiling_iff)
qed (simp add: r)

section \<open>One node\<close>

text \<open>The node is rank \<open>r\<close> of \<open>n\<close>; a file that does not exist has no bytes.\<close>

definition member :: "'p data_storage \<Rightarrow> nat \<Rightarrow> nat \<Rightarrow> bool" where
  "member d r n \<longleftrightarrow> length (ds_node_ids d) = n \<and> unat (ds_local_rank d) = r \<and> r < n"

definition file_of :: "'p data_storage \<Rightarrow> u64 \<Rightarrow> bytes" where
  "file_of d inode = (case ds_files d (inode_path d inode) of None \<Rightarrow> [] | Some f \<Rightarrow> f)"

lemma member_total:
  "member d r n \<Longrightarrow> fits g n \<Longrightarrow> unat (total d) = n"
  by (auto simp: member_def unat_of_nat)

lemma member_index:
  assumes "member d r n" "fits (unat g) n"
  shows "unat (to_local_index_ceiling g (ds_local_rank d) (total d)) = local_ceiling (unat g) r n"
  using assms member_total [OF assms] by (simp add: unat_to_local_index_ceiling member_def)

lemma write_local_blocks_shard:
  assumes m: "member d r n" and f: "fits (unat off) n" and c: "file_of d inode = shard r n content"
  shows "write_local_blocks d inode off data
    = (Ok (of_nat (length (local_blocks d off data))),
       set_file d (inode_path d inode) (shard r n (write_at content (unat off) data)))"
proof -
  have r: "r < n" and ne: "ds_node_ids d \<noteq> []" using m by (auto simp: member_def)
  have blocks: "local_blocks d off data = share data (unat off) r n (local_ceiling (unat off) r n)"
    using m f by (intro local_blocks_share) (simp_all add: member_def)
  show ?thesis
    using ne write_at_shard [OF r, of content "unat off" data]
      write_at_Nil [of "shard r n content" "local_ceiling (unat off) r n"]
    by (auto simp: write_local_blocks_def Let_def member_index [OF m f] blocks
        simp flip: file_of_def simp: c)
qed

lemma truncate_shard:
  assumes m: "member d r n" and f: "fits (unat len) n" and c: "file_of d inode = shard r n content"
  shows "truncate d inode len
    = (Ok (), set_file d (inode_path d inode) (shard r n (set_len content (unat len))))"
proof -
  have r: "r < n" and ne: "ds_node_ids d \<noteq> []" using m by (auto simp: member_def)
  show ?thesis
    using ne set_len_shard [OF r, of content "unat len"]
    by (simp add: truncate_def Let_def member_index [OF m f] c flip: file_of_def)
qed

section \<open>Reading\<close>

definition piece :: "bytes \<Rightarrow> nat \<Rightarrow> nat \<Rightarrow> nat \<Rightarrow> nat \<Rightarrow> bytes" where
  "piece content lo hi r n =
     map (\<lambda>j. content ! global_of j r n) [local_ceiling lo r n..<local_ceiling hi r n]"

lemma length_piece [simp]: "length (piece content lo hi r n) = local_ceiling hi r n - local_ceiling lo r n"
  by (simp add: piece_def)

lemma nth_piece:
  "i < local_ceiling hi r n - local_ceiling lo r n \<Longrightarrow>
   piece content lo hi r n ! i = content ! global_of (local_ceiling lo r n + i) r n"
  by (simp add: piece_def)

lemma read_raw_shard:
  assumes m: "member d r n" and f: "fits (unat off + unat sz) n" and i: "inode \<noteq> ROOT_INODE"
    and c: "ds_files d (inode_path d inode) = Some (shard r n content)"
  shows "read_raw d inode off sz
    = Ok (piece content (unat off) (min (unat off + unat sz) (length content)) r n)"
proof -
  let ?c = "\<lambda>g. local_ceiling g r n"
  have r: "r < n" and ne: "ds_node_ids d \<noteq> []" using m by (auto simp: member_def)
  have u: "unat (off + ucast sz) = unat off + unat sz" using f by (subst unat_add_ok) simp_all
  have s: "unat (to_local_index_ceiling off (ds_local_rank d) (total d)) = ?c (unat off)"
    using m f by (intro member_index) simp_all
  have e: "unat (to_local_index_ceiling (off + ucast sz) (ds_local_rank d) (total d))
      = ?c (unat off + unat sz)"
    using member_index [OF m, of "off + ucast sz"] f u by simp
  have "?c (unat off) \<le> ?c (unat off + unat sz)" using r by (intro local_ceiling_mono) simp_all
  then have "read_raw d inode off sz
      = Ok (slice (shard r n content) (?c (unat off))
           (?c (unat off) + (min (?c (unat off + unat sz)) (?c (length content)) - ?c (unat off))))"
    using i ne r by (simp add: read_raw_def Let_def word_less_nat_alt s e c)
  also have "slice (shard r n content) (?c (unat off))
        (?c (unat off) + (min (?c (unat off + unat sz)) (?c (length content)) - ?c (unat off)))
      = piece content (unat off) (min (unat off + unat sz) (length content)) r n"
    by (rule nth_equalityI)
      (auto simp: r local_ceiling_min nth_slice nth_shard nth_piece)
  finally show ?thesis .
qed

lemma owner_run: "p mod 512 + k < 512 \<Longrightarrow> owner (p + k) n = owner p n"
  by (simp add: owner_def div_mod_run)

lemma local_ceiling_run:
  assumes "r < n" "p mod 512 + k \<le> 512"
  shows "local_ceiling (p + k) r n = local_ceiling p r n + (if owner p n = r then k else 0)"
  using assms(2)
proof (induction k)
  case (Suc k)
  then show ?case using assms(1) by (simp add: local_ceiling_Suc owner_run)
qed simp

lemma owner_next: "0 < n \<Longrightarrow> owner (p + (512 - p mod 512)) n = (owner p n + 1) mod n"
proof -
  have "p + (512 - p mod 512) = (p div 512 + 1) * 512"
  proof -
    have "a * 512 + k + (512 - k) = (a + 1) * 512" if "k < 512" for a k :: nat
      using that by simp
    from this [of "p mod 512" "p div 512"] show ?thesis by simp
  qed
  then show ?thesis by (simp add: owner_def mod_Suc_eq)
qed

text \<open>
  One turn of the assembling loop: the owner of position \<open>p\<close> gives its next bytes, up to the
  end of the block or of the read.
\<close>

lemma take_block:
  assumes n: "0 < n" and p: "lo \<le> p" "p < hi" and hi: "hi \<le> length content"
  defines "r \<equiv> owner p n"
  defines "k \<equiv> min (512 - p mod 512) (local_ceiling hi r n - local_ceiling p r n)"
  shows "p + k = min (p + (512 - p mod 512)) hi"
    and "r' < n \<Longrightarrow> local_ceiling (p + k) r' n = local_ceiling p r' n + (if r' = r then k else 0)"
    and "slice (piece content lo hi r n) (local_ceiling p r n - local_ceiling lo r n)
           (local_ceiling p r n - local_ceiling lo r n + k) = slice content p (p + k)"
    and "p + k < hi \<Longrightarrow> owner (p + k) n = (r + 1) mod n \<and> (p + k) mod 512 = 0"
proof -
  let ?b = "512 - p mod 512" and ?c = "\<lambda>g. local_ceiling g r n"
  have r: "r < n" using n by (simp add: r_def owner_def)
  have b: "p mod 512 + ?b \<le> 512" by simp
  have full: "?c (p + ?b) = ?c p + ?b"
    using local_ceiling_run [OF r b] by (simp add: r_def)
  show k: "p + k = min (p + ?b) hi"
  proof (cases "p + ?b \<le> hi")
    case True
    then have "?c (p + ?b) \<le> ?c hi" by (rule local_ceiling_mono [OF r])
    then have "?b \<le> ?c hi - ?c p" by (intro add_le_imp_le_diff) (simp only: full add.commute)
    with True show ?thesis by (simp only: k_def min_absorb1)
  next
    case False
    then have "?c (p + (hi - p)) = ?c p + (hi - p)"
      using local_ceiling_run [OF r, of p "hi - p"] by (simp add: r_def)
    with False p show ?thesis by (simp add: k_def)
  qed
  then have kb: "p mod 512 + k \<le> 512" by simp
  show step: "local_ceiling (p + k) r' n = local_ceiling p r' n + (if r' = r then k else 0)" if "r' < n" for r'
    using local_ceiling_run [OF that kb] by (auto simp: r_def)
  have lo: "?c lo \<le> ?c p" using r p(1) by (rule local_ceiling_mono)
  have "?c (p + k) \<le> ?c hi" using k by (intro local_ceiling_mono [OF r]) simp
  then have le: "?c p + k \<le> ?c hi" using step [OF r] by simp
  have cm: "?c p mod 512 = p mod 512" using r by (intro local_ceiling_owner_mod) (simp_all add: r_def)
  have g: "global_of (?c p + i) r n = p + i" if "i < k" for i
    using that kb by (subst global_of_run) (simp_all add: cm global_of_ceiling r r_def [symmetric])
  show "slice (piece content lo hi r n) (?c p - ?c lo) (?c p - ?c lo + k) = slice content p (p + k)"
  proof (rule nth_equalityI)
    show "length (slice (piece content lo hi r n) (?c p - ?c lo) (?c p - ?c lo + k))
        = length (slice content p (p + k))"
      using le lo k hi by simp
    fix i assume "i < length (slice (piece content lo hi r n) (?c p - ?c lo) (?c p - ?c lo + k))"
    then show "slice (piece content lo hi r n) (?c p - ?c lo) (?c p - ?c lo + k) ! i
        = slice content p (p + k) ! i"
      using le lo k hi g [of i] by (simp add: nth_slice nth_piece)
  qed
  show "owner (p + k) n = (r + 1) mod n \<and> (p + k) mod 512 = 0" if "p + k < hi"
  proof -
    have "p + k = p + ?b" using that k by (metis min_def less_irrefl)
    then show ?thesis using owner_next [OF n, of p] next_block_aligned [of p] by (simp only: r_def simp_thms)
  qed
qed

lemma slice_append: "a \<le> b \<Longrightarrow> b \<le> c \<Longrightarrow> slice xs a b @ slice xs b c = slice xs a c"
proof -
  assume "a \<le> b" "b \<le> c"
  then obtain k l where "b = a + k" "c = a + k + l" by (metis le_iff_add)
  then show ?thesis by (simp add: slice_def take_add add.commute)
qed

lemma read_loop_slice:
  assumes n: "0 < n" and p: "lo \<le> p" "p \<le> hi" and hi: "hi \<le> length content"
    and blocks: "blocks = map (\<lambda>r. piece content lo hi r n) [0..<n]"
    and ix: "length indices = n" "\<And>r. r < n \<Longrightarrow> indices ! r = local_ceiling p r n - local_ceiling lo r n"
    and nb: "next_block < n" "p < hi \<Longrightarrow> next_block = owner p n \<and> p mod 512 = 0"
  shows "read_loop blocks indices next_block (slice content lo p) = Ok (slice content lo hi)"
  using p ix nb
proof (induction "hi - p" arbitrary: p indices next_block rule: less_induct)
  case less
  let ?c = "\<lambda>g. local_ceiling g next_block n"
  note nb = less.prems(5)
  have lo: "?c lo \<le> ?c p" using nb less.prems(1) by (rule local_ceiling_mono)
  show ?case
  proof (cases "p < hi")
    case False
    then show ?thesis using less.prems by (subst read_loop.simps) (simp add: blocks)
  next
    case True
    then have own: "next_block = owner p n" and al: "p mod 512 = 0" using less.prems(6) by auto
    define k where "k = min 512 (?c hi - ?c p)"
    note tb = take_block [OF n less.prems(1) True hi, folded own, unfolded al diff_zero, folded k_def]
    have k: "0 < k" using tb(1) True by (cases k) simp_all
    have rem: "?c hi - (?c lo + (?c p - ?c lo)) = ?c hi - ?c p" using lo by simp
    have lt: "?c p - ?c lo < ?c hi - ?c lo" using k lo by (simp add: k_def)
    have "read_loop blocks indices next_block (slice content lo p)
        = read_loop blocks (indices[next_block := ?c p - ?c lo + k]) ((next_block + 1) mod n)
            (slice content lo p @ slice content p (p + k))"
      using nb lt less.prems(3) less.prems(4) [OF nb]
      by (subst read_loop.simps) (simp add: blocks Let_def rem tb(3) [symmetric] flip: k_def)
    also have "slice content lo p @ slice content p (p + k) = slice content lo (p + k)"
      using less.prems(1) by (intro slice_append) simp_all
    also have "read_loop blocks (indices[next_block := ?c p - ?c lo + k]) ((next_block + 1) mod n)
        (slice content lo (p + k)) = Ok (slice content lo hi)"
    proof (rule less.hyps)
      show "indices[next_block := ?c p - ?c lo + k] ! r = local_ceiling (p + k) r n - local_ceiling lo r n"
        if "r < n" for r
        using that less.prems(3) less.prems(4) [OF that] tb(2) [OF that] lo by (simp add: nth_list_update)
    qed (use k True tb(1,4) less.prems(1,3) n in auto)
    finally show ?thesis .
  qed
qed

lemma assemble_slice:
  assumes n: "0 < n" and hi: "hi \<le> length content"
    and blocks: "blocks = map (\<lambda>r. piece content (unat off) hi r n) [0..<n]"
  shows "assemble off blocks = Ok (slice content (unat off) hi)"
proof -
  let ?o = "unat off"
  let ?r = "owner ?o n"
  let ?k = "min (512 - ?o mod 512) (local_ceiling hi ?r n - local_ceiling ?o ?r n)"
  have r: "?r < n" using n by (simp add: owner_def)
  note part = unat_partial_first_block [of off]
  have idx: "unat (off div BLOCK_SIZE) mod length blocks = ?r"
    by (simp add: blocks unat_div owner_def)
  have ne: "blocks \<noteq> []" using n by (simp add: blocks)
  have "assemble off blocks = read_loop blocks ((replicate n 0)[?r := ?k]) ((?r + 1) mod n)
      (slice (piece content ?o hi ?r n) 0 ?k)"
    unfolding assemble_def Let_def part idx using ne r by (simp add: blocks)
  also have "\<dots> = Ok (slice content ?o hi)"
  proof (cases "?o < hi")
    case True
    note tb = take_block [OF n order_refl True hi]
    have "slice (piece content ?o hi ?r n) 0 ?k = slice content ?o (?o + ?k)" using tb(3) by simp
    moreover have "read_loop blocks ((replicate n 0)[?r := ?k]) ((?r + 1) mod n) (slice content ?o (?o + ?k))
        = Ok (slice content ?o hi)"
    proof (rule read_loop_slice [OF n _ _ hi blocks])
      show "(replicate n 0)[?r := ?k] ! r = local_ceiling (?o + ?k) r n - local_ceiling ?o r n"
        if "r < n" for r
        using that tb(2) [OF that] by (simp add: nth_list_update)
    next
      show "?o + ?k \<le> hi" unfolding tb(1) by simp
      show "?o + ?k < hi \<Longrightarrow> (?r + 1) mod n = owner (?o + ?k) n \<and> (?o + ?k) mod 512 = 0"
        using tb(4) by simp
    qed (use n in simp_all)
    ultimately show ?thesis by simp
  next
    case False
    have "local_ceiling hi r n \<le> local_ceiling ?o r n" if "r < n" for r
      using that False by (intro local_ceiling_mono) simp_all
    with False r n show ?thesis
      by (subst read_loop.simps) (simp add: blocks slice_def)
  qed
  finally show ?thesis .
qed

end
