(* ===== verification/Data_Group.thy ===== *)
theory Data_Group
  imports Striping
begin

text \<open>
  The nodes of a raft group together: the shares they hold make up the whole file, and
  writing, truncating and reading through them is writing, truncating and reading one plain
  file (the contract \<open>byte_store\<close>). Files of other inodes are not touched.
\<close>

section \<open>The nodes of a raft group\<close>

definition stripe_group :: "'p data_storage list \<Rightarrow> bool" where
  "stripe_group nodes \<longleftrightarrow>
     nodes \<noteq> [] \<and> distinct (map ds_local_node_id nodes) \<and>
     (\<forall>i<length nodes. ds_node_ids (nodes ! i) = map ds_local_node_id nodes
        \<and> ds_local_rank (nodes ! i) = of_nat i)"

lemma distinct_remdups_adj_sorted: "sorted xs \<Longrightarrow> distinct (remdups_adj xs)"
  by (induction xs rule: remdups_adj.induct) auto

lemma DataStorage_new_Ok:
  assumes "set (map fst peers) \<union> {ids ! k} = set ids" "sorted ids" "distinct ids" "k < length ids"
  shows "DataStorage_new (ids ! k) dir peers files =
    Ok \<lparr>ds_node_ids = ids, ds_local_rank = of_nat k, ds_local_node_id = ids ! k,
        ds_local_data_dir = dir, ds_peers = peers, ds_files = files\<rparr>"
proof -
  have "remdups_adj (sort (map fst peers @ [ids ! k])) = ids"
  proof (rule sorted_distinct_set_unique)
    show "set (remdups_adj (sort (map fst peers @ [ids ! k]))) = set ids"
      using assms(1) by (simp only: remdups_adj_set set_sort) auto
    show "distinct (remdups_adj (sort (map fst peers @ [ids ! k])))"
      by (intro distinct_remdups_adj_sorted) (simp only: sorted_sort)
  qed (use assms in \<open>simp_all only: sorted_remdups_adj sorted_sort\<close>)
  moreover have "position (ids ! k) ids = Some k"
    using assms(3,4) by (auto simp: position_Some_iff nth_eq_iff_index_eq)
  ultimately show ?thesis by (simp add: DataStorage_new_def Let_def)
qed

lemma stripe_group_new:
  assumes "sorted ids" "distinct ids" "ids \<noteq> []" "length nodes = length ids"
    and "\<And>k. k < length ids \<Longrightarrow> set (map fst (peers k)) \<union> {ids ! k} = set ids"
    and "\<And>k. k < length ids \<Longrightarrow> DataStorage_new (ids ! k) (dir k) (peers k) (files k) = Ok (nodes ! k)"
  shows "stripe_group nodes"
proof -
  have node: "nodes ! k = \<lparr>ds_node_ids = ids, ds_local_rank = of_nat k, ds_local_node_id = ids ! k,
        ds_local_data_dir = dir k, ds_peers = peers k, ds_files = files k\<rparr>" if "k < length ids" for k
    using assms(6) [OF that] DataStorage_new_Ok [OF assms(5) [OF that] assms(1,2) that] by simp
  then have "map ds_local_node_id nodes = ids"
    using assms(4) by (intro nth_equalityI) simp_all
  with node assms show ?thesis by (auto simp: stripe_group_def)
qed

lemma group_member:
  assumes "stripe_group nodes" "i < length nodes" "fits g (length nodes)"
  shows "member (nodes ! i) i (length nodes)"
  using assms by (simp add: member_def stripe_group_def unat_of_nat)

text \<open>Every node holds its share of the content, in a file of its own.\<close>

definition group_holds :: "'p data_storage list \<Rightarrow> u64 \<Rightarrow> bytes \<Rightarrow> bool" where
  "group_holds nodes inode content \<longleftrightarrow>
     (\<forall>i<length nodes. ds_files (nodes ! i) (inode_path (nodes ! i) inode)
        = Some (shard i (length nodes) content))"

definition group_absent :: "'p data_storage list \<Rightarrow> u64 \<Rightarrow> bool" where
  "group_absent nodes inode \<longleftrightarrow> (\<forall>d\<in>set nodes. \<not> file_inode_exists d inode)"

text \<open>The operations as the raft log applies them: on every node of the group.\<close>

definition group_write :: "u64 \<Rightarrow> 'p data_storage list \<Rightarrow> u64 \<Rightarrow> bytes \<Rightarrow> 'p data_storage list" where
  "group_write inode nodes off data = map (\<lambda>d. snd (write_local_blocks d inode off data)) nodes"

definition group_truncate :: "u64 \<Rightarrow> 'p data_storage list \<Rightarrow> u64 \<Rightarrow> 'p data_storage list" where
  "group_truncate inode nodes len = map (\<lambda>d. snd (truncate d inode len)) nodes"

definition group_delete :: "u64 \<Rightarrow> 'p data_storage list \<Rightarrow> 'p data_storage list" where
  "group_delete inode nodes = map (\<lambda>d. snd (delete d inode)) nodes"

lemma inode_path_set_file [simp]: "inode_path (set_file d path f) inode = inode_path d inode"
  by (simp add: set_file_def to_local_path_def)

lemma set_file_fields [simp]:
  "ds_node_ids (set_file d path f) = ds_node_ids d"
  "ds_local_rank (set_file d path f) = ds_local_rank d"
  "ds_local_node_id (set_file d path f) = ds_local_node_id d"
  "ds_peers (set_file d path f) = ds_peers d"
  "ds_files (set_file d path f) = (ds_files d)(path \<mapsto> f)"
  by (simp_all add: set_file_def)

lemma file_of_group:
  "group_holds nodes inode content \<or> group_absent nodes inode \<and> content = [] \<Longrightarrow> i < length nodes \<Longrightarrow>
   file_of (nodes ! i) inode = shard i (length nodes) content"
  by (auto simp: group_holds_def group_absent_def file_of_def file_inode_exists_def)

lemma group_write_nth:
  assumes "stripe_group nodes" "fits (unat off) (length nodes)" "i < length nodes"
    "group_holds nodes inode content \<or> group_absent nodes inode \<and> content = []"
  shows "group_write inode nodes off data ! i
    = set_file (nodes ! i) (inode_path (nodes ! i) inode)
        (shard i (length nodes) (write_at content (unat off) data))"
  using write_local_blocks_shard [OF group_member [OF assms(1,3,2)] assms(2) file_of_group [OF assms(4,3)]]
  by (simp add: group_write_def assms(3))

lemma group_truncate_nth:
  assumes "stripe_group nodes" "fits (unat len) (length nodes)" "i < length nodes"
    "group_holds nodes inode content \<or> group_absent nodes inode \<and> content = []"
  shows "group_truncate inode nodes len ! i
    = set_file (nodes ! i) (inode_path (nodes ! i) inode)
        (shard i (length nodes) (set_len content (unat len)))"
  using truncate_shard [OF group_member [OF assms(1,3,2)] assms(2) file_of_group [OF assms(4,3)]]
  by (simp add: group_truncate_def assms(3))

lemma group_write_holds:
  assumes "stripe_group nodes" "fits (unat off) (length nodes)"
    "group_holds nodes inode content \<or> group_absent nodes inode \<and> content = []"
  shows "group_holds (group_write inode nodes off data) inode (write_at content (unat off) data)"
proof -
  have "length (group_write inode nodes off data) = length nodes" by (simp add: group_write_def)
  then show ?thesis
    using group_write_nth [OF assms(1,2) _ assms(3)] by (simp add: group_holds_def)
qed

lemma group_truncate_holds:
  assumes "stripe_group nodes" "fits (unat len) (length nodes)"
    "group_holds nodes inode content \<or> group_absent nodes inode \<and> content = []"
  shows "group_holds (group_truncate inode nodes len) inode (set_len content (unat len))"
proof -
  have "length (group_truncate inode nodes len) = length nodes" by (simp add: group_truncate_def)
  then show ?thesis
    using group_truncate_nth [OF assms(1,2) _ assms(3)] by (simp add: group_holds_def)
qed

text \<open>The operations keep the layout of the group, whatever the files hold.\<close>

definition same_layout :: "'p data_storage \<Rightarrow> 'p data_storage \<Rightarrow> bool" where
  "same_layout d e \<longleftrightarrow> ds_node_ids e = ds_node_ids d \<and> ds_local_rank e = ds_local_rank d
     \<and> ds_local_node_id e = ds_local_node_id d \<and> ds_peers e = ds_peers d
     \<and> ds_local_data_dir e = ds_local_data_dir d"

lemma same_layout_ops:
  "same_layout d (snd (write_local_blocks d inode off data))"
  "same_layout d (snd (truncate d inode len))"
  "same_layout d (snd (delete d inode))"
  by (simp_all add: same_layout_def write_local_blocks_def truncate_def delete_def set_file_def Let_def
      split: option.split)

lemma stripe_group_map:
  assumes "\<And>d. same_layout d (f d)" "stripe_group nodes"
  shows "stripe_group (map f nodes)"
proof -
  have "ds_local_node_id \<circ> f = ds_local_node_id"
    using assms(1) by (auto simp: same_layout_def)
  with assms show ?thesis by (simp add: stripe_group_def same_layout_def)
qed

lemma stripe_group_ops:
  "stripe_group nodes \<Longrightarrow> stripe_group (group_write inode nodes off data)"
  "stripe_group nodes \<Longrightarrow> stripe_group (group_truncate inode nodes len)"
  "stripe_group nodes \<Longrightarrow> stripe_group (group_delete inode nodes)"
  unfolding group_write_def group_truncate_def group_delete_def
  by (rule stripe_group_map; simp add: same_layout_ops)+

text \<open>
  The network of the group: the client a node has for another one reads that node's share.
\<close>

definition peers_answer ::
    "('p \<Rightarrow> u64 \<Rightarrow> u64 \<Rightarrow> u32 \<Rightarrow> CommitId \<Rightarrow> (io_error, bytes) res) \<Rightarrow> 'p data_storage list \<Rightarrow> bool" where
  "peers_answer peer_read_raw nodes \<longleftrightarrow>
     (\<forall>d\<in>set nodes. \<forall>e\<in>set nodes. ds_local_node_id e \<noteq> ds_local_node_id d \<longrightarrow>
        (\<exists>p. map_of (ds_peers d) (ds_local_node_id e) = Some p \<and>
           peer_read_raw p = (\<lambda>inode off sz commit. read_raw e inode off sz)))"

lemma collect_peers:
  assumes "\<And>k. k \<in> set ks \<Longrightarrow> \<exists>p. map_of peers (key k) = Some p \<and> f p = Ok (g k)"
  shows "and_then (lookup_peers peers (map key ks)) (\<lambda>clients. collect_blocks (map f clients))
    = Ok (map g ks)"
  using assms
proof (induction ks)
  case (Cons k ks)
  obtain p where "map_of peers (key k) = Some p" "f p = Ok (g k)" using Cons.prems by fastforce
  moreover obtain cs where "lookup_peers peers (map key ks) = Ok cs"
    "collect_blocks (map f cs) = Ok (map g ks)"
    using Cons by (auto simp: and_then_eq_Ok)
  ultimately show ?case by simp
qed simp

lemma upt_around: "i < n \<Longrightarrow> [0..<n] = [0..<i] @ i # [Suc i..<n]"
  using upt_split_min [of 0 i n] by (simp add: min_def upt_conv_Cons)

lemma filter_other_nodes:
  assumes "distinct (map f xs)" "i < length xs"
  shows "filter (\<lambda>y. y \<noteq> f (xs ! i)) (map f xs) = map (\<lambda>k. f (xs ! k)) ([0..<i] @ [Suc i..<length xs])"
proof -
  have "f (xs ! k) \<noteq> f (xs ! i)" if "k < length xs" "k \<noteq> i" for k
    using assms that by (simp add: distinct_conv_nth)
  moreover have "map f xs = map (\<lambda>k. f (xs ! k)) ([0..<i] @ i # [Suc i..<length xs])"
    unfolding upt_around [OF assms(2), symmetric] by (rule nth_equalityI) simp_all
  ultimately show ?thesis
    using assms(2) by (simp add: filter_map comp_def filter_id_conv del: upt_Suc)
qed

lemma group_read:
  assumes g: "stripe_group nodes" and net: "peers_answer peer_read_raw nodes" and i: "i < length nodes"
    and h: "group_holds nodes inode content" and ni: "inode \<noteq> ROOT_INODE"
    and f: "fits (unat off + unat sz) (length nodes)"
  shows "read peer_read_raw (nodes ! i) inode off sz commit
    = Ok (take (unat sz) (drop (unat off) content))"
proof -
  let ?n = "length nodes" and ?d = "nodes ! i" and ?hi = "min (unat off + unat sz) (length content)"
  let ?p = "\<lambda>r. piece content (unat off) ?hi r ?n"
  have raw: "read_raw (nodes ! k) inode off sz = Ok (?p k)" if "k < ?n" for k
    using h that by (intro read_raw_shard group_member [OF g that f] f ni) (simp add: group_holds_def)
  have ids: "ds_node_ids ?d = map ds_local_node_id nodes" "distinct (map ds_local_node_id nodes)"
    and rank: "unat (ds_local_rank ?d) = i"
    using g i f by (auto simp: stripe_group_def unat_of_nat)
  let ?ks = "[0..<i] @ [Suc i..<?n]"
  have "\<exists>p. map_of (ds_peers ?d) (ds_local_node_id (nodes ! k)) = Some p
      \<and> peer_read_raw p inode off sz commit = Ok (?p k)" if "k \<in> set ?ks" for k
  proof -
    have "k < ?n" "k \<noteq> i" using that i by auto
    then have "ds_local_node_id (nodes ! k) \<noteq> ds_local_node_id ?d"
      using ids(2) i by (simp add: distinct_conv_nth)
    then show ?thesis
      using net i \<open>k < ?n\<close> raw [of k] unfolding peers_answer_def by (metis nth_mem)
  qed
  note peers = collect_peers [where ks = ?ks, OF this]
  have "read peer_read_raw ?d inode off sz commit
      = and_then (and_then (lookup_peers (ds_peers ?d) (map (\<lambda>k. ds_local_node_id (nodes ! k)) ?ks))
           (\<lambda>clients. collect_blocks (map (\<lambda>p. peer_read_raw p inode off sz commit) clients)))
          (\<lambda>blocks. and_then (insert_block i (?p i) blocks) (assemble off))"
    using filter_other_nodes [OF ids(2) i] g i raw [OF i]
    by (simp only: read_def ids(1) rank and_then.simps map_err.simps and_then_assoc)
  also have "\<dots> = and_then (insert_block i (?p i) (map ?p ?ks)) (assemble off)"
    by (simp only: peers and_then.simps)
  also have "insert_block i (?p i) (map ?p ?ks) = Ok (map ?p [0..<?n])"
    using i by (simp add: insert_block_def upt_around [OF i] del: upt_Suc)
  also have "and_then (Ok (map ?p [0..<?n])) (assemble off) = Ok (slice content (unat off) ?hi)"
    unfolding and_then.simps using i by (intro assemble_slice [OF _ _ refl]) auto
  also have "slice content (unat off) ?hi = take (unat sz) (drop (unat off) content)"
    by (auto simp: slice_def min_def)
  finally show ?thesis .
qed

section \<open>The contract of a file's content\<close>

text \<open>
  What the layers above rely on: a state that holds a content answers reads from it, and the
  operations change it as on one plain file. \<open>ok\<close> bounds the positions the store can address.
\<close>

locale byte_store =
  fixes holds :: "'s \<Rightarrow> bytes \<Rightarrow> bool"
    and ok :: "'s \<Rightarrow> nat \<Rightarrow> bool"
    and put :: "'s \<Rightarrow> u64 \<Rightarrow> bytes \<Rightarrow> 's"
    and cut :: "'s \<Rightarrow> u64 \<Rightarrow> 's"
    and get :: "'s \<Rightarrow> u64 \<Rightarrow> u32 \<Rightarrow> (ErrorCode, bytes) res"
  assumes write_holds: "holds s c \<Longrightarrow> ok s (unat off) \<Longrightarrow> holds (put s off data) (write_at c (unat off) data)"
    and trunc_holds: "holds s c \<Longrightarrow> ok s (unat len) \<Longrightarrow> holds (cut s len) (set_len c (unat len))"
    and read_holds: "holds s c \<Longrightarrow> ok s (unat off + unat sz) \<Longrightarrow>
          get s off sz = Ok (take (unat sz) (drop (unat off) c))"
    and ok_write: "ok s g \<Longrightarrow> ok (put s off data) g"
    and ok_trunc: "ok s g \<Longrightarrow> ok (cut s len) g"
    and ok_mono: "ok s g \<Longrightarrow> g' \<le> g \<Longrightarrow> ok s g'"
begin

lemma read_after_write:
  assumes "holds s c" "ok s (unat off + length data)" "unat sz = length data"
  shows "get (put s off data) off sz = Ok data"
proof -
  have "holds (put s off data) (write_at c (unat off) data)"
    using assms by (intro write_holds) (auto intro: ok_mono)
  moreover have "ok (put s off data) (unat off + unat sz)" using assms by (simp add: ok_write)
  ultimately show ?thesis
    using assms(3) by (simp add: read_holds write_at_def)
qed

lemma read_before_write:
  assumes "holds s c" "ok s (unat off)" "unat off' + unat sz \<le> unat off" "unat off \<le> length c"
  shows "get (put s off data) off' sz = get s off' sz"
proof -
  have "holds (put s off data) (write_at c (unat off) data)"
    using assms by (intro write_holds) auto
  moreover have "ok s (unat off' + unat sz)" using assms(2,3) by (rule ok_mono)
  moreover have "take (unat sz) (drop (unat off') (write_at c (unat off) data)) = take (unat sz) (drop (unat off') c)"
    using assms(3,4) by (intro nth_equalityI) (auto simp: nth_write_at)
  ultimately show ?thesis
    using assms(1) by (simp add: read_holds ok_write)
qed

lemma read_truncated:
  assumes "holds s c" "ok s (unat len)" "unat off + unat sz \<le> unat len"
  shows "get (cut s len) off sz
    = Ok (take (unat sz) (drop (unat off) c @ replicate (unat sz - (length c - unat off)) 0))"
proof -
  have "holds (cut s len) (set_len c (unat len))"
    using assms by (intro trunc_holds) auto
  moreover have "ok s (unat off + unat sz)" using assms(2,3) by (rule ok_mono)
  moreover have "take (unat sz) (drop (unat off) (set_len c (unat len)))
      = take (unat sz) (drop (unat off) c @ replicate (unat sz - (length c - unat off)) 0)"
    using assms(3) by (intro nth_equalityI) (auto simp: nth_set_len nth_append)
  ultimately show ?thesis by (simp add: read_holds ok_trunc)
qed

end

text \<open>The group as such a store, read through any of its nodes.\<close>

definition connected :: "u64 data_storage list \<Rightarrow> bool" where
  "connected nodes \<longleftrightarrow>
     (\<forall>d\<in>set nodes. \<forall>e\<in>set nodes. ds_local_node_id e \<noteq> ds_local_node_id d \<longrightarrow>
        map_of (ds_peers d) (ds_local_node_id e) = Some (ds_local_node_id e))"

definition ask ::
    "u64 data_storage list \<Rightarrow> u64 \<Rightarrow> u64 \<Rightarrow> u64 \<Rightarrow> u32 \<Rightarrow> CommitId \<Rightarrow> (io_error, bytes) res" where
  "ask nodes p inode off sz commit =
     (case find (\<lambda>e. ds_local_node_id e = p) nodes of
        None \<Rightarrow> Err (from_raw_os_error ENOENT)
      | Some e \<Rightarrow> read_raw e inode off sz)"

definition group_read_at ::
    "nat \<Rightarrow> CommitId \<Rightarrow> u64 \<Rightarrow> u64 data_storage list \<Rightarrow> u64 \<Rightarrow> u32 \<Rightarrow> (ErrorCode, bytes) res" where
  "group_read_at i commit inode nodes off sz = read (ask nodes) (nodes ! i) inode off sz commit"

lemma find_key: "distinct (map f xs) \<Longrightarrow> e \<in> set xs \<Longrightarrow> find (\<lambda>x. f x = f e) xs = Some e"
  by (induction xs) force+

lemma ask_answers:
  assumes "stripe_group nodes" "connected nodes"
  shows "peers_answer (ask nodes) nodes"
proof -
  have "find (\<lambda>x. ds_local_node_id x = ds_local_node_id e) nodes = Some e" if "e \<in> set nodes" for e
    using that assms(1) by (intro find_key) (simp_all add: stripe_group_def)
  then show ?thesis
    using assms(2) by (auto simp: peers_answer_def connected_def ask_def fun_eq_iff)
qed

lemma connected_map:
  assumes "\<And>d. same_layout d (f d)"
  shows "connected nodes \<Longrightarrow> connected (map f nodes)"
  using assms by (simp add: connected_def same_layout_def)

lemma connected_ops:
  "connected nodes \<Longrightarrow> connected (group_write inode nodes off data)"
  "connected nodes \<Longrightarrow> connected (group_truncate inode nodes len)"
  unfolding group_write_def group_truncate_def
  by (rule connected_map; simp add: same_layout_ops)+

definition group_store :: "nat \<Rightarrow> u64 \<Rightarrow> u64 data_storage list \<Rightarrow> bytes \<Rightarrow> bool" where
  "group_store i inode nodes content \<longleftrightarrow>
     stripe_group nodes \<and> connected nodes \<and> i < length nodes \<and> inode \<noteq> ROOT_INODE \<and>
     group_holds nodes inode content"

interpretation grp: byte_store "group_store i inode" "\<lambda>nodes g. fits g (length nodes)"
  "group_write inode" "group_truncate inode" "group_read_at i commit inode" for i inode commit
proof
  fix s :: "u64 data_storage list" and c data and off :: u64
  assume "group_store i inode s c" "fits (unat off) (length s)"
  then show "group_store i inode (group_write inode s off data) (write_at c (unat off) data)"
    using group_write_holds [of s off inode c data] stripe_group_ops(1) [of s inode off data]
      connected_ops(1) [of s inode off data]
    by (auto simp: group_store_def) (simp_all add: group_write_def)
next
  fix s :: "u64 data_storage list" and c and len :: u64
  assume "group_store i inode s c" "fits (unat len) (length s)"
  then show "group_store i inode (group_truncate inode s len) (set_len c (unat len))"
    using group_truncate_holds [of s len inode c] stripe_group_ops(2) [of s inode len]
      connected_ops(2) [of s inode len]
    by (auto simp: group_store_def) (simp_all add: group_truncate_def)
next
  fix s :: "u64 data_storage list" and c and off :: u64 and sz :: u32
  assume "group_store i inode s c" "fits (unat off + unat sz) (length s)"
  then show "group_read_at i commit inode s off sz = Ok (take (unat sz) (drop (unat off) c))"
    unfolding group_read_at_def group_store_def by (intro group_read ask_answers) auto
qed (auto simp: group_write_def group_truncate_def)

section \<open>Other files\<close>

lemma of_char_digit: "d < 10 \<Longrightarrow> of_char (char_of (48 + d)) = 48 + d" for d :: nat
  by simp

lemma show_nat_inverse: "foldl (\<lambda>a c. 10 * a + (of_char c - 48)) 0 (show_nat k) = k"
proof (induction k rule: show_nat.induct)
  case (1 n)
  then show ?case by (subst show_nat.simps) simp
qed

lemma show_nat_inject [simp]: "show_nat a = show_nat b \<longleftrightarrow> a = b"
proof -
  have "inj show_nat"
    by (rule inj_on_inverseI [where g = "foldl (\<lambda>a c. 10 * a + (of_char c - 48)) 0"]) (rule show_nat_inverse)
  then show ?thesis by (simp add: inj_eq)
qed

lemma show_nat_no_slash: "c \<in> set (show_nat k) \<Longrightarrow> c \<noteq> CHR 0x2F"
proof (induction k rule: show_nat.induct)
  case (1 n)
  have dig: "char_of (48 + d) \<noteq> CHR 0x2F" if "d < 10" for d :: nat
  proof
    assume "char_of (48 + d) = CHR 0x2F"
    then have "of_char (char_of (48 + d)) = (of_char (CHR 0x2F) :: nat)" by (rule arg_cong)
    with of_char_digit [OF that] show False by simp
  qed
  from 1 show ?case
    using show_nat.simps [of n] dig [of n] dig [of "n mod 10"] by (auto split: if_splits)
qed

lemma inode_path_inject [simp]: "inode_path d a = inode_path d b \<longleftrightarrow> a = b"
proof -
  have "dropWhile (\<lambda>c. c = CHR 0x2F) (show_nat k) = show_nat k" for k
    using show_nat_no_slash [of _ k] by (cases "show_nat k") auto
  then show ?thesis by (auto simp: to_local_path_def path_join_def word_unat_eq_iff)
qed

lemma other_file_unchanged:
  assumes "inode' \<noteq> inode"
  shows "ds_files (snd (write_local_blocks d inode off data)) (inode_path d inode') = ds_files d (inode_path d inode')"
    and "ds_files (snd (truncate d inode len)) (inode_path d inode') = ds_files d (inode_path d inode')"
    and "ds_files (snd (delete d inode)) (inode_path d inode') = ds_files d (inode_path d inode')"
  using assms
  by (simp_all add: write_local_blocks_def truncate_def delete_def Let_def split: option.split)

section \<open>Properties\<close>

text \<open>Two nodes that know each other and hold no file yet.\<close>

definition two_nodes :: "u64 data_storage list" where
  "two_nodes =
     [\<lparr>ds_node_ids = [7, 9], ds_local_rank = 0, ds_local_node_id = 7, ds_local_data_dir = ''/a'',
       ds_peers = [(9, 9)], ds_files = Map.empty\<rparr>,
      \<lparr>ds_node_ids = [7, 9], ds_local_rank = 1, ds_local_node_id = 9, ds_local_data_dir = ''/b'',
       ds_peers = [(7, 7)], ds_files = Map.empty\<rparr>]"

lemma two_nodes_group [simp]:
  "stripe_group two_nodes" "connected two_nodes" "group_absent two_nodes inode" "length two_nodes = 2"
  by (auto simp: two_nodes_def stripe_group_def connected_def group_absent_def file_inode_exists_def
      less_Suc_eq numeral_2_eq_2)

text \<open>A file of three bytes, written on both nodes.\<close>

lemma two_nodes_store:
  "group_store i 5 (group_write 5 two_nodes 0 [1, 2, 3]) [1, 2, 3]" if "i < 2"
  using that group_write_holds [of two_nodes 0 5 "[]" "[1, 2, 3]"]
    stripe_group_ops(1) [of two_nodes 5 0 "[1, 2, 3]"] connected_ops(1) [of two_nodes 5 0 "[1, 2, 3]"]
  by (simp add: group_store_def group_write_def write_at_def ROOT_INODE_def)

text \<open>
  C8. Striped writes refine plain writes. When the nodes of a group hold the shares of a content
  (or none of them has the file), then after each node has applied \<^verbatim>\<open>write_local_blocks\<close> they hold
  the shares of the content with the data written over it at the offset, a gap filled with
  zeros. Each node answers \<open>Ok\<close> with the number of bytes of its own share.
\<close>

theorem striped_write_refines:
  assumes "stripe_group nodes" "unat off + (length nodes + 1) * 512 < 2 ^ 64"
    and "group_holds nodes inode content \<or> group_absent nodes inode \<and> content = []"
  shows "group_holds (group_write inode nodes off data) inode (write_at content (unat off) data)
    \<and> (\<forall>d\<in>set nodes. fst (write_local_blocks d inode off data) = Ok (of_nat (length (local_blocks d off data))))"
  using group_write_holds [OF assms] assms(1)
  by (auto simp: write_local_blocks_def stripe_group_def Let_def in_set_conv_nth)

theorem striped_write_refines_witness:
  "group_holds (group_write 5 two_nodes 600 [1, 2, 3]) 5 (replicate 600 0 @ [1, 2, 3])"
  using striped_write_refines [of two_nodes 600 5 "[]" "[1, 2, 3]"] by (simp add: write_at_def)

text \<open>
  C13. Truncation of the shares is truncation of the file: after each node has applied
  \<^verbatim>\<open>truncate\<close>, the group holds the first \<open>len\<close> bytes of the content, extended with zeros when it
  was shorter.
\<close>

theorem striped_truncate_refines:
  assumes "stripe_group nodes" "unat len + (length nodes + 1) * 512 < 2 ^ 64"
    and "group_holds nodes inode content \<or> group_absent nodes inode \<and> content = []"
  shows "group_holds (group_truncate inode nodes len) inode
    (take (unat len) content @ replicate (unat len - length content) 0)"
  using group_truncate_holds [OF assms] by (simp add: set_len_def)

theorem striped_truncate_refines_witness:
  "group_holds (group_truncate 5 two_nodes 2) 5 (replicate 2 0)"
  using striped_truncate_refines [of two_nodes 2 5 "[]"] by simp

text \<open>
  C14. A read through any node returns the file's bytes. When the group holds a content and every
  other node answers with its own share, \<^verbatim>\<open>DataStorage::read\<close> on any node reassembles exactly the
  bytes from the offset on, at most as many as asked for, and fewer only at the end of the file.
\<close>

theorem striped_read_correct:
  assumes "stripe_group nodes" "peers_answer peer_read_raw nodes" "i < length nodes"
    and "group_holds nodes inode content" "inode \<noteq> ROOT_INODE"
    and "unat off + unat sz + (length nodes + 1) * 512 < 2 ^ 64"
  shows "read peer_read_raw (nodes ! i) inode off sz commit = Ok (take (unat sz) (drop (unat off) content))"
  using assms by (rule group_read)

theorem striped_read_correct_witness:
  "read (ask (group_write 5 two_nodes 0 [1, 2, 3])) (group_write 5 two_nodes 0 [1, 2, 3] ! 1) 5 1 9
     \<lparr>commit_term = 1, commit_index = 1\<rparr> = Ok [2, 3]"
proof -
  let ?g = "group_write 5 two_nodes 0 [1, 2, 3]"
  have g: "stripe_group ?g" "connected ?g" "group_holds ?g 5 [1, 2, 3]" "length ?g = 2"
    using two_nodes_store [of 0] by (simp_all add: group_store_def group_write_def)
  show ?thesis
    using striped_read_correct [OF g(1) ask_answers [OF g(1,2)] _ g(3), of 1 1 9] g(4)
    by (simp add: ROOT_INODE_def)
qed

text \<open>
  Read after write: what was written to a group at an offset is what a read of that range
  returns, through any node and whatever the file held before.
\<close>

theorem striped_read_after_write:
  assumes "group_store i inode nodes content" "unat sz = length data"
    and "unat off + length data + (length nodes + 1) * 512 < 2 ^ 64"
  shows "group_read_at i commit inode (group_write inode nodes off data) off sz = Ok data"
  using assms by (intro grp.read_after_write) simp_all

theorem striped_read_after_write_witness:
  "group_read_at 1 \<lparr>commit_term = 1, commit_index = 1\<rparr> 5 (group_write 5 (group_write 5 two_nodes 0 [1, 2, 3]) 1000 [4, 5]) 1000 2 = Ok [4, 5]"
  using striped_read_after_write [OF two_nodes_store [of 1], of 2 "[4, 5]" 1000]
  by (simp add: group_write_def)

text \<open>
  C18. The layout that the nodes of a group compute on their own is the same for all: nodes that
  are started with the same set of node ids, each with the others as its peers, agree on the
  order of the ids, and each finds its own position in it.
\<close>

theorem layout_agreement:
  assumes "sorted ids" "distinct ids" "ids \<noteq> []" "length nodes = length ids"
    and "\<And>k. k < length ids \<Longrightarrow> set (map fst (peers k)) \<union> {ids ! k} = set ids"
    and "\<And>k. k < length ids \<Longrightarrow> DataStorage_new (ids ! k) (dir k) (peers k) (files k) = Ok (nodes ! k)"
  shows "stripe_group nodes"
  using assms by (rule stripe_group_new)

theorem layout_agreement_witness:
  "stripe_group [\<lparr>ds_node_ids = [7], ds_local_rank = 0, ds_local_node_id = 7, ds_local_data_dir = ''/a'',
       ds_peers = ([] :: (u64 \<times> u64) list), ds_files = Map.empty\<rparr>]"
  by (rule layout_agreement [of "[7]" _ "\<lambda>_. []" "\<lambda>_. ''/a''" "\<lambda>_. Map.empty"])
    (simp_all add: DataStorage_new_def Let_def)

text \<open>
  C19. Operations on one inode leave the files of all other inodes alone: the host file that
  \<^verbatim>\<open>write_local_blocks\<close>, \<^verbatim>\<open>truncate\<close> or \<^verbatim>\<open>delete\<close> touches is never the one of another inode.
\<close>

theorem other_inodes_untouched:
  assumes "inode' \<noteq> inode"
  shows "ds_files (snd (write_local_blocks d inode off data)) (inode_path d inode') = ds_files d (inode_path d inode')
    \<and> ds_files (snd (truncate d inode len)) (inode_path d inode') = ds_files d (inode_path d inode')
    \<and> ds_files (snd (delete d inode)) (inode_path d inode') = ds_files d (inode_path d inode')"
  using other_file_unchanged [OF assms] by blast

theorem other_inodes_untouched_witness:
  "ds_files (snd (delete (two_nodes ! 0) 5)) (inode_path (two_nodes ! 0) 6) = None"
  using other_inodes_untouched [of 6 5 "two_nodes ! 0" 0 "[]" 0] by (simp add: two_nodes_def)

end
