(* ===== verification/Replica_Agreement.thy ===== *)
theory Replica_Agreement
  imports File_Storage Metadata_Laws Data_Group
begin

text \<open>
  Replicas agree. The replicas of a group apply the same committed requests, each with its own
  clock and its own share of the file contents. Two storages agree when they have the same tables
  up to the time stamps, the same counters, and the same inodes with a file; applying a request to
  storages that agree gives results that agree, and storages that agree again. The contract
  \<open>replicated_machine\<close> carries this to whole logs.
\<close>

section \<open>Agreement up to time stamps\<close>

definition attrs_agree :: "InodeAttributes \<Rightarrow> InodeAttributes \<Rightarrow> bool" where
  "attrs_agree a b \<longleftrightarrow>
     attr_inode a = attr_inode b \<and> attr_size a = attr_size b \<and> attr_kind a = attr_kind b \<and>
     attr_mode a = attr_mode b \<and> attr_hardlinks a = attr_hardlinks b \<and>
     attr_uid a = attr_uid b \<and> attr_gid a = attr_gid b"

definition tables_agree :: "tables \<Rightarrow> tables \<Rightarrow> bool" where
  "tables_agree t t' \<longleftrightarrow>
     PARENTS_TABLE t = PARENTS_TABLE t' \<and> DIRECTORY_TABLE t = DIRECTORY_TABLE t' \<and>
     XATTR_TABLE t = XATTR_TABLE t' \<and>
     (\<forall>i. rel_option attrs_agree (table_get (ATTR_TABLE t) i) (table_get (ATTR_TABLE t') i))"

definition metadata_agree :: "metadata_storage \<Rightarrow> metadata_storage \<Rightarrow> bool" where
  "metadata_agree m m' \<longleftrightarrow>
     tables_agree (ms_storage m) (ms_storage m') \<and> tables_agree (ms_durable m) (ms_durable m') \<and>
     ms_poisoned m = ms_poisoned m' \<and> ms_next_inode m = ms_next_inode m' \<and>
     ms_durability_counter m = ms_durability_counter m' \<and> ms_num_raft_groups m = ms_num_raft_groups m'"

definition txn_agree ::
    "('a \<Rightarrow> 'b \<Rightarrow> bool) \<Rightarrow> (ErrorCode, 'a) res \<times> metadata_storage \<Rightarrow> (ErrorCode, 'b) res \<times> metadata_storage \<Rightarrow> bool" where
  "txn_agree R x y \<longleftrightarrow> rel_res (=) R (fst x) (fst y) \<and> metadata_agree (snd x) (snd y)"

lemma attrs_agree_refl [simp]: "attrs_agree a a"
  by (simp add: attrs_agree_def)

lemma tables_agree_refl [simp]: "tables_agree t t"
  by (simp add: tables_agree_def option.rel_refl)

lemma rel_res_and_then [intro]:
  "rel_res E A x y \<Longrightarrow> (\<And>a b. A a b \<Longrightarrow> rel_res E B (f a) (g b)) \<Longrightarrow> rel_res E B (and_then x f) (and_then y g)"
  by (cases x; cases y) auto

lemma rel_res_ensure: "c = c' \<Longrightarrow> rel_res (=) (=) (ensure c e) (ensure c' e)"
  by (simp add: ensure_def)

lemma attrs_of_agree:
  "tables_agree t t' \<Longrightarrow> rel_res (=) attrs_agree (attrs_of t i) (attrs_of t' i)"
  unfolding tables_agree_def attrs_of_def
  by (cases "table_get (ATTR_TABLE t) i"; cases "table_get (ATTR_TABLE t') i")
    (metis option.rel_distinct(1,2) option.rel_inject(2) ok_or.simps res.rel_inject)+

lemma may_access_agree:
  "attrs_agree a b \<Longrightarrow> may_access a context access = may_access b context access"
  by (simp add: attrs_agree_def)

lemma xattr_access_agree:
  "attrs_agree a b \<Longrightarrow> rel_res (=) (=) (xattr_access_check key access a context) (xattr_access_check key access b context)"
  using xattr_access_cong [of a b key access "context"] by (simp add: attrs_agree_def res.rel_eq)

lemma put_attrs_agree:
  "tables_agree t t' \<Longrightarrow> attrs_agree a b \<Longrightarrow> tables_agree (put_attrs i a t) (put_attrs i b t')"
  by (simp add: tables_agree_def)

lemma write_txn_agree:
  assumes "metadata_agree m m'"
    and "\<And>t t'. tables_agree t t' \<Longrightarrow>
      rel_res (=) (rel_prod R (rel_option tables_agree)) (body t) (body' t')"
  shows "txn_agree R (write_txn m body) (write_txn m' body')"
proof -
  have t: "tables_agree (ms_storage m) (ms_storage m')" using assms(1) by (simp add: metadata_agree_def)
  show ?thesis
    using assms(1) assms(2) [OF t]
    by (cases "body (ms_storage m)"; cases "body' (ms_storage m')")
      (auto simp: txn_agree_def write_txn_def metadata_agree_def durability_tick_def Let_def
        split: option.split elim!: option.rel_cases)
qed

lemma read_txn_agree:
  assumes "metadata_agree m m'" "\<And>t t'. tables_agree t t' \<Longrightarrow> rel_res (=) R (body t) (body' t')"
  shows "rel_res (=) R (read_txn m body) (read_txn m' body')"
  using assms by (simp add: read_txn_def metadata_agree_def)

section \<open>The metadata operations\<close>

lemma tables_agree_fields:
  "tables_agree t t' \<Longrightarrow> PARENTS_TABLE t = PARENTS_TABLE t' \<and> DIRECTORY_TABLE t = DIRECTORY_TABLE t' \<and> XATTR_TABLE t = XATTR_TABLE t'"
  by (simp add: tables_agree_def)

lemma then_attrs_agree:
  "tables_agree t t' \<Longrightarrow> (\<And>a b. attrs_agree a b \<Longrightarrow> rel_res (=) B (f a) (g b)) \<Longrightarrow>
   rel_res (=) B (and_then (attrs_of t i) f) (and_then (attrs_of t' i) g)"
  by (rule rel_res_and_then [OF attrs_of_agree])

lemma then_ensure_agree:
  "c = c' \<Longrightarrow> (c \<Longrightarrow> rel_res (=) B (f ()) (g ())) \<Longrightarrow>
   rel_res (=) B (and_then (ensure c e) f) (and_then (ensure c' e) g)"
  by (cases c) auto

lemma then_entry_agree:
  "tables_agree t t' \<Longrightarrow> (\<And>i kind. rel_res (=) B (f (i, kind)) (g (i, kind))) \<Longrightarrow>
   rel_res (=) B (and_then (ok_or (table_get (DIRECTORY_TABLE t) k) e) f)
     (and_then (ok_or (table_get (DIRECTORY_TABLE t') k) e) g)"
  by (cases "table_get (DIRECTORY_TABLE t') k") (auto dest: tables_agree_fields)

lemma then_xattr_agree:
  "attrs_agree a b \<Longrightarrow> rel_res (=) B (f ()) (g ()) \<Longrightarrow>
   rel_res (=) B (and_then (xattr_access_check key access a context) f)
     (and_then (xattr_access_check key access b context) g)"
  by (rule rel_res_and_then [OF xattr_access_agree]) auto

lemma Ok_commit_agree:
  "R a b \<Longrightarrow> tables_agree t t' \<Longrightarrow> rel_res (=) (rel_prod R (rel_option tables_agree)) (Ok (a, Some t)) (Ok (b, Some t'))"
  by simp

lemmas agree_intros = then_attrs_agree then_ensure_agree then_xattr_agree Ok_commit_agree put_attrs_agree

lemma set_xattr_agree:
  "metadata_agree m m' \<Longrightarrow> txn_agree (=) (set_xattr now m inode key value context) (set_xattr now' m' inode key value context)"
  unfolding set_xattr_def Let_def
  by (intro write_txn_agree agree_intros) (auto simp: tables_agree_def attrs_agree_def)

lemma remove_xattr_agree:
  "metadata_agree m m' \<Longrightarrow> txn_agree (=) (remove_xattr now m inode key context) (remove_xattr now' m' inode key context)"
  unfolding remove_xattr_def Let_def
  by (intro write_txn_agree agree_intros) (auto simp: tables_agree_def attrs_agree_def)

lemma utimens_agree:
  "metadata_agree m m' \<Longrightarrow> txn_agree (=) (utimens now m inode atime mtime context) (utimens now' m' inode atime mtime context)"
  unfolding utimens_def Let_def
  by (intro write_txn_agree agree_intros) (auto simp: attrs_agree_def split: option.split)

lemma chmod_agree:
  "metadata_agree m m' \<Longrightarrow> txn_agree (=) (chmod now m inode mode context) (chmod now' m' inode mode context)"
  unfolding chmod_def Let_def
  by (intro write_txn_agree agree_intros) (auto simp: attrs_agree_def)

lemma chown_agree:
  "metadata_agree m m' \<Longrightarrow> txn_agree (=) (chown now m inode uid gid context) (chown now' m' inode uid gid context)"
  unfolding chown_def Let_def
  by (intro write_txn_agree agree_intros) (auto simp: attrs_agree_def split: option.split)

lemma link_count_agree:
  assumes "metadata_agree m m'"
  shows "txn_agree (\<lambda>_ _. True) (hardlink_stage0_link_increment now m inode) (hardlink_stage0_link_increment now' m' inode)"
    and "txn_agree (=) (hardlink_rollback m inode time) (hardlink_rollback m' inode time)"
    and "txn_agree (=) (update_metadata_changed_time now m inode) (update_metadata_changed_time now' m' inode)"
    and "txn_agree (=) (write_attrs now m inode off len) (write_attrs now' m' inode off len)"
  using assms
  unfolding hardlink_stage0_link_increment_def hardlink_rollback_def update_metadata_changed_time_def write_attrs_def Let_def
  by (intro write_txn_agree agree_intros; auto simp: attrs_agree_def)+

lemma truncate_attrs_agree:
  "metadata_agree m m' \<Longrightarrow> txn_agree (=) (truncate_attrs now m inode len context) (truncate_attrs now' m' inode len context)"
  unfolding truncate_attrs_def Let_def
  by (cases "MAX_FILE_SIZE < len")
    (auto simp: txn_agree_def [of _ "(Err _, _)"] attrs_agree_def intro!: write_txn_agree agree_intros)

lemma lookup_agree:
  assumes "metadata_agree m m'"
  shows "lookup m parent name context = lookup m' parent name context"
proof -
  have "rel_res (=) (=) (read_txn m (\<lambda>t. lookup_entry t parent name context))
      (read_txn m' (\<lambda>t. lookup_entry t parent name context))"
    unfolding lookup_entry_def using assms
    by (intro read_txn_agree agree_intros) (auto simp: attrs_agree_def dest: tables_agree_fields)
  then show ?thesis by (simp add: lookup_def res.rel_eq)
qed

lemma create_link_agree:
  assumes "metadata_agree m m'"
  shows "txn_agree (=) (create_link now m inode parent name context kind) (create_link now' m' inode parent name context kind)"
proof -
  let ?body = "\<lambda>now t. and_then (attrs_of t parent) (\<lambda>parent_attrs.
      and_then (ensure (may_access parent_attrs context W_OK) AccessDenied) (\<lambda>_.
      Ok ((), Some ((put_attrs parent (parent_attrs\<lparr>attr_last_modified := now 0, attr_last_metadata_changed := now 1\<rparr>) t)
        \<lparr>DIRECTORY_TABLE := table_insert (parent, name) (inode, kind)
          (DIRECTORY_TABLE (put_attrs parent (parent_attrs\<lparr>attr_last_modified := now 0, attr_last_metadata_changed := now 1\<rparr>) t))\<rparr>))))"
  have "txn_agree (=) (write_txn m (?body now)) (write_txn m' (?body now'))"
    using assms by (intro write_txn_agree agree_intros) (auto simp: attrs_agree_def tables_agree_def)
  then show ?thesis
    using assms unfolding create_link_def Let_def lookup_agree [OF assms]
    by (auto simp: txn_agree_def split: res.split option.split)
qed

lemma replace_link_agree:
  assumes "metadata_agree m m'"
  shows "txn_agree (=) (replace_link now m parent name inode kind context) (replace_link now' m' parent name inode kind context)"
  unfolding replace_link_def Let_def
proof (intro write_txn_agree [OF assms] then_attrs_agree then_ensure_agree)
  fix t t' a b
  assume t: "tables_agree t t'" and a: "attrs_agree a b"
  let ?p = "\<lambda>now a t. put_attrs parent (a\<lparr>attr_last_modified := now 0, attr_last_metadata_changed := now 1\<rparr>) t"
  show "rel_res (=) (rel_prod (=) (rel_option tables_agree))
     (and_then (expect (table_get (DIRECTORY_TABLE (?p now a t)) (parent, name))) (\<lambda>(old_inode, _).
        Ok (old_inode, Some ((?p now a t)\<lparr>DIRECTORY_TABLE :=
          table_insert (parent, name) (inode, kind) (DIRECTORY_TABLE (?p now a t))\<rparr>))))
     (and_then (expect (table_get (DIRECTORY_TABLE (?p now' b t')) (parent, name))) (\<lambda>(old_inode, _).
        Ok (old_inode, Some ((?p now' b t')\<lparr>DIRECTORY_TABLE :=
          table_insert (parent, name) (inode, kind) (DIRECTORY_TABLE (?p now' b t'))\<rparr>))))"
    using t a
    by (cases "table_get (DIRECTORY_TABLE t') (parent, name)") (auto simp: tables_agree_def attrs_agree_def)
qed (auto simp: attrs_agree_def)

lemma update_parent_agree:
  assumes "metadata_agree m m'"
  shows "txn_agree (=) (update_parent m inode parent) (update_parent m' inode parent)"
  unfolding update_parent_def
proof (rule write_txn_agree [OF assms])
  fix t t' assume t: "tables_agree t t'"
  then have "rel_option attrs_agree (table_get (ATTR_TABLE t) inode) (table_get (ATTR_TABLE t') inode)"
    by (simp add: tables_agree_def)
  then show "rel_res (=) (rel_prod (=) (rel_option tables_agree))
     (and_then (expect (table_get (ATTR_TABLE t) inode)) (\<lambda>attrs.
        and_then (assert_that (attr_kind attrs = Directory)) (\<lambda>_.
        Ok ((), Some (t\<lparr>PARENTS_TABLE := table_insert inode parent (PARENTS_TABLE t)\<rparr>)))))
     (and_then (expect (table_get (ATTR_TABLE t') inode)) (\<lambda>attrs.
        and_then (assert_that (attr_kind attrs = Directory)) (\<lambda>_.
        Ok ((), Some (t'\<lparr>PARENTS_TABLE := table_insert inode parent (PARENTS_TABLE t')\<rparr>)))))"
    using t by (cases rule: option.rel_cases) (auto simp: tables_agree_def attrs_agree_def assert_that_def)
qed

lemma create_inode_agree:
  assumes "metadata_agree m m'"
  shows "txn_agree (rel_prod (=) attrs_agree) (create_inode now m parent uid gid mode kind)
    (create_inode now' m' parent uid gid mode kind)"
proof (cases "ms_poisoned m'")
  case True
  with assms show ?thesis by (simp add: create_inode_def txn_agree_def metadata_agree_def)
next
  case False
  have mm: "metadata_agree (m\<lparr>ms_next_inode := ms_next_inode m' + ms_num_raft_groups m\<rparr>)
      (m'\<lparr>ms_next_inode := ms_next_inode m' + ms_num_raft_groups m'\<rparr>)"
    and eq: "ms_next_inode m = ms_next_inode m'" "ms_poisoned m = ms_poisoned m'"
    using assms by (simp_all add: metadata_agree_def)
  show ?thesis
    unfolding create_inode_def allocate_inode_def Let_def prod.case eq if_not_P [OF False]
    using mm by (intro write_txn_agree Ok_commit_agree)
      (auto simp: tables_agree_def attrs_agree_def new_inode_metadata_def)
qed

text \<open>\<^verbatim>\<open>remove_link\<close> and \<^verbatim>\<open>decrement_inode_link_count\<close> branch on what they find.\<close>

lemma remove_link_agree:
  assumes "metadata_agree m m'"
  shows "txn_agree (=) (remove_link now m parent name link context) (remove_link now' m' parent name link context)"
proof (cases "ms_poisoned m'")
  case True
  with assms show ?thesis by (simp add: remove_link_def txn_agree_def metadata_agree_def)
next
  case False
  then have "\<not> ms_poisoned m" using assms by (simp add: metadata_agree_def)
  then show ?thesis
    using assms unfolding remove_link_def if_not_P [OF False] if_not_P [OF \<open>\<not> ms_poisoned m\<close>] Let_def
    by (intro write_txn_agree then_attrs_agree then_entry_agree)
      (auto simp: attrs_agree_def tables_agree_def split: option.split)
qed

lemma decrement_inode_link_count_agree:
  assumes "metadata_agree m m'"
  shows "txn_agree (=) (decrement_inode_link_count now m inode count) (decrement_inode_link_count now' m' inode count)"
  unfolding decrement_inode_link_count_def Let_def
  by (intro write_txn_agree [OF assms] then_attrs_agree, assumption)
    (auto simp: attrs_agree_def tables_agree_def assert_that_def)

section \<open>The data operations\<close>

lemma to_local_path_files [simp]: "to_local_path (d\<lparr>ds_files := f\<rparr>) path = to_local_path d path"
  by (simp add: to_local_path_def)

lemma file_inode_exists_set_file:
  "file_inode_exists (set_file d (inode_path d inode) f) i \<longleftrightarrow> i = inode \<or> file_inode_exists d i"
  by (simp add: file_inode_exists_def)

lemma file_inode_exists_ops:
  "file_inode_exists (snd (write_local_blocks d inode off data)) i
     \<longleftrightarrow> file_inode_exists d i \<or> i = inode \<and> ds_node_ids d \<noteq> []"
  "file_inode_exists (snd (Data_Storage.truncate d inode len)) i
     \<longleftrightarrow> file_inode_exists d i \<or> i = inode \<and> ds_node_ids d \<noteq> []"
  "file_inode_exists (snd (delete d inode)) i
     \<longleftrightarrow> file_inode_exists d i \<and> (i \<noteq> inode \<or> inode = ROOT_INODE)"
proof -
  show "file_inode_exists (snd (write_local_blocks d inode off data)) i
     \<longleftrightarrow> file_inode_exists d i \<or> i = inode \<and> ds_node_ids d \<noteq> []"
    "file_inode_exists (snd (Data_Storage.truncate d inode len)) i
     \<longleftrightarrow> file_inode_exists d i \<or> i = inode \<and> ds_node_ids d \<noteq> []"
    by (auto simp: write_local_blocks_def Data_Storage.truncate_def Let_def file_inode_exists_set_file)
  show "file_inode_exists (snd (delete d inode)) i
     \<longleftrightarrow> file_inode_exists d i \<and> (i \<noteq> inode \<or> inode = ROOT_INODE)"
    by (auto simp: delete_def file_inode_exists_def split: option.split)
qed

section \<open>File storages that agree\<close>

definition storage_agree :: "'p file_storage \<Rightarrow> 'q file_storage \<Rightarrow> bool" where
  "storage_agree fs fs' \<longleftrightarrow>
     metadata_agree (fs_metadata fs) (fs_metadata fs') \<and>
     (\<forall>i. file_inode_exists (fs_data fs) i = file_inode_exists (fs_data fs') i) \<and>
     (ds_node_ids (fs_data fs) = [] \<longleftrightarrow> ds_node_ids (fs_data fs') = [])"

definition untimed_metadata :: "EntryMetadata \<Rightarrow> EntryMetadata" where
  "untimed_metadata e =
     (let t = \<lparr>ts_seconds = 0, ts_nanos = 0\<rparr>
      in e\<lparr>em_last_access_time := t, em_last_modified_time := t, em_last_metadata_modified_time := t\<rparr>)"

text \<open>A response without its time stamps.\<close>

fun untimed :: "Response \<Rightarrow> Response" where
  "untimed (Response.EntryMetadata e) = Response.EntryMetadata (untimed_metadata e)"
| "untimed (Response.HardlinkTransaction t e) =
     Response.HardlinkTransaction \<lparr>ts_seconds = 0, ts_nanos = 0\<rparr> (untimed_metadata e)"
| "untimed r = r"

definition fs_agree ::
    "('a \<Rightarrow> 'b \<Rightarrow> bool) \<Rightarrow> ('e, 'a) res \<times> 'p file_storage \<Rightarrow> ('e, 'b) res \<times> 'q file_storage \<Rightarrow> bool" where
  "fs_agree R x y \<longleftrightarrow> rel_res (=) R (fst x) (fst y) \<and> storage_agree (snd x) (snd y)"

abbreviation response_agree :: "Response \<Rightarrow> Response \<Rightarrow> bool" where
  "response_agree r r' \<equiv> untimed r = untimed r'"

lemma build_fileattr_agree:
  "attrs_agree a b \<Longrightarrow> untimed_metadata (build_fileattr_response a n) = untimed_metadata (build_fileattr_response b n)"
  by (simp add: untimed_metadata_def build_fileattr_response_def attrs_agree_def blocks_def)

lemma on_metadata_agree:
  "storage_agree fs fs' \<Longrightarrow> txn_agree R (op (fs_metadata fs)) (op' (fs_metadata fs')) \<Longrightarrow>
   fs_agree R (on_metadata fs op) (on_metadata fs' op')"
  by (simp add: fs_agree_def storage_agree_def on_metadata_def txn_agree_def split_beta)

lemma answer_agree:
  "fs_agree R x y \<Longrightarrow> (\<And>a b. R a b \<Longrightarrow> response_agree (f a) (g b)) \<Longrightarrow>
   fs_agree response_agree (answer f x) (answer g y)"
  by (cases "fst x"; cases "fst y") (auto simp: fs_agree_def answer_def)

lemma and_then_st_agree:
  "fs_agree A x y \<Longrightarrow> (\<And>a b s s'. A a b \<Longrightarrow> storage_agree s s' \<Longrightarrow> fs_agree B (f a s) (g b s')) \<Longrightarrow>
   fs_agree B (and_then_st x f) (and_then_st y g)"
  by (cases "fst x"; cases "fst y") (auto simp: fs_agree_def and_then_st_pair)

lemma metadata_answer_agree:
  "storage_agree fs fs' \<Longrightarrow> (metadata_agree (fs_metadata fs) (fs_metadata fs') \<Longrightarrow>
     txn_agree (=) (op (fs_metadata fs)) (op' (fs_metadata fs'))) \<Longrightarrow>
   fs_agree response_agree (answer f (on_metadata fs op)) (answer f (on_metadata fs' op'))"
  by (rule answer_agree [where R = "(=)", OF on_metadata_agree]) (auto simp: storage_agree_def)

lemma get_attributes_agree:
  "metadata_agree m m' \<Longrightarrow> rel_res (=) (rel_prod attrs_agree (=)) (get_attributes m inode) (get_attributes m' inode)"
  unfolding get_attributes_def
  by (intro read_txn_agree then_attrs_agree) (auto simp: attrs_agree_def dest: tables_agree_fields)

lemma storage_agree_metadata:
  "storage_agree fs fs' \<Longrightarrow> metadata_agree (fs_metadata fs) (fs_metadata fs')"
  by (simp add: storage_agree_def)

lemma metadata_methods_agree:
  assumes "storage_agree fs fs'"
  shows "fs_agree response_agree (fs_utimens now fs inode atime mtime context) (fs_utimens now' fs' inode atime mtime context)"
    and "fs_agree response_agree (fs_chmod now fs inode mode context) (fs_chmod now' fs' inode mode context)"
    and "fs_agree response_agree (fs_chown now fs inode uid gid context) (fs_chown now' fs' inode uid gid context)"
    and "fs_agree response_agree (fs_create_link now fs inode parent name context kind) (fs_create_link now' fs' inode parent name context kind)"
    and "fs_agree response_agree (fs_replace_link now fs parent name inode kind context) (fs_replace_link now' fs' parent name inode kind context)"
    and "fs_agree response_agree (fs_update_parent fs inode parent) (fs_update_parent fs' inode parent)"
    and "fs_agree response_agree (fs_update_metadata_changed_time now fs inode) (fs_update_metadata_changed_time now' fs' inode)"
    and "fs_agree response_agree (fs_hardlink_rollback fs inode time) (fs_hardlink_rollback fs' inode time)"
    and "fs_agree response_agree (fs_set_xattr now fs inode key value context) (fs_set_xattr now' fs' inode key value context)"
    and "fs_agree response_agree (fs_remove_xattr now fs inode key context) (fs_remove_xattr now' fs' inode key context)"
    and "fs_agree response_agree (fs_remove_link now fs parent name link context) (fs_remove_link now' fs' parent name link context)"
  using assms
  unfolding fs_utimens_def fs_chmod_def fs_chown_def fs_create_link_def fs_replace_link_def fs_update_parent_def
    fs_update_metadata_changed_time_def fs_hardlink_rollback_def fs_set_xattr_def fs_remove_xattr_def fs_remove_link_def
  by (auto intro!: metadata_answer_agree utimens_agree chmod_agree chown_agree create_link_agree replace_link_agree
      update_parent_agree link_count_agree set_xattr_agree remove_xattr_agree remove_link_agree
      simp: fs_agree_def [of _ "(Panic, _)"])

lemma on_data_agree:
  assumes "storage_agree fs fs'"
    and "rel_res (=) R (fst (op (fs_data fs))) (fst (op' (fs_data fs')))"
    and "\<And>i. file_inode_exists (snd (op (fs_data fs))) i = file_inode_exists (snd (op' (fs_data fs'))) i"
    and "same_layout (fs_data fs) (snd (op (fs_data fs)))" "same_layout (fs_data fs') (snd (op' (fs_data fs')))"
  shows "fs_agree R (on_data fs op) (on_data fs' op')"
  using assms by (simp add: fs_agree_def storage_agree_def on_data_def split_beta same_layout_def)

lemma data_ops_agree:
  assumes "storage_agree fs fs'"
  shows "fs_agree (\<lambda>_ _. True) (on_data fs (\<lambda>d. write_local_blocks d inode off data))
      (on_data fs' (\<lambda>d. write_local_blocks d inode off data))"
    and "fs_agree (=) (on_data fs (\<lambda>d. Data_Storage.truncate d inode len))
      (on_data fs' (\<lambda>d. Data_Storage.truncate d inode len))"
    and "fs_agree (=) (on_data fs (\<lambda>d. delete d inode)) (on_data fs' (\<lambda>d. delete d inode))"
proof -
  have e: "file_inode_exists (fs_data fs) i = file_inode_exists (fs_data fs') i"
    "(ds_node_ids (fs_data fs) = []) = (ds_node_ids (fs_data fs') = [])" for i
    using assms by (simp_all add: storage_agree_def)
  have x: "(ds_files (fs_data fs) (inode_path (fs_data fs) inode) = None)
      = (ds_files (fs_data fs') (inode_path (fs_data fs') inode) = None)"
    using e(1) [of inode] by (cases "ds_files (fs_data fs) (inode_path (fs_data fs) inode)")
      (auto simp: file_inode_exists_def)
  show "fs_agree (\<lambda>_ _. True) (on_data fs (\<lambda>d. write_local_blocks d inode off data))
      (on_data fs' (\<lambda>d. write_local_blocks d inode off data))"
    "fs_agree (=) (on_data fs (\<lambda>d. Data_Storage.truncate d inode len))
      (on_data fs' (\<lambda>d. Data_Storage.truncate d inode len))"
    using assms e
    by (auto intro!: on_data_agree simp: same_layout_ops file_inode_exists_ops,
        auto simp: write_local_blocks_def Data_Storage.truncate_def Let_def)
  show "fs_agree (=) (on_data fs (\<lambda>d. delete d inode)) (on_data fs' (\<lambda>d. delete d inode))"
    using assms e x
    by (auto intro!: on_data_agree simp: same_layout_ops file_inode_exists_ops,
        auto simp: delete_def split: option.split)
qed

lemma Ok_fs_agree: "storage_agree s s' \<Longrightarrow> R a b \<Longrightarrow> fs_agree R (Ok a, s) (Ok b, s')"
  by (simp add: fs_agree_def)

lemma unwrap_Ok_agree:
  "fs_agree A x y \<Longrightarrow> (\<And>a b. A a b \<Longrightarrow> rel_res (=) B (f a) (g b)) \<Longrightarrow>
   fs_agree B (case x of (r, s) \<Rightarrow> (and_then (unwrap r) f, s)) (case y of (r, s) \<Rightarrow> (and_then (unwrap r) g, s))"
  by (cases x; cases y; cases "fst x"; cases "fst y") (auto simp: fs_agree_def)

lemma fs_truncate_agree:
  "storage_agree fs fs' \<Longrightarrow>
   fs_agree response_agree (fs_truncate now fs inode len context) (fs_truncate now' fs' inode len context)"
  unfolding fs_truncate_def Let_def
  by (intro and_then_st_agree [where A = "(=)"] on_metadata_agree truncate_attrs_agree storage_agree_metadata
      unwrap_Ok_agree [where A = "(=)"] data_ops_agree) simp_all

lemma fs_write_agree:
  "storage_agree fs fs' \<Longrightarrow>
   fs_agree response_agree (fs_write now fs inode off data) (fs_write now' fs' inode off data)"
  unfolding fs_write_def Let_def
proof (intro and_then_st_agree [where A = "(=)"] on_metadata_agree link_count_agree storage_agree_metadata; assumption?)
  fix a b :: unit and s :: "'a file_storage" and s' :: "'b file_storage"
  assume "storage_agree s s'"
  from data_ops_agree(1) [OF this, of inode off data]
  show "fs_agree response_agree
     (case on_data s (\<lambda>d. write_local_blocks d inode off data) of
        (r, fs) \<Rightarrow> (map_err into_error_code (map_ok (\<lambda>_. Response.Written (of_nat (length data))) r), fs))
     (case on_data s' (\<lambda>d. write_local_blocks d inode off data) of
        (r, fs) \<Rightarrow> (map_err into_error_code (map_ok (\<lambda>_. Response.Written (of_nat (length data))) r), fs))"
    by (cases "on_data s (\<lambda>d. write_local_blocks d inode off data)";
        cases "on_data s' (\<lambda>d. write_local_blocks d inode off data)")
      (auto simp: fs_agree_def elim!: res.rel_cases)
qed

lemma fs_hardlink_increment_agree:
  assumes "storage_agree fs fs'"
  shows "fs_agree response_agree (fs_hardlink_stage0_link_increment now fs inode)
    (fs_hardlink_stage0_link_increment now' fs' inode)"
  unfolding fs_hardlink_stage0_link_increment_def
proof (rule and_then_st_agree [where A = "\<lambda>_ _. True"])
  show "fs_agree (\<lambda>_ _. True) (on_metadata fs (\<lambda>m. hardlink_stage0_link_increment now m inode))
      (on_metadata fs' (\<lambda>m. hardlink_stage0_link_increment now' m inode))"
    using assms by (intro on_metadata_agree link_count_agree(1) storage_agree_metadata)
  fix a b :: Timestamp and s :: "'a file_storage" and s' :: "'b file_storage"
  assume s: "storage_agree s s'"
  have "rel_res (=) (rel_prod attrs_agree (=)) (get_attributes (fs_metadata s) inode) (get_attributes (fs_metadata s') inode)"
    using s by (intro get_attributes_agree storage_agree_metadata)
  then show "fs_agree response_agree
     (map_ok (\<lambda>(attributes, n). Response.HardlinkTransaction a (build_fileattr_response attributes n))
        (get_attributes (fs_metadata s) inode), s)
     (map_ok (\<lambda>(attributes, n). Response.HardlinkTransaction b (build_fileattr_response attributes n))
        (get_attributes (fs_metadata s') inode), s')"
    using s by (auto simp: fs_agree_def build_fileattr_agree elim!: res.rel_cases)
qed

lemma fs_decrement_agree:
  assumes "storage_agree fs fs'"
  shows "fs_agree response_agree (fs_decrement_inode_link_count now fs inode count)
    (fs_decrement_inode_link_count now' fs' inode count)"
  unfolding fs_decrement_inode_link_count_def Let_def
proof (rule and_then_st_agree [where A = "(=)"])
  show "fs_agree (=) (on_metadata fs (\<lambda>m. decrement_inode_link_count now m inode count))
      (on_metadata fs' (\<lambda>m. decrement_inode_link_count now' m inode count))"
    using assms by (intro on_metadata_agree decrement_inode_link_count_agree storage_agree_metadata)
  fix a b s s' assume "a = (b :: u64 option)" and s: "storage_agree s s'"
  then show "fs_agree response_agree
     (case a of None \<Rightarrow> (Ok Response.Empty, s)
      | Some i \<Rightarrow> case on_data s (\<lambda>d. delete d i) of (r, fs) \<Rightarrow> (and_then (unwrap r) (\<lambda>_. Ok Response.Empty), fs))
     (case b of None \<Rightarrow> (Ok Response.Empty, s')
      | Some i \<Rightarrow> case on_data s' (\<lambda>d. delete d i) of (r, fs) \<Rightarrow> (and_then (unwrap r) (\<lambda>_. Ok Response.Empty), fs))"
    by (cases b) (auto intro: Ok_fs_agree unwrap_Ok_agree [where A = "(=)", OF data_ops_agree(3)])
qed

lemma fs_create_inode_agree:
  assumes "storage_agree fs fs'"
  shows "fs_agree response_agree (fs_create_inode now fs parent uid gid mode kind)
    (fs_create_inode now' fs' parent uid gid mode kind)"
  unfolding fs_create_inode_def Let_def
proof (rule and_then_st_agree [where A = "rel_prod (=) attrs_agree"])
  show "fs_agree (rel_prod (=) attrs_agree) (on_metadata fs (\<lambda>m. create_inode now m parent uid gid mode kind))
      (on_metadata fs' (\<lambda>m. create_inode now' m parent uid gid mode kind))"
    using assms by (intro on_metadata_agree create_inode_agree storage_agree_metadata)
  fix a b s s'
  assume ab: "rel_prod (=) attrs_agree a b" and s: "storage_agree s s'"
  obtain i x y where a: "a = (i, x)" "b = (i, y)" and xy: "attrs_agree x y"
    using ab by (cases a; cases b) auto
  let ?init = "\<lambda>s. if kind \<noteq> Directory then on_data s (\<lambda>d. Data_Storage.truncate d (attr_inode y) 0) else (Ok (), s)"
  have "fs_agree (=) (?init s) (?init s')"
    using data_ops_agree(2) [OF s] by (simp add: Ok_fs_agree [OF s])
  note init = unwrap_Ok_agree [OF this, where B = response_agree]
  have i: "attr_inode x = attr_inode y" using xy by (simp add: attrs_agree_def)
  show "fs_agree response_agree
     ((case a of (_, attributes) \<Rightarrow> \<lambda>fs.
        case if kind \<noteq> Directory then on_data fs (\<lambda>d. Data_Storage.truncate d (attr_inode attributes) 0) else (Ok (), fs)
        of (r, fs) \<Rightarrow> (and_then (unwrap r) (\<lambda>_. Ok (to_fileattr_response attributes
             (if kind = Directory then Some 0 else None))), fs)) s)
     ((case b of (_, attributes) \<Rightarrow> \<lambda>fs.
        case if kind \<noteq> Directory then on_data fs (\<lambda>d. Data_Storage.truncate d (attr_inode attributes) 0) else (Ok (), fs)
        of (r, fs) \<Rightarrow> (and_then (unwrap r) (\<lambda>_. Ok (to_fileattr_response attributes
             (if kind = Directory then Some 0 else None))), fs)) s')"
    unfolding a prod.case i
    by (rule init) (simp add: to_fileattr_response_def build_fileattr_agree [OF xy])
qed

lemma fs_fsync_agree:
  "storage_agree fs fs' \<Longrightarrow> fs_fsync fs inode = fs_fsync fs' inode"
  by (cases "ds_files (fs_data fs) (inode_path (fs_data fs) inode)";
      cases "ds_files (fs_data fs') (inode_path (fs_data fs') inode)")
    (auto simp: fs_fsync_def fsync_def storage_agree_def file_inode_exists_def dest!: spec [of _ inode])

lemma commit_write_agree:
  assumes "storage_agree fs fs'"
  shows "fs_agree response_agree (commit_write now request fs) (commit_write now' request fs')"
proof -
  have panic: "fs_agree response_agree (Panic, fs) (Panic, fs')"
    using assms by (simp add: fs_agree_def)
  have fsync: "fs_agree response_agree (fs_fsync fs inode, fs) (fs_fsync fs' inode, fs')" for inode
    using assms by (auto simp: fs_agree_def fs_fsync_agree [OF assms] intro: res.rel_refl)
  show ?thesis
    by (cases request)
      (auto simp: panic fsync intro: assms metadata_methods_agree fs_truncate_agree fs_write_agree
        fs_hardlink_increment_agree fs_decrement_agree fs_create_inode_agree)
qed

section \<open>Logs\<close>

text \<open>
  A machine whose steps also read something local to the replica (here its clock): \<open>run\<close>
  applies a log of inputs, each with the local value the replica had for it.
\<close>

primrec run :: "('c \<Rightarrow> 'r \<Rightarrow> 's \<Rightarrow> 'o \<times> 's) \<Rightarrow> ('c \<times> 'r) list \<Rightarrow> 's \<Rightarrow> 'o list \<times> 's" where
  "run step [] s = ([], s)"
| "run step (x # log) s =
     (let (out, s') = step (fst x) (snd x) s; (outs, s'') = run step log s' in (out # outs, s''))"

locale replicated_machine =
  fixes step :: "'c \<Rightarrow> 'r \<Rightarrow> 's \<Rightarrow> 'o \<times> 's"
    and agree :: "'s \<Rightarrow> 's \<Rightarrow> bool"
    and out_agree :: "'o \<Rightarrow> 'o \<Rightarrow> bool"
  assumes step_out: "agree s s' \<Longrightarrow> out_agree (fst (step c r s)) (fst (step c' r s'))"
    and step_agree: "agree s s' \<Longrightarrow> agree (snd (step c r s)) (snd (step c' r s'))"
begin

lemma run_agree:
  "map snd log = map snd log' \<Longrightarrow> agree s s' \<Longrightarrow>
   list_all2 out_agree (fst (run step log s)) (fst (run step log' s')) \<and>
   agree (snd (run step log s)) (snd (run step log' s'))"
proof (induction log arbitrary: log' s s')
  case (Cons x log)
  then obtain c' ys where log': "log' = (c', snd x) # ys" "map snd log = map snd ys"
    by (auto simp: Cons_eq_map_conv)
  show ?case
    using Cons.IH [OF log'(2) step_agree [OF Cons.prems(2), of "fst x" "snd x" c']]
      step_out [OF Cons.prems(2), of "fst x" "snd x" c']
    by (simp add: log'(1) split_beta)
qed simp

lemma run_prefix:
  "snd (run step (log @ log') s) = snd (run step log' (snd (run step log s)))"
  by (induction log arbitrary: s) (simp_all add: split_beta)

end

interpretation rsm: replicated_machine commit_write "storage_agree :: 'p file_storage \<Rightarrow> 'p file_storage \<Rightarrow> bool"
  "rel_res (=) response_agree"
  by unfold_locales (simp_all add: commit_write_agree [unfolded fs_agree_def])

definition fresh_node :: "u64 list \<Rightarrow> nat \<Rightarrow> u64 file_storage" where
  "fresh_node ids k =
     \<lparr>fs_data = \<lparr>ds_node_ids = ids, ds_local_rank = of_nat k, ds_local_node_id = ids ! k,
                ds_local_data_dir = ''/data'', ds_peers = map (\<lambda>i. (i, i)) ids, ds_files = Map.empty\<rparr>,
      fs_metadata = fresh_storage\<rparr>"

text \<open>
  C3. State machine replication. Two replicas of a group that agree, and apply the same committed
  requests in the same order, each with the time of its own clock at each request, give the same
  answers up to time stamps (the same errors, and panics at the same requests) and agree again:
  equal tables up to time stamps, inode counter, durability counter, and the same inodes with a
  file, although each holds its own share of the contents.
\<close>
theorem replicas_agree:
  fixes fs fs' :: "'p file_storage"
  assumes "storage_agree fs fs'" "map snd log = map snd log'"
  shows "list_all2 (rel_res (=) response_agree) (fst (run commit_write log fs)) (fst (run commit_write log' fs'))
    \<and> storage_agree (snd (run commit_write log fs)) (snd (run commit_write log' fs'))"
  by (rule rsm.run_agree [OF assms(2,1)])

theorem replicas_agree_witness:
  "let later = (\<lambda>_. \<lparr>ts_seconds = 7, ts_nanos = 0\<rparr>);
       log = [Request.CreateInode 0 1 0 0 420 File, Request.Write 2 0 [1, 2, 3]];
       one = run commit_write (map (Pair epoch) log) (fresh_node [5, 9] 0);
       two = run commit_write (map (Pair later) log) (fresh_node [5, 9] 1)
   in list_all2 (rel_res (=) response_agree) (fst one) (fst two) \<and> storage_agree (snd one) (snd two)"
proof -
  have "storage_agree (fresh_node [5, 9] 0) (fresh_node [5, 9] 1)"
    by (simp add: storage_agree_def fresh_node_def metadata_agree_def file_inode_exists_def)
  then show ?thesis unfolding Let_def by (rule replicas_agree) simp
qed

end
