(* ===== verification/File_Group.thy ===== *)
theory File_Group
  imports Replica_Agreement
begin

text \<open>
  The storages of a group as one file system. A committed request has an effect on the files
  (\<open>effect_of\<close>): none, a write, a cut, a new file, or a removed one. Every replica applies it to
  its share and its metadata; the group as a whole applies it to a plain map from inodes to bytes.
  The size the metadata records is the length of the striped content throughout.
\<close>

section \<open>Effects\<close>

datatype file_effect = Unchanged | Wrote u64 u64 bytes | Cut u64 u64 | Made u64 | Dropped u64

primrec data_effect :: "file_effect \<Rightarrow> 'p data_storage \<Rightarrow> 'p data_storage" where
  "data_effect Unchanged d = d"
| "data_effect (Wrote inode off data) d = snd (write_local_blocks d inode off data)"
| "data_effect (Cut inode len) d = snd (Data_Storage.truncate d inode len)"
| "data_effect (Made inode) d = snd (Data_Storage.truncate d inode 0)"
| "data_effect (Dropped inode) d = snd (delete d inode)"

text \<open>The recorded sizes of the inodes that are not directories.\<close>

definition size_in :: "tables \<Rightarrow> u64 \<rightharpoonup> u64" where
  "size_in t i =
     (case table_get (ATTR_TABLE t) i of
        None \<Rightarrow> None
      | Some a \<Rightarrow> if attr_kind a = Directory then None else Some (attr_size a))"

abbreviation size_of :: "'p file_storage \<Rightarrow> u64 \<rightharpoonup> u64" where
  "size_of fs \<equiv> size_in (ms_storage (fs_metadata fs))"

primrec size_effect :: "file_effect \<Rightarrow> (u64 \<rightharpoonup> u64) \<Rightarrow> u64 \<rightharpoonup> u64" where
  "size_effect Unchanged s = s"
| "size_effect (Wrote inode off data) s =
     s(inode := map_option (\<lambda>z. max z (ucast (of_nat (length data) :: u32) + off)) (s inode))"
| "size_effect (Cut inode len) s = s(inode := map_option (\<lambda>_. len) (s inode))"
| "size_effect (Made inode) s = s(inode \<mapsto> 0)"
| "size_effect (Dropped inode) s = s(inode := None)"

text \<open>The files as plain byte lists.\<close>

primrec files_effect :: "file_effect \<Rightarrow> (u64 \<rightharpoonup> bytes) \<Rightarrow> u64 \<rightharpoonup> bytes" where
  "files_effect Unchanged files = files"
| "files_effect (Wrote inode off data) files =
     files(inode := map_option (\<lambda>c. write_at c (unat off) data) (files inode))"
| "files_effect (Cut inode len) files = files(inode := map_option (\<lambda>c. set_len c (unat len)) (files inode))"
| "files_effect (Made inode) files = files(inode \<mapsto> [])"
| "files_effect (Dropped inode) files = files(inode := None)"

text \<open>The effect of a request, from its answer and the state it was applied to.\<close>

fun effect_of :: "Request \<Rightarrow> (ErrorCode, Response) res \<Rightarrow> 'p file_storage \<Rightarrow> file_effect" where
  "effect_of (Request.Write inode off data) (Ok _) fs = Wrote inode off data"
| "effect_of (Request.Truncate inode len context) (Ok _) fs = Cut inode len"
| "effect_of (Request.CreateInode raft_group parent uid gid mode kind) (Ok _) fs =
     (if kind = Directory then Unchanged else Made (ms_next_inode (fs_metadata fs)))"
| "effect_of (Request.DecrementInode inode count lock_id) (Ok _) fs =
     (case table_get (ATTR_TABLE (ms_storage (fs_metadata fs))) inode of
        None \<Rightarrow> Unchanged
      | Some a \<Rightarrow> if attr_hardlinks a = count \<and> attr_kind a \<noteq> Directory then Dropped inode else Unchanged)"
| "effect_of _ _ _ = Unchanged"

section \<open>One replica\<close>

lemma size_in_put_attrs:
  "size_in (put_attrs i a t) = (size_in t)(i := if attr_kind a = Directory then None else Some (attr_size a))"
  by (simp add: size_in_def fun_eq_iff)

lemma size_in_fields:
  "size_in (t\<lparr>XATTR_TABLE := x\<rparr>) = size_in t"
  "size_in (t\<lparr>PARENTS_TABLE := p\<rparr>) = size_in t"
  "size_in (t\<lparr>DIRECTORY_TABLE := d\<rparr>) = size_in t"
  by (simp_all add: size_in_def fun_eq_iff)

lemma size_in_put_same:
  "table_get (ATTR_TABLE t) i = Some a \<Longrightarrow> attr_kind a' = attr_kind a \<Longrightarrow> attr_size a' = attr_size a \<Longrightarrow>
   size_in (put_attrs i a' t) = size_in t"
  by (simp add: size_in_def fun_eq_iff)

text \<open>A transaction whose body keeps the sizes keeps them, whether it commits or not.\<close>

lemma write_txn_sizes:
  assumes "\<And>a t'. body (ms_storage m) = Ok (a, Some t') \<Longrightarrow> size_in t' = size_in (ms_storage m)"
  shows "size_in (ms_storage (snd (write_txn m body))) = size_in (ms_storage m)"
  using assms by (auto simp: write_txn_storage committed_def split: res.split option.split)

lemma metadata_ops_sizes:
  "size_in (ms_storage (snd (set_xattr now m inode key value context))) = size_in (ms_storage m)"
  "size_in (ms_storage (snd (remove_xattr now m inode key context))) = size_in (ms_storage m)"
  "size_in (ms_storage (snd (utimens now m inode atime mtime context))) = size_in (ms_storage m)"
  "size_in (ms_storage (snd (chmod now m inode mode32 context))) = size_in (ms_storage m)"
  "size_in (ms_storage (snd (chown now m inode new_uid new_gid context))) = size_in (ms_storage m)"
  "size_in (ms_storage (snd (hardlink_stage0_link_increment now m inode))) = size_in (ms_storage m)"
  "size_in (ms_storage (snd (hardlink_rollback m inode time))) = size_in (ms_storage m)"
  "size_in (ms_storage (snd (update_metadata_changed_time now m inode))) = size_in (ms_storage m)"
  "size_in (ms_storage (snd (replace_link now m parent name inode kind context))) = size_in (ms_storage m)"
  "size_in (ms_storage (snd (update_parent m inode parent))) = size_in (ms_storage m)"
  unfolding set_xattr_def remove_xattr_def utimens_def chmod_def chown_def hardlink_stage0_link_increment_def
    hardlink_rollback_def update_metadata_changed_time_def replace_link_def update_parent_def Let_def
  by (rule write_txn_sizes; auto simp: res_simps and_then_eq_Ok size_in_put_same size_in_fields split: option.split)+

lemma create_link_sizes:
  "size_in (ms_storage (snd (create_link now m inode parent name context kind))) = size_in (ms_storage m)"
  by (auto simp: create_link_def Let_def res_simps and_then_eq_Ok size_in_put_same size_in_fields
      intro!: write_txn_sizes split: res.split option.split)

lemma remove_link_sizes:
  "size_in (ms_storage (snd (remove_link now m parent name link context))) = size_in (ms_storage m)"
  by (auto simp: remove_link_def Let_def res_simps and_then_eq_Ok size_in_put_same size_in_fields
      intro!: write_txn_sizes split: if_splits option.splits)

lemmas sizes_kept = metadata_ops_sizes create_link_sizes remove_link_sizes

lemma failed_sizes:
  "\<not> is_ok (fst (write_txn m body)) \<Longrightarrow> size_in (ms_storage (snd (write_txn m body))) = size_in (ms_storage m)"
  by (simp add: write_txn_failed)

lemma write_attrs_sizes:
  "fst (write_attrs now m inode off len) = Ok () \<Longrightarrow>
   size_in (ms_storage (snd (write_attrs now m inode off len)))
     = (size_in (ms_storage m))(inode := map_option (\<lambda>z. max z (ucast len + off)) (size_in (ms_storage m) inode))"
  "\<not> is_ok (fst (write_attrs now m inode off len)) \<Longrightarrow>
   size_in (ms_storage (snd (write_attrs now m inode off len))) = size_in (ms_storage m)"
  unfolding write_attrs_def Let_def
  by (cases "table_get (ATTR_TABLE (ms_storage m)) inode";
      auto simp: txn_simps attrs_of_def size_in_put_attrs size_in_def split: if_splits)
    (simp add: failed_sizes)

lemma truncate_attrs_sizes:
  "fst (truncate_attrs now m inode len ctx) = Ok () \<Longrightarrow>
   size_in (ms_storage (snd (truncate_attrs now m inode len ctx)))
     = (size_in (ms_storage m))(inode := map_option (\<lambda>_. len) (size_in (ms_storage m) inode))"
  "\<not> is_ok (fst (truncate_attrs now m inode len ctx)) \<Longrightarrow>
   size_in (ms_storage (snd (truncate_attrs now m inode len ctx))) = size_in (ms_storage m)"
  unfolding truncate_attrs_def Let_def
  by (cases "table_get (ATTR_TABLE (ms_storage m)) inode";
      auto simp: txn_simps attrs_of_def ensure_def size_in_put_attrs size_in_def split: if_splits)
    (auto simp: failed_sizes split: if_splits)

lemma create_inode_sizes:
  assumes "table_get (ATTR_TABLE (ms_storage m)) (ms_next_inode m) = None"
  shows "size_in (ms_storage (snd (create_inode now m parent uid gid mode kind))) =
    (if ms_poisoned m \<or> kind = Directory then size_in (ms_storage m)
     else (size_in (ms_storage m))(ms_next_inode m \<mapsto> 0))"
  using assms
  by (auto simp: create_inode_def allocate_inode_def txn_simps Let_def size_in_put_attrs size_in_fields
      new_inode_metadata_def size_in_def)

lemma decrement_result:
  "fst (decrement_inode_link_count now m inode count) = Ok r \<Longrightarrow>
   table_get (ATTR_TABLE (ms_storage m)) inode \<noteq> None \<and>
   r = (case table_get (ATTR_TABLE (ms_storage m)) inode of
          Some a \<Rightarrow> if attr_hardlinks a = count \<and> attr_kind a \<noteq> Directory then Some inode else None
        | None \<Rightarrow> None)"
  by (cases "table_get (ATTR_TABLE (ms_storage m)) inode")
    (auto simp: decrement_inode_link_count_def txn_simps Let_def attrs_of_def assert_that_def split: if_splits)

lemma decrement_sizes:
  "size_in (ms_storage (snd (decrement_inode_link_count now m inode count))) =
    (if fst (decrement_inode_link_count now m inode count) = Ok (Some inode)
     then (size_in (ms_storage m))(inode := None) else size_in (ms_storage m))"
  by (cases "table_get (ATTR_TABLE (ms_storage m)) inode")
    (auto simp: decrement_inode_link_count_def txn_simps Let_def attrs_of_def assert_that_def
      size_in_put_attrs size_in_fields size_in_def fun_eq_iff split: if_splits)

text \<open>
  What a replica needs so that the data operations after a committed transaction do not fail: some
  node in the group, a file for every inode that is not a directory, and the root a directory.
\<close>

definition files_backed :: "'p file_storage \<Rightarrow> bool" where
  "files_backed fs \<longleftrightarrow>
     ds_node_ids (fs_data fs) \<noteq> [] \<and> size_of fs ROOT_INODE = None \<and>
     table_get (ATTR_TABLE (ms_storage (fs_metadata fs))) (ms_next_inode (fs_metadata fs)) = None \<and>
     (\<forall>i z. size_of fs i = Some z \<longrightarrow> file_inode_exists (fs_data fs) i)"

lemma on_metadata_fields [simp]:
  "fs_data (snd (on_metadata fs op)) = fs_data fs"
  "fs_metadata (snd (on_metadata fs op)) = snd (op (fs_metadata fs))"
  "fst (on_metadata fs op) = fst (op (fs_metadata fs))"
  by (simp_all add: on_metadata_def split_beta)

lemma on_data_fields [simp]:
  "fs_metadata (snd (on_data fs op)) = fs_metadata fs"
  "fs_data (snd (on_data fs op)) = snd (op (fs_data fs))"
  "fst (on_data fs op) = fst (op (fs_data fs))"
  by (simp_all add: on_data_def split_beta)

lemma answer_fields [simp]:
  "snd (answer f x) = snd x" "is_ok (fst (answer f x)) = is_ok (fst x)"
  by (cases x; cases "fst x"; simp add: answer_def)+

definition effect_ok :: "file_effect \<Rightarrow> 'p file_storage \<Rightarrow> 'p file_storage \<Rightarrow> bool" where
  "effect_ok e fs fs' \<longleftrightarrow> fs_data fs' = data_effect e (fs_data fs) \<and> size_of fs' = size_effect e (size_of fs)"

lemma fs_write_effect:
  assumes "ds_node_ids (fs_data fs) \<noteq> []"
  shows "effect_ok (effect_of (Request.Write inode off data) (fst (fs_write now fs inode off data)) fs)
    fs (snd (fs_write now fs inode off data))"
proof -
  obtain k where k: "fst (write_local_blocks (fs_data fs) inode off data) = Ok k"
    using assms by (simp add: write_local_blocks_def Let_def)
  show ?thesis
    using write_attrs_sizes [where now = now and m = "fs_metadata fs" and inode = inode and off = off
        and len = "of_nat (length data)"] k
    by (cases "fst (write_attrs now (fs_metadata fs) inode off (of_nat (length data)))")
      (simp_all add: fs_write_def and_then_st_pair split_beta effect_ok_def)
qed

lemma truncate_Ok: "ds_node_ids d \<noteq> [] \<Longrightarrow> fst (Data_Storage.truncate d inode len) = Ok ()"
  by (simp add: Data_Storage.truncate_def Let_def)

lemma fs_truncate_effect:
  assumes "ds_node_ids (fs_data fs) \<noteq> []"
  shows "effect_ok (effect_of (Request.Truncate inode len context) (fst (fs_truncate now fs inode len context)) fs)
    fs (snd (fs_truncate now fs inode len context))"
  using truncate_attrs_sizes [where now = now and m = "fs_metadata fs" and inode = inode and len = len
      and ctx = "context"] truncate_Ok [OF assms]
  by (cases "fst (truncate_attrs now (fs_metadata fs) inode len context)")
    (simp_all add: fs_truncate_def and_then_st_pair split_beta effect_ok_def)

lemma fs_create_inode_effect:
  assumes "files_backed fs"
  shows "effect_ok (effect_of (Request.CreateInode g parent uid gid mode kind) (fst (fs_create_inode now fs parent uid gid mode kind)) fs)
    fs (snd (fs_create_inode now fs parent uid gid mode kind))"
proof -
  let ?m = "fs_metadata fs"
  have d: "ds_node_ids (fs_data fs) \<noteq> []" and new: "table_get (ATTR_TABLE (ms_storage ?m)) (ms_next_inode ?m) = None"
    using assms by (simp_all add: files_backed_def)
  note sizes = create_inode_sizes [OF new, of now parent uid gid mode kind]
  show ?thesis
  proof (cases "ms_poisoned ?m")
    case True
    then show ?thesis using sizes
      by (simp add: fs_create_inode_def and_then_st_pair effect_ok_def create_inode_def)
  next
    case False
    then have "fst (create_inode now ?m parent uid gid mode kind)
        = Ok (ms_next_inode ?m, new_inode_metadata now (ms_next_inode ?m) uid gid mode kind)"
      by (simp add: create_inode_def allocate_inode_def Let_def txn_simps)
    then show ?thesis
      using False sizes truncate_Ok [OF d]
      by (cases "kind = Directory")
        (simp_all add: fs_create_inode_def and_then_st_pair effect_ok_def split_beta new_inode_metadata_def)
  qed
qed

lemma fs_decrement_effect:
  assumes "files_backed fs"
  shows "effect_ok (effect_of (Request.DecrementInode inode count lock) (fst (fs_decrement_inode_link_count now fs inode count)) fs)
    fs (snd (fs_decrement_inode_link_count now fs inode count))"
    and "fst (fs_decrement_inode_link_count now fs inode count) = Panic \<Longrightarrow>
      fst (decrement_inode_link_count now (fs_metadata fs) inode count) = Panic"
proof -
  let ?dec = "decrement_inode_link_count now (fs_metadata fs) inode count"
  have del: "fst (delete (fs_data fs) inode) = Ok ()" if dec: "fst ?dec = Ok (Some inode)"
  proof -
    obtain a where a: "table_get (ATTR_TABLE (ms_storage (fs_metadata fs))) inode = Some a" "attr_kind a \<noteq> Directory"
      using decrement_result [OF dec] by (auto split: if_splits option.splits)
    then have "size_of fs inode = Some (attr_size a)" by (simp add: size_in_def)
    with assms have "file_inode_exists (fs_data fs) inode" "inode \<noteq> ROOT_INODE" by (auto simp: files_backed_def)
    then show ?thesis by (auto simp: delete_def file_inode_exists_def)
  qed
  have r: "r = None \<or> r = Some inode" if "fst ?dec = Ok r" for r
    using decrement_result [OF that] by (auto split: if_splits option.splits)
  show "effect_ok (effect_of (Request.DecrementInode inode count lock) (fst (fs_decrement_inode_link_count now fs inode count)) fs)
      fs (snd (fs_decrement_inode_link_count now fs inode count))"
  proof (cases "fst ?dec")
    case (Ok r)
    from r [OF Ok] Ok del decrement_result [OF Ok] show ?thesis
      by (auto simp: fs_decrement_inode_link_count_def and_then_st_pair split_beta effect_ok_def decrement_sizes
          split: if_splits)
  qed (simp_all add: fs_decrement_inode_link_count_def and_then_st_pair effect_ok_def decrement_sizes)
  assume "fst (fs_decrement_inode_link_count now fs inode count) = Panic"
  then show "fst ?dec = Panic"
    using r del
    by (cases "fst ?dec") (auto simp: fs_decrement_inode_link_count_def and_then_st_pair split_beta split: option.splits)
qed

lemma commit_write_effect:
  assumes "files_backed fs"
  shows "effect_ok (effect_of request (fst (commit_write now request fs)) fs) fs (snd (commit_write now request fs))"
proof -
  have d: "ds_node_ids (fs_data fs) \<noteq> []" using assms by (simp add: files_backed_def)
  have same: "effect_ok Unchanged fs fs" by (simp add: effect_ok_def)
  have hard: "effect_ok Unchanged fs (snd (fs_hardlink_stage0_link_increment now fs inode))" for inode
    by (simp add: fs_hardlink_stage0_link_increment_def and_then_st_pair effect_ok_def sizes_kept split: res.split)
  have kept: "effect_ok Unchanged fs (snd (on_metadata fs op))"
    if "size_in (ms_storage (snd (op (fs_metadata fs)))) = size_in (ms_storage (fs_metadata fs))" for op ::
      "metadata_storage \<Rightarrow> (ErrorCode, 'b) res \<times> metadata_storage"
    using that by (simp add: effect_ok_def)
  show ?thesis
    using fs_write_effect [OF d] fs_truncate_effect [OF d] fs_create_inode_effect [OF assms]
      fs_decrement_effect(1) [OF assms]
    by (cases request)
      (simp_all add: same hard kept sizes_kept fs_hardlink_rollback_def fs_utimens_def fs_set_xattr_def
        fs_remove_xattr_def fs_chmod_def fs_chown_def fs_remove_link_def fs_replace_link_def fs_create_link_def
        fs_update_parent_def fs_update_metadata_changed_time_def)
qed

section \<open>The group\<close>

text \<open>Every replica applies a committed request, at the time of its own clock.\<close>

definition group_commit :: "clock list \<Rightarrow> Request \<Rightarrow> 'p file_storage list \<Rightarrow> 'p file_storage list" where
  "group_commit clocks request replicas =
     map2 (\<lambda>now fs. snd (commit_write now request fs)) clocks replicas"

definition group_effect :: "clock list \<Rightarrow> Request \<Rightarrow> 'p file_storage list \<Rightarrow> file_effect" where
  "group_effect clocks request replicas =
     effect_of request (fst (commit_write (hd clocks) request (hd replicas))) (hd replicas)"

text \<open>The positions a request reaches can be addressed, and the inode counter has room.\<close>

fun request_fits :: "nat \<Rightarrow> metadata_storage \<Rightarrow> Request \<Rightarrow> bool" where
  "request_fits n m (Request.Write inode off data) \<longleftrightarrow> length data < 2 ^ 32 \<and> fits (unat off + length data) n"
| "request_fits n m (Request.CreateInode g parent uid gid mode kind) \<longleftrightarrow>
     unat (ms_next_inode m) + unat (ms_num_raft_groups m) < 2 ^ 64"
| "request_fits n m _ \<longleftrightarrow> True"

text \<open>
  The group stands for \<open>files\<close>: its replicas agree, their shares are those of the files, and the
  recorded sizes are the lengths.
\<close>

definition file_group :: "u64 \<Rightarrow> 'p file_storage list \<Rightarrow> (u64 \<rightharpoonup> bytes) \<Rightarrow> bool" where
  "file_group g replicas files \<longleftrightarrow>
     stripe_group (map fs_data replicas) \<and> length replicas < 2 ^ 32 \<and>
     (\<forall>fs\<in>set replicas. storage_agree (hd replicas) fs) \<and>
     storage_wf g (fs_metadata (hd replicas)) \<and> files ROOT_INODE = None \<and>
     (\<forall>i. map_option unat (size_of (hd replicas) i) = map_option length (files i)) \<and>
     (\<forall>i c. files i = Some c \<longrightarrow> group_holds (map fs_data replicas) i c)"

lemma file_group_ne: "file_group g replicas files \<Longrightarrow> replicas \<noteq> []"
  by (auto simp: file_group_def stripe_group_def)

lemma agree_size: "storage_agree fs fs' \<Longrightarrow> size_of fs' = size_of fs"
  unfolding size_in_def storage_agree_def metadata_agree_def tables_agree_def
  by (rule ext, clarsimp, drule_tac x = i in spec)
    (auto split: option.split elim!: option.rel_cases simp: attrs_agree_def)

lemma file_groupD:
  assumes "file_group g replicas files"
  shows "stripe_group (map fs_data replicas)" "length replicas < 2 ^ 32" "storage_wf g (fs_metadata (hd replicas))"
    "fs \<in> set replicas \<Longrightarrow> storage_agree (hd replicas) fs" "files ROOT_INODE = None"
    "map_option unat (size_of (hd replicas) i) = map_option length (files i)"
    "files i = Some c \<Longrightarrow> group_holds (map fs_data replicas) i c"
  using assms by (simp_all add: file_group_def)

lemma file_group_backed:
  assumes fg: "file_group g replicas files" and fs: "fs \<in> set replicas"
  shows "files_backed fs"
proof -
  note ag = file_groupD(4) [OF fg fs] and st = file_groupD(1) [OF fg]
  obtain k where k: "k < length replicas" "fs = replicas ! k" using fs by (metis in_set_conv_nth)
  have "ds_node_ids (fs_data fs) \<noteq> []"
    using st k by (auto simp: stripe_group_def)
  moreover have "file_inode_exists (fs_data fs) i" if z: "size_of fs i = Some z" for i z
  proof -
    obtain c where "files i = Some c"
      using file_groupD(6) [OF fg, of i] z by (cases "files i") (auto simp: agree_size [OF ag])
    from file_groupD(7) [OF fg this] show ?thesis using k by (simp add: group_holds_def file_inode_exists_def)
  qed
  moreover have "size_of fs ROOT_INODE = None"
    using file_groupD(6) [OF fg, of ROOT_INODE] by (simp add: agree_size [OF ag] file_groupD(5) [OF fg])
  moreover have "table_get (ATTR_TABLE (ms_storage (fs_metadata fs))) (ms_next_inode (fs_metadata fs)) = None"
  proof -
    let ?m = "fs_metadata (hd replicas)"
    have "table_get (ATTR_TABLE (ms_storage ?m)) (ms_next_inode ?m) = None"
      by (rule storage_wf_fresh [OF file_groupD(3) [OF fg]])
    moreover have "rel_option attrs_agree (table_get (ATTR_TABLE (ms_storage ?m)) (ms_next_inode ?m))
        (table_get (ATTR_TABLE (ms_storage (fs_metadata fs))) (ms_next_inode (fs_metadata fs)))"
      using ag by (simp add: storage_agree_def metadata_agree_def tables_agree_def)
    ultimately show ?thesis by simp
  qed
  ultimately show ?thesis by (auto simp: files_backed_def)
qed

lemma effect_of_failed: "\<not> is_ok r \<Longrightarrow> effect_of request r fs = Unchanged"
  by (cases r; cases request) simp_all

lemma effect_agree:
  assumes "storage_agree fs fs'"
  shows "effect_of request (fst (commit_write now request fs)) fs
    = effect_of request (fst (commit_write now' request fs')) fs'"
proof -
  have ok: "is_ok (fst (commit_write now request fs)) = is_ok (fst (commit_write now' request fs'))"
    using commit_write_agree [OF assms, of now request now']
    by (auto simp: fs_agree_def elim!: res.rel_cases)
  have "effect_of request r fs = effect_of request r' fs'" if okr: "is_ok r = is_ok r'" for r r'
  proof (cases "is_ok r")
    case True
    then obtain a b where r: "r = Ok a" "r' = Ok b" using okr by (cases r; cases r') auto
    have row: "rel_option attrs_agree (table_get (ATTR_TABLE (ms_storage (fs_metadata fs))) i)
        (table_get (ATTR_TABLE (ms_storage (fs_metadata fs'))) i)"
      and nx: "ms_next_inode (fs_metadata fs) = ms_next_inode (fs_metadata fs')" for i
      using assms by (simp_all add: storage_agree_def metadata_agree_def tables_agree_def)
    show ?thesis
    proof (cases request)
      case (DecrementInode i count lock)
      show ?thesis
        using row [of i] r DecrementInode by (cases rule: option.rel_cases) (auto simp: attrs_agree_def)
    qed (use r nx in auto)
  qed (use okr in \<open>simp add: effect_of_failed\<close>)
  from this [OF ok] show ?thesis .
qed

lemmas one_metadata_step = metadata_step.intros [THEN r_into_rtranclp [of metadata_step]]

lemma commit_write_metadata_steps:
  assumes "request_fits n (fs_metadata fs) request"
  shows "metadata_steps (fs_metadata fs) (fs_metadata (snd (commit_write now request fs)))"
  using assms
  by (cases request)
    (simp_all add: one_metadata_step fs_hardlink_rollback_def fs_utimens_def fs_set_xattr_def
      fs_remove_xattr_def fs_chmod_def fs_chown_def fs_remove_link_def fs_replace_link_def fs_create_link_def
      fs_update_parent_def fs_update_metadata_changed_time_def fs_hardlink_stage0_link_increment_def
      fs_truncate_def fs_write_def fs_create_inode_def fs_decrement_inode_link_count_def
      and_then_st_pair split_beta split: res.split option.split)

lemma commit_write_wf:
  "request_fits n (fs_metadata fs) request \<Longrightarrow> storage_wf g (fs_metadata fs) \<Longrightarrow>
   storage_wf g (fs_metadata (snd (commit_write now request fs)))"
  by (rule metadata_steps_wf [OF commit_write_metadata_steps])

text \<open>The plain files keep the recorded sizes as their lengths.\<close>

lemma files_effect_sizes:
  assumes "\<And>i. map_option unat (s i) = map_option length (files i)"
    and "\<And>inode off data. e = Wrote inode off data \<Longrightarrow> length data < 2 ^ 32 \<and> unat off + length data < 2 ^ 64"
  shows "map_option unat (size_effect e s i) = map_option length (files_effect e files i)"
proof (cases e)
  case (Wrote inode off data)
  have "unat (ucast (of_nat (length data) :: u32) + off :: u64) = unat off + length data"
    using assms(2) [OF Wrote] by (simp add: unat_add_ok unat_of_nat)
  then have "unat (max z (ucast (of_nat (length data) :: u32) + off)) = max (unat z) (unat off + length data)" for z :: u64
    by (simp add: max_def word_le_nat_alt)
  then show ?thesis
    using assms(1) [of i] by (cases "s i"; cases "files i") (auto simp: Wrote)
next
  case (Cut inode len)
  then show ?thesis using assms(1) [of i] by (cases "s i"; cases "files i") auto
qed (use assms(1) [of i] in auto)

text \<open>The shares follow the plain files.\<close>

lemma data_effect_other:
  assumes "group_holds nodes i c" "\<And>d. ds_files (f d) (inode_path d i) = ds_files d (inode_path d i)"
    "\<And>d. same_layout d (f d)"
  shows "group_holds (map f nodes) i c"
  using assms by (simp add: group_holds_def same_layout_def to_local_path_def)

lemma group_made:
  assumes "stripe_group nodes"
  shows "group_holds (map (\<lambda>d. snd (Data_Storage.truncate d inode 0)) nodes) inode []"
  using assms
  by (auto simp: group_holds_def stripe_group_def Data_Storage.truncate_def Let_def set_len_def to_local_index_ceiling_def)

definition effect_fits :: "nat \<Rightarrow> file_effect \<Rightarrow> bool" where
  "effect_fits n e \<longleftrightarrow>
     (case e of
        Wrote inode off data \<Rightarrow> length data < 2 ^ 32 \<and> fits (unat off + length data) n
      | Cut inode len \<Rightarrow> fits (unat len) n
      | _ \<Rightarrow> True)"

lemma data_effect_fun:
  "data_effect (Wrote inode off data) = (\<lambda>d. snd (write_local_blocks d inode off data))"
  "data_effect (Cut inode len) = (\<lambda>d. snd (Data_Storage.truncate d inode len))"
  "data_effect (Made inode) = (\<lambda>d. snd (Data_Storage.truncate d inode 0))"
  by (simp_all add: fun_eq_iff)

lemma data_effect_holds:
  assumes nodes: "stripe_group nodes" and e: "effect_fits (length nodes) e"
    and holds: "\<And>i c. files i = Some c \<Longrightarrow> group_holds nodes i c"
    and c: "files_effect e files i = Some c"
  shows "group_holds (map (data_effect e) nodes) i c"
proof (cases e)
  case Unchanged
  then show ?thesis using holds c by (simp add: map_idI)
next
  case (Wrote inode off data)
  have f: "fits (unat off) (length nodes)" using e by (simp add: Wrote effect_fits_def)
  show ?thesis
  proof (cases "i = inode")
    case True
    then obtain c' where "files inode = Some c'" "c = write_at c' (unat off) data" using c by (auto simp: Wrote)
    then show ?thesis
      using group_write_holds [OF nodes f, of inode c' data] holds by (simp add: Wrote True group_write_def data_effect_fun)
  qed (use c holds in \<open>auto simp: Wrote other_file_unchanged same_layout_ops intro!: data_effect_other\<close>)
next
  case (Cut inode len)
  have f: "fits (unat len) (length nodes)" using e by (simp add: Cut effect_fits_def)
  show ?thesis
  proof (cases "i = inode")
    case True
    then obtain c' where "files inode = Some c'" "c = set_len c' (unat len)" using c by (auto simp: Cut)
    then show ?thesis
      using group_truncate_holds [OF nodes f, of inode c'] holds by (simp add: Cut True group_truncate_def data_effect_fun)
  qed (use c holds in \<open>auto simp: Cut other_file_unchanged same_layout_ops intro!: data_effect_other\<close>)
next
  case (Made inode)
  then show ?thesis
    using c holds group_made [OF nodes, of inode]
    by (cases "i = inode") (auto simp: other_file_unchanged same_layout_ops data_effect_fun intro!: data_effect_other)
next
  case (Dropped inode)
  then show ?thesis
    using c holds by (cases "i = inode") (auto simp: other_file_unchanged same_layout_ops intro!: data_effect_other)
qed

lemma same_layout_effect: "same_layout d (data_effect e d)"
  by (cases e) (simp_all add: same_layout_ops, simp add: same_layout_def)

lemma effect_of_bounds:
  assumes "request_fits n (fs_metadata fs) request" "n < 2 ^ 32"
  shows "effect_fits n (effect_of request (fst (commit_write now request fs)) fs)"
proof (cases request)
  case (Truncate inode len ctx)
  show ?thesis
  proof (cases "MAX_FILE_SIZE < len")
    case False
    then have "unat len \<le> 2 ^ 40" by (simp add: MAX_FILE_SIZE_def word_less_nat_alt)
    then have "fits (unat len) n" using assms(2) by simp
    then show ?thesis
      by (cases "fst (commit_write now request fs)") (simp_all add: Truncate effect_fits_def)
  qed (simp add: Truncate fs_truncate_def truncate_attrs_def on_metadata_def and_then_st_pair effect_fits_def)
qed (use assms(1) in \<open>cases "fst (commit_write now request fs)"; simp add: effect_fits_def split: option.split\<close>)+

lemma effect_of_Made: "effect_of request r fs = Made i \<Longrightarrow> i = ms_next_inode (fs_metadata fs)"
  by (cases "(request, r, fs)" rule: effect_of.cases) (auto split: if_splits option.splits)

lemma files_effect_root:
  "files ROOT_INODE = None \<Longrightarrow> e \<noteq> Made ROOT_INODE \<Longrightarrow> files_effect e files ROOT_INODE = None"
  by (cases e) auto

lemma group_commit_nth:
  assumes fg: "file_group g replicas files" and l: "length clocks = length replicas" and k: "k < length replicas"
  shows "group_commit clocks request replicas ! k = snd (commit_write (clocks ! k) request (replicas ! k))"
    and "effect_ok (group_effect clocks request replicas) (replicas ! k) (group_commit clocks request replicas ! k)"
proof -
  show n: "group_commit clocks request replicas ! k = snd (commit_write (clocks ! k) request (replicas ! k))"
    using l k by (simp add: group_commit_def)
  have "storage_agree (hd replicas) (replicas ! k)" using file_groupD(4) [OF fg nth_mem [OF k]] .
  from effect_agree [OF this, of request "hd clocks" "clocks ! k"]
  show "effect_ok (group_effect clocks request replicas) (replicas ! k) (group_commit clocks request replicas ! k)"
    using commit_write_effect [OF file_group_backed [OF fg nth_mem [OF k]]] by (simp add: n group_effect_def)
qed

lemma group_commit_data:
  assumes "file_group g replicas files" "length clocks = length replicas"
  shows "map fs_data (group_commit clocks request replicas)
    = map (data_effect (group_effect clocks request replicas)) (map fs_data replicas)"
  using group_commit_nth(2) [OF assms, of _ request] assms(2)
  by (intro nth_equalityI) (simp_all add: effect_ok_def group_commit_def)

lemma group_commit_connected:
  assumes "file_group g replicas files" "length clocks = length replicas" "connected (map fs_data replicas)"
  shows "connected (map fs_data (group_commit clocks request replicas))"
  unfolding group_commit_data [OF assms(1,2)] by (rule connected_map [OF same_layout_effect assms(3)])

lemma file_group_step:
  assumes fg: "file_group g replicas files" and l: "length clocks = length replicas"
    and fits: "request_fits (length replicas) (fs_metadata (hd replicas)) request"
  shows "file_group g (group_commit clocks request replicas)
    (files_effect (group_effect clocks request replicas) files)"
proof -
  let ?R = "group_commit clocks request replicas" and ?e = "group_effect clocks request replicas"
  have ne: "replicas \<noteq> []" by (rule file_group_ne [OF fg])
  have len: "length ?R = length replicas" using l by (simp add: group_commit_def)
  note step = group_commit_nth [OF fg l, of _ request]
  have hd: "hd ?R = snd (commit_write (clocks ! 0) request (hd replicas))"
    using step(1) [of 0] ne len by (cases ?R) (simp_all add: hd_conv_nth)
  note data = group_commit_data [OF fg l, of request]
  note bound = effect_of_bounds [OF fits file_groupD(2) [OF fg], of "hd clocks", folded group_effect_def]
  have "stripe_group (map fs_data ?R)"
    unfolding data by (rule stripe_group_map [OF same_layout_effect file_groupD(1) [OF fg]])
  moreover have "storage_agree (hd ?R) fs" if "fs \<in> set ?R" for fs
  proof -
    obtain k where k: "k < length replicas" "fs = ?R ! k" using \<open>fs \<in> set ?R\<close> len by (metis in_set_conv_nth)
    show ?thesis
      using commit_write_agree [OF file_groupD(4) [OF fg nth_mem [OF k(1)]], of "clocks ! 0" request "clocks ! k"]
      by (simp add: k(2) hd step(1) [OF k(1)] fs_agree_def)
  qed
  moreover have "storage_wf g (fs_metadata (hd ?R))"
    unfolding hd by (rule commit_write_wf [OF fits file_groupD(3) [OF fg]])
  moreover have "?e \<noteq> Made ROOT_INODE"
    using effect_of_Made [of request _ "hd replicas" ROOT_INODE] file_groupD(3) [OF fg]
    by (auto simp: group_effect_def storage_wf_def)
  moreover have "size_of (hd ?R) = size_effect ?e (size_of (hd replicas))"
    using step(2) [of 0] ne len by (cases ?R) (simp_all add: effect_ok_def hd_conv_nth)
  moreover have "map_option unat (size_effect ?e (size_of (hd replicas)) i) = map_option length (files_effect ?e files i)" for i
    using bound by (intro files_effect_sizes file_groupD(6) [OF fg]) (simp add: effect_fits_def)
  moreover have "group_holds (map fs_data ?R) i c" if "files_effect ?e files i = Some c" for i c
    unfolding data using bound that file_groupD(7) [OF fg]
    by (intro data_effect_holds [OF file_groupD(1) [OF fg]]) simp_all
  ultimately show ?thesis
    using file_groupD(2,5) [OF fg] len by (simp add: file_group_def files_effect_root)
qed

section \<open>Reading and checking\<close>

lemma check_inodes_Ok: "check_inodes d inodes = (if list_all (file_inode_exists d) inodes then Ok () else Err Corrupted)"
  by (induction inodes) auto

lemma checksum_backed:
  assumes "files_backed fs" "\<not> ms_poisoned (fs_metadata fs)"
  shows "fs_local_data_checksum sha256 walk fs
    = map_err (\<lambda>_. Uncategorized) (local_data_checksum sha256 walk (fs_data fs))"
proof -
  obtain inodes where inodes: "non_directory_inodes (fs_metadata fs) = Ok inodes"
    "\<And>i. i \<in> set inodes \<Longrightarrow> \<exists>a. table_get (ATTR_TABLE (ms_storage (fs_metadata fs))) i = Some a \<and> attr_kind a \<noteq> Directory"
    using assms(2) by (fastforce simp: non_directory_inodes_def read_txn_def table_iter_mem)
  then have "list_all (file_inode_exists (fs_data fs)) inodes"
    using assms(1) by (fastforce simp: files_backed_def size_in_def list_all_iff)
  then show ?thesis by (simp add: fs_local_data_checksum_def inodes check_inodes_Ok)
qed

lemma getattr_size:
  assumes "\<not> ms_poisoned (fs_metadata fs)" "size_of fs i = Some z"
  shows "\<exists>e. fs_getattr fs i = Ok (Response.EntryMetadata e) \<and> em_size_bytes e = z"
  using assms
  by (auto simp: fs_getattr_def get_attributes_def read_txn_def attrs_of_def size_in_def to_fileattr_response_def
      build_fileattr_response_def split: option.splits if_splits)

lemma file_group_read:
  assumes fg: "file_group g replicas files" and con: "connected (map fs_data replicas)"
    and i: "files i = Some c" "k < length replicas" and f: "fits (unat off + unat sz) (length replicas)"
  shows "fs_read (ask (map fs_data replicas)) (replicas ! k) i off sz commit
    = Ok (Response.Read (take (unat sz) (drop (unat off) c)))"
proof -
  have "i \<noteq> ROOT_INODE" using i(1) file_groupD(5) [OF fg] by auto
  then have "group_store k i (map fs_data replicas) c"
    using file_groupD(1,7) [OF fg] con i by (simp add: group_store_def)
  from grp.read_holds [OF this, of off sz commit] f i(2) show ?thesis
    by (simp add: group_read_at_def fs_read_def)
qed

section \<open>Properties\<close>

definition fresh_group :: "u64 file_storage list" where
  "fresh_group = [fresh_node [5, 9] 0, fresh_node [5, 9] 1]"

lemma fresh_tables_sizes [simp]: "size_in fresh_tables = Map.empty"
  by (simp add: size_in_def fresh_tables_def fun_eq_iff kv.get_ins kv.get_empty empty_tables_def root_attributes_def)

lemma fresh_group_empty: "file_group 0 fresh_group Map.empty" "connected (map fs_data fresh_group)"
  using fresh_storage_wf
  by (auto simp: file_group_def fresh_group_def fresh_node_def stripe_group_def storage_agree_def metadata_agree_def
      file_inode_exists_def connected_def fresh_storage_def less_Suc_eq)

text \<open>The group after a file has been made, inode 2.\<close>

definition one_file :: "u64 file_storage list" where
  "one_file = group_commit [epoch, epoch] (Request.CreateInode 0 1 0 0 420 File) fresh_group"

lemma one_file_group: "file_group 0 one_file [2 \<mapsto> []]"
proof -
  have "group_effect [epoch, epoch] (Request.CreateInode 0 1 0 0 420 File) fresh_group = Made 2"
    by (simp add: group_effect_def fresh_group_def fresh_node_def fs_create_inode_def and_then_st_pair on_metadata_def
        create_inode_def allocate_inode_def Let_def txn_simps split_beta fresh_storage_def on_data_def truncate_Ok)
  then show ?thesis
    using file_group_step [OF fresh_group_empty(1), of "[epoch, epoch]" "Request.CreateInode 0 1 0 0 420 File"]
    by (simp add: one_file_def) (simp add: fresh_group_def fresh_node_def fresh_storage_def)
qed

text \<open>
  C2. A group is one file system. When the replicas of a group stand for some files (their
  metadata agree, their data directories hold the stripes, and the recorded sizes are the
  lengths) and each of them applies a committed request at the time of its own clock, then they
  stand for the files with the effect of the request applied to plain byte lists: a write, a
  truncation, a new empty file, a removed one, or no change, a failed request included. The
  bounds are that a write stays addressable and that the inode counter has room.
\<close>
theorem group_refines_files:
  assumes "file_group g replicas files" "length clocks = length replicas"
    and "request_fits (length replicas) (fs_metadata (hd replicas)) request"
  shows "file_group g (group_commit clocks request replicas)
    (files_effect (group_effect clocks request replicas) files)"
  by (rule file_group_step [OF assms])

theorem group_refines_files_witness:
  "file_group 0 (group_commit [epoch, epoch] (Request.Write 2 600 [1, 2]) one_file)
    (files_effect (group_effect [epoch, epoch] (Request.Write 2 600 [1, 2]) one_file) [2 \<mapsto> []])"
proof (rule group_refines_files [OF one_file_group])
  show "length [epoch, epoch] = length one_file" by (simp add: one_file_def group_commit_def fresh_group_def)
  then show "request_fits (length one_file) (fs_metadata (hd one_file)) (Request.Write 2 600 [1, 2])" by simp
qed

text \<open>
  C7. What is read is what was written. A replica of a group that stands for some files, asked for
  a range of one of them, collects its peers' shares and answers with exactly those bytes of the
  file, short at its end; and the size that \<^verbatim>\<open>getattr\<close> reports on any replica is the file's length.
\<close>
theorem reads_serve_files:
  assumes "file_group g replicas files" "connected (map fs_data replicas)"
    and "files inode = Some content" "k < length replicas" "\<not> ms_poisoned (fs_metadata (replicas ! k))"
    and "unat off + unat sz + (length replicas + 1) * 512 < 2 ^ 64"
  shows "fs_read (ask (map fs_data replicas)) (replicas ! k) inode off sz commit
      = Ok (Response.Read (take (unat sz) (drop (unat off) content)))
    \<and> (\<exists>e. fs_getattr (replicas ! k) inode = Ok (Response.EntryMetadata e) \<and> unat (em_size_bytes e) = length content)"
proof
  show "fs_read (ask (map fs_data replicas)) (replicas ! k) inode off sz commit
      = Ok (Response.Read (take (unat sz) (drop (unat off) content)))"
    using assms by (intro file_group_read)
  obtain z where z: "size_of (replicas ! k) inode = Some z" "unat z = length content"
    using file_groupD(6) [OF assms(1), of inode] assms(3)
      agree_size [OF file_groupD(4) [OF assms(1) nth_mem [OF assms(4)]]] by auto
  from getattr_size [OF assms(5) z(1)] z(2)
  show "\<exists>e. fs_getattr (replicas ! k) inode = Ok (Response.EntryMetadata e) \<and> unat (em_size_bytes e) = length content"
    by auto
qed

lemma one_file_fields:
  "length one_file = 2" "connected (map fs_data one_file)"
  "k < 2 \<Longrightarrow> \<not> ms_poisoned (fs_metadata (one_file ! k))"
  "k < 2 \<Longrightarrow> table_get (ATTR_TABLE (ms_storage (fs_metadata (one_file ! k)))) 2 \<noteq> None"
  by (auto simp: one_file_def group_commit_def fresh_group_def fresh_node_def fs_create_inode_def and_then_st_pair
      on_metadata_def create_inode_def allocate_inode_def Let_def txn_simps split_beta fresh_storage_def on_data_def
      less_Suc_eq numeral_2_eq_2 connected_def same_layout_ops [unfolded same_layout_def])

lemma commit_write_Ok:
  assumes "\<not> ms_poisoned (fs_metadata fs)" "table_get (ATTR_TABLE (ms_storage (fs_metadata fs))) inode = Some a"
    "ds_node_ids (fs_data fs) \<noteq> []"
  shows "fst (fs_write now fs inode off data) = Ok (Response.Written (of_nat (length data)))"
    and "size_of (snd (fs_write now fs inode off data)) inode =
      (if attr_kind a = Directory then None else Some (max (attr_size a) (ucast (of_nat (length data) :: u32) + off)))"
    and "ms_poisoned (fs_metadata (snd (fs_write now fs inode off data))) = False"
  using assms
  by (simp_all add: fs_write_def and_then_st_pair split_beta write_attrs_def txn_simps attrs_of_def
      write_local_blocks_def Let_def size_in_put_attrs)

definition written :: "u64 file_storage list" where
  "written = group_commit [epoch, epoch] (Request.Write 2 0 [1, 2, 3]) one_file"

lemma written_group:
  "file_group 0 written [2 \<mapsto> [1, 2, 3]]" "connected (map fs_data written)" "length written = 2"
  "k < 2 \<Longrightarrow> \<not> ms_poisoned (fs_metadata (written ! k))"
proof -
  have k: "k < 2 \<Longrightarrow> one_file ! k \<in> set one_file" for k using one_file_fields(1) by simp
  have d: "k < 2 \<Longrightarrow> ds_node_ids (fs_data (one_file ! k)) \<noteq> []" for k
    using file_group_backed [OF one_file_group k] by (simp add: files_backed_def)
  have hd: "hd one_file = one_file ! 0" using one_file_fields(1) by (intro hd_conv_nth) auto
  obtain a where a: "table_get (ATTR_TABLE (ms_storage (fs_metadata (one_file ! 0)))) 2 = Some a"
    using one_file_fields(4) [of 0] by auto
  have "group_effect [epoch, epoch] (Request.Write 2 0 [1, 2, 3]) one_file = Wrote 2 0 [1, 2, 3]"
    using commit_write_Ok(1) [OF _ a] one_file_fields(3) [of 0] d [of 0] by (simp add: group_effect_def hd)
  then show "file_group 0 written [2 \<mapsto> [1, 2, 3]]"
    using file_group_step [OF one_file_group, of "[epoch, epoch]" "Request.Write 2 0 [1, 2, 3]"]
    by (simp add: written_def one_file_fields(1) write_at_def)
  show "length written = 2" by (simp add: written_def group_commit_def one_file_fields(1))
  have step: "k < 2 \<Longrightarrow> written ! k = snd (fs_write epoch (one_file ! k) 2 0 [1, 2, 3])" for k
    using one_file_fields(1) by (auto simp: written_def group_commit_def less_2_cases_iff)
  show "\<not> ms_poisoned (fs_metadata (written ! k))" if "k < 2"
    using one_file_fields(3,4) [OF that] d [OF that] by (auto simp: step [OF that] commit_write_Ok(3))
  show "connected (map fs_data written)"
    unfolding written_def
    by (rule group_commit_connected [OF one_file_group _ one_file_fields(2)]) (simp add: one_file_fields)
qed

theorem reads_serve_files_witness:
  "fs_read (ask (map fs_data written)) (written ! 1) 2 1 100 \<lparr>commit_term = 1, commit_index = 1\<rparr>
    = Ok (Response.Read [2, 3])"
  using reads_serve_files [OF written_group(1,2), of 2 "[1, 2, 3]" 1 1 100]
  by (simp add: written_group)

text \<open>
  C30. No inode without its file. On every replica of a group that stands for some files, the
  check that precedes the checksum of the data directory finds the file of every inode that is not
  a directory: the answer is the checksum (or the error of reading the directory), never
  \<^verbatim>\<open>Corrupted\<close>; and removing the last link of a file never meets a missing file, so a panic of
  the request is one of the metadata transaction.
\<close>
theorem every_inode_has_its_file:
  assumes "file_group g replicas files" "fs \<in> set replicas" "\<not> ms_poisoned (fs_metadata fs)"
  shows "fs_local_data_checksum sha256 walk fs
      = map_err (\<lambda>_. Uncategorized) (local_data_checksum sha256 walk (fs_data fs))
    \<and> (fst (commit_write now (Request.DecrementInode inode count lock_id) fs) = Panic \<longrightarrow>
       fst (decrement_inode_link_count now (fs_metadata fs) inode count) = Panic)"
  using checksum_backed [OF file_group_backed [OF assms(1,2)] assms(3)]
    fs_decrement_effect(2) [OF file_group_backed [OF assms(1,2)], of now inode count] by simp

theorem every_inode_has_its_file_witness:
  "fs_local_data_checksum rev (\<lambda>dir files. []) (written ! 1) = Ok []
   \<and> fst (commit_write epoch (Request.DecrementInode 2 1 None) (written ! 1)) \<noteq> Panic"
proof -
  have "written ! 1 \<in> set written" using written_group(3) by simp
  note w = every_inode_has_its_file [OF written_group(1) this written_group(4) [of 1], of rev "\<lambda>dir files. []" epoch 2 1 None]
  have "fst (decrement_inode_link_count epoch (fs_metadata (written ! 1)) 2 1) \<noteq> Panic"
  proof
    assume "fst (decrement_inode_link_count epoch (fs_metadata (written ! 1)) 2 1) = Panic"
    moreover obtain z where "size_of (written ! 1) 2 = Some z"
      using file_groupD(6) [OF written_group(1), of 2]
        agree_size [OF file_groupD(4) [OF written_group(1) \<open>written ! 1 \<in> set written\<close>]] by auto
    ultimately show False
      by (auto simp: decrement_inode_link_count_def txn_simps attrs_of_def size_in_def Let_def written_group(4)
          split: option.splits if_splits)
  qed
  with w show ?thesis by (auto simp: local_data_checksum_def)
qed

text \<open>
  C39. The size limit binds truncations and not writes. A \<^verbatim>\<open>Truncate\<close> beyond the limit of
  \<^verbatim>\<open>MAX_FILE_SIZE\<close> is refused with \<^verbatim>\<open>FileTooLarge\<close> and changes nothing; a \<^verbatim>\<open>Write\<close> that ends beyond it
  is applied to any file, and leaves it with a recorded size above the limit.
\<close>
theorem limit_only_on_truncate:
  assumes "\<not> ms_poisoned (fs_metadata fs)" "ds_node_ids (fs_data fs) \<noteq> []"
    and "table_get (ATTR_TABLE (ms_storage (fs_metadata fs))) inode = Some a" "attr_kind a \<noteq> Directory"
    and "length data < 2 ^ 32" "unat off + length data < 2 ^ 64" "unat MAX_FILE_SIZE < unat off + length data"
  shows "(MAX_FILE_SIZE < len \<longrightarrow>
      commit_write now (Request.Truncate inode len context) fs = (Err FileTooLarge, fs))
    \<and> fst (commit_write now (Request.Write inode off data) fs) = Ok (Response.Written (of_nat (length data)))
    \<and> (\<exists>z. size_of (snd (commit_write now (Request.Write inode off data) fs)) inode = Some z \<and> MAX_FILE_SIZE < z)"
proof -
  have "unat (ucast (of_nat (length data) :: u32) + off :: u64) = unat off + length data"
    using assms(5,6) by (simp add: unat_add_ok unat_of_nat)
  then have "MAX_FILE_SIZE < max (attr_size a) (ucast (of_nat (length data) :: u32) + off)"
    using assms(7) unfolding less_max_iff_disj by (simp add: word_less_nat_alt)
  then show ?thesis
    using commit_write_Ok [OF assms(1,3,2), of now off data] assms(4)
    by (simp add: fs_truncate_def truncate_attrs_def on_metadata_def and_then_st_pair)
qed

theorem limit_only_on_truncate_witness:
  "fst (commit_write epoch (Request.Write 2 2199023255552 [1]) (one_file ! 0)) = Ok (Response.Written 1)"
proof -
  obtain a where a: "table_get (ATTR_TABLE (ms_storage (fs_metadata (one_file ! 0)))) 2 = Some a"
    using one_file_fields(4) [of 0] by auto
  have m: "one_file ! 0 \<in> set one_file" using one_file_fields(1) by simp
  have d: "ds_node_ids (fs_data (one_file ! 0)) \<noteq> []"
    using file_group_backed [OF one_file_group m] by (simp add: files_backed_def)
  have "size_of (one_file ! 0) 2 \<noteq> None"
    using file_groupD(6) [OF one_file_group, of 2] agree_size [OF file_groupD(4) [OF one_file_group m]] by auto
  then have "attr_kind a \<noteq> Directory" using a by (auto simp: size_in_def)
  from limit_only_on_truncate [OF _ d a this, of "[1]" 2199023255552] show ?thesis
    using one_file_fields(3) [of 0] by (simp add: MAX_FILE_SIZE_def)
qed

end
