(* ===== verification/Consensus_Node.thy ===== *)
theory Consensus_Node
  imports Lock_Table File_Group
begin

text \<open>
  A member of one replication group: \<^verbatim>\<open>src/src/storage/raft_node.rs\<close>.

  The consensus protocol is the crate \<^verbatim>\<open>raxos\<close>; what the node calls of it are the fields of
  \<open>raxos\<close>, an argument of the definitions. The node is a record with the fields of
  \<^verbatim>\<open>ConsensusNode\<close>, and what can be seen of it from outside: the answers it has sent on the
  channels of its clients (\<open>cn_answers\<close>), the waiters of \<^verbatim>\<open>sync\<close> it has woken (\<open>cn_synced\<close>), and
  the messages it has handed to its peer clients (\<open>cn_outbox\<close>).

  All state is changed under the mutex of the replica; a panic under it poisons the mutex
  (\<open>cn_poisoned\<close>). \<open>alive s\<close> says that the receiver of channel \<open>s\<close> still exists when the node
  sends on it. Each request is applied at its own time: \<open>clk k\<close> is the clock while the \<open>k\<close>-th one
  is applied. The log lines are left out.
\<close>

section \<open>Definitions\<close>

datatype ('m, 'k) Action = Send u64 'm | Deliver u64 "('k \<times> bytes) list"

record ('m, 'r, 'k) raxos =
  rx_new :: "u64 list \<Rightarrow> u64 \<Rightarrow> u64 \<Rightarrow> 'r option"
  rx_submit :: "u64 \<Rightarrow> bytes \<Rightarrow> 'r \<Rightarrow> 'k option \<times> 'r"
  rx_receive :: "u64 \<Rightarrow> 'm \<Rightarrow> 'r \<Rightarrow> 'r"
  rx_tick :: "u64 \<Rightarrow> 'r \<Rightarrow> 'r"
  rx_poll_action :: "'r \<Rightarrow> ('m, 'k) Action option \<times> 'r"
  rx_leader :: "'r \<Rightarrow> u64"
  rx_retained_bytes :: "'r \<Rightarrow> nat"
  rx_encode :: "'m \<Rightarrow> bytes"
  rx_decode :: "bytes \<Rightarrow> 'm option"

definition RETAINED_WARN_BYTES :: nat where "RETAINED_WARN_BYTES = 32 * 1024 * 1024"

record ('r, 'k, 'p) ConsensusNode =
  cn_replica :: 'r
  cn_pending_responses :: "'k \<rightharpoonup> Sender"
  cn_sync_requests :: "(u64 \<times> Sender) list"
  cn_applied_index :: u64
  cn_peers :: "(u64 \<times> 'p) list"
  cn_raft_group_id :: u16
  cn_file_storage :: "'p file_storage"
  cn_lock_table :: LockTable
  cn_last_retained_warn :: u64
  cn_poisoned :: bool
  cn_next_channel :: Sender
  cn_commits :: nat
  cn_answers :: "(Sender \<times> (ErrorCode, Response) res) list"
  cn_synced :: "Sender list"
  cn_outbox :: "('p \<times> u16 \<times> bytes) list"

text \<open>
  \<^verbatim>\<open>ConsensusNode::new\<close>. \<open>seed\<close> is the random number, \<open>db\<close> and \<open>files\<close> what the host has in the
  directory of the group. \<open>None\<close>: the constructor of the file storage does not return.
\<close>

primrec filter_members ::
    "nat \<Rightarrow> u16 \<Rightarrow> nat \<Rightarrow> (u64 \<times> nat) list \<Rightarrow> (ErrorCode, u64 list) res" where
  "filter_members nodes raft_group_id replicas_per_raft_group [] = Ok []"
| "filter_members nodes raft_group_id replicas_per_raft_group (p # ps) =
     and_then (node_contains_raft_group (snd p) nodes raft_group_id replicas_per_raft_group) (\<lambda>member.
     map_ok (\<lambda>ids. if member then fst p # ids else ids)
       (filter_members nodes raft_group_id replicas_per_raft_group ps))"

definition ConsensusNode_new ::
    "('m, 'r, 'k) raxos \<Rightarrow> (128 word \<Rightarrow> u16 \<Rightarrow> u64) \<Rightarrow> (SocketAddr \<Rightarrow> 'p) \<Rightarrow> clock \<Rightarrow> u64 \<Rightarrow> LocalContext \<Rightarrow> u16 \<Rightarrow> u16
      \<Rightarrow> tables \<Rightarrow> (string \<rightharpoonup> bytes) \<Rightarrow> (ErrorCode, ('r, 'k, 'p) ConsensusNode) res option" where
  "ConsensusNode_new rx v6_hash connect now seed c raft_group_id num_raft_groups db files =
     (let node_id = lc_node_id c;
          members =
            and_then (peers_with_node_indices v6_hash c) (\<lambda>indexed.
            and_then (filter_members (total_nodes c) raft_group_id (lc_replicas_per_raft_group c)
              (map (\<lambda>(peer, index). (node_id_from_address v6_hash peer, index)) indexed)) (\<lambda>peer_ids.
            and_then (node_index v6_hash c) (\<lambda>index.
            and_then (node_contains_raft_group index (total_nodes c) raft_group_id (lc_replicas_per_raft_group c)) (\<lambda>member.
            and_then (assert_that member) (\<lambda>_. Ok (peer_ids @ [node_id]))))));
          started =
            and_then members (\<lambda>member_ids.
            map_ok (Pair member_ids) (expect (rx_new rx member_ids node_id seed)))
      in case started of
           Err e \<Rightarrow> Some (Err e)
         | Panic \<Rightarrow> Some Panic
         | Ok (member_ids, replica) \<Rightarrow>
             let path = path_join (lc_data_dir c) (''rgroup_'' @ show_word raft_group_id);
                 peer_addresses = filter (\<lambda>peer. node_id_from_address v6_hash peer \<in> set member_ids) (lc_peers c)
             in map_option (map_ok (\<lambda>file_storage.
                  \<lparr>cn_replica = replica, cn_pending_responses = Map.empty, cn_sync_requests = [],
                   cn_applied_index = 0,
                   cn_peers = foldl (\<lambda>m peer. AList.update (node_id_from_address v6_hash peer) (connect peer) m) [] peer_addresses,
                   cn_raft_group_id = raft_group_id, cn_file_storage = file_storage,
                   cn_lock_table = LockTable_new, cn_last_retained_warn = 0, cn_poisoned = False,
                   cn_next_channel = 0, cn_commits = 0, cn_answers = [], cn_synced = [], cn_outbox = []\<rparr>))
                (FileStorage_new v6_hash connect now node_id raft_group_id num_raft_groups path peer_addresses db files))"

subsection \<open>Applying the log\<close>

type_synonym ('r, 'k, 'p) node = "('r, 'k, 'p) ConsensusNode"

text \<open>\<^verbatim>\<open>sender.send(..).ok().unwrap()\<close>: it panics when the receiver is gone.\<close>

definition respond ::
    "(Sender \<Rightarrow> bool) \<Rightarrow> Sender option \<Rightarrow> (ErrorCode, Response) res \<Rightarrow> ('r, 'k, 'p) node
      \<Rightarrow> (ErrorCode, unit) res \<times> ('r, 'k, 'p) node" where
  "respond alive pending response n =
     (case pending of
        None \<Rightarrow> (Ok (), n)
      | Some s \<Rightarrow> if alive s then (Ok (), n\<lparr>cn_answers := cn_answers n @ [(s, response)]\<rparr>) else (Panic, n))"

definition on_locks ::
    "('r, 'k, 'p) node \<Rightarrow> (LockTable \<Rightarrow> (ErrorCode, 'a) res \<times> LockTable) \<Rightarrow> (ErrorCode, 'a) res \<times> ('r, 'k, 'p) node" where
  "on_locks n op = (let (r, lt) = op (cn_lock_table n) in (r, n\<lparr>cn_lock_table := lt\<rparr>))"

text \<open>Answering the lock request at the end of the requests that an unlock serves.\<close>

definition hand_over ::
    "zerialize \<Rightarrow> (Sender \<Rightarrow> bool) \<Rightarrow> PendingRequest list \<Rightarrow> u64 option \<Rightarrow> ('r, 'k, 'p) node
      \<Rightarrow> (ErrorCode, PendingRequest list) res \<times> ('r, 'k, 'p) node" where
  "hand_over z alive requests new_lock_id n =
     (case new_lock_id of
        None \<Rightarrow> (Ok requests, n)
      | Some new_id \<Rightarrow>
          if requests = [] then (Panic, n)
          else
            and_then_st (expect (decode_request z (fst (last requests))), n) (\<lambda>lock_request n.
            and_then_st (assert_that (is_Lock_request lock_request), n) (\<lambda>_ n.
            and_then_st (respond alive (snd (last requests)) (Ok (Response.Lock new_id)) n) (\<lambda>_ n.
            (Ok (butlast requests), n)))))"

definition process_unlocked ::
    "zerialize \<Rightarrow> (Sender \<Rightarrow> bool) \<Rightarrow> Request \<Rightarrow> bytes \<Rightarrow> Sender option \<Rightarrow> ('r, 'k, 'p) node
      \<Rightarrow> (ErrorCode, PendingRequest list) res \<times> ('r, 'k, 'p) node" where
  "process_unlocked z alive request request_data pending_response n =
     (case request of
        Request.Lock inode \<Rightarrow>
          and_then_st (on_locks n (\<lambda>lt. lock lt inode)) (\<lambda>lock_id n.
          and_then_st (respond alive pending_response (Ok (Response.Lock lock_id)) n) (\<lambda>_ n. (Ok [], n)))
      | Request.Unlock inode lock_id \<Rightarrow>
          and_then_st (on_locks n (\<lambda>lt. unlock z lt inode lock_id)) (\<lambda>unlocked n.
          and_then_st (respond alive pending_response (Ok Response.Empty) n) (\<lambda>_ n.
          hand_over z alive (fst unlocked) (snd unlocked) n))
      | _ \<Rightarrow> (Ok [(request_data, pending_response)], n))"

definition process_lock_table ::
    "zerialize \<Rightarrow> (Sender \<Rightarrow> bool) \<Rightarrow> bytes \<Rightarrow> Sender option \<Rightarrow> ('r, 'k, 'p) node
      \<Rightarrow> (ErrorCode, PendingRequest list) res \<times> ('r, 'k, 'p) node" where
  "process_lock_table z alive request_data pending_response n =
     and_then_st (expect (decode_request z request_data), n) (\<lambda>request n.
     case meta_inode (meta_info request) of
       None \<Rightarrow> (Ok [(request_data, pending_response)], n)
     | Some inode \<Rightarrow>
         and_then_st (is_locked (cn_lock_table n) (meta_info request), n) (\<lambda>locked n.
         if locked then
           and_then_st (on_locks n (\<lambda>lt. wait_for_lock lt inode (request_data, pending_response))) (\<lambda>_ n. (Ok [], n))
         else process_unlocked z alive request request_data pending_response n))"

primrec apply_requests ::
    "zerialize \<Rightarrow> (Sender \<Rightarrow> bool) \<Rightarrow> (nat \<Rightarrow> clock) \<Rightarrow> PendingRequest list \<Rightarrow> ('r, 'k, 'p) node
      \<Rightarrow> (ErrorCode, unit) res \<times> ('r, 'k, 'p) node" where
  "apply_requests z alive clk [] n = (Ok (), n)"
| "apply_requests z alive clk (p # to_process) n =
     and_then_st (expect (decode_request z (fst p)), n) (\<lambda>request n.
     let (result, fs) = commit_write (clk (cn_commits n)) request (cn_file_storage n);
         n = n\<lparr>cn_file_storage := fs, cn_commits := cn_commits n + 1\<rparr>
     in if result = Panic then (Panic, n)
        else and_then_st (respond alive (snd p) result n) (\<lambda>_ n. apply_requests z alive clk to_process n))"

primrec apply_commands ::
    "zerialize \<Rightarrow> (Sender \<Rightarrow> bool) \<Rightarrow> (nat \<Rightarrow> clock) \<Rightarrow> ('k \<times> bytes) list \<Rightarrow> ('r, 'k, 'p) node
      \<Rightarrow> (ErrorCode, unit) res \<times> ('r, 'k, 'p) node" where
  "apply_commands z alive clk [] n = (Ok (), n)"
| "apply_commands z alive clk (c # commands) n =
     (let pending_response = cn_pending_responses n (fst c);
          n = n\<lparr>cn_pending_responses := (cn_pending_responses n)(fst c := None)\<rparr>
      in if snd c = [] then
           let n = (case pending_response of
                      Some s \<Rightarrow> if alive s then n\<lparr>cn_answers := cn_answers n @ [(s, Ok Response.Empty)]\<rparr> else n
                    | None \<Rightarrow> n)
           in apply_commands z alive clk commands n
         else
           and_then_st (process_lock_table z alive (snd c) pending_response n) (\<lambda>to_process n.
           and_then_st (apply_requests z alive clk to_process n) (\<lambda>_ n.
           apply_commands z alive clk commands n)))"

text \<open>The waiters at the front of the queue whose index has been reached.\<close>

primrec wake_syncs ::
    "(Sender \<Rightarrow> bool) \<Rightarrow> u64 \<Rightarrow> (u64 \<times> Sender) list \<Rightarrow> ('r, 'k, 'p) node \<Rightarrow> (ErrorCode, unit) res \<times> ('r, 'k, 'p) node" where
  "wake_syncs alive slot [] n = (Ok (), n\<lparr>cn_sync_requests := []\<rparr>)"
| "wake_syncs alive slot (w # waiters) n =
     (if fst w \<le> slot then
        if alive (snd w) then wake_syncs alive slot waiters (n\<lparr>cn_synced := cn_synced n @ [snd w]\<rparr>)
        else (Panic, n\<lparr>cn_sync_requests := waiters\<rparr>)
      else (Ok (), n\<lparr>cn_sync_requests := w # waiters\<rparr>))"

definition apply_delivery ::
    "zerialize \<Rightarrow> (Sender \<Rightarrow> bool) \<Rightarrow> (nat \<Rightarrow> clock) \<Rightarrow> u64 \<Rightarrow> ('k \<times> bytes) list \<Rightarrow> ('r, 'k, 'p) node
      \<Rightarrow> (ErrorCode, unit) res \<times> ('r, 'k, 'p) node" where
  "apply_delivery z alive clk slot commands n =
     and_then_st (apply_commands z alive clk commands n) (\<lambda>_ n.
     wake_syncs alive slot (cn_sync_requests n) (n\<lparr>cn_applied_index := slot\<rparr>))"

subsection \<open>Driving the replica\<close>

text \<open>
  \<^verbatim>\<open>while let Some(action) = replica.poll_action()\<close>, with the messages collected so far. \<open>None\<close>:
  the replica never stops emitting actions.
\<close>

partial_function (option) poll_actions ::
    "('m, 'r, 'k) raxos \<Rightarrow> zerialize \<Rightarrow> (Sender \<Rightarrow> bool) \<Rightarrow> (nat \<Rightarrow> clock) \<Rightarrow> (u64 \<times> bytes) list \<Rightarrow> ('r, 'k, 'p) node
      \<Rightarrow> ((ErrorCode, (u64 \<times> bytes) list) res \<times> ('r, 'k, 'p) node) option" where
  "poll_actions rx z alive clk sends n =
     (case rx_poll_action rx (cn_replica n) of
        (action, replica) \<Rightarrow>
          (case action of
             None \<Rightarrow> Some (Ok sends, n\<lparr>cn_replica := replica\<rparr>)
           | Some (Send dest message) \<Rightarrow>
               poll_actions rx z alive clk (sends @ [(dest, rx_encode rx message)]) (n\<lparr>cn_replica := replica\<rparr>)
           | Some (Deliver slot commands) \<Rightarrow>
               (case apply_delivery z alive clk slot commands (n\<lparr>cn_replica := replica\<rparr>) of
                  (r, n') \<Rightarrow>
                    (if r = Ok () then poll_actions rx z alive clk sends n' else Some (Panic, n')))))"

primrec send_all :: "(u64 \<times> bytes) list \<Rightarrow> ('r, 'k, 'p) node \<Rightarrow> (ErrorCode, unit) res \<times> ('r, 'k, 'p) node" where
  "send_all [] n = (Ok (), n)"
| "send_all (s # sends) n =
     and_then_st (expect (map_of (cn_peers n) (fst s)), n) (\<lambda>peer n.
     send_all sends (n\<lparr>cn_outbox := cn_outbox n @ [(peer, cn_raft_group_id n, snd s)]\<rparr>))"

definition drive ::
    "('m, 'r, 'k) raxos \<Rightarrow> zerialize \<Rightarrow> (Sender \<Rightarrow> bool) \<Rightarrow> (nat \<Rightarrow> clock) \<Rightarrow> (('r, 'k, 'p) node \<Rightarrow> ('r, 'k, 'p) node)
      \<Rightarrow> ('r, 'k, 'p) node \<Rightarrow> ((ErrorCode, unit) res \<times> ('r, 'k, 'p) node) option" where
  "drive rx z alive clk input n =
     (if cn_poisoned n then Some (Panic, n)
      else
        map_option
          (\<lambda>(r, n). case r of
               Ok sends \<Rightarrow> send_all sends n
             | _ \<Rightarrow> (Panic, n\<lparr>cn_poisoned := True\<rparr>))
          (poll_actions rx z alive clk [] (input n)))"

definition apply_message ::
    "('m, 'r, 'k) raxos \<Rightarrow> zerialize \<Rightarrow> (Sender \<Rightarrow> bool) \<Rightarrow> (nat \<Rightarrow> clock) \<Rightarrow> u64 \<Rightarrow> bytes \<Rightarrow> ('r, 'k, 'p) node
      \<Rightarrow> ((ErrorCode, unit) res \<times> ('r, 'k, 'p) node) option" where
  "apply_message rx z alive clk now data n =
     (case rx_decode rx data of
        Some message \<Rightarrow> drive rx z alive clk (\<lambda>n. n\<lparr>cn_replica := rx_receive rx now message (cn_replica n)\<rparr>) n
      | None \<Rightarrow> Some (Ok (), n))"

definition get_latest_local_commit :: "('r, 'k, 'p) node \<Rightarrow> u64" where
  "get_latest_local_commit n = cn_applied_index n"

text \<open>\<^verbatim>\<open>propose_raw\<close> opens a channel, submits, and returns the receiver of the channel.\<close>

definition submit_input ::
    "('m, 'r, 'k) raxos \<Rightarrow> u64 \<Rightarrow> bytes \<Rightarrow> Sender \<Rightarrow> ('r, 'k, 'p) node \<Rightarrow> ('r, 'k, 'p) node" where
  "submit_input rx now request s n =
     (case rx_submit rx now request (cn_replica n) of
        (Some command_id, replica) \<Rightarrow>
          n\<lparr>cn_replica := replica, cn_pending_responses := (cn_pending_responses n)(command_id \<mapsto> s)\<rparr>
      | (None, replica) \<Rightarrow>
          n\<lparr>cn_replica := replica, cn_answers := cn_answers n @ [(s, Err Uncategorized)]\<rparr>)"

definition propose_raw ::
    "('m, 'r, 'k) raxos \<Rightarrow> zerialize \<Rightarrow> (Sender \<Rightarrow> bool) \<Rightarrow> (nat \<Rightarrow> clock) \<Rightarrow> u64 \<Rightarrow> bytes \<Rightarrow> ('r, 'k, 'p) node
      \<Rightarrow> ((ErrorCode, Sender) res \<times> ('r, 'k, 'p) node) option" where
  "propose_raw rx z alive clk now request n =
     (let s = cn_next_channel n; n = n\<lparr>cn_next_channel := s + 1\<rparr>
      in map_option (\<lambda>(r, n). (map_ok (\<lambda>_. s) r, n)) (drive rx z alive clk (submit_input rx now request s) n))"

definition propose ::
    "('m, 'r, 'k) raxos \<Rightarrow> zerialize \<Rightarrow> (Sender \<Rightarrow> bool) \<Rightarrow> (nat \<Rightarrow> clock) \<Rightarrow> u64 \<Rightarrow> Request \<Rightarrow> ('r, 'k, 'p) node
      \<Rightarrow> ((ErrorCode, Sender) res \<times> ('r, 'k, 'p) node) option" where
  "propose rx z alive clk now request n = propose_raw rx z alive clk now (encode_request z request) n"

definition read_barrier ::
    "('m, 'r, 'k) raxos \<Rightarrow> zerialize \<Rightarrow> (Sender \<Rightarrow> bool) \<Rightarrow> (nat \<Rightarrow> clock) \<Rightarrow> u64 \<Rightarrow> ('r, 'k, 'p) node
      \<Rightarrow> ((ErrorCode, Sender) res \<times> ('r, 'k, 'p) node) option" where
  "read_barrier rx z alive clk now n = propose_raw rx z alive clk now [] n"

definition get_leader :: "('m, 'r, 'k) raxos \<Rightarrow> ('r, 'k, 'p) node \<Rightarrow> (ErrorCode, u64) res" where
  "get_leader rx n = (if cn_poisoned n then Panic else Ok (rx_leader rx (cn_replica n)))"

text \<open>\<^verbatim>\<open>sync\<close>: \<open>None\<close> is a future that is ready, \<open>Some s\<close> one that waits on channel \<open>s\<close>.\<close>

definition sync :: "u64 \<Rightarrow> ('r, 'k, 'p) node \<Rightarrow> (ErrorCode, Sender option) res \<times> ('r, 'k, 'p) node" where
  "sync index n =
     (if cn_poisoned n then (Panic, n)
      else if index \<le> cn_applied_index n then (Ok None, n)
      else
        let s = cn_next_channel n
        in (Ok (Some s), n\<lparr>cn_next_channel := s + 1, cn_sync_requests := cn_sync_requests n @ [(index, s)]\<rparr>))"

definition background_tick ::
    "('m, 'r, 'k) raxos \<Rightarrow> zerialize \<Rightarrow> (Sender \<Rightarrow> bool) \<Rightarrow> (nat \<Rightarrow> clock) \<Rightarrow> u64 \<Rightarrow> u64 \<Rightarrow> ('r, 'k, 'p) node
      \<Rightarrow> ((ErrorCode, unit) res \<times> ('r, 'k, 'p) node) option" where
  "background_tick rx z alive clk now now' n =
     map_option
       (\<lambda>x. and_then_st x (\<lambda>_ n.
          if cn_poisoned n then (Panic, n)
          else
            let retained = rx_retained_bytes rx (cn_replica n); last_warn = cn_last_retained_warn n;
                elapsed = (if last_warn \<le> now' then now' - last_warn else 0)
            in if RETAINED_WARN_BYTES < retained \<and> 60000000000 < elapsed
               then (Ok (), n\<lparr>cn_last_retained_warn := now'\<rparr>) else (Ok (), n)))
       (drive rx z alive clk (\<lambda>n. n\<lparr>cn_replica := rx_tick rx now (cn_replica n)\<rparr>) n)"

definition cn_local_data_checksum ::
    "(bytes \<Rightarrow> bytes) \<Rightarrow> (string \<Rightarrow> (string \<rightharpoonup> bytes) \<Rightarrow> (io_error, string \<times> bool) res list)
      \<Rightarrow> ('r, 'k, 'p) node \<Rightarrow> (ErrorCode, bytes) res" where
  "cn_local_data_checksum sha256 walk n = fs_local_data_checksum sha256 walk (cn_file_storage n)"

end
