(* ===== verification/Async.thy ===== *)
theory Async
  imports Fleet_Prelude
begin

text \<open>
  Calls that wait. An asynchronous function, or a blocking one, is an \<open>act\<close>: from the state of the
  world to its result and the state when it completes, or \<open>None\<close> when it never completes. What
  other tasks and other nodes do in the meantime is part of that change of state.
\<close>

section \<open>Asynchronous functions\<close>

type_synonym ('w, 'e, 'a) act = "'w \<Rightarrow> (('e, 'a) res \<times> 'w) option"

definition await :: "(('e, 'a) res \<times> 'w) option \<Rightarrow> ('a \<Rightarrow> ('w, 'e, 'b) act) \<Rightarrow> (('e, 'b) res \<times> 'w) option" where
  "await x f =
     Option.bind x (\<lambda>y. case fst y of Ok a \<Rightarrow> f a (snd y) | Err e \<Rightarrow> Some (Err e, snd y) | Panic \<Rightarrow> Some (Panic, snd y))"

lemma await_simps [simp]:
  "await None f = None" "await (Some (Ok a, w)) f = f a w" "await (Some (Err e, w)) f = Some (Err e, w)"
  "await (Some (Panic, w)) f = Some (Panic, w)"
  by (simp_all add: await_def)

lemma await_eq_Some:
  "await x f = Some (r, w') \<longleftrightarrow>
     (\<exists>a w. x = Some (Ok a, w) \<and> f a w = Some (r, w')) \<or> (\<exists>e. x = Some (Err e, w') \<and> r = Err e) \<or>
     (x = Some (Panic, w') \<and> r = Panic)"
  by (cases x) (auto simp: await_def split: res.splits)

lemma await_mono [partial_function_mono]:
  assumes "mono_option B" "\<And>a w. mono_option (\<lambda>f. C f a w)"
  shows "mono_option (\<lambda>f. await (B f) (C f))"
  unfolding await_def
  by (rule bind_mono [OF assms(1)])
    (rule monotoneI, auto simp: option.leq_refl split: res.split intro: monotoneD [OF assms(2)])

text \<open>A call whose error is handled: \<^verbatim>\<open>match .. { Ok(a) => .., Err(e) => .. }\<close>.\<close>

definition attempt :: "(('e, 'a) res \<times> 'w) option \<Rightarrow> ('e + 'a \<Rightarrow> ('w, 'f, 'b) act) \<Rightarrow> (('f, 'b) res \<times> 'w) option" where
  "attempt x f =
     Option.bind x (\<lambda>y. case fst y of Ok a \<Rightarrow> f (Inr a) (snd y) | Err e \<Rightarrow> f (Inl e) (snd y) | Panic \<Rightarrow> Some (Panic, snd y))"

lemma attempt_simps [simp]:
  "attempt None f = None" "attempt (Some (Ok a, w)) f = f (Inr a) w" "attempt (Some (Err e, w)) f = f (Inl e) w"
  "attempt (Some (Panic, w)) f = Some (Panic, w)"
  by (simp_all add: attempt_def)

lemma attempt_mono [partial_function_mono]:
  assumes "mono_option B" "\<And>a w. mono_option (\<lambda>f. C f a w)"
  shows "mono_option (\<lambda>f. attempt (B f) (C f))"
  unfolding attempt_def
  by (rule bind_mono [OF assms(1)])
    (rule monotoneI, auto simp: option.leq_refl split: res.split intro: monotoneD [OF assms(2)])

text \<open>The error of a call replaced.\<close>

definition await_map_err :: "('e \<Rightarrow> 'f) \<Rightarrow> (('e, 'a) res \<times> 'w) option \<Rightarrow> (('f, 'a) res \<times> 'w) option" where
  "await_map_err h x = map_option (\<lambda>(r, w). (map_err h r, w)) x"

definition give :: "('e, 'a) res \<Rightarrow> ('w, 'e, 'a) act" where
  "give r w = Some (r, w)"

lemma give_simps [simp]: "give r w = Some (r, w)"
  by (simp add: give_def)

text \<open>
  \<^verbatim>\<open>join_all\<close> waits for all futures and returns their results in order. They are run one after the
  other here; a panic of one of them ends the task.
\<close>

primrec join_all :: "('w, 'e, 'a) act list \<Rightarrow> 'w \<Rightarrow> (('f, ('e, 'a) res list) res \<times> 'w) option" where
  "join_all [] w = Some (Ok [], w)"
| "join_all (f # fs) w =
     Option.bind (f w) (\<lambda>(r, w).
       if r = Panic then Some (Panic, w) else await (join_all fs w) (\<lambda>rs. give (Ok (r # rs))))"

section \<open>Outcomes\<close>

text \<open>What holds when a call returns, and what holds when it returns an error. A panic ends the task.\<close>

definition outcome :: "(('e, 'a) res \<times> 'w) option \<Rightarrow> ('a \<Rightarrow> 'w \<Rightarrow> bool) \<Rightarrow> ('w \<Rightarrow> bool) \<Rightarrow> bool" where
  "outcome x Q E \<longleftrightarrow> (\<forall>r w. x = Some (r, w) \<longrightarrow> (case r of Ok a \<Rightarrow> Q a w | Err e \<Rightarrow> E w | Panic \<Rightarrow> True))"

lemma outcomeI:
  "(\<And>a w. x = Some (Ok a, w) \<Longrightarrow> Q a w) \<Longrightarrow> (\<And>e w. x = Some (Err e, w) \<Longrightarrow> E w) \<Longrightarrow> outcome x Q E"
  by (auto simp: outcome_def split: res.split)

lemma outcomeD:
  "outcome x Q E \<Longrightarrow> x = Some (Ok a, w) \<Longrightarrow> Q a w" "outcome x Q E \<Longrightarrow> x = Some (Err e, w) \<Longrightarrow> E w"
  by (auto simp: outcome_def)

lemma outcome_simps [simp]:
  "outcome None Q E" "outcome (Some (Ok a, w)) Q E \<longleftrightarrow> Q a w" "outcome (Some (Err e, w)) Q E \<longleftrightarrow> E w"
  "outcome (Some (Panic, w)) Q E"
  by (simp_all add: outcome_def)

lemma outcome_weaken:
  "outcome x P F \<Longrightarrow> (\<And>a w. P a w \<Longrightarrow> Q a w) \<Longrightarrow> (\<And>w. F w \<Longrightarrow> E w) \<Longrightarrow> outcome x Q E"
  unfolding outcome_def by (fastforce split: res.splits)

lemma outcome_await:
  assumes "outcome x P E" "\<And>a w. P a w \<Longrightarrow> outcome (f a w) Q E"
  shows "outcome (await x f) Q E"
proof (cases x)
  case (Some y)
  then show ?thesis using assms by (cases y; cases "fst y") auto
qed simp

lemma outcome_attempt:
  assumes "outcome x P F" "\<And>a w. P a w \<Longrightarrow> outcome (f (Inr a) w) Q E" "\<And>e w. F w \<Longrightarrow> outcome (f (Inl e) w) Q E"
  shows "outcome (attempt x f) Q E"
proof (cases x)
  case (Some y)
  then show ?thesis using assms by (cases y; cases "fst y") auto
qed simp

lemma outcome_give: "(\<And>a. r = Ok a \<Longrightarrow> Q a w) \<Longrightarrow> (\<And>e. r = Err e \<Longrightarrow> E w) \<Longrightarrow> outcome (Some (r, w)) Q E"
  by (cases r) auto

end
