(* ===== verification/Network_Clients.thy ===== *)
theory Network_Clients
  imports Async Base_Utils Data_Storage
begin

unbundle bit_operations_syntax

text \<open>
  Connections and frames: \<^verbatim>\<open>src/src/client/tcp_client.rs\<close>, \<^verbatim>\<open>src/src/client/peer_client.rs\<close>.

  A message on the wire is a frame: its length as a little-endian \<^verbatim>\<open>u32\<close>, then its bytes. The TCP
  streams of the standard library and of \<^verbatim>\<open>tokio\<close> are the fields of \<open>tcp\<close>, an argument of the
  definitions: their state is in the world, and whatever the other end does while a call waits is
  part of the call. A call that times out returns an error.

  A \<^verbatim>\<open>TcpClient\<close> keeps its one connection in a record. A \<^verbatim>\<open>TcpPeerClient\<close> holds a reference
  (\<^verbatim>\<open>Arc<Mutex<Vec<TcpStream>>>\<close>) to its pool, which all futures of the client share: the pools are
  a store in the world, \<open>pl_conns\<close>, and the reference is an address in it.
\<close>

section \<open>Frames\<close>

definition u32_le :: "u32 \<Rightarrow> bytes" where
  "u32_le w = [ucast w, ucast (drop_bit 8 w), ucast (drop_bit 16 w), ucast (drop_bit 24 w)]"

definition read_u32 :: "bytes \<Rightarrow> u32" where
  "read_u32 bs = ucast (bs ! 0) OR push_bit 8 (ucast (bs ! 1)) OR push_bit 16 (ucast (bs ! 2)) OR push_bit 24 (ucast (bs ! 3))"

definition frame :: "bytes \<Rightarrow> bytes" where
  "frame data = u32_le (of_nat (length data)) @ data"

lemma read_u32_le: "read_u32 (u32_le w) = w"
proof (rule bit_word_eqI)
  fix n assume "n < LENGTH(32)"
  then have n: "n < 32" by simp
  consider "n < 8" | "8 \<le> n" "n < 16" | "16 \<le> n" "n < 24" | "24 \<le> n" by linarith
  then show "bit (read_u32 (u32_le w)) n \<longleftrightarrow> bit w n"
    by cases (use n in \<open>auto simp: read_u32_def u32_le_def bit_simps numeral_2_eq_2 numeral_3_eq_3\<close>)
qed

lemma frame_parts:
  "length (u32_le w) = 4" "take 4 (frame data) = u32_le (of_nat (length data))" "drop 4 (frame data) = data"
  "length (frame data) = 4 + length data"
  by (simp_all add: frame_def u32_le_def)

lemma frame_length:
  "length data < 2 ^ 32 \<Longrightarrow> unat (read_u32 (take 4 (frame data))) = length data"
  by (simp add: frame_parts read_u32_le unat_of_nat)

section \<open>Streams\<close>

record ('c, 'w) tcp =
  tcp_connect :: "SocketAddr \<Rightarrow> ('w, io_error, 'c) act"
  tcp_write_all :: "'c \<Rightarrow> bytes \<Rightarrow> ('w, io_error, unit) act"
  tcp_read_exact :: "'c \<Rightarrow> nat \<Rightarrow> ('w, io_error, bytes) act"

text \<open>Reading the answer: its length, then as many bytes.\<close>

definition read_frame :: "('c, 'w) tcp \<Rightarrow> 'c \<Rightarrow> ('w, io_error, bytes) act" where
  "read_frame tcp stream w =
     await (tcp_read_exact tcp stream 4 w) (\<lambda>response_size.
     tcp_read_exact tcp stream (unat (read_u32 response_size)))"

section \<open>The blocking client\<close>

record 'c TcpClient =
  tc_server :: SocketAddr
  tc_connection :: "'c option"

definition TcpClient_new :: "SocketAddr \<Rightarrow> 'c TcpClient" where
  "TcpClient_new server = \<lparr>tc_server = server, tc_connection = None\<rparr>"

text \<open>A call of the world made with a client in hand, which it does not touch.\<close>

definition beside :: "('w, 'e, 'a) act \<Rightarrow> ('t \<times> 'w, 'e, 'a) act" where
  "beside m s = map_option (\<lambda>(r, w). (r, (fst s, w))) (m (snd s))"

definition set_connection :: "'c option \<Rightarrow> ('c TcpClient \<times> 'w) \<Rightarrow> 'c TcpClient \<times> 'w" where
  "set_connection conn s = ((fst s)\<lparr>tc_connection := conn\<rparr>, snd s)"

text \<open>
  The connection is taken out of the client while it is used, and stored back when the answer has
  arrived; a write on a connection that is no longer good is tried once more on a new one.
\<close>

definition send_and_receive :: "('c, 'w) tcp \<Rightarrow> bytes \<Rightarrow> ('c TcpClient \<times> 'w, io_error, bytes) act" where
  "send_and_receive tcp data s =
     await (case tc_connection (fst s) of
              None \<Rightarrow> beside (tcp_connect tcp (tc_server (fst s))) s
            | Some stream \<Rightarrow> give (Ok stream) s) (\<lambda>stream s.
     let s = set_connection None s; send_buffer = frame data in
     await (attempt (beside (tcp_write_all tcp stream send_buffer) s) (\<lambda>written.
              case written of
                Inr _ \<Rightarrow> give (Ok stream)
              | Inl _ \<Rightarrow> (\<lambda>s.
                  await (beside (tcp_connect tcp (tc_server (fst s))) s) (\<lambda>stream s.
                  await (beside (tcp_write_all tcp stream send_buffer) s) (\<lambda>_. give (Ok stream))))))
       (\<lambda>stream s.
     await (beside (read_frame tcp stream) s) (\<lambda>response s.
     give (Ok response) (set_connection (Some stream) s))))"

section \<open>The client of a peer\<close>

record 'c pools =
  pl_conns :: "nat \<Rightarrow> 'c list"
  pl_next :: nat

record TcpPeerClient =
  pc_server_ip_port :: SocketAddr
  pc_pool :: nat

definition POOL_SIZE :: nat where "POOL_SIZE = 8"

definition TcpPeerClient_new :: "SocketAddr \<Rightarrow> ('c, 'z) pools_scheme \<Rightarrow> TcpPeerClient \<times> ('c, 'z) pools_scheme" where
  "TcpPeerClient_new server_ip_port w =
     (\<lparr>pc_server_ip_port = server_ip_port, pc_pool = pl_next w\<rparr>,
      w\<lparr>pl_conns := (pl_conns w)(pl_next w := []), pl_next := pl_next w + 1\<rparr>)"

definition pc_connect ::
    "('c, ('c, 'z) pools_scheme) tcp \<Rightarrow> TcpPeerClient \<Rightarrow> (('c, 'z) pools_scheme, io_error, 'c) act" where
  "pc_connect tcp client w =
     (let conns = pl_conns w (pc_pool client)
      in if conns = [] then tcp_connect tcp (pc_server_ip_port client) w
         else give (Ok (last conns)) (w\<lparr>pl_conns := (pl_conns w)(pc_pool client := butlast conns)\<rparr>))"

definition return_connection :: "nat \<Rightarrow> 'c \<Rightarrow> ('c, 'z) pools_scheme \<Rightarrow> ('c, 'z) pools_scheme" where
  "return_connection pool connection w =
     (if length (pl_conns w pool) < POOL_SIZE
      then w\<lparr>pl_conns := (pl_conns w)(pool := pl_conns w pool @ [connection])\<rparr> else w)"

definition async_send_and_receive ::
    "('c, ('c, 'z) pools_scheme) tcp \<Rightarrow> 'c \<Rightarrow> bytes \<Rightarrow> nat \<Rightarrow> (('c, 'z) pools_scheme, io_error, bytes) act" where
  "async_send_and_receive tcp stream data pool w =
     await (tcp_write_all tcp stream (frame data) w) (\<lambda>_ w.
     await (read_frame tcp stream w) (\<lambda>buffer w.
     give (Ok buffer) (return_connection pool stream w)))"

definition pc_send_raw ::
    "('c, ('c, 'z) pools_scheme) tcp \<Rightarrow> TcpPeerClient \<Rightarrow> bytes \<Rightarrow> (('c, 'z) pools_scheme, io_error, bytes) act" where
  "pc_send_raw tcp client data w =
     await (pc_connect tcp client w) (\<lambda>stream. async_send_and_receive tcp stream data (pc_pool client))"

definition pc_send ::
    "zerialize \<Rightarrow> ('c, ('c, 'z) pools_scheme) tcp \<Rightarrow> TcpPeerClient \<Rightarrow> Request
      \<Rightarrow> (('c, 'z) pools_scheme, io_error, bytes) act" where
  "pc_send z tcp client request = pc_send_raw tcp client (encode_request z request)"

text \<open>An error of a consensus message is logged and dropped: the protocol sends again.\<close>

definition send_consensus_message ::
    "zerialize \<Rightarrow> ('c, ('c, 'z) pools_scheme) tcp \<Rightarrow> TcpPeerClient \<Rightarrow> u16 \<Rightarrow> bytes
      \<Rightarrow> (('c, 'z) pools_scheme, io_error, unit) act" where
  "send_consensus_message z tcp client raft_group data w =
     attempt (pc_send z tcp client (Request.ConsensusMessage raft_group data) w) (\<lambda>_. give (Ok ()))"

definition get_latest_commit ::
    "zerialize \<Rightarrow> ('c, ('c, 'z) pools_scheme) tcp \<Rightarrow> TcpPeerClient \<Rightarrow> u16 \<Rightarrow> (('c, 'z) pools_scheme, io_error, u64) act" where
  "get_latest_commit z tcp client raft_group w =
     await (pc_send z tcp client (Request.LatestCommit raft_group) w) (\<lambda>data.
     give (and_then (unwrap (response_or_error z data)) (\<lambda>response.
       map_ok snd (expect (as_latest_commit_response response)))))"

definition filesystem_checksum ::
    "zerialize \<Rightarrow> ('c, ('c, 'z) pools_scheme) tcp \<Rightarrow> TcpPeerClient
      \<Rightarrow> (('c, 'z) pools_scheme, ErrorCode, (u16 \<times> bytes) list) act" where
  "filesystem_checksum z tcp client w =
     await (await_map_err (\<lambda>_. Uncategorized) (pc_send z tcp client Request.FilesystemChecksum w)) (\<lambda>data.
     give (and_then (unwrap (response_or_error z data)) (\<lambda>response.
       expect (as_checksum_response response))))"

definition pc_read_raw ::
    "zerialize \<Rightarrow> ('c, ('c, 'z) pools_scheme) tcp \<Rightarrow> TcpPeerClient \<Rightarrow> u64 \<Rightarrow> u64 \<Rightarrow> u32 \<Rightarrow> CommitId
      \<Rightarrow> (('c, 'z) pools_scheme, io_error, bytes) act" where
  "pc_read_raw z tcp client inode offset read_size required_commit w =
     await (pc_send z tcp client (Request.ReadRaw required_commit inode offset read_size) w) (\<lambda>response.
     give (and_then (unwrap (response_or_error z response)) (\<lambda>response.
       expect (as_read_response response))))"

end
