(* ===== verification/Group_Manager.thy ===== *)
theory Group_Manager
  imports Consensus_Node Network_Clients
begin

text \<open>
  Where the groups are: \<^verbatim>\<open>src/src/storage/raft_group_manager.rs\<close>,
  \<^verbatim>\<open>src/src/client/cluster_client.rs\<close> and the constructor of \<^verbatim>\<open>src/src/storage/storage_node.rs\<close>.

  \<open>LocalRaftGroupManager\<close> holds the groups that are replicated on this node,
  \<open>RemoteRaftGroups\<close> a client for every group of the cluster. Each \<^verbatim>\<open>HashMap\<close> is an association
  list in the order in which the map is iterated over. A reference \<^verbatim>\<open>&ConsensusNode\<close> is the key of
  the node in its map.
\<close>

section \<open>Local groups\<close>

record ('r, 'k) LocalRaftGroupManager =
  gm_context :: LocalContext
  gm_total_raft_groups :: u16
  gm_groups :: "(u16 \<times> ('r, 'k, TcpPeerClient) node) list"

text \<open>\<^verbatim>\<open>0..rgroups\<close>\<close>

definition group_range :: "u16 \<Rightarrow> u16 list" where
  "group_range rgroups = map of_nat [0..<unat rgroups]"

text \<open>The group of an inode; the remainder panics when there are no groups.\<close>

definition raft_group_of :: "u16 \<Rightarrow> u64 \<Rightarrow> (ErrorCode, u16) res" where
  "raft_group_of total_raft_groups inode =
     (if total_raft_groups = 0 then Panic else Ok (ucast (inode mod ucast total_raft_groups)))"

definition contains_group ::
    "(128 word \<Rightarrow> u16 \<Rightarrow> u64) \<Rightarrow> LocalContext \<Rightarrow> u16 \<Rightarrow> (ErrorCode, bool) res" where
  "contains_group v6_hash c raft_group_id =
     and_then (node_index v6_hash c) (\<lambda>index.
     node_contains_raft_group index (total_nodes c) raft_group_id (lc_replicas_per_raft_group c))"

text \<open>
  The loop of \<^verbatim>\<open>LocalRaftGroupManager::new\<close>, over the groups that are left; \<open>start i\<close> is
  \<^verbatim>\<open>ConsensusNode::new(context.clone(), i, rgroups)\<close>.
\<close>

primrec create_groups ::
    "(128 word \<Rightarrow> u16 \<Rightarrow> u64) \<Rightarrow> LocalContext \<Rightarrow> (u16 \<Rightarrow> (ErrorCode, 'n) res option) \<Rightarrow> u16 list
      \<Rightarrow> (u16 \<times> 'n) list \<Rightarrow> (ErrorCode, (u16 \<times> 'n) list) res option" where
  "create_groups v6_hash c start [] groups = Some (Ok groups)"
| "create_groups v6_hash c start (i # rest) groups =
     (case contains_group v6_hash c i of
        Ok False \<Rightarrow> create_groups v6_hash c start rest groups
      | Ok True \<Rightarrow>
          Option.bind (start i) (\<lambda>node.
            case node of
              Ok node \<Rightarrow> create_groups v6_hash c start rest (AList.update i node groups)
            | Err e \<Rightarrow> Some (Err e)
            | Panic \<Rightarrow> Some Panic)
      | Err e \<Rightarrow> Some (Err e)
      | Panic \<Rightarrow> Some Panic)"

definition LocalRaftGroupManager_new ::
    "(128 word \<Rightarrow> u16 \<Rightarrow> u64) \<Rightarrow> (u16 \<Rightarrow> u16 \<Rightarrow> (ErrorCode, ('r, 'k, TcpPeerClient) node) res option) \<Rightarrow> u16 \<Rightarrow> LocalContext
      \<Rightarrow> (ErrorCode, ('r, 'k) LocalRaftGroupManager) res option" where
  "LocalRaftGroupManager_new v6_hash start rgroups c =
     map_option (map_ok (\<lambda>groups. \<lparr>gm_context = c, gm_total_raft_groups = rgroups, gm_groups = groups\<rparr>))
       (create_groups v6_hash c (\<lambda>i. start i rgroups) (group_range rgroups) [])"

definition inode_stored_locally ::
    "(128 word \<Rightarrow> u16 \<Rightarrow> u64) \<Rightarrow> ('r, 'k) LocalRaftGroupManager \<Rightarrow> u64 \<Rightarrow> (ErrorCode, bool) res" where
  "inode_stored_locally v6_hash m inode =
     and_then (raft_group_of (gm_total_raft_groups m) inode) (contains_group v6_hash (gm_context m))"

definition all_groups :: "('r, 'k) LocalRaftGroupManager \<Rightarrow> u16 list" where
  "all_groups m = map fst (gm_groups m)"

definition has_raft_group :: "('r, 'k) LocalRaftGroupManager \<Rightarrow> u16 \<Rightarrow> bool" where
  "has_raft_group m raft_group \<longleftrightarrow> map_of (gm_groups m) raft_group \<noteq> None"

definition lookup_by_raft_group :: "('r, 'k) LocalRaftGroupManager \<Rightarrow> u16 \<Rightarrow> (ErrorCode, u16) res" where
  "lookup_by_raft_group m raft_group = (if has_raft_group m raft_group then Ok raft_group else Panic)"

definition lookup_by_inode ::
    "(128 word \<Rightarrow> u16 \<Rightarrow> u64) \<Rightarrow> ('r, 'k) LocalRaftGroupManager \<Rightarrow> u64 \<Rightarrow> (ErrorCode, u16) res" where
  "lookup_by_inode v6_hash m inode =
     and_then (raft_group_of (gm_total_raft_groups m) inode) (\<lambda>raft_group_id.
     and_then (contains_group v6_hash (gm_context m) raft_group_id) (\<lambda>contains.
     and_then (assert_that contains) (\<lambda>_. lookup_by_raft_group m raft_group_id)))"

text \<open>\<^verbatim>\<open>background_tick\<close> of the groups that are left; \<open>tick\<close> is the one of a node.\<close>

primrec tick_groups ::
    "('n \<Rightarrow> ((ErrorCode, unit) res \<times> 'n) option) \<Rightarrow> (u16 \<times> 'n) list
      \<Rightarrow> ((ErrorCode, unit) res \<times> (u16 \<times> 'n) list) option" where
  "tick_groups tick [] = Some (Ok (), [])"
| "tick_groups tick (g # groups) =
     Option.bind (tick (snd g)) (\<lambda>(r, node).
       if r = Ok () then map_option (\<lambda>(r, groups). (r, (fst g, node) # groups)) (tick_groups tick groups)
       else Some (Panic, (fst g, node) # groups))"

definition gm_background_tick ::
    "(('r, 'k, TcpPeerClient) node \<Rightarrow> ((ErrorCode, unit) res \<times> ('r, 'k, TcpPeerClient) node) option) \<Rightarrow> ('r, 'k) LocalRaftGroupManager
      \<Rightarrow> ((ErrorCode, unit) res \<times> ('r, 'k) LocalRaftGroupManager) option" where
  "gm_background_tick tick m =
     map_option (\<lambda>(r, groups). (r, m\<lparr>gm_groups := groups\<rparr>)) (tick_groups tick (gm_groups m))"

section \<open>All groups\<close>

record RemoteRaftGroups =
  rr_total_raft_groups :: u16
  rr_groups :: "(u16 \<times> TcpPeerClient) list"

text \<open>The first peer that replicates the group: \<^verbatim>\<open>find_map(..).unwrap()\<close>.\<close>

primrec find_member ::
    "LocalContext \<Rightarrow> u16 \<Rightarrow> (SocketAddr \<times> nat) list \<Rightarrow> (ErrorCode, SocketAddr) res" where
  "find_member c group_id [] = Panic"
| "find_member c group_id (p # ps) =
     and_then (node_contains_raft_group (snd p) (total_nodes c) group_id (lc_replicas_per_raft_group c)) (\<lambda>contains.
     if contains then Ok (fst p) else find_member c group_id ps)"

definition group_address :: "(128 word \<Rightarrow> u16 \<Rightarrow> u64) \<Rightarrow> LocalContext \<Rightarrow> u16 \<Rightarrow> (ErrorCode, SocketAddr) res" where
  "group_address v6_hash c group_id =
     and_then (contains_group v6_hash c group_id) (\<lambda>local.
     if local then Ok (lc_server_ip_port c)
     else and_then (peers_with_node_indices v6_hash c) (find_member c group_id))"

primrec connect_groups ::
    "(128 word \<Rightarrow> u16 \<Rightarrow> u64) \<Rightarrow> LocalContext \<Rightarrow> u16 list \<Rightarrow> (u16 \<times> TcpPeerClient) list \<Rightarrow> ('c, 'z) pools_scheme
      \<Rightarrow> (ErrorCode, (u16 \<times> TcpPeerClient) list) res \<times> ('c, 'z) pools_scheme" where
  "connect_groups v6_hash c [] groups w = (Ok groups, w)"
| "connect_groups v6_hash c (g # rest) groups w =
     and_then_st (group_address v6_hash c g, w) (\<lambda>addr w.
     let (client, w) = TcpPeerClient_new addr w
     in connect_groups v6_hash c rest (AList.update g client groups) w)"

definition RemoteRaftGroups_new ::
    "(128 word \<Rightarrow> u16 \<Rightarrow> u64) \<Rightarrow> u16 \<Rightarrow> LocalContext \<Rightarrow> ('c, 'z) pools_scheme
      \<Rightarrow> (ErrorCode, RemoteRaftGroups) res \<times> ('c, 'z) pools_scheme" where
  "RemoteRaftGroups_new v6_hash rgroups c w =
     and_then_st (connect_groups v6_hash c (group_range rgroups) [] w) (\<lambda>groups w.
     (Ok \<lparr>rr_total_raft_groups = rgroups, rr_groups = groups\<rparr>, w))"

definition get_total_raft_groups :: "RemoteRaftGroups \<Rightarrow> u16" where
  "get_total_raft_groups rr = rr_total_raft_groups rr"

primrec first_error :: "('e, 'a) res list \<Rightarrow> ('e, unit) res" where
  "first_error [] = Ok ()"
| "first_error (r # rs) = and_then r (\<lambda>_. first_error rs)"

definition wait_for_ready ::
    "zerialize \<Rightarrow> ('c, ('c, 'z) pools_scheme) tcp \<Rightarrow> RemoteRaftGroups \<Rightarrow> (('c, 'z) pools_scheme, io_error, unit) act" where
  "wait_for_ready z tcp rr w =
     await (join_all (map (\<lambda>(g, client). pc_send z tcp client (Request.RaftGroupLeader g)) (rr_groups rr)) w) (\<lambda>results.
     give (first_error results))"

text \<open>The client of a group, \<^verbatim>\<open>get(..).unwrap()\<close>, and of the group of an inode.\<close>

definition client_of_group :: "RemoteRaftGroups \<Rightarrow> u16 \<Rightarrow> (ErrorCode, TcpPeerClient) res" where
  "client_of_group rr raft_group = expect (map_of (rr_groups rr) raft_group)"

definition client_of_inode :: "RemoteRaftGroups \<Rightarrow> u64 \<Rightarrow> (ErrorCode, TcpPeerClient) res" where
  "client_of_inode rr inode = and_then (raft_group_of (rr_total_raft_groups rr) inode) (client_of_group rr)"

definition rr_propose ::
    "zerialize \<Rightarrow> ('c, ('c, 'z) pools_scheme) tcp \<Rightarrow> RemoteRaftGroups \<Rightarrow> u64 \<Rightarrow> Request
      \<Rightarrow> (('c, 'z) pools_scheme, io_error, bytes) act" where
  "rr_propose z tcp rr inode request w =
     await (give (unwrap (client_of_inode rr inode)) w) (\<lambda>client. pc_send z tcp client request)"

definition propose_to_specific_group ::
    "zerialize \<Rightarrow> ('c, ('c, 'z) pools_scheme) tcp \<Rightarrow> RemoteRaftGroups \<Rightarrow> u16 \<Rightarrow> Request
      \<Rightarrow> (('c, 'z) pools_scheme, io_error, bytes) act" where
  "propose_to_specific_group z tcp rr raft_group request w =
     await (give (unwrap (client_of_group rr raft_group)) w) (\<lambda>client. pc_send z tcp client request)"

definition rr_forward_request ::
    "zerialize \<Rightarrow> ('c, ('c, 'z) pools_scheme) tcp \<Rightarrow> RemoteRaftGroups \<Rightarrow> Request
      \<Rightarrow> (('c, 'z) pools_scheme, io_error, bytes) act" where
  "rr_forward_request z tcp rr request w =
     await (give (and_then (expect (meta_inode (meta_info request))) (\<lambda>inode. unwrap (client_of_inode rr inode))) w)
       (\<lambda>client. pc_send_raw tcp client (encode_request z request))"

definition forward_raw_request ::
    "('c, ('c, 'z) pools_scheme) tcp \<Rightarrow> RemoteRaftGroups \<Rightarrow> bytes \<Rightarrow> RequestMetaInfo
      \<Rightarrow> (('c, 'z) pools_scheme, io_error, bytes) act" where
  "forward_raw_request tcp rr request meta w =
     await (give (and_then (expect (meta_inode meta)) (\<lambda>inode. unwrap (client_of_inode rr inode))) w)
       (\<lambda>client. pc_send_raw tcp client request)"

section \<open>Starting a node\<close>

record ('r, 'k) Node =
  nd_context :: LocalContext
  nd_raft_manager :: "('r, 'k) LocalRaftGroupManager"
  nd_remote_rafts :: RemoteRaftGroups
  nd_bind_address :: SocketAddr

text \<open>
  \<^verbatim>\<open>Node::new\<close>; the directory is the host's. There are as many groups as nodes, cut to 16 bits.
  \<open>start\<close> is \<^verbatim>\<open>ConsensusNode::new\<close> on the files of the host.
\<close>

definition Node_new ::
    "(128 word \<Rightarrow> u16 \<Rightarrow> u64) \<Rightarrow> (LocalContext \<Rightarrow> u16 \<Rightarrow> u16 \<Rightarrow> (ErrorCode, ('r, 'k, TcpPeerClient) node) res option)
      \<Rightarrow> string \<Rightarrow> SocketAddr \<Rightarrow> SocketAddr list \<Rightarrow> nat \<Rightarrow> ('c, 'z) pools_scheme
      \<Rightarrow> ((ErrorCode, ('r, 'k) Node) res \<times> ('c, 'z) pools_scheme) option" where
  "Node_new v6_hash start node_dir bind_address peers replicas_per_raft_group w =
     (let data_dir = path_join node_dir ''data'';
          node_id = node_id_from_address v6_hash bind_address;
          c = LocalContext_new data_dir bind_address peers node_id replicas_per_raft_group;
          rgroups = of_nat (total_nodes c)
      in map_option (\<lambda>manager.
           and_then_st (manager, w) (\<lambda>manager w.
           and_then_st (RemoteRaftGroups_new v6_hash rgroups c w) (\<lambda>remote w.
           (Ok \<lparr>nd_context = c, nd_raft_manager = manager, nd_remote_rafts = remote, nd_bind_address = bind_address\<rparr>, w))))
         (LocalRaftGroupManager_new v6_hash (start c) rgroups c))"

end
