(* ===== verification/Transaction_Coordinator.thy ===== *)
theory Transaction_Coordinator
  imports Async Data_Storage Metadata_Storage
begin

unbundle bit_operations_syntax

text \<open>
  Transactions over several groups: \<^verbatim>\<open>src/src/storage/message_handlers/transaction_coordinator.rs\<close>.

  What the coordinator reaches through the
  local groups (\<^verbatim>\<open>LocalRaftGroupManager\<close>) and the remote ones (\<^verbatim>\<open>RemoteRaftGroups\<close>) are the fields
  of \<open>cluster\<close>; other clients may change the state of the cluster in any call.
\<close>

section \<open>Definitions\<close>

record 'w cluster =
  cl_inode_stored_locally :: "u64 \<Rightarrow> (ErrorCode, bool) res"
  cl_local_propose :: "u64 \<Rightarrow> Request \<Rightarrow> ('w, ErrorCode, Response) act"
  cl_local_read_barrier :: "u64 \<Rightarrow> ('w, ErrorCode, unit) act"
  cl_local_getattr :: "u64 \<Rightarrow> 'w \<Rightarrow> (ErrorCode, Response) res"
  cl_local_lookup :: "u64 \<Rightarrow> string \<Rightarrow> UserContext \<Rightarrow> 'w \<Rightarrow> (ErrorCode, Response) res"
  cl_remote_propose :: "u64 \<Rightarrow> Request \<Rightarrow> ('w, io_error, bytes) act"
  cl_remote_propose_to_group :: "u16 \<Rightarrow> Request \<Rightarrow> ('w, io_error, bytes) act"
  cl_remote_forward_request :: "Request \<Rightarrow> ('w, io_error, bytes) act"

definition tx_propose :: "zerialize \<Rightarrow> 'w cluster \<Rightarrow> u64 \<Rightarrow> Request \<Rightarrow> ('w, ErrorCode, bytes) act" where
  "tx_propose z cl inode request w =
     await (Some (cl_inode_stored_locally cl inode, w)) (\<lambda>local w.
     if local then
       await (cl_local_propose cl inode request w) (\<lambda>response w.
       let response_bytes = encode_response z response
       in give (and_then (response_or_error z response_bytes) (\<lambda>_. Ok response_bytes)) w)
     else
       await (await_map_err (\<lambda>_. Uncategorized) (cl_remote_propose cl inode request w)) (\<lambda>response w.
       give (and_then (response_or_error z response) (\<lambda>_. Ok response)) w))"

definition tx_replace_link ::
    "zerialize \<Rightarrow> 'w cluster \<Rightarrow> u64 \<Rightarrow> string \<Rightarrow> u64 \<Rightarrow> FileKind \<Rightarrow> u64 \<Rightarrow> UserContext \<Rightarrow> ('w, ErrorCode, u64) act" where
  "tx_replace_link z cl parent name new_inode kind lock_id context w =
     await (tx_propose z cl parent (Request.ReplaceLink parent name new_inode kind (Some lock_id) context) w)
       (\<lambda>response_data. give (and_then (response_or_error z response_data) (\<lambda>response.
          expect (as_inode_response response))))"

definition tx_remove_link ::
    "zerialize \<Rightarrow> 'w cluster \<Rightarrow> u64 \<Rightarrow> string \<Rightarrow> (u64 \<times> u32) option \<Rightarrow> u64 option \<Rightarrow> UserContext
      \<Rightarrow> ('w, ErrorCode, u64 \<times> bool) act" where
  "tx_remove_link z cl parent name link_inode_and_uid lock_id context w =
     await (tx_propose z cl parent (Request.RemoveLink parent name
         (map_option (\<lambda>(inode, uid). \<lparr>pair_inode = inode, pair_uid = uid\<rparr>) link_inode_and_uid) lock_id context) w)
       (\<lambda>response_data. give (and_then (response_or_error z response_data) (\<lambda>response.
          case response of WireResponse.RemovedInode inode complete \<Rightarrow> Ok (inode, complete) | _ \<Rightarrow> Panic)))"

definition lock_inode :: "zerialize \<Rightarrow> 'w cluster \<Rightarrow> u64 \<Rightarrow> ('w, ErrorCode, u64) act" where
  "lock_inode z cl inode w =
     await (tx_propose z cl inode (Request.Lock inode) w)
       (\<lambda>response_data. give (and_then (response_or_error z response_data) (\<lambda>response.
          case response of WireResponse.Lock lock_id \<Rightarrow> Ok lock_id | _ \<Rightarrow> Panic)))"

text \<open>The requests that are answered with nothing: \<^verbatim>\<open>as_empty_response().expect(..)\<close>.\<close>

definition propose_empty :: "zerialize \<Rightarrow> 'w cluster \<Rightarrow> u64 \<Rightarrow> Request \<Rightarrow> ('w, ErrorCode, unit) act" where
  "propose_empty z cl inode request w =
     await (tx_propose z cl inode request w)
       (\<lambda>response_data. give (and_then (response_or_error z response_data) (\<lambda>response.
          expect (as_empty_response response))))"

definition tx_update_parent :: "zerialize \<Rightarrow> 'w cluster \<Rightarrow> u64 \<Rightarrow> u64 \<Rightarrow> u64 option \<Rightarrow> ('w, ErrorCode, unit) act" where
  "tx_update_parent z cl inode new_parent lock_id =
     propose_empty z cl inode (Request.UpdateParent inode new_parent lock_id)"

definition tx_update_metadata_changed_time :: "zerialize \<Rightarrow> 'w cluster \<Rightarrow> u64 \<Rightarrow> u64 option \<Rightarrow> ('w, ErrorCode, unit) act" where
  "tx_update_metadata_changed_time z cl inode lock_id =
     propose_empty z cl inode (Request.UpdateMetadataChangedTime inode lock_id)"

definition unlock_inode :: "zerialize \<Rightarrow> 'w cluster \<Rightarrow> u64 \<Rightarrow> u64 \<Rightarrow> ('w, ErrorCode, unit) act" where
  "unlock_inode z cl inode lock_id = propose_empty z cl inode (Request.Unlock inode lock_id)"

record FileOrDirAttrs =
  fa_inode :: u64
  fa_kind :: FileKind
  fa_mode :: u16
  fa_hardlinks :: u32
  fa_uid :: u32
  fa_gid :: u32
  fa_directory_entries :: u32

definition FileOrDirAttrs_new :: "EntryMetadata \<Rightarrow> FileOrDirAttrs" where
  "FileOrDirAttrs_new response =
     \<lparr>fa_inode = em_inode response, fa_kind = em_kind response, fa_mode = em_mode response,
      fa_hardlinks = em_hard_links response, fa_uid = em_user_id response, fa_gid = em_group_id response,
      fa_directory_entries = (case em_directory_entries response of None \<Rightarrow> 0 | Some n \<Rightarrow> n)\<rparr>"

definition getattrs :: "zerialize \<Rightarrow> 'w cluster \<Rightarrow> u64 \<Rightarrow> ('w, ErrorCode, FileOrDirAttrs) act" where
  "getattrs z cl inode w =
     await (Some (cl_inode_stored_locally cl inode, w)) (\<lambda>local w.
     if local then
       await (cl_local_read_barrier cl inode w) (\<lambda>_ w.
       give (and_then (cl_local_getattr cl inode w) (\<lambda>response.
         case response of
           Response.EntryMetadata metadata \<Rightarrow> Ok (FileOrDirAttrs_new metadata)
         | _ \<Rightarrow> Err BadResponse)) w)
     else
       await (await_map_err (\<lambda>_. Uncategorized) (cl_remote_forward_request cl (Request.GetAttr inode) w))
         (\<lambda>response_data. give (and_then (response_or_error z response_data) (\<lambda>response.
            map_ok FileOrDirAttrs_new (ok_or (as_attr_response response) BadResponse)))))"

definition tx_lookup :: "zerialize \<Rightarrow> 'w cluster \<Rightarrow> u64 \<Rightarrow> string \<Rightarrow> UserContext \<Rightarrow> ('w, ErrorCode, u64) act" where
  "tx_lookup z cl parent name context w =
     await (Some (cl_inode_stored_locally cl parent, w)) (\<lambda>local w.
     if local then
       await (cl_local_read_barrier cl parent w) (\<lambda>_ w.
       give (and_then (cl_local_lookup cl parent name context w) (\<lambda>response.
         case response of Response.Inode inode \<Rightarrow> Ok inode | _ \<Rightarrow> Err BadResponse)) w)
     else
       await (await_map_err (\<lambda>_. Uncategorized) (cl_remote_forward_request cl (Request.Lookup parent name context) w))
         (\<lambda>response_data. give (and_then (response_or_error z response_data) (\<lambda>response.
            ok_or (as_inode_response response) BadResponse))))"

text \<open>\<^verbatim>\<open>expect("Leaked inode")\<close>: any error of the request is a panic.\<close>

definition decrement_inode :: "zerialize \<Rightarrow> 'w cluster \<Rightarrow> u64 \<Rightarrow> u32 \<Rightarrow> u64 option \<Rightarrow> ('w, ErrorCode, unit) act" where
  "decrement_inode z cl inode count lock_id w =
     map_option (\<lambda>(r, w). (and_then (unwrap r) (\<lambda>response_data.
       and_then (unwrap (response_or_error z response_data)) (\<lambda>response. expect (as_empty_response response))), w))
       (tx_propose z cl inode (Request.DecrementInode inode count lock_id) w)"

subsection \<open>Rename\<close>

definition rename_check_access ::
    "FileOrDirAttrs \<Rightarrow> FileOrDirAttrs \<Rightarrow> FileOrDirAttrs \<Rightarrow> FileOrDirAttrs option \<Rightarrow> UserContext \<Rightarrow> (ErrorCode, unit) res" where
  "rename_check_access parent_attrs new_parent_attrs inode_attrs existing_dest_inode_attrs context =
     (let uid = ctx_uid context;
          writes = (\<lambda>attrs. check_access (fa_uid attrs) (fa_gid attrs) (fa_mode attrs) uid (ctx_gid context) W_OK);
          sticky = (\<lambda>attrs. fa_mode attrs AND ucast S_ISVTX \<noteq> 0 \<and> uid \<noteq> 0 \<and> uid \<noteq> fa_uid attrs)
      in if \<not> writes parent_attrs then Err AccessDenied
         else if sticky parent_attrs \<and> uid \<noteq> fa_uid inode_attrs then Err AccessDenied
         else if \<not> writes new_parent_attrs then Err AccessDenied
         else if (case existing_dest_inode_attrs of
                    Some attrs \<Rightarrow> sticky new_parent_attrs \<and> uid \<noteq> fa_uid attrs | None \<Rightarrow> False) then Err AccessDenied
         else if (case existing_dest_inode_attrs of
                    Some attrs \<Rightarrow> fa_kind attrs = Directory \<and> 0 < fa_directory_entries attrs | None \<Rightarrow> False) then Err NotEmpty
         else if fa_kind inode_attrs = Directory \<and> fa_inode parent_attrs \<noteq> fa_inode new_parent_attrs \<and> \<not> writes inode_attrs
         then Err AccessDenied
         else Ok ())"

text \<open>
  The state of the rename is the cluster's and the lock guard: the pairs of inode and lock id that
  are held, a \<^verbatim>\<open>HashSet\<close> as a list without repetitions.
\<close>

type_synonym 'w guarded = "'w \<times> (u64 \<times> u64) list"

definition in_guard :: "('w, 'e, 'a) act \<Rightarrow> ('w guarded, 'e, 'a) act" where
  "in_guard m s = map_option (\<lambda>(r, w). (r, (w, snd s))) (m (fst s))"

definition lock_guarded :: "zerialize \<Rightarrow> 'w cluster \<Rightarrow> u64 \<Rightarrow> ('w guarded, ErrorCode, u64) act" where
  "lock_guarded z cl inode s =
     await (in_guard (lock_inode z cl inode) s) (\<lambda>lock_id s. give (Ok lock_id) (fst s, List.insert (inode, lock_id) (snd s)))"

text \<open>The lookup of the destination, which need not exist.\<close>

definition find_existing :: "zerialize \<Rightarrow> 'w cluster \<Rightarrow> u64 \<Rightarrow> string \<Rightarrow> UserContext \<Rightarrow> ('w, ErrorCode, u64 option) act" where
  "find_existing z cl new_parent new_name context w =
     attempt (tx_lookup z cl new_parent new_name context w) (\<lambda>result.
       case result of
         Inr inode \<Rightarrow> give (Ok (Some inode))
       | Inl error_code \<Rightarrow> if error_code = DoesNotExist then give (Ok None) else give (Err error_code))"

text \<open>The destination link: replaced, with the link count of the inode it named, or created.\<close>

definition rename_destination ::
    "zerialize \<Rightarrow> 'w cluster \<Rightarrow> u64 \<Rightarrow> string \<Rightarrow> UserContext \<Rightarrow> u64 \<Rightarrow> FileKind \<Rightarrow> u64 \<Rightarrow> (u64 \<times> FileOrDirAttrs) option \<Rightarrow> u64 option
      \<Rightarrow> ('w, ErrorCode, unit) act" where
  "rename_destination z cl new_parent new_name context inode kind new_parent_lock_id existing existing_inode_lock_id w =
     (case existing of
        Some (existing_inode, existing_attrs) \<Rightarrow>
          await (tx_replace_link z cl new_parent new_name inode kind new_parent_lock_id context w) (\<lambda>old_inode w.
          await (give (assert_that (old_inode = existing_inode)) w) (\<lambda>_ w.
          if fa_kind existing_attrs = Directory then
            await (give (assert_that (fa_hardlinks existing_attrs = 2)) w) (\<lambda>_.
            decrement_inode z cl old_inode 2 existing_inode_lock_id)
          else decrement_inode z cl old_inode 1 existing_inode_lock_id w))
      | None \<Rightarrow>
          await (tx_propose z cl new_parent
              (Request.CreateLink new_parent new_name inode kind (Some new_parent_lock_id) context) w)
            (\<lambda>response_data. give (and_then (response_or_error z response_data) (\<lambda>_. Ok ()))))"

definition rename_transaction_lock_context ::
    "zerialize \<Rightarrow> 'w cluster \<Rightarrow> u64 \<Rightarrow> string \<Rightarrow> u64 \<Rightarrow> string \<Rightarrow> UserContext \<Rightarrow> ('w guarded, ErrorCode, Response) act" where
  "rename_transaction_lock_context z cl parent name new_parent new_name context s =
     await (lock_guarded z cl parent s) (\<lambda>parent_lock_id s.
     await (if parent \<noteq> new_parent then lock_guarded z cl new_parent s else give (Ok parent_lock_id) s) (\<lambda>new_parent_lock_id s.
     await (in_guard (tx_lookup z cl parent name context) s) (\<lambda>inode s.
     await (lock_guarded z cl inode s) (\<lambda>inode_lock_id s.
     await (in_guard (find_existing z cl new_parent new_name context) s) (\<lambda>existing_dest_inode s.
     await (case existing_dest_inode of
              Some existing \<Rightarrow> await (lock_guarded z cl existing s) (\<lambda>lock_id. give (Ok (Some lock_id)))
            | None \<Rightarrow> give (Ok None) s) (\<lambda>existing_inode_lock_id s.
     await (in_guard (getattrs z cl parent) s) (\<lambda>parent_attrs s.
     await (in_guard (getattrs z cl new_parent) s) (\<lambda>new_parent_attrs s.
     await (in_guard (getattrs z cl inode) s) (\<lambda>inode_attrs s.
     await (case existing_dest_inode of
              Some existing \<Rightarrow> await (in_guard (getattrs z cl existing) s) (\<lambda>attrs. give (Ok (Some (existing, attrs))))
            | None \<Rightarrow> give (Ok None) s) (\<lambda>existing s.
     await (give (rename_check_access parent_attrs new_parent_attrs inode_attrs (map_option snd existing) context) s) (\<lambda>_ s.
     await (in_guard (rename_destination z cl new_parent new_name context inode (fa_kind inode_attrs) new_parent_lock_id
              existing existing_inode_lock_id) s) (\<lambda>_ s.
     await (in_guard (tx_remove_link z cl parent name (Some (inode, fa_uid inode_attrs)) (Some parent_lock_id) context) s) (\<lambda>_ s.
     await (if fa_kind inode_attrs = Directory then in_guard (tx_update_parent z cl inode new_parent (Some inode_lock_id)) s
            else give (Ok ()) s) (\<lambda>_ s.
     await (in_guard (tx_update_metadata_changed_time z cl inode (Some inode_lock_id)) s) (\<lambda>_.
     give (Ok Response.Empty))))))))))))))))"

primrec unlock_all :: "zerialize \<Rightarrow> 'w cluster \<Rightarrow> (u64 \<times> u64) list \<Rightarrow> ('w, ErrorCode, unit) act" where
  "unlock_all z cl [] w = give (Ok ()) w"
| "unlock_all z cl (l # to_unlock) w =
     await (map_option (\<lambda>(r, w). (unwrap r, w)) (unlock_inode z cl (fst l) (snd l) w)) (\<lambda>_. unlock_all z cl to_unlock)"

text \<open>\<open>hash_order\<close> is the order in which the lock guard is drained.\<close>

definition rename_transaction ::
    "zerialize \<Rightarrow> ((u64 \<times> u64) list \<Rightarrow> (u64 \<times> u64) list) \<Rightarrow> 'w cluster \<Rightarrow> u64 \<Rightarrow> string \<Rightarrow> u64 \<Rightarrow> string \<Rightarrow> UserContext
      \<Rightarrow> ('w, ErrorCode, Response) act" where
  "rename_transaction z hash_order cl parent name new_parent new_name context w =
     Option.bind (rename_transaction_lock_context z cl parent name new_parent new_name context (w, [])) (\<lambda>(result, w, locks).
       if result = Panic then Some (Panic, w)
       else await (unlock_all z cl (hash_order locks) w) (\<lambda>_. give result))"

subsection \<open>Removing a link\<close>

text \<open>
  The loops of \<^verbatim>\<open>rmdir_transaction\<close> and \<^verbatim>\<open>unlink_transaction\<close>, which differ in the check that the
  directory is empty: lock the inode, look its owner up, try to remove the link, unlock, and start
  again when the link names another inode by now.
\<close>

partial_function (option) remove_loop ::
    "bool \<Rightarrow> zerialize \<Rightarrow> 'w cluster \<Rightarrow> u64 \<Rightarrow> string \<Rightarrow> UserContext \<Rightarrow> u64 \<Rightarrow> ('w, ErrorCode, u64) act" where
  "remove_loop only_empty z cl parent name context inode w =
     await (lock_inode z cl inode w) (\<lambda>lock_id w.
     attempt (getattrs z cl inode w) (\<lambda>result w.
       case result of
         Inl error_code \<Rightarrow> await (unlock_inode z cl inode lock_id w) (\<lambda>_. give (Err error_code))
       | Inr attrs \<Rightarrow>
           if only_empty \<and> 0 < fa_directory_entries attrs
           then await (unlock_inode z cl inode lock_id w) (\<lambda>_. give (Err NotEmpty))
           else
             attempt (tx_remove_link z cl parent name (Some (inode, fa_uid attrs)) None context w) (\<lambda>removed w.
               case removed of
                 Inl error_code \<Rightarrow> await (unlock_inode z cl inode lock_id w) (\<lambda>_. give (Err error_code))
               | Inr found \<Rightarrow>
                   await (unlock_inode z cl inode lock_id w) (\<lambda>_ w.
                   if snd found then give (Ok (fst found)) w
                   else remove_loop only_empty z cl parent name context (fst found) w))))"

definition propose_checked :: "zerialize \<Rightarrow> 'w cluster \<Rightarrow> u64 \<Rightarrow> Request \<Rightarrow> ('w, ErrorCode, unit) act" where
  "propose_checked z cl inode request w =
     await (tx_propose z cl inode request w)
       (\<lambda>response_data. give (and_then (response_or_error z response_data) (\<lambda>_. Ok ())))"

definition rmdir_transaction ::
    "zerialize \<Rightarrow> 'w cluster \<Rightarrow> u64 \<Rightarrow> string \<Rightarrow> UserContext \<Rightarrow> ('w, ErrorCode, Response) act" where
  "rmdir_transaction z cl parent name context w =
     await (tx_lookup z cl parent name context w) (\<lambda>inode w.
     await (remove_loop True z cl parent name context inode w) (\<lambda>inode w.
     await (getattrs z cl inode w) (\<lambda>attrs w.
     await (give (assert_that (fa_hardlinks attrs = 2)) w) (\<lambda>_ w.
     await (propose_checked z cl inode (Request.DecrementInode inode 2 None) w) (\<lambda>_. give (Ok Response.Empty))))))"

definition unlink_transaction ::
    "zerialize \<Rightarrow> 'w cluster \<Rightarrow> u64 \<Rightarrow> string \<Rightarrow> UserContext \<Rightarrow> ('w, ErrorCode, Response) act" where
  "unlink_transaction z cl parent name context w =
     await (tx_remove_link z cl parent name None None context w) (\<lambda>(link_inode, complete) w.
     await (if complete then give (Ok link_inode) w
            else remove_loop False z cl parent name context link_inode w) (\<lambda>inode w.
     await (propose_checked z cl inode (Request.DecrementInode inode 1 None) w) (\<lambda>_. give (Ok Response.Empty))))"

subsection \<open>Creating a link\<close>

text \<open>\<open>raft_group\<close> is the group that \<^verbatim>\<open>random_range\<close> picks.\<close>

definition create_transaction ::
    "zerialize \<Rightarrow> u16 \<Rightarrow> 'w cluster \<Rightarrow> u64 \<Rightarrow> string \<Rightarrow> u32 \<Rightarrow> u32 \<Rightarrow> u16 \<Rightarrow> FileKind \<Rightarrow> ('w, ErrorCode, Response) act" where
  "create_transaction z raft_group cl parent name uid gid mode kind w =
     await (await_map_err (\<lambda>_. Uncategorized)
         (cl_remote_propose_to_group cl raft_group (Request.CreateInode raft_group parent uid gid mode kind) w))
       (\<lambda>create_response_data w.
     await (give (and_then (response_or_error z create_response_data) (\<lambda>response. expect (as_attr_response response))) w)
       (\<lambda>created w.
     attempt (tx_propose z cl parent
         (Request.CreateLink parent name (em_inode created) kind None \<lparr>ctx_uid = uid, ctx_gid = gid\<rparr>) w) (\<lambda>result w.
       case result of
         Inr _ \<Rightarrow> give (Ok (Response.EntryMetadata created)) w
       | Inl error_code \<Rightarrow>
           await (propose_checked z cl (em_inode created)
               (Request.DecrementInode (em_inode created) (em_hard_links created) None) w)
             (\<lambda>_. give (Err error_code)))))"

definition hardlink_transaction ::
    "zerialize \<Rightarrow> 'w cluster \<Rightarrow> u64 \<Rightarrow> u64 \<Rightarrow> string \<Rightarrow> UserContext \<Rightarrow> ('w, ErrorCode, Response) act" where
  "hardlink_transaction z cl inode new_parent new_name context w =
     await (tx_propose z cl inode (Request.HardlinkIncrement inode) w) (\<lambda>response_data w.
     await (give (and_then (response_or_error z response_data) (\<lambda>response.
         case response of
           WireResponse.HardlinkTransaction rollback_last_modified attrs \<Rightarrow> Ok (rollback_last_modified, attrs)
         | _ \<Rightarrow> Err BadResponse)) w) (\<lambda>(rollback, attrs) w.
     let rollback_request = Request.HardlinkRollback inode rollback in
     attempt (tx_propose z cl new_parent (Request.CreateLink new_parent new_name inode (em_kind attrs) None context) w)
       (\<lambda>result w.
         case result of
           Inr response_data \<Rightarrow>
             attempt (give (response_or_error z response_data) w) (\<lambda>checked w.
               await (case checked of
                        Inr _ \<Rightarrow> give (Ok ()) w
                      | Inl _ \<Rightarrow> propose_checked z cl inode rollback_request w)
                 (\<lambda>_. give (Ok (Response.EntryMetadata attrs))))
         | Inl error_code \<Rightarrow>
             await (propose_checked z cl inode rollback_request w) (\<lambda>_. give (Err error_code)))))"

end
