(* ===== verification/Router.thy ===== *)
theory Router
  imports Group_Manager Transaction_Coordinator
begin

text \<open>
  Serving requests: \<^verbatim>\<open>src/src/storage/message_handlers/router.rs\<close>,
  \<^verbatim>\<open>src/src/storage/message_handlers/fsck_handler.rs\<close> and the connection handler of
  \<^verbatim>\<open>src/src/storage/storage_node.rs\<close>.

  The state is the \<open>world\<close>: the connection pools, the local groups, and \<open>w_net\<close> for everything
  else (streams, other nodes). What the handlers use of libraries and of the run-time system are the fields
  of \<open>runtime\<close>. A call on a local group acts on its node at once; \<open>rt_receive\<close> and \<open>rt_synced\<close>
  then wait on the channel that the call returned, while other tasks go on (the error that
  \<^verbatim>\<open>propose_raw\<close> and \<^verbatim>\<open>sync\<close> return for a channel that is dropped is one of their results).
\<close>

section \<open>The world of a node\<close>

record ('r, 'k, 'c, 's) world = "'c pools" +
  w_raft :: "('r, 'k) LocalRaftGroupManager"
  w_net :: 's

record ('m, 'r, 'k, 'c, 's) runtime =
  rt_zerialize :: zerialize
  rt_v6_hash :: "128 word \<Rightarrow> u16 \<Rightarrow> u64"
  rt_raxos :: "('m, 'r, 'k) raxos"
  rt_alive :: "Sender \<Rightarrow> bool"
  rt_clock :: "nat \<Rightarrow> clock"
  rt_now :: u64
  rt_receive :: "u16 \<Rightarrow> Sender \<Rightarrow> (('r, 'k, 'c, 's) world, ErrorCode, Response) act"
  rt_synced :: "u16 \<Rightarrow> Sender \<Rightarrow> (('r, 'k, 'c, 's) world, ErrorCode, unit) act"
  rt_tcp :: "('c, ('r, 'k, 'c, 's) world) tcp"
  rt_sha256 :: "bytes \<Rightarrow> bytes"
  rt_walk :: "string \<Rightarrow> (string \<rightharpoonup> bytes) \<Rightarrow> (io_error, string \<times> bool) res list"
  rt_hash_order :: "(u64 \<times> u64) list \<Rightarrow> (u64 \<times> u64) list"
  rt_random_group :: u16

section \<open>Calls on a local group\<close>

definition call_group ::
    "u16 \<Rightarrow> (('r, 'k, TcpPeerClient) node \<Rightarrow> ((ErrorCode, 'a) res \<times> ('r, 'k, TcpPeerClient) node) option)
      \<Rightarrow> (('r, 'k, 'c, 's) world, ErrorCode, 'a) act" where
  "call_group g call w =
     (case map_of (gm_groups (w_raft w)) g of
        None \<Rightarrow> Some (Panic, w)
      | Some n \<Rightarrow>
          map_option (\<lambda>(r, n). (r, w\<lparr>w_raft := (w_raft w)\<lparr>gm_groups := AList.update g n (gm_groups (w_raft w))\<rparr>\<rparr>))
            (call n))"

definition ask_group ::
    "u16 \<Rightarrow> (('r, 'k, TcpPeerClient) node \<Rightarrow> (ErrorCode, 'a) res) \<Rightarrow> (('r, 'k, 'c, 's) world, ErrorCode, 'a) act" where
  "ask_group g query w =
     (case map_of (gm_groups (w_raft w)) g of None \<Rightarrow> Some (Panic, w) | Some n \<Rightarrow> Some (query n, w))"

definition group_propose_raw ::
    "('m, 'r, 'k, 'c, 's) runtime \<Rightarrow> bytes \<Rightarrow> u16 \<Rightarrow> (('r, 'k, 'c, 's) world, ErrorCode, Response) act" where
  "group_propose_raw rt data g w =
     await (call_group g (propose_raw (rt_raxos rt) (rt_zerialize rt) (rt_alive rt) (rt_clock rt) (rt_now rt) data) w)
       (rt_receive rt g)"

definition group_read_barrier ::
    "('m, 'r, 'k, 'c, 's) runtime \<Rightarrow> u16 \<Rightarrow> (('r, 'k, 'c, 's) world, ErrorCode, unit) act" where
  "group_read_barrier rt g w =
     await (call_group g (read_barrier (rt_raxos rt) (rt_zerialize rt) (rt_alive rt) (rt_clock rt) (rt_now rt)) w) (\<lambda>s w.
     await (rt_receive rt g s w) (\<lambda>_. give (Ok ())))"

definition group_sync ::
    "('m, 'r, 'k, 'c, 's) runtime \<Rightarrow> u64 \<Rightarrow> u16 \<Rightarrow> (('r, 'k, 'c, 's) world, ErrorCode, unit) act" where
  "group_sync rt index g w =
     await (call_group g (\<lambda>n. Some (sync index n)) w) (\<lambda>waiting.
     case waiting of None \<Rightarrow> give (Ok ()) | Some s \<Rightarrow> rt_synced rt g s)"

definition by_inode ::
    "('m, 'r, 'k, 'c, 's) runtime \<Rightarrow> u64 \<Rightarrow> (u16 \<Rightarrow> (('r, 'k, 'c, 's) world, ErrorCode, 'a) act)
      \<Rightarrow> (('r, 'k, 'c, 's) world, ErrorCode, 'a) act" where
  "by_inode rt inode call w = await (give (lookup_by_inode (rt_v6_hash rt) (w_raft w) inode) w) call"

definition by_raft_group ::
    "u16 \<Rightarrow> (u16 \<Rightarrow> (('r, 'k, 'c, 's) world, ErrorCode, 'a) act) \<Rightarrow> (('r, 'k, 'c, 's) world, ErrorCode, 'a) act" where
  "by_raft_group raft_group call w = await (give (lookup_by_raft_group (w_raft w) raft_group) w) call"

text \<open>\<^verbatim>\<open>raft.lookup_by_inode(inode).read_barrier().await?\<close>, then a query of the file storage.\<close>

definition read_after_barrier ::
    "('m, 'r, 'k, 'c, 's) runtime \<Rightarrow> u64 \<Rightarrow> (TcpPeerClient file_storage \<Rightarrow> (ErrorCode, Response) res)
      \<Rightarrow> (('r, 'k, 'c, 's) world, ErrorCode, Response) act" where
  "read_after_barrier rt inode query w =
     await (by_inode rt inode (group_read_barrier rt) w) (\<lambda>_.
     by_inode rt inode (\<lambda>g. ask_group g (\<lambda>n. query (cn_file_storage n))))"

text \<open>
  The read of the file storage. It reads the local share, asks the other members of the group for
  theirs, and puts them together (\<open>fs_read\<close>, on the storage as it was when the read began and with
  the answers that came back).
\<close>

definition read_peers :: "TcpPeerClient file_storage \<Rightarrow> u64 \<Rightarrow> u64 \<Rightarrow> u32 \<Rightarrow> TcpPeerClient list" where
  "read_peers fs inode offset read_size =
     (case (read_raw (fs_data fs) inode offset read_size,
            lookup_peers (ds_peers (fs_data fs)) (filter (\<lambda>i. i \<noteq> ds_local_node_id (fs_data fs)) (ds_node_ids (fs_data fs)))) of
        (Ok _, Ok clients) \<Rightarrow> clients
      | _ \<Rightarrow> [])"

definition group_read ::
    "('m, 'r, 'k, 'c, 's) runtime \<Rightarrow> u64 \<Rightarrow> u64 \<Rightarrow> u32 \<Rightarrow> CommitId \<Rightarrow> u16
      \<Rightarrow> (('r, 'k, 'c, 's) world, ErrorCode, Response) act" where
  "group_read rt inode offset read_size required_commit g w =
     await (ask_group g (\<lambda>n. Ok (cn_file_storage n)) w) (\<lambda>fs w.
     let clients = read_peers fs inode offset read_size in
     await (join_all (map (\<lambda>p. pc_read_raw (rt_zerialize rt) (rt_tcp rt) p inode offset read_size required_commit) clients) w) (\<lambda>answers.
     give (fs_read (\<lambda>p _ _ _ _. the (map_of (zip clients answers) p)) fs inode offset read_size required_commit)))"

section \<open>Transactions\<close>

text \<open>What the coordinator reaches: the local groups, and the clients of all groups.\<close>

definition cluster_of ::
    "('m, 'r, 'k, 'c, 's) runtime \<Rightarrow> ('r, 'k) LocalRaftGroupManager \<Rightarrow> RemoteRaftGroups \<Rightarrow> ('r, 'k, 'c, 's) world cluster" where
  "cluster_of rt raft remote =
     \<lparr>cl_inode_stored_locally = inode_stored_locally (rt_v6_hash rt) raft,
      cl_local_propose = (\<lambda>inode request. by_inode rt inode (group_propose_raw rt (encode_request (rt_zerialize rt) request))),
      cl_local_read_barrier = (\<lambda>inode. by_inode rt inode (group_read_barrier rt)),
      cl_local_getattr = (\<lambda>inode w. and_then (lookup_by_inode (rt_v6_hash rt) (w_raft w) inode) (\<lambda>g.
        and_then (expect (map_of (gm_groups (w_raft w)) g)) (\<lambda>n. fs_getattr (cn_file_storage n) inode))),
      cl_local_lookup = (\<lambda>parent name context w. and_then (lookup_by_inode (rt_v6_hash rt) (w_raft w) parent) (\<lambda>g.
        and_then (expect (map_of (gm_groups (w_raft w)) g)) (\<lambda>n. fs_lookup (cn_file_storage n) parent name context))),
      cl_remote_propose = rr_propose (rt_zerialize rt) (rt_tcp rt) remote,
      cl_remote_propose_to_group = propose_to_specific_group (rt_zerialize rt) (rt_tcp rt) remote,
      cl_remote_forward_request = rr_forward_request (rt_zerialize rt) (rt_tcp rt) remote\<rparr>"

section \<open>Checking the file system\<close>

text \<open>A barrier and a checksum for each local group.\<close>

primrec local_checksums ::
    "('m, 'r, 'k, 'c, 's) runtime \<Rightarrow> u16 list \<Rightarrow> (u16 \<times> bytes) list
      \<Rightarrow> (('r, 'k, 'c, 's) world, ErrorCode, (u16 \<times> bytes) list) act" where
  "local_checksums rt [] checksums w = give (Ok checksums) w"
| "local_checksums rt (g # rest) checksums w =
     await (group_read_barrier rt g w) (\<lambda>_ w.
     await (ask_group g (\<lambda>n. map_ok (Pair (cn_raft_group_id n)) (cn_local_data_checksum (rt_sha256 rt) (rt_walk rt) n)) w)
       (\<lambda>(rgroup_id, checksum). local_checksums rt rest (AList.update rgroup_id checksum checksums)))"

text \<open>The comparison with the answers of the peers, the entries of one answer and then all of them.\<close>

primrec compare_checksums :: "(u16 \<times> bytes) list \<Rightarrow> (u16 \<times> bytes) list \<Rightarrow> (ErrorCode, (u16 \<times> bytes) list) res" where
  "compare_checksums [] all_checksums = Ok all_checksums"
| "compare_checksums (c # cs) all_checksums =
     (case map_of all_checksums (fst c) of
        None \<Rightarrow> compare_checksums cs (AList.update (fst c) (snd c) all_checksums)
      | Some checksum \<Rightarrow> if checksum \<noteq> snd c then Err Corrupted else compare_checksums cs all_checksums)"

primrec compare_peers ::
    "(ErrorCode, (u16 \<times> bytes) list) res list \<Rightarrow> (u16 \<times> bytes) list \<Rightarrow> (ErrorCode, Response) res" where
  "compare_peers [] all_checksums = Ok Response.Empty"
| "compare_peers (p # ps) all_checksums =
     and_then p (\<lambda>peer_rgroup_checksums.
     and_then (compare_checksums peer_rgroup_checksums all_checksums) (compare_peers ps))"

text \<open>A new client for each peer.\<close>

primrec new_clients ::
    "SocketAddr list \<Rightarrow> ('c, 'z) pools_scheme \<Rightarrow> TcpPeerClient list \<times> ('c, 'z) pools_scheme" where
  "new_clients [] w = ([], w)"
| "new_clients (peer # prs) w =
     (let (client, w) = TcpPeerClient_new peer w; (clients, w) = new_clients prs w in (client # clients, w))"

definition fsck ::
    "('m, 'r, 'k, 'c, 's) runtime \<Rightarrow> LocalContext \<Rightarrow> (('r, 'k, 'c, 's) world, ErrorCode, Response) act" where
  "fsck rt c w =
     await (local_checksums rt (all_groups (w_raft w)) [] w) (\<lambda>local w.
     let (clients, w) = new_clients (lc_peers c) w in
     await (join_all (map (filesystem_checksum (rt_zerialize rt) (rt_tcp rt)) clients) w) (\<lambda>peer_checksums.
     give (compare_peers peer_checksums local)))"

definition checksum_request ::
    "('m, 'r, 'k, 'c, 's) runtime \<Rightarrow> (('r, 'k, 'c, 's) world, ErrorCode, Response) act" where
  "checksum_request rt w =
     await (local_checksums rt (all_groups (w_raft w)) [] w) (\<lambda>checksums. give (Ok (Response.Checksums checksums)))"

section \<open>The router\<close>

definition to_error_response :: "zerialize \<Rightarrow> ErrorCode \<Rightarrow> bytes" where
  "to_error_response z error_code = encode_response z (Response.ErrorOccurred error_code)"

definition can_handle_locally ::
    "(128 word \<Rightarrow> u16 \<Rightarrow> u64) \<Rightarrow> RequestMetaInfo \<Rightarrow> ('r, 'k) LocalRaftGroupManager \<Rightarrow> (ErrorCode, bool) res" where
  "can_handle_locally v6_hash request_meta local_rafts =
     (case meta_distribution_requirement request_meta of
        Any \<Rightarrow> Ok True
      | TransactionCoordinator \<Rightarrow> Ok True
      | DistributionRequirement.Node \<Rightarrow> Ok True
      | RaftGroup \<Rightarrow>
          (case meta_raft_group request_meta of
             Some g \<Rightarrow> Ok (has_raft_group local_rafts g)
           | None \<Rightarrow> and_then (expect (meta_inode request_meta)) (inode_stored_locally v6_hash local_rafts)))"

definition forward_request ::
    "('m, 'r, 'k, 'c, 's) runtime \<Rightarrow> RemoteRaftGroups \<Rightarrow> bytes \<Rightarrow> RequestMetaInfo
      \<Rightarrow> (('r, 'k, 'c, 's) world, ErrorCode, bytes) act" where
  "forward_request rt rafts request meta w =
     attempt (forward_raw_request (rt_tcp rt) rafts request meta w) (\<lambda>result.
       case result of
         Inr response \<Rightarrow> give (Ok response)
       | Inl _ \<Rightarrow> give (Ok (to_error_response (rt_zerialize rt) Uncategorized)))"

primrec barrier_all ::
    "('m, 'r, 'k, 'c, 's) runtime \<Rightarrow> u16 list \<Rightarrow> (('r, 'k, 'c, 's) world, ErrorCode, unit) act" where
  "barrier_all rt [] w = give (Ok ()) w"
| "barrier_all rt (g # rest) w = await (group_read_barrier rt g w) (\<lambda>_. barrier_all rt rest)"

text \<open>The arms of \<^verbatim>\<open>match request\<close>.\<close>

definition handle_request ::
    "('m, 'r, 'k, 'c, 's) runtime \<Rightarrow> RemoteRaftGroups \<Rightarrow> LocalContext \<Rightarrow> bytes \<Rightarrow> Request
      \<Rightarrow> (('r, 'k, 'c, 's) world, ErrorCode, Response) act" where
  "handle_request rt remote_rafts c request_data request w =
     (let propose_inode = (\<lambda>inode. by_inode rt inode (group_propose_raw rt request_data) w);
         z = rt_zerialize rt;
         cl = cluster_of rt (w_raft w) remote_rafts
     in case request of
       Request.FilesystemReady \<Rightarrow>
         await (barrier_all rt (all_groups (w_raft w)) w) (\<lambda>_ w.
         await (await_map_err (\<lambda>_. Uncategorized) (wait_for_ready z (rt_tcp rt) remote_rafts w)) (\<lambda>_.
         give (Ok Response.Empty)))
     | Request.FilesystemInformation \<Rightarrow>
         (case all_groups (w_raft w) of
            [] \<Rightarrow> give Panic w
          | g # _ \<Rightarrow> ask_group g (\<lambda>n. Ok fs_statfs) w)
     | Request.FilesystemCheck \<Rightarrow> fsck rt c w
     | Request.FilesystemChecksum \<Rightarrow> checksum_request rt w
     | Request.CreateInode raft_group _ _ _ _ _ \<Rightarrow> by_raft_group raft_group (group_propose_raw rt request_data) w
     | Request.CreateLink inode _ _ _ _ _ \<Rightarrow> propose_inode inode
     | Request.RemoveLink inode _ _ _ _ \<Rightarrow> propose_inode inode
     | Request.ReplaceLink inode _ _ _ _ _ \<Rightarrow> propose_inode inode
     | Request.HardlinkRollback inode _ \<Rightarrow> propose_inode inode
     | Request.HardlinkIncrement inode \<Rightarrow> propose_inode inode
     | Request.DecrementInode inode _ _ \<Rightarrow> propose_inode inode
     | Request.UpdateParent inode _ _ \<Rightarrow> propose_inode inode
     | Request.UpdateMetadataChangedTime inode _ \<Rightarrow> propose_inode inode
     | Request.Write inode _ _ \<Rightarrow> propose_inode inode
     | Request.Lock inode \<Rightarrow> propose_inode inode
     | Request.Unlock inode _ \<Rightarrow> propose_inode inode
     | Request.Fsync inode \<Rightarrow> propose_inode inode
     | Request.Chmod inode _ _ \<Rightarrow> propose_inode inode
     | Request.Chown inode _ _ _ \<Rightarrow> propose_inode inode
     | Request.Truncate inode _ _ \<Rightarrow> propose_inode inode
     | Request.SetXattr inode _ _ _ \<Rightarrow> propose_inode inode
     | Request.RemoveXattr inode _ _ \<Rightarrow> propose_inode inode
     | Request.Utimens inode _ _ _ \<Rightarrow> propose_inode inode
     | Request.Unlink parent name context \<Rightarrow> unlink_transaction z cl parent name context w
     | Request.Read inode offset read_size \<Rightarrow>
         await (by_inode rt inode (group_read_barrier rt) w) (\<lambda>_ w.
         await (by_inode rt inode (\<lambda>g. ask_group g (\<lambda>n. Ok (get_latest_local_commit n))) w) (\<lambda>latest_commit.
         by_inode rt inode (group_read rt inode offset read_size \<lparr>commit_term = 0, commit_index = latest_commit\<rparr>)))
     | Request.ReadRaw required_commit inode offset read_size \<Rightarrow>
         await (by_inode rt inode (group_sync rt (commit_index required_commit)) w) (\<lambda>_.
         by_inode rt inode (\<lambda>g. ask_group g (\<lambda>n. fs_read_raw (cn_file_storage n) inode offset read_size)))
     | Request.Rmdir parent name context \<Rightarrow> rmdir_transaction z cl parent name context w
     | Request.Mkdir parent name uid gid mode \<Rightarrow>
         create_transaction z (rt_random_group rt) cl parent name uid gid mode Directory w
     | Request.Create parent name uid gid mode kind \<Rightarrow>
         create_transaction z (rt_random_group rt) cl parent name uid gid mode kind w
     | Request.Lookup parent name context \<Rightarrow> read_after_barrier rt parent (\<lambda>fs. fs_lookup fs parent name context) w
     | Request.GetXattr inode key context \<Rightarrow> read_after_barrier rt inode (\<lambda>fs. fs_get_xattr fs inode key context) w
     | Request.Hardlink inode new_parent new_name context \<Rightarrow>
         hardlink_transaction z cl inode new_parent new_name context w
     | Request.Rename parent name new_parent new_name context \<Rightarrow>
         rename_transaction z (rt_hash_order rt) cl parent name new_parent new_name context w
     | Request.GetAttr inode \<Rightarrow> read_after_barrier rt inode (\<lambda>fs. fs_getattr fs inode) w
     | Request.ListDir inode \<Rightarrow> read_after_barrier rt inode (\<lambda>fs. fs_readdir fs inode) w
     | Request.ListXattrs inode \<Rightarrow> read_after_barrier rt inode (\<lambda>fs. fs_list_xattrs fs inode) w
     | Request.LatestCommit raft_group \<Rightarrow>
         by_raft_group raft_group (\<lambda>g. ask_group g (\<lambda>n. Ok (Response.LatestCommit 0 (get_latest_local_commit n)))) w
     | Request.RaftGroupLeader raft_group \<Rightarrow>
         by_raft_group raft_group (\<lambda>g w.
           await (group_read_barrier rt g w) (\<lambda>_ w.
           await (ask_group g (get_leader (rt_raxos rt)) w) (\<lambda>leader. give (Ok (Response.NodeId leader))))) w
     | Request.ConsensusMessage raft_group data \<Rightarrow>
         by_raft_group raft_group (\<lambda>g w.
           await (call_group g (apply_message (rt_raxos rt) z (rt_alive rt) (rt_clock rt) (rt_now rt) data) w) (\<lambda>_.
           give (Ok Response.Empty))) w)"

definition request_router_inner ::
    "('m, 'r, 'k, 'c, 's) runtime \<Rightarrow> RemoteRaftGroups \<Rightarrow> LocalContext \<Rightarrow> bytes
      \<Rightarrow> (('r, 'k, 'c, 's) world, ErrorCode, Response) act" where
  "request_router_inner rt remote_rafts c request_data w =
     await (give (expect (decode_request (rt_zerialize rt) request_data)) w)
       (handle_request rt remote_rafts c request_data)"

definition request_router ::
    "('m, 'r, 'k, 'c, 's) runtime \<Rightarrow> RemoteRaftGroups \<Rightarrow> LocalContext \<Rightarrow> bytes
      \<Rightarrow> (('r, 'k, 'c, 's) world, ErrorCode, bytes) act" where
  "request_router rt remote_rafts c request_data w =
     await (give (expect (decode_request (rt_zerialize rt) request_data)) w) (\<lambda>request w.
     let meta = meta_info request in
     await (give (can_handle_locally (rt_v6_hash rt) meta (w_raft w)) w) (\<lambda>local w.
     if \<not> local then forward_request rt remote_rafts request_data meta w
     else
       attempt (request_router_inner rt remote_rafts c request_data w) (\<lambda>result.
         case result of
           Inr response \<Rightarrow> give (Ok (encode_response (rt_zerialize rt) response))
         | Inl error_code \<Rightarrow> give (Ok (to_error_response (rt_zerialize rt) error_code)))))"

text \<open>The answer of the router to a request that it handles itself.\<close>

definition encode_result :: "zerialize \<Rightarrow> (ErrorCode, Response) res \<Rightarrow> (ErrorCode, bytes) res" where
  "encode_result z result =
     (case result of
        Ok response \<Rightarrow> Ok (encode_response z response)
      | Err error_code \<Rightarrow> Ok (to_error_response z error_code)
      | Panic \<Rightarrow> Panic)"

lemma request_router_local:
  assumes "decode_request (rt_zerialize rt) data = Some request"
    and "can_handle_locally (rt_v6_hash rt) (meta_info request) (w_raft w) = Ok True"
  shows "request_router rt remote_rafts c data w =
    map_option (\<lambda>(r, v). (encode_result (rt_zerialize rt) r, v)) (handle_request rt remote_rafts c data request w)"
  using assms
  by (cases "handle_request rt remote_rafts c data request w"; cases "fst (the (handle_request rt remote_rafts c data request w))")
    (auto simp: request_router_def request_router_inner_def encode_result_def attempt_def split_beta)

section \<open>A connection\<close>

text \<open>
  The loop of a connection over the frames that arrive on it (\<^verbatim>\<open>length_delimited\<close> cuts the stream
  into them): each is answered by a frame, until the stream ends or fails.
\<close>

primrec connection_handler ::
    "('m, 'r, 'k, 'c, 's) runtime \<Rightarrow> RemoteRaftGroups \<Rightarrow> LocalContext \<Rightarrow> 'c \<Rightarrow> (io_error, bytes) res list
      \<Rightarrow> (('r, 'k, 'c, 's) world, ErrorCode, unit) act" where
  "connection_handler rt remote_rafts c socket [] w = give (Ok ()) w"
| "connection_handler rt remote_rafts c socket (f # frames) w =
     (case f of
        Err _ \<Rightarrow> give (Ok ()) w
      | Panic \<Rightarrow> give Panic w
      | Ok bytes \<Rightarrow>
          await (request_router rt remote_rafts c bytes w) (\<lambda>response w.
          attempt (tcp_write_all (rt_tcp rt) socket (frame response) w) (\<lambda>written.
            case written of
              Inl _ \<Rightarrow> give (Ok ())
            | Inr _ \<Rightarrow> connection_handler rt remote_rafts c socket frames)))"

end
