(* ===== verification/Coordinator_Laws.thy ===== *)
theory Coordinator_Laws
  imports Transaction_Coordinator
begin

text \<open>
  The transactions release what they lock. The contract \<open>lock_accounting\<close> says what the answers
  to lock and unlock requests mean for the locks that a transaction holds; under it, every
  transaction that ends without a panic holds the locks it held before, on every path.
\<close>

section \<open>The contract\<close>

fun is_lock_change :: "Request \<Rightarrow> bool" where
  "is_lock_change (Request.Lock _) = True"
| "is_lock_change (Request.Unlock _ _) = True"
| "is_lock_change _ = False"

text \<open>
  \<open>mine w\<close> are the locks that the transaction holds in state \<open>w\<close>, as pairs of inode and lock id;
  \<open>ok\<close> is an invariant of the states. A granted lock is a new pair; an unlock of a lock that is
  held is answered, and removes it; nothing else changes the locks of the transaction.
\<close>

locale lock_accounting =
  fixes z :: zerialize
    and cl :: "'w cluster"
    and ok :: "'w \<Rightarrow> bool"
    and mine :: "'w \<Rightarrow> (u64 \<times> u64) set"
  assumes lock_answer: "ok w \<Longrightarrow> outcome (lock_inode z cl i w)
        (\<lambda>k w'. ok w' \<and> (i, k) \<notin> mine w \<and> mine w' = insert (i, k) (mine w)) (\<lambda>w'. ok w' \<and> mine w' = mine w)"
    and unlock_answer: "ok w \<Longrightarrow> (i, k) \<in> mine w \<Longrightarrow> outcome (unlock_inode z cl i k w)
        (\<lambda>_ w'. ok w' \<and> mine w' = mine w - {(i, k)}) (\<lambda>_. False)"
    and other_requests: "ok w \<Longrightarrow> \<not> is_lock_change r \<Longrightarrow>
        outcome (tx_propose z cl i r w) (\<lambda>_ w'. ok w' \<and> mine w' = mine w) (\<lambda>w'. ok w' \<and> mine w' = mine w)"
    and create_requests: "ok w \<Longrightarrow>
        outcome (cl_remote_propose_to_group cl g (Request.CreateInode g parent uid gid mode kind) w) (\<lambda>_ w'. ok w' \<and> mine w' = mine w) (\<lambda>w'. ok w' \<and> mine w' = mine w)"
    and attribute_reads: "ok w \<Longrightarrow>
        outcome (getattrs z cl i w) (\<lambda>_ w'. ok w' \<and> mine w' = mine w) (\<lambda>w'. ok w' \<and> mine w' = mine w)"
    and name_reads: "ok w \<Longrightarrow>
        outcome (tx_lookup z cl i name c w) (\<lambda>_ w'. ok w' \<and> mine w' = mine w) (\<lambda>w'. ok w' \<and> mine w' = mine w)"
begin

abbreviation same :: "'w \<Rightarrow> 'w \<Rightarrow> bool" where
  "same w w' \<equiv> ok w' \<and> mine w' = mine w"

lemma tx_answer:
  "ok w \<Longrightarrow> \<not> is_lock_change r \<Longrightarrow> outcome (await (tx_propose z cl i r w) (\<lambda>d. give (f d))) (\<lambda>_. same w) (same w)"
  by (rule outcome_await [OF other_requests]) (auto intro: outcome_give)

lemma calls_keep:
  assumes "ok w"
  shows "outcome (tx_replace_link z cl parent name inode kind l c w) (\<lambda>_. same w) (same w)"
    and "outcome (tx_remove_link z cl parent name link lock c w) (\<lambda>_. same w) (same w)"
    and "outcome (tx_update_parent z cl inode parent lock w) (\<lambda>_. same w) (same w)"
    and "outcome (tx_update_metadata_changed_time z cl inode lock w) (\<lambda>_. same w) (same w)"
    and "\<not> is_lock_change r \<Longrightarrow> outcome (propose_checked z cl i r w) (\<lambda>_. same w) (same w)"
  unfolding tx_replace_link_def tx_remove_link_def tx_update_parent_def tx_update_metadata_changed_time_def
    propose_empty_def propose_checked_def
  by (rule tx_answer [OF assms]; simp)+

lemma decrement_keeps:
  assumes "ok w"
  shows "outcome (decrement_inode z cl inode count lock w) (\<lambda>_. same w) (same w)"
proof -
  have "outcome (tx_propose z cl inode (Request.DecrementInode inode count lock) w) (\<lambda>_. same w) (same w)"
    using assms by (rule other_requests) simp
  then show ?thesis
    unfolding decrement_inode_def
    by (cases "tx_propose z cl inode (Request.DecrementInode inode count lock) w" rule: option.exhaust;
        cases "fst (the (tx_propose z cl inode (Request.DecrementInode inode count lock) w))")
      (auto simp: split_beta intro!: outcome_give)
qed

lemma find_existing_keeps: "ok w \<Longrightarrow> outcome (find_existing z cl parent name c w) (\<lambda>_. same w) (same w)"
  unfolding find_existing_def by (rule outcome_attempt [OF name_reads]) (auto split: if_splits)

lemma rename_destination_keeps:
  assumes "ok w"
  shows "outcome (rename_destination z cl parent name c inode kind l existing el w) (\<lambda>_. same w) (same w)"
proof (cases existing)
  case None
  show ?thesis
    unfolding rename_destination_def None option.case by (rule tx_answer [OF assms]) simp
next
  case (Some ea)
  obtain e a where ea: "ea = (e, a)" by (cases ea)
  have dec: "outcome (decrement_inode z cl i n el w') (\<lambda>_. same w) (same w)" if "same w w'" for i n w'
    using decrement_keeps [of w' i n el] that by simp
  show ?thesis
    unfolding rename_destination_def Some option.case ea prod.case
    by (rule outcome_await [OF calls_keep(1) [OF assms]], rule outcome_await [where P = "\<lambda>_. same w"])
      (auto intro!: outcome_give outcome_await [where P = "\<lambda>_. same w"] dec)
qed

text \<open>The rename keeps its locks in the guard.\<close>

definition guards :: "(u64 \<times> u64) set \<Rightarrow> 'w guarded \<Rightarrow> bool" where
  "guards M s \<longleftrightarrow> ok (fst s) \<and> distinct (snd s) \<and> set (snd s) \<inter> M = {} \<and> mine (fst s) = M \<union> set (snd s)"

lemma guard_call:
  assumes "outcome (m (fst s)) (\<lambda>_. same (fst s)) (same (fst s))" "guards M s"
  shows "outcome (in_guard m s) (\<lambda>_. guards M) (guards M)"
  using assms by (cases "m (fst s)"; cases "fst (the (m (fst s)))") (auto simp: in_guard_def guards_def split_beta)

lemma guard_lock:
  assumes "guards M s"
  shows "outcome (lock_guarded z cl i s) (\<lambda>_. guards M) (guards M)"
proof -
  have "ok (fst s)" using assms by (simp add: guards_def)
  from lock_answer [OF this, of i] show ?thesis
    using assms unfolding lock_guarded_def in_guard_def
    by (cases "lock_inode z cl i (fst s)"; cases "fst (the (lock_inode z cl i (fst s)))")
      (auto simp: guards_def split_beta distinct_insert)
qed

lemma guard_steps:
  assumes "guards M s"
  shows "outcome (in_guard (getattrs z cl i) s) (\<lambda>_. guards M) (guards M)"
    and "outcome (in_guard (tx_lookup z cl i name c) s) (\<lambda>_. guards M) (guards M)"
    and "outcome (in_guard (find_existing z cl i name c) s) (\<lambda>_. guards M) (guards M)"
    and "outcome (in_guard (rename_destination z cl parent name c inode kind l existing el) s) (\<lambda>_. guards M) (guards M)"
    and "outcome (in_guard (tx_remove_link z cl parent name link lock c) s) (\<lambda>_. guards M) (guards M)"
    and "outcome (in_guard (tx_update_parent z cl i parent lock) s) (\<lambda>_. guards M) (guards M)"
    and "outcome (in_guard (tx_update_metadata_changed_time z cl i lock) s) (\<lambda>_. guards M) (guards M)"
proof -
  have "ok (fst s)" using assms by (simp add: guards_def)
  note k = attribute_reads [OF this] name_reads [OF this] find_existing_keeps [OF this]
    rename_destination_keeps [OF this] calls_keep(2,3,4) [OF this]
  show "outcome (in_guard (getattrs z cl i) s) (\<lambda>_. guards M) (guards M)"
    "outcome (in_guard (tx_lookup z cl i name c) s) (\<lambda>_. guards M) (guards M)"
    "outcome (in_guard (find_existing z cl i name c) s) (\<lambda>_. guards M) (guards M)"
    "outcome (in_guard (rename_destination z cl parent name c inode kind l existing el) s) (\<lambda>_. guards M) (guards M)"
    "outcome (in_guard (tx_remove_link z cl parent name link lock c) s) (\<lambda>_. guards M) (guards M)"
    "outcome (in_guard (tx_update_parent z cl i parent lock) s) (\<lambda>_. guards M) (guards M)"
    "outcome (in_guard (tx_update_metadata_changed_time z cl i lock) s) (\<lambda>_. guards M) (guards M)"
    by (rule guard_call [OF _ assms], rule k)+
qed

lemma rename_context_guards:
  assumes "guards M s"
  shows "outcome (rename_transaction_lock_context z cl parent name new_parent new_name c s) (\<lambda>_. guards M) (guards M)"
  unfolding rename_transaction_lock_context_def
  using assms
  by (auto intro!: outcome_await [where P = "\<lambda>_. guards M"] guard_lock guard_steps outcome_give
      split: option.split)

lemma unlock_all_releases:
  "ok w \<Longrightarrow> distinct ls \<Longrightarrow> set ls \<inter> M = {} \<Longrightarrow> mine w = M \<union> set ls \<Longrightarrow>
   outcome (unlock_all z cl ls w) (\<lambda>_ w'. ok w' \<and> mine w' = M) (\<lambda>_. False)"
proof (induction ls arbitrary: w)
  case (Cons l ls)
  let ?u = "unlock_inode z cl (fst l) (snd l) w"
  have u: "outcome ?u (\<lambda>_ w'. ok w' \<and> mine w' = mine w - {l}) (\<lambda>_. False)"
    using unlock_answer [of w "fst l" "snd l"] Cons.prems by simp
  have "outcome (map_option (\<lambda>(r, w). (unwrap r, w)) ?u) (\<lambda>_ w'. ok w' \<and> mine w' = M \<union> set ls) (\<lambda>_. False)"
    using u Cons.prems(2,3,4) by (cases ?u; cases "fst (the ?u)") (auto simp: split_beta)
  then show ?case
    using Cons.IH Cons.prems(2,3) by (auto intro!: outcome_await)
qed simp

lemma rename_releases:
  assumes "ok w" "\<And>ls. distinct ls \<Longrightarrow> distinct (order ls) \<and> set (order ls) = set ls"
  shows "outcome (rename_transaction z order cl parent name new_parent new_name c w) (\<lambda>_. same w) (same w)"
proof -
  let ?x = "rename_transaction_lock_context z cl parent name new_parent new_name c (w, [])"
  have g: "outcome ?x (\<lambda>_. guards (mine w)) (guards (mine w))"
    using assms(1) by (intro rename_context_guards) (simp add: guards_def)
  have r: "outcome (await (unlock_all z cl (order ls) w') (\<lambda>_. give r)) (\<lambda>_. same w) (same w)"
    if "guards (mine w) (w', ls)" for w' ls r
    using that assms(2) [of ls]
    by (intro outcome_await [OF outcome_weaken [OF unlock_all_releases [of w' "order ls" "mine w"]]])
      (auto simp: guards_def intro!: outcome_give)
  show ?thesis
  proof (cases ?x)
    case (Some y)
    then show ?thesis
      using g r by (cases y; cases "fst y") (auto simp: rename_transaction_def)
  qed (simp add: rename_transaction_def)
qed

text \<open>The loops that remove a link hold one lock at a time.\<close>

lemma unlock_then:
  assumes "ok w'" "(i, k) \<notin> M" "mine w' = insert (i, k) M"
    and "\<And>w''. ok w'' \<Longrightarrow> mine w'' = M \<Longrightarrow> outcome (f w'') Q E"
  shows "outcome (await (unlock_inode z cl i k w') (\<lambda>_. f)) Q E"
  using assms by (intro outcome_await [OF outcome_weaken [OF unlock_answer [of w' i k]]]) auto

lemma remove_step:
  assumes w: "ok w" and again: "\<And>i w'. ok w' \<Longrightarrow> outcome (again i w') (\<lambda>_. same w') (same w')"
  shows "outcome
    (await (lock_inode z cl inode w) (\<lambda>lock_id w.
     attempt (getattrs z cl inode w) (\<lambda>result w.
       case result of
         Inl error_code \<Rightarrow> await (unlock_inode z cl inode lock_id w) (\<lambda>_. give (Err error_code))
       | Inr attrs \<Rightarrow>
           if only_empty \<and> 0 < fa_directory_entries attrs
           then await (unlock_inode z cl inode lock_id w) (\<lambda>_. give (Err NotEmpty))
           else
             attempt (tx_remove_link z cl parent name (Some (inode, fa_uid attrs)) None c w) (\<lambda>removed w.
               case removed of
                 Inl error_code \<Rightarrow> await (unlock_inode z cl inode lock_id w) (\<lambda>_. give (Err error_code))
               | Inr found \<Rightarrow>
                   await (unlock_inode z cl inode lock_id w) (\<lambda>_ w.
                   if snd found then give (Ok (fst found)) w else again (fst found) w)))))
    (\<lambda>_. same w) (same w)" (is "outcome (await _ ?f) _ _")
proof (rule outcome_await [OF lock_answer [OF w]])
  fix k w1
  assume w1: "ok w1 \<and> (inode, k) \<notin> mine w \<and> mine w1 = insert (inode, k) (mine w)"
  have un: "outcome (await (unlock_inode z cl inode k w') (\<lambda>_. g)) (\<lambda>_. same w) (same w)"
    if "same w1 w'" "\<And>w''. same w w'' \<Longrightarrow> outcome (g w'') (\<lambda>_. same w) (same w)" for w' and g :: "('w, ErrorCode, u64) act"
    using that w1 by (intro unlock_then [where M = "mine w"]) auto
  have next': "outcome (again i w') (\<lambda>_. same w) (same w)" if "same w w'" for i w'
    using again [of w' i] that by simp
  have k1: "outcome (getattrs z cl inode w1) (\<lambda>_. same w1) (same w1)" using w1 by (intro attribute_reads) simp
  have k2: "outcome (tx_remove_link z cl parent name l None c w') (\<lambda>_. same w1) (same w1)" if "same w1 w'" for l w'
    using calls_keep(2) [of w' parent name l None c] that by simp
  show "outcome (?f k w1) (\<lambda>_. same w) (same w)"
    by (rule outcome_attempt [OF k1])
      (auto intro!: un outcome_attempt [OF k2] next' split: if_splits)
qed

lemma remove_loop_keeps:
  assumes "ok w"
  shows "outcome (remove_loop only_empty z cl parent name c inode w) (\<lambda>_. same w) (same w)"
proof -
  have "ok w \<longrightarrow> outcome (Some y) (\<lambda>_. same w) (same w)" if "remove_loop only_empty z cl parent name c inode w = Some y" for y
    using remove_loop.raw_induct [where P = "\<lambda>e z' cl' p n c i w y. z' = z \<longrightarrow> cl' = cl \<longrightarrow> ok w \<longrightarrow>
        outcome (Some y) (\<lambda>_. same w) (same w)", OF _ that]
  proof (rule mp [OF mp])
    fix loop only_empty z' and cl' :: "'w cluster" and parent name "context" inode w y
    assume ih: "\<And>e z' cl' p n c i w y. loop e z' cl' p n c i w = Some y \<Longrightarrow>
        z' = z \<longrightarrow> cl' = cl \<longrightarrow> ok w \<longrightarrow> outcome (Some y) (\<lambda>_. same w) (same w)"
      and body: "await (lock_inode z' cl' inode w) (\<lambda>lock_id w.
         attempt (getattrs z' cl' inode w) (\<lambda>result w.
           case result of
             Inl error_code \<Rightarrow> await (unlock_inode z' cl' inode lock_id w) (\<lambda>_. give (Err error_code))
           | Inr attrs \<Rightarrow>
               if only_empty \<and> 0 < fa_directory_entries attrs
               then await (unlock_inode z' cl' inode lock_id w) (\<lambda>_. give (Err NotEmpty))
               else
                 attempt (tx_remove_link z' cl' parent name (Some (inode, fa_uid attrs)) None context w) (\<lambda>removed w.
                   case removed of
                     Inl error_code \<Rightarrow> await (unlock_inode z' cl' inode lock_id w) (\<lambda>_. give (Err error_code))
                   | Inr found \<Rightarrow>
                       await (unlock_inode z' cl' inode lock_id w) (\<lambda>_ w.
                       if snd found then give (Ok (fst found)) w
                       else loop only_empty z' cl' parent name context (fst found) w)))) = Some y"
    have "outcome (loop e z cl p n c i w') (\<lambda>_. same w') (same w')" if "ok w'" for e p n c i w'
      using ih [of e z cl p n c i w'] that by (cases "loop e z cl p n c i w'") auto
    then show "z' = z \<longrightarrow> cl' = cl \<longrightarrow> ok w \<longrightarrow> outcome (Some y) (\<lambda>_. same w) (same w)"
      using remove_step [of w "\<lambda>i w'. loop only_empty z cl parent name context i w'" inode only_empty parent name "context"] body
      by auto
  qed simp_all
  then show ?thesis using assms by (cases "remove_loop only_empty z cl parent name c inode w") auto
qed

lemma same_trans: "same w w' \<Longrightarrow> outcome x (\<lambda>_. same w') (same w') \<Longrightarrow> outcome x (\<lambda>_. same w) (same w)"
  by simp

lemma unlink_keeps:
  assumes "ok w"
  shows "outcome (unlink_transaction z cl parent name c w) (\<lambda>_. same w) (same w)"
  unfolding unlink_transaction_def
  by (rule outcome_await [OF calls_keep(2) [OF assms]])
    (auto intro!: outcome_await [where P = "\<lambda>_. same w"] same_trans [OF _ remove_loop_keeps] same_trans [OF _ calls_keep(5)])

lemma rmdir_keeps:
  assumes "ok w"
  shows "outcome (rmdir_transaction z cl parent name c w) (\<lambda>_. same w) (same w)"
  unfolding rmdir_transaction_def
  by (rule outcome_await [OF name_reads [OF assms]])
    (auto intro!: outcome_await [where P = "\<lambda>_. same w"] same_trans [OF _ remove_loop_keeps] same_trans [OF _ calls_keep(5)]
      same_trans [OF _ attribute_reads] outcome_give)

lemma create_keeps:
  assumes "ok w"
  shows "outcome (create_transaction z g cl parent name uid gid mode kind w) (\<lambda>_. same w) (same w)"
proof -
  let ?r = "cl_remote_propose_to_group cl g (Request.CreateInode g parent uid gid mode kind) w"
  have "outcome ?r (\<lambda>_. same w) (same w)" using assms by (intro create_requests) simp_all
  then have "outcome (await_map_err (\<lambda>_. Uncategorized) ?r) (\<lambda>_. same w) (same w)"
    by (cases ?r; cases "fst (the ?r)") (auto simp: await_map_err_def split_beta)
  then show ?thesis
    unfolding create_transaction_def
    by (rule outcome_await)
      (auto intro!: outcome_await [where P = "\<lambda>_. same w"] outcome_attempt [where P = "\<lambda>_. same w" and F = "same w"]
        same_trans [OF _ calls_keep(5)] same_trans [OF _ other_requests] outcome_give)
qed

lemma hardlink_keeps:
  assumes "ok w"
  shows "outcome (hardlink_transaction z cl inode parent name c w) (\<lambda>_. same w) (same w)"
proof -
  have "outcome (tx_propose z cl inode (Request.HardlinkIncrement inode) w) (\<lambda>_. same w) (same w)"
    using assms by (intro other_requests) simp_all
  then show ?thesis
    unfolding hardlink_transaction_def Let_def
    by (rule outcome_await)
      (auto intro!: outcome_await [where P = "\<lambda>_. same w"] outcome_attempt [where P = "\<lambda>_. same w" and F = "same w"]
        same_trans [OF _ calls_keep(5)] same_trans [OF _ other_requests] outcome_give split: sum.split)
qed

end

end
