(* ===== verification/Consensus_Laws.thy ===== *)
theory Consensus_Laws
  imports Consensus_Node
begin

text \<open>
  What holds of a node that applies its log: nodes that apply the same slots agree, with locks
  and waiting requests (\<open>node_agree\<close>); no client's channel is lost; \<^verbatim>\<open>sync\<close> wakes nobody too early;
  and draining the replica returns when the replica stops emitting actions.
\<close>

section \<open>Agreement\<close>

definition locks_agree :: "LockTable \<Rightarrow> LockTable \<Rightarrow> bool" where
  "locks_agree lt lt' \<longleftrightarrow>
     lt_lock_ids lt = lt_lock_ids lt' \<and> lt_next_id lt = lt_next_id lt' \<and>
     (\<forall>i. map_option (map fst) (lt_pending_requests lt i) = map_option (map fst) (lt_pending_requests lt' i))"

definition node_agree :: "('r, 'k, 'p) node \<Rightarrow> ('r, 'k, 'p) node \<Rightarrow> bool" where
  "node_agree n n' \<longleftrightarrow>
     storage_agree (cn_file_storage n) (cn_file_storage n') \<and>
     locks_agree (cn_lock_table n) (cn_lock_table n') \<and> cn_applied_index n = cn_applied_index n'"

definition st_agree ::
    "('s \<Rightarrow> 's \<Rightarrow> bool) \<Rightarrow> ('a \<Rightarrow> 'b \<Rightarrow> bool) \<Rightarrow> ('e, 'a) res \<times> 's \<Rightarrow> ('e, 'b) res \<times> 's \<Rightarrow> bool" where
  "st_agree S R x y \<longleftrightarrow> rel_res (=) R (fst x) (fst y) \<and> S (snd x) (snd y)"

lemma st_agree_then:
  "st_agree S A x y \<Longrightarrow> (\<And>a b s s'. A a b \<Longrightarrow> S s s' \<Longrightarrow> st_agree S B (f a s) (g b s')) \<Longrightarrow>
   st_agree S B (and_then_st x f) (and_then_st y g)"
  by (cases "fst x"; cases "fst y") (auto simp: st_agree_def and_then_st_pair)

lemma st_agree_Ok: "R a b \<Longrightarrow> S s s' \<Longrightarrow> st_agree S R (Ok a, s) (Ok b, s')"
  by (simp add: st_agree_def)

lemma st_agree_res: "rel_res (=) R r r' \<Longrightarrow> S s s' \<Longrightarrow> st_agree S R (r, s) (r', s')"
  by (simp add: st_agree_def)

lemma rel_res_refl: "rel_res (=) (=) x x"
  by (simp add: res.rel_eq)

lemma rel_res_Panic: "rel_res E R x y \<Longrightarrow> x = Panic \<longleftrightarrow> y = Panic"
  by (cases x; cases y) simp_all

lemma find_lock_data: "map fst q = map fst q' \<Longrightarrow> find_lock z q = find_lock z q'"
proof (induction q arbitrary: q')
  case (Cons p q)
  then obtain p' q2 where "q' = p' # q2" "fst p = fst p'" "map fst q = map fst q2" by (cases q') auto
  with Cons.IH [of q2] show ?case by (simp cong: if_cong)
qed simp

lemma locks_agree_lock:
  "locks_agree lt lt' \<Longrightarrow> st_agree locks_agree (=) (lock lt inode) (lock lt' inode)"
  by (auto simp: locks_agree_def lock_def Let_def st_agree_def)

lemma locks_agree_wait:
  assumes "locks_agree lt lt'" "fst p = fst p'"
  shows "st_agree locks_agree (=) (wait_for_lock lt inode p) (wait_for_lock lt' inode p')"
proof -
  have "map_option (map fst) (lt_pending_requests lt inode) = map_option (map fst) (lt_pending_requests lt' inode)"
    using assms(1) by (simp add: locks_agree_def)
  then show ?thesis
    using assms
    by (cases "lt_pending_requests lt inode"; cases "lt_pending_requests lt' inode")
      (auto simp: locks_agree_def wait_for_lock_def Let_def st_agree_def)
qed

lemma locks_agree_unlock:
  assumes "locks_agree lt lt'"
  shows "st_agree locks_agree (rel_prod (\<lambda>q q'. map fst q = map fst q') (=)) (unlock z lt inode i) (unlock z lt' inode i)"
proof -
  have ids: "lt_lock_ids lt = lt_lock_ids lt'" "lt_next_id lt = lt_next_id lt'"
    and q: "map_option (map fst) (lt_pending_requests lt j) = map_option (map fst) (lt_pending_requests lt' j)" for j
    using assms by (simp_all add: locks_agree_def)
  show ?thesis
  proof (cases "lt_pending_requests lt inode")
    case None
    then show ?thesis
      using ids q [of inode] q
      by (cases "lt_lock_ids lt' inode") (auto simp: unlock_def Let_def st_agree_def locks_agree_def)
  next
    case (Some queue)
    then obtain queue' where q': "lt_pending_requests lt' inode = Some queue'" "map fst queue = map fst queue'"
      using q [of inode] by (cases "lt_pending_requests lt' inode") auto
    have "find_lock z queue = find_lock z queue'" by (rule find_lock_data [OF q'(2)])
    moreover have "length queue = length queue'" using q'(2) by (metis length_map)
    ultimately show ?thesis
      using ids q Some q'
      by (cases "lt_lock_ids lt' inode"; cases "find_lock z queue'")
        (auto simp: unlock_def Let_def st_agree_def locks_agree_def lock_def take_map [symmetric] drop_map [symmetric] split: option.split)
  qed
qed

section \<open>The same log on two nodes\<close>

lemma on_locks_agree:
  assumes "node_agree n n'" "st_agree locks_agree R (op (cn_lock_table n)) (op' (cn_lock_table n'))"
  shows "st_agree node_agree R (on_locks n op) (on_locks n' op')"
  using assms by (simp add: node_agree_def st_agree_def on_locks_def split_beta)

lemma node_agree_locks: "node_agree n n' \<Longrightarrow> locks_agree (cn_lock_table n) (cn_lock_table n')"
  by (simp add: node_agree_def)

lemma respond_agree:
  "node_agree n n' \<Longrightarrow> \<forall>s. alive s \<Longrightarrow> \<forall>s. alive' s \<Longrightarrow>
   st_agree node_agree (=) (respond alive p r n) (respond alive' p' r' n')"
  by (auto simp: respond_def st_agree_def node_agree_def split: option.split)

lemma is_locked_agree:
  assumes "node_agree n n'"
  shows "is_locked (cn_lock_table n) m = is_locked (cn_lock_table n') m"
proof -
  have ids: "lt_lock_ids (cn_lock_table n) = lt_lock_ids (cn_lock_table n')"
    using assms by (simp add: node_agree_def locks_agree_def)
  show ?thesis unfolding is_locked_def ids ..
qed

lemma expect_agree: "node_agree n n' \<Longrightarrow> st_agree node_agree (=) (expect x, n) (expect x, n')"
  by (simp add: st_agree_def res.rel_refl)

lemma map_fst_last: "map fst q = map fst q' \<Longrightarrow> q \<noteq> [] \<Longrightarrow> fst (last q) = fst (last q') \<and> q' \<noteq> []"
  by (metis last_map map_is_Nil_conv)

lemma hand_over_agree:
  assumes "map fst q = map fst q'" "node_agree n n'" and alive: "\<forall>s. alive s" "\<forall>s. alive' s"
  shows "st_agree node_agree (\<lambda>q q'. map fst q = map fst q') (hand_over z alive q l n) (hand_over z alive' q' l n')"
proof (cases "l = None \<or> q = []")
  case True
  then show ?thesis using assms by (auto simp: st_agree_def hand_over_def split: option.split)
next
  case False
  then obtain i where i: "l = Some i" "q \<noteq> []" by auto
  then have "fst (last q) = fst (last q')" "q' \<noteq> []" using map_fst_last [OF assms(1)] by auto
  then show ?thesis
    using i assms(1,2) unfolding hand_over_def
    by (simp add: map_butlast)
      (intro st_agree_then [where A = "(=)"] expect_agree respond_agree [OF _ alive] st_agree_Ok st_agree_res;
        simp add: map_butlast rel_res_refl)
qed

lemma process_unlocked_agree:
  assumes ag: "node_agree n n'" and alive: "\<forall>s. alive s" "\<forall>s. alive' s"
  shows "st_agree node_agree (\<lambda>q q'. map fst q = map fst q')
    (process_unlocked z alive request data p n) (process_unlocked z alive' request data p' n')"
proof -
  have other: "st_agree node_agree (\<lambda>q q'. map fst q = map fst q') (Ok [(data, p)], n) (Ok [(data, p')], n')"
    using ag by (simp add: st_agree_def)
  show ?thesis
  proof (cases request)
    case (Lock inode)
    show ?thesis
      unfolding process_unlocked_def Lock Request.case
      by (intro st_agree_then [where A = "(=)"] on_locks_agree locks_agree_lock node_agree_locks ag
          respond_agree [OF _ alive] st_agree_Ok) simp_all
  next
    case (Unlock inode i)
    show ?thesis
      unfolding process_unlocked_def Unlock Request.case
      by (rule st_agree_then [where A = "rel_prod (\<lambda>q q'. map fst q = map fst q') (=)"],
          intro on_locks_agree locks_agree_unlock node_agree_locks ag,
          intro st_agree_then [where A = "(=)"] respond_agree [OF _ alive])
        (auto intro!: hand_over_agree alive)
  qed (simp_all add: process_unlocked_def other)
qed

lemma process_lock_table_agree:
  assumes ag: "node_agree n n'" and alive: "\<forall>s. alive s" "\<forall>s. alive' s"
  shows "st_agree node_agree (\<lambda>q q'. map fst q = map fst q')
    (process_lock_table z alive data p n) (process_lock_table z alive' data p' n')"
  unfolding process_lock_table_def
proof (rule st_agree_then [where A = "(=)"])
  show "st_agree node_agree (=) (expect (decode_request z data), n) (expect (decode_request z data), n')"
    by (rule expect_agree [OF ag])
  fix r r' :: Request and m m' :: "('a, 'b, 'c) node"
  assume r: "r = r'" and m: "node_agree m m'"
  show "st_agree node_agree (\<lambda>q q'. map fst q = map fst q')
      (case meta_inode (meta_info r) of None \<Rightarrow> (Ok [(data, p)], m)
       | Some inode \<Rightarrow> and_then_st (is_locked (cn_lock_table m) (meta_info r), m) (\<lambda>locked n.
           if locked then and_then_st (on_locks n (\<lambda>lt. wait_for_lock lt inode (data, p))) (\<lambda>_ n. (Ok [], n))
           else process_unlocked z alive r data p n))
      (case meta_inode (meta_info r') of None \<Rightarrow> (Ok [(data, p')], m')
       | Some inode \<Rightarrow> and_then_st (is_locked (cn_lock_table m') (meta_info r'), m') (\<lambda>locked n.
           if locked then and_then_st (on_locks n (\<lambda>lt. wait_for_lock lt inode (data, p'))) (\<lambda>_ n. (Ok [], n))
           else process_unlocked z alive' r' data p' n))"
  proof (cases "meta_inode (meta_info r')")
    case None
    then show ?thesis using r m by (simp add: st_agree_def)
  next
    case (Some inode)
    have wait: "st_agree node_agree (\<lambda>q q'. map fst q = map fst q')
        (and_then_st (on_locks n (\<lambda>lt. wait_for_lock lt inode (data, p))) (\<lambda>_ n. (Ok [], n)))
        (and_then_st (on_locks n' (\<lambda>lt. wait_for_lock lt inode (data, p'))) (\<lambda>_ n. (Ok [], n)))"
      if "node_agree n n'" for n n' :: "('a, 'b, 'c) node"
      using that
      by (intro st_agree_then [where A = "(=)"] on_locks_agree locks_agree_wait node_agree_locks st_agree_Ok) simp_all
    have "st_agree node_agree (=) (is_locked (cn_lock_table m) (meta_info r), m) (is_locked (cn_lock_table m') (meta_info r'), m')"
      using is_locked_agree [OF m] r m by (simp add: st_agree_def res.rel_refl)
    then show ?thesis
      unfolding Some r option.case
      by (rule st_agree_then) (auto intro: wait process_unlocked_agree [OF _ alive])
  qed
qed

lemma commit_node_agree:
  assumes "node_agree n n'"
  shows "st_agree node_agree (\<lambda>_ _. True)
    (fst (commit_write ca r (cn_file_storage n)),
     n\<lparr>cn_file_storage := snd (commit_write ca r (cn_file_storage n)), cn_commits := k\<rparr>)
    (fst (commit_write cb r (cn_file_storage n')),
     n'\<lparr>cn_file_storage := snd (commit_write cb r (cn_file_storage n')), cn_commits := k'\<rparr>)"
proof -
  have "fs_agree response_agree (commit_write ca r (cn_file_storage n)) (commit_write cb r (cn_file_storage n'))"
    using assms by (intro commit_write_agree) (simp add: node_agree_def)
  then show ?thesis
    using assms by (auto simp: st_agree_def node_agree_def fs_agree_def elim!: res.rel_mono_strong)
qed

lemma apply_requests_agree:
  assumes alive: "\<forall>s. alive s" "\<forall>s. alive' s"
  shows "map fst q = map fst q' \<Longrightarrow> node_agree n n' \<Longrightarrow>
    st_agree node_agree (=) (apply_requests z alive clk q n) (apply_requests z alive' clk' q' n')"
proof (induction q arbitrary: q' n n')
  case Nil
  then show ?case by (simp add: st_agree_def)
next
  case (Cons p q)
  then obtain p' q2 where q': "q' = p' # q2" "fst p = fst p'" "map fst q = map fst q2" by (cases q') auto
  show ?case
    unfolding q' apply_requests.simps q'(2)
  proof (rule st_agree_then [OF expect_agree [OF Cons.prems(2)]])
    fix r r' :: Request and m m' :: "('a, 'b, 'c) node"
    assume r: "r = r'" and m: "node_agree m m'"
    note c = commit_node_agree [OF m, where r = r' and ca = "clk (cn_commits m)" and cb = "clk' (cn_commits m')"
        and k = "cn_commits m + 1" and k' = "cn_commits m' + 1"]
    have p: "fst (commit_write (clk (cn_commits m)) r' (cn_file_storage m)) = Panic \<longleftrightarrow>
        fst (commit_write (clk' (cn_commits m')) r' (cn_file_storage m')) = Panic"
      using c rel_res_Panic by (fastforce simp: st_agree_def)
    show "st_agree node_agree (=)
      (let (result, fs) = commit_write (clk (cn_commits m)) r (cn_file_storage m);
           n = m\<lparr>cn_file_storage := fs, cn_commits := cn_commits m + 1\<rparr>
       in if result = Panic then (Panic, n)
          else and_then_st (respond alive (snd p) result n) (\<lambda>_ n. apply_requests z alive clk q n))
      (let (result, fs) = commit_write (clk' (cn_commits m')) r' (cn_file_storage m');
           n = m'\<lparr>cn_file_storage := fs, cn_commits := cn_commits m' + 1\<rparr>
       in if result = Panic then (Panic, n)
          else and_then_st (respond alive' (snd p') result n) (\<lambda>_ n. apply_requests z alive' clk' q2 n))"
    proof (cases "fst (commit_write (clk (cn_commits m)) r' (cn_file_storage m)) = Panic")
      case True
      with p have "fst (commit_write (clk' (cn_commits m')) r' (cn_file_storage m')) = Panic" by simp
      with True c r show ?thesis by (simp add: split_beta Let_def st_agree_def)
    next
      case False
      with p have "fst (commit_write (clk' (cn_commits m')) r' (cn_file_storage m')) \<noteq> Panic" by simp
      with False c r show ?thesis
        unfolding split_beta Let_def
        by (simp add: st_agree_def [of _ "\<lambda>_ _. True"])
          (rule st_agree_then [OF respond_agree [OF _ alive]], simp_all add: Cons.IH [OF q'(3)])
    qed
  qed
qed

lemma apply_commands_agree:
  assumes alive: "\<forall>s. alive s" "\<forall>s. alive' s"
  shows "node_agree n n' \<Longrightarrow>
    st_agree node_agree (=) (apply_commands z alive clk cs n) (apply_commands z alive' clk' cs n')"
proof (induction cs arbitrary: n n')
  case Nil
  then show ?case by (simp add: st_agree_def)
next
  case (Cons c cs)
  let ?m = "n\<lparr>cn_pending_responses := (cn_pending_responses n)(fst c := None)\<rparr>"
    and ?m' = "n'\<lparr>cn_pending_responses := (cn_pending_responses n')(fst c := None)\<rparr>"
  have m: "node_agree ?m ?m'" using Cons.prems by (simp add: node_agree_def)
  show ?case
  proof (cases "snd c = []")
    case True
    then show ?thesis
      using Cons.IH alive Cons.prems by (auto simp: Let_def node_agree_def split: option.split)
  next
    case False
    show ?thesis
      unfolding apply_commands.simps Let_def if_not_P [OF False]
      by (rule st_agree_then [OF process_lock_table_agree [OF m alive]],
          rule st_agree_then [OF apply_requests_agree [OF alive]]) (assumption | rule Cons.IH)+
  qed
qed

lemma wake_syncs_agree:
  "\<forall>s. alive s \<Longrightarrow> \<forall>s. alive' s \<Longrightarrow> node_agree n n' \<Longrightarrow>
   st_agree node_agree (=) (wake_syncs alive slot ws n) (wake_syncs alive' slot ws' n')"
proof -
  assume alive: "\<forall>s. alive s" "\<forall>s. alive' s" and n: "node_agree n n'"
  have one: "fst (wake_syncs a slot ws n) = Ok () \<and> cn_file_storage (snd (wake_syncs a slot ws n)) = cn_file_storage n
      \<and> cn_lock_table (snd (wake_syncs a slot ws n)) = cn_lock_table n
      \<and> cn_applied_index (snd (wake_syncs a slot ws n)) = cn_applied_index n"
    if "\<forall>s. a s" for a ws and n :: "('a, 'b, 'c) node"
    using that by (induction ws arbitrary: n) auto
  show ?thesis using one [OF alive(1)] one [OF alive(2)] n by (simp add: st_agree_def node_agree_def)
qed

lemma apply_delivery_agree:
  assumes "node_agree n n'" "\<forall>s. alive s" "\<forall>s. alive' s"
  shows "st_agree node_agree (=) (apply_delivery z alive clk slot cs n) (apply_delivery z alive' clk' slot cs n')"
  unfolding apply_delivery_def
  by (rule st_agree_then [OF apply_commands_agree [OF assms(2,3,1)]], rule wake_syncs_agree [OF assms(2,3)])
    (simp add: node_agree_def)

text \<open>
  One delivered slot on a node, with what is local to the node: the times at which it applies the
  requests, the responses that its own clients wait for, and the waiters of \<^verbatim>\<open>sync\<close>.
\<close>

definition deliver ::
    "zerialize \<Rightarrow> (nat \<Rightarrow> clock) \<times> ('k \<rightharpoonup> Sender) \<times> (u64 \<times> Sender) list \<Rightarrow> u64 \<times> ('k \<times> bytes) list \<Rightarrow> ('r, 'k, 'p) node
      \<Rightarrow> (ErrorCode, unit) res \<times> ('r, 'k, 'p) node" where
  "deliver z local slot n =
     (case (local, slot) of ((clk, pending, waiters), (index, commands)) \<Rightarrow>
        apply_delivery z (\<lambda>_. True) clk index commands
          (n\<lparr>cn_pending_responses := pending, cn_sync_requests := waiters\<rparr>))"

interpretation slots: replicated_machine "deliver z" node_agree "(=)" for z
proof
  fix s s' :: "('r, 'k, 'p) node" and c c' :: "(nat \<Rightarrow> clock) \<times> ('k \<rightharpoonup> Sender) \<times> (u64 \<times> Sender) list"
    and r :: "u64 \<times> ('k \<times> bytes) list"
  assume "node_agree s s'"
  then have "st_agree node_agree (=) (deliver z c r s) (deliver z c' r s')"
    unfolding deliver_def split_beta fst_conv snd_conv by (intro apply_delivery_agree) (auto simp: node_agree_def)
  then show "fst (deliver z c r s) = fst (deliver z c' r s')"
    "node_agree (snd (deliver z c r s)) (snd (deliver z c' r s'))"
    by (simp_all add: st_agree_def res.rel_eq)
qed

section \<open>What applying the log leaves alone\<close>

definition untouched ::
    "('r, 'k, 'p) node \<Rightarrow> 'r \<times> (u64 \<times> Sender) list \<times> Sender list \<times> u64 \<times> (u64 \<times> 'p) list \<times> u16 \<times> bool \<times> Sender
      \<times> ('p \<times> u16 \<times> bytes) list" where
  "untouched n = (cn_replica n, cn_sync_requests n, cn_synced n, cn_applied_index n, cn_peers n, cn_raft_group_id n,
     cn_poisoned n, cn_next_channel n, cn_outbox n)"

lemma untouched_update [simp]:
  "untouched (n\<lparr>cn_file_storage := fs, cn_commits := k\<rparr>) = untouched n"
  "untouched (n\<lparr>cn_pending_responses := f\<rparr>) = untouched n"
  "untouched (n\<lparr>cn_answers := a\<rparr>) = untouched n"
  "untouched (n\<lparr>cn_pending_responses := f, cn_answers := a\<rparr>) = untouched n"
  by (simp_all add: untouched_def)

lemma untouched_then:
  "untouched (snd x) = u \<Longrightarrow> (\<And>a n. untouched n = u \<Longrightarrow> untouched (snd (f a n)) = u) \<Longrightarrow> untouched (snd (and_then_st x f)) = u"
  by (auto simp: and_then_st_pair split: res.split)

lemma respond_untouched: "untouched (snd (respond alive p r n)) = untouched n"
  by (simp add: respond_def untouched_def split: option.split)

lemma on_locks_untouched: "untouched (snd (on_locks n op)) = untouched n"
  by (simp add: on_locks_def untouched_def split_beta)

lemma hand_over_untouched: "untouched (snd (hand_over z alive q l n)) = untouched n"
  unfolding hand_over_def
  by (auto split: option.split intro!: untouched_then simp: respond_untouched)

lemma process_lock_table_untouched: "untouched (snd (process_lock_table z alive data p n)) = untouched n"
  unfolding process_lock_table_def process_unlocked_def
  by (auto split: option.split Request.split intro!: untouched_then
      simp: respond_untouched on_locks_untouched hand_over_untouched)

lemma apply_requests_untouched: "untouched (snd (apply_requests z alive clk q n)) = untouched n"
  by (induction q arbitrary: n) (auto simp: split_beta Let_def respond_untouched intro!: untouched_then)

lemma apply_commands_untouched: "untouched (snd (apply_commands z alive clk cs n)) = untouched n"
  by (induction cs arbitrary: n)
    (auto simp: Let_def process_lock_table_untouched apply_requests_untouched split: option.split intro!: untouched_then)

section \<open>Waiting for an index\<close>

lemma wake_syncs_closed:
  "fst (wake_syncs alive slot ws n) = Ok () \<Longrightarrow>
   snd (wake_syncs alive slot ws n) =
     n\<lparr>cn_sync_requests := dropWhile (\<lambda>w. fst w \<le> slot) ws,
       cn_synced := cn_synced n @ map snd (takeWhile (\<lambda>w. fst w \<le> slot) ws)\<rparr>"
  by (induction ws arbitrary: n) (auto split: if_splits)

lemma apply_delivery_syncs:
  assumes "fst (apply_delivery z alive clk slot cs n) = Ok ()"
  shows "cn_applied_index (snd (apply_delivery z alive clk slot cs n)) = slot"
    "cn_sync_requests (snd (apply_delivery z alive clk slot cs n)) = dropWhile (\<lambda>w. fst w \<le> slot) (cn_sync_requests n)"
    "cn_synced (snd (apply_delivery z alive clk slot cs n))
       = cn_synced n @ map snd (takeWhile (\<lambda>w. fst w \<le> slot) (cn_sync_requests n))"
  using assms apply_commands_untouched [of z alive clk cs n]
  by (auto simp: apply_delivery_def and_then_st_pair untouched_def wake_syncs_closed split: res.splits)

lemma wake_syncs_replica: "cn_replica (snd (wake_syncs alive slot ws n)) = cn_replica n"
  by (induction ws arbitrary: n) auto

lemma apply_delivery_replica: "cn_replica (snd (apply_delivery z alive clk slot cs n)) = cn_replica n"
  using apply_commands_untouched [of z alive clk cs n]
  by (auto simp: apply_delivery_def and_then_st_pair untouched_def wake_syncs_replica split: res.splits)

section \<open>Draining the replica\<close>

lemma poll_actions_returns:
  assumes "\<And>r a r'. rx_poll_action rx r = (Some a, r') \<Longrightarrow> rank r' < (rank r :: nat)"
  shows "\<exists>x. poll_actions rx z alive clk sends n = Some x"
proof (induction "rank (cn_replica n)" arbitrary: n sends rule: less_induct)
  case less
  obtain a r where poll: "rx_poll_action rx (cn_replica n) = (a, r)" by fastforce
  show ?case
  proof (cases a)
    case None
    then show ?thesis by (subst poll_actions.simps) (simp add: poll)
  next
    case (Some act)
    have lt: "rank r < rank (cn_replica n)" using assms poll Some by blast
    show ?thesis
    proof (cases act)
      case (Send dest message)
      then show ?thesis
        using less [of "n\<lparr>cn_replica := r\<rparr>"] lt by (subst poll_actions.simps) (simp add: poll Some)
    next
      case (Deliver slot cs)
      let ?d = "apply_delivery z alive clk slot cs (n\<lparr>cn_replica := r\<rparr>)"
      have "cn_replica (snd ?d) = r" by (simp add: apply_delivery_replica)
      then show ?thesis
        using less [of "snd ?d" sends] lt by (subst poll_actions.simps) (simp add: poll Some Deliver split_beta)
    qed
  qed
qed

section \<open>No client is forgotten\<close>

definition senders :: "PendingRequest list \<Rightarrow> Sender set" where
  "senders q = {s. \<exists>d. (d, Some s) \<in> set q}"

definition queued :: "LockTable \<Rightarrow> Sender set" where
  "queued lt = (\<Union>i. senders (queue_of lt i))"

text \<open>The channels that have been answered, wait for their command, or wait for a lock.\<close>

definition channels :: "('r, 'k, 'p) node \<Rightarrow> Sender set" where
  "channels n = fst ` set (cn_answers n) \<union> ran (cn_pending_responses n) \<union> queued (cn_lock_table n)"

lemma senders_simps [simp]:
  "senders [] = {}" "senders ((d, p) # q) = set_option p \<union> senders q" "senders (q @ q') = senders q \<union> senders q'"
  by (auto simp: senders_def)

lemma senders_last: "q \<noteq> [] \<Longrightarrow> senders q = senders (butlast q) \<union> set_option (snd (last q))"
  by (metis append_butlast_last_id prod.collapse senders_simps(1-3) sup_bot.right_neutral)

lemma unlock_conserves:
  assumes "fst (unlock z lt inode i) = Ok (served, new)"
  shows "queue_of lt j = (if j = inode then served else []) @ queue_of (snd (unlock z lt inode i)) j"
proof -
  have lk: "queue_of (snd (lock t j)) = queue_of t" "fst (lock t j) = Ok k \<Longrightarrow> lt_pending_requests (snd (lock t j)) = lt_pending_requests t"
    for t j k by (auto simp: lock_def Let_def queue_of_def fun_eq_iff)
  have upd: "queue_of (t\<lparr>lt_pending_requests := (lt_pending_requests t)(inode \<mapsto> q)\<rparr>) j = (if j = inode then q else queue_of t j)" for t q
    by simp
  show ?thesis
    using assms
    by (auto simp: unlock_def Let_def and_then_st_pair lk upd queue_of_def [of lt]
        queue_of_def [of "_\<lparr>lt_lock_ids := _, lt_pending_requests := _\<rparr>"] split: option.splits res.splits if_splits prod.splits)
qed

definition keeps :: "Sender set \<Rightarrow> ('a \<Rightarrow> Sender set) \<Rightarrow> (ErrorCode, 'a) res \<times> ('r, 'k, 'p) node \<Rightarrow> bool" where
  "keeps C out x \<longleftrightarrow> (\<forall>a. fst x = Ok a \<longrightarrow> C \<subseteq> out a \<union> channels (snd x))"

lemma keeps_Ok: "C \<subseteq> out a \<union> channels n \<Longrightarrow> keeps C out (Ok a, n)"
  by (simp add: keeps_def)

lemma keeps_then:
  "keeps C mid x \<Longrightarrow> (\<And>a n. C \<subseteq> mid a \<union> channels n \<Longrightarrow> keeps C out (f a n)) \<Longrightarrow> keeps C out (and_then_st x f)"
  by (auto simp: keeps_def and_then_st_pair split: res.split)

lemma keeps_res: "C \<subseteq> channels n \<Longrightarrow> keeps C (\<lambda>_. {}) (r, n)"
  by (simp add: keeps_def)

lemma respond_keeps:
  "C \<subseteq> set_option p \<union> D \<union> channels n \<Longrightarrow> \<forall>s. alive s \<Longrightarrow> keeps C (\<lambda>_. D) (respond alive p r n)"
  by (auto simp: keeps_def respond_def channels_def split: option.split)

lemma lock_keeps: "C \<subseteq> D \<union> channels n \<Longrightarrow> keeps C (\<lambda>_. D) (on_locks n (\<lambda>lt. lock lt inode))"
  by (auto simp: keeps_def on_locks_def split_beta channels_def queued_def lock_def Let_def)

lemma wait_keeps:
  assumes "C \<subseteq> set_option p \<union> channels n"
  shows "keeps C (\<lambda>_. {}) (on_locks n (\<lambda>lt. wait_for_lock lt inode (d, p)))"
proof -
  have "queued (cn_lock_table n) \<union> set_option p \<subseteq> queued (snd (wait_for_lock (cn_lock_table n) inode (d, p)))"
    if "held_by (cn_lock_table n) inode \<noteq> None"
    unfolding queued_def wait_for_lock_Ok(2) [OF that] by (fastforce split: if_splits)
  moreover have "fst (wait_for_lock (cn_lock_table n) inode (d, p)) = Ok () \<Longrightarrow> held_by (cn_lock_table n) inode \<noteq> None"
    by (auto simp: wait_for_lock_def held_by_None split: if_splits)
  ultimately show ?thesis
    using assms by (fastforce simp: keeps_def on_locks_def split_beta channels_def)
qed

lemma unlock_keeps:
  assumes "C \<subseteq> D \<union> channels n"
  shows "keeps C (\<lambda>u. senders (fst u) \<union> D) (on_locks n (\<lambda>lt. unlock z lt inode i))"
proof -
  have "queued (cn_lock_table n) \<subseteq> senders (fst u) \<union> queued (snd (unlock z (cn_lock_table n) inode i))"
    if "fst (unlock z (cn_lock_table n) inode i) = Ok u" for u
    using unlock_conserves [of z "cn_lock_table n" inode i "fst u" "snd u"] that
    by (fastforce simp: queued_def split: if_splits)
  then show ?thesis
    using assms by (fastforce simp: keeps_def on_locks_def split_beta channels_def)
qed

lemma hand_over_keeps:
  assumes "C \<subseteq> senders q \<union> channels n" "\<forall>s. alive s"
  shows "keeps C senders (hand_over z alive q l n)"
proof (cases "l = None \<or> q = []")
  case True
  then show ?thesis using assms by (auto simp: hand_over_def keeps_def split: option.split)
next
  case False
  then obtain i where i: "l = Some i" "q \<noteq> []" by auto
  let ?C = "\<lambda>m :: ('a, 'b, 'c) node. C \<subseteq> set_option (snd (last q)) \<union> senders (butlast q) \<union> channels m"
  have c: "?C n" using assms(1) senders_last [OF i(2)] by blast
  have r: "keeps C senders (and_then_st (respond alive (snd (last q)) r m) (\<lambda>_ n. (Ok (butlast q), n)))" if "?C m" for r m
    by (rule keeps_then [OF respond_keeps [OF that assms(2)]], rule keeps_Ok)
  have "keeps C senders (and_then_st (assert_that b, m) (\<lambda>_ n. and_then_st (respond alive (snd (last q)) r n) (\<lambda>_ n. (Ok (butlast q), n))))"
    if "?C m" for b r m using r [OF that] by (cases b) (simp_all add: assert_that_def keeps_def [of _ _ "(Panic, _)"])
  then show ?thesis
    using c i by (cases "decode_request z (fst (last q))") (simp_all add: hand_over_def keeps_def [of _ _ "(Panic, _)"])
qed

lemma process_lock_table_keeps:
  assumes "C \<subseteq> set_option p \<union> channels n" and alive: "\<forall>s. alive s"
  shows "keeps C senders (process_lock_table z alive data p n)"
proof -
  have unlocked: "keeps C senders (process_unlocked z alive r data p n)" for r
  proof (cases r)
    case (Lock inode)
    have "keeps C senders (and_then_st (respond alive p a m) (\<lambda>_ n. (Ok [], n)))"
      if "C \<subseteq> set_option p \<union> channels m" for a and m :: "('a, 'b, 'c) node"
      using that by (intro keeps_then [OF respond_keeps [OF _ alive, where D = "{}"]] keeps_Ok) auto
    then show ?thesis
      unfolding process_unlocked_def Lock Request.case by (intro keeps_then [OF lock_keeps [OF assms(1)]])
  next
    case (Unlock inode i)
    have "keeps C senders (and_then_st (respond alive p a m) (\<lambda>_ n. hand_over z alive q l n))"
      if "C \<subseteq> senders q \<union> set_option p \<union> channels m" for a q l and m :: "('a, 'b, 'c) node"
      using that by (intro keeps_then [OF respond_keeps [OF _ alive, where D = "senders q"]] hand_over_keeps alive) auto
    then show ?thesis
      unfolding process_unlocked_def Unlock Request.case by (intro keeps_then [OF unlock_keeps [OF assms(1)]])
  qed (use assms(1) in \<open>simp_all add: process_unlocked_def keeps_def\<close>)
  have wait: "keeps C senders (and_then_st (on_locks n (\<lambda>lt. wait_for_lock lt inode (data, p))) (\<lambda>_ n. (Ok [], n)))" for inode
    by (intro keeps_then [OF wait_keeps [OF assms(1)]] keeps_Ok) simp
  show ?thesis
  proof (cases "decode_request z data")
    case (Some r)
    show ?thesis
    proof (cases "meta_inode (meta_info r)")
      case (Some inode)
      then show ?thesis
        using \<open>decode_request z data = Some r\<close> wait unlocked
        by (cases "is_locked (cn_lock_table n) (meta_info r)")
          (simp_all add: process_lock_table_def keeps_def [of _ _ "(Panic, _)"] keeps_def [of _ _ "(Err _, _)"])
    qed (use assms(1) Some in \<open>simp add: process_lock_table_def keeps_def\<close>)
  qed (simp add: process_lock_table_def keeps_def)
qed

lemma apply_requests_keeps:
  assumes alive: "\<forall>s. alive s"
  shows "C \<subseteq> senders q \<union> channels n \<Longrightarrow> keeps C (\<lambda>_. {}) (apply_requests z alive clk q n)"
proof (induction q arbitrary: n)
  case Nil
  then show ?case by (simp add: keeps_def)
next
  case (Cons p q)
  have c: "C \<subseteq> set_option (snd p) \<union> senders q \<union> channels (n\<lparr>cn_file_storage := fs, cn_commits := k\<rparr>)" for fs k
    using Cons.prems by (cases p) (auto simp: channels_def)
  have "keeps C (\<lambda>_. {}) (and_then_st (respond alive (snd p) r (n\<lparr>cn_file_storage := fs, cn_commits := k\<rparr>))
      (\<lambda>_ n. apply_requests z alive clk q n))" for r fs k
    by (intro keeps_then [OF respond_keeps [OF c alive]] Cons.IH)
  then show ?case
    by (cases "decode_request z (fst p)") (simp_all add: split_beta Let_def keeps_def [of _ _ "(Panic, _)"])
qed

lemma apply_commands_keeps:
  assumes alive: "\<forall>s. alive s"
  shows "C \<subseteq> channels n \<Longrightarrow> keeps C (\<lambda>_. {}) (apply_commands z alive clk cs n)"
proof (induction cs arbitrary: n)
  case Nil
  then show ?case by (simp add: keeps_def)
next
  case (Cons c cs)
  let ?p = "cn_pending_responses n (fst c)"
  let ?m = "n\<lparr>cn_pending_responses := (cn_pending_responses n)(fst c := None)\<rparr>"
  have "ran (cn_pending_responses n) \<subseteq> set_option ?p \<union> ran ((cn_pending_responses n)(fst c := None))"
    by (auto simp: ran_def) metis
  then have m: "C \<subseteq> set_option ?p \<union> channels ?m" using Cons.prems by (auto simp: channels_def)
  show ?case
  proof (cases "snd c = []")
    case True
    have "C \<subseteq> channels (case ?p of Some s \<Rightarrow> if alive s then ?m\<lparr>cn_answers := cn_answers ?m @ [(s, Ok Response.Empty)]\<rparr> else ?m
        | None \<Rightarrow> ?m)"
      using m alive by (cases ?p) (auto simp: channels_def)
    then show ?thesis unfolding apply_commands.simps Let_def if_P [OF True] by (rule Cons.IH)
  next
    case False
    show ?thesis
      unfolding apply_commands.simps Let_def if_not_P [OF False]
      by (intro keeps_then [OF process_lock_table_keeps [OF m alive]] keeps_then [OF apply_requests_keeps [OF alive]] Cons.IH)
        auto
  qed
qed

lemma apply_delivery_keeps:
  assumes "\<forall>s. alive s" "fst (apply_delivery z alive clk slot cs n) = Ok ()"
  shows "channels n \<subseteq> channels (snd (apply_delivery z alive clk slot cs n))"
proof -
  let ?x = "apply_commands z alive clk cs n"
  have ok: "fst ?x = Ok ()" using assms(2) by (simp add: apply_delivery_def and_then_st_pair split: res.splits)
  then have "channels n \<subseteq> channels (snd ?x)"
    using apply_commands_keeps [OF assms(1) order_refl, of n z clk cs] by (simp add: keeps_def)
  moreover have "channels (snd (apply_delivery z alive clk slot cs n)) = channels (snd ?x)"
    using assms(2) ok by (simp add: apply_delivery_def and_then_st_pair wake_syncs_closed channels_def)
  ultimately show ?thesis by simp
qed

section \<open>Properties\<close>

text \<open>A node of a fresh group, whose replica is the list of the actions that it still emits.\<close>

definition listed :: "(unit, (unit, nat) Action list, nat) raxos" where
  "listed = \<lparr>rx_new = (\<lambda>ids node seed. Some []), rx_submit = (\<lambda>now request r. (Some 0, r @ [Deliver 1 [(0, request)]])),
     rx_receive = (\<lambda>now message r. r), rx_tick = (\<lambda>now r. r),
     rx_poll_action = (\<lambda>r. case r of [] \<Rightarrow> (None, []) | a # as \<Rightarrow> (Some a, as)),
     rx_leader = (\<lambda>r. 5), rx_retained_bytes = length, rx_encode = (\<lambda>m. []), rx_decode = (\<lambda>b. Some ())\<rparr>"

definition new_node :: "nat \<Rightarrow> ((unit, nat) Action list, nat, u64) node" where
  "new_node k = \<lparr>cn_replica = [], cn_pending_responses = Map.empty, cn_sync_requests = [], cn_applied_index = 0,
     cn_peers = [(5, 5), (9, 9)], cn_raft_group_id = 0, cn_file_storage = fresh_node [5, 9] k,
     cn_lock_table = LockTable_new, cn_last_retained_warn = 0, cn_poisoned = False, cn_next_channel = 0,
     cn_commits = 0, cn_answers = [], cn_synced = [], cn_outbox = []\<rparr>"

text \<open>
  C9. Replication with locks. Two nodes of a group that agree and are delivered the same slots
  agree again: their file storages up to time stamps, the locks held, the next lock id, the
  requests that wait for each lock and their order, and the applied index; and a panic strikes
  both at the same slot. This holds whatever is local to each of them: the clock readings, the
  responses its own clients wait for, and its waiters of \<^verbatim>\<open>sync\<close>.
\<close>
theorem nodes_agree:
  fixes n n' :: "('r, 'k, 'p) node"
  assumes "node_agree n n'" "map snd log = map snd log'"
  shows "fst (run (deliver z) log n) = fst (run (deliver z) log' n')
    \<and> node_agree (snd (run (deliver z) log n)) (snd (run (deliver z) log' n'))"
  using slots.run_agree [OF assms(2,1), of z] by (simp add: list.rel_eq)

theorem nodes_agree_witness:
  "let local = (\<lambda>_. epoch, Map.empty, []); submitter = (\<lambda>_. epoch, [3 \<mapsto> 7], [(1, 8)]);
       slots = [(1, [(3, [1]), (4, [2])]), (2, [(5, [])])]
   in node_agree (snd (run (deliver small_codec) (map (Pair local) slots) (new_node 0)))
        (snd (run (deliver small_codec) (map (Pair submitter) slots) (new_node 1)))"
proof -
  have "node_agree (new_node 0) (new_node 1)"
    by (simp add: node_agree_def new_node_def storage_agree_def fresh_node_def metadata_agree_def file_inode_exists_def
        locks_agree_def)
  then show ?thesis unfolding Let_def by (rule nodes_agree [THEN conjunct2]) simp
qed

text \<open>
  C17. No client is forgotten. After a slot has been applied, every client channel that the node
  knew before (answered, waiting for its command, or waiting for a lock) is still one of these: a
  request whose command is delivered is answered, or it waits in the queue of a lock.
\<close>
theorem no_client_forgotten:
  assumes "\<forall>s. alive s" "fst (apply_delivery z alive clk slot commands n) = Ok ()"
  shows "channels n \<subseteq> channels (snd (apply_delivery z alive clk slot commands n))"
  by (rule apply_delivery_keeps [OF assms])

theorem no_client_forgotten_witness:
  "7 \<in> channels (snd (apply_delivery small_codec (\<lambda>_. True) (\<lambda>_. epoch) 1 [(3, [1])]
     ((new_node 0)\<lparr>cn_pending_responses := [3 \<mapsto> 7]\<rparr>)))"
proof -
  let ?n = "(new_node 0)\<lparr>cn_pending_responses := [3 \<mapsto> 7]\<rparr>"
  have "fst (apply_delivery small_codec (\<lambda>_. True) (\<lambda>_. epoch) 1 [(3, [1])] ?n) = Ok ()"
    by (simp add: apply_delivery_def process_lock_table_def process_unlocked_def small_codec_def decode_request_def
        new_node_def is_locked_def LockTable_new_def on_locks_def lock_def respond_def)
  from no_client_forgotten [OF _ this] show ?thesis by (auto simp: channels_def)
qed

text \<open>
  C24. Waiting for an index is safe. Applying a slot sets the applied index to it and wakes, in
  order, the waiters at the front of the queue up to the first one that waits for a later slot;
  the others keep waiting. So a waiter is woken only when all slots up to its index are applied.
\<close>
theorem sync_wakes_front:
  assumes "fst (apply_delivery z alive clk slot commands n) = Ok ()"
  shows "cn_applied_index (snd (apply_delivery z alive clk slot commands n)) = slot
    \<and> cn_synced (snd (apply_delivery z alive clk slot commands n))
        = cn_synced n @ map snd (takeWhile (\<lambda>w. fst w \<le> slot) (cn_sync_requests n))
    \<and> cn_sync_requests (snd (apply_delivery z alive clk slot commands n))
        = dropWhile (\<lambda>w. fst w \<le> slot) (cn_sync_requests n)"
  using apply_delivery_syncs [OF assms] by simp

theorem sync_wakes_front_witness:
  "cn_synced (snd (apply_delivery small_codec (\<lambda>_. True) (\<lambda>_. epoch) 4 ([] :: (nat \<times> bytes) list)
     ((new_node 0)\<lparr>cn_sync_requests := [(3, 20), (4, 21), (6, 22)]\<rparr>))) = [20, 21]"
  using sync_wakes_front [of small_codec "\<lambda>_. True" "\<lambda>_. epoch" 4 "[]"
      "(new_node 0)\<lparr>cn_sync_requests := [(3, 20), (4, 21), (6, 22)]\<rparr>"]
  by (simp add: apply_delivery_def new_node_def)

text \<open>
  A waiter can be woken too late. A waiter whose index has been reached is left waiting
  when one in front of it waits for a later slot: the queue of \<^verbatim>\<open>sync\<close> is only served from its
  front, and it is not ordered by index.
\<close>
theorem sync_waiter_left_behind:
  assumes "fst (apply_delivery z alive clk slot commands n) = Ok ()"
    and "cn_sync_requests n = (index, s) # waiters" "slot < index"
  shows "cn_sync_requests (snd (apply_delivery z alive clk slot commands n)) = (index, s) # waiters
    \<and> cn_synced (snd (apply_delivery z alive clk slot commands n)) = cn_synced n"
  using apply_delivery_syncs [OF assms(1)] assms(2,3) by simp

lemma two_syncs:
  "sync 9 (new_node 0) = (Ok (Some 0), (new_node 0)\<lparr>cn_next_channel := 1, cn_sync_requests := [(9, 0)]\<rparr>)"
  "sync 2 ((new_node 0)\<lparr>cn_next_channel := 1, cn_sync_requests := [(9, 0)]\<rparr>)
    = (Ok (Some 1), (new_node 0)\<lparr>cn_next_channel := 2, cn_sync_requests := [(9, 0), (2, 1)]\<rparr>)"
  by (simp_all add: sync_def new_node_def)

theorem sync_waiter_left_behind_witness:
  "\<exists>n. fst (sync 9 (new_node 0)) = Ok (Some 0) \<and> fst (sync 2 (snd (sync 9 (new_node 0)))) = Ok (Some 1)
     \<and> n = snd (apply_delivery small_codec (\<lambda>_. True) (\<lambda>_. epoch) 5 [] (snd (sync 2 (snd (sync 9 (new_node 0))))))
     \<and> cn_applied_index n = 5 \<and> (2, 1) \<in> set (cn_sync_requests n)"
proof -
  let ?n = "(new_node 0)\<lparr>cn_next_channel := 2, cn_sync_requests := [(9, 0), (2, 1)]\<rparr>"
  have ok: "fst (apply_delivery small_codec (\<lambda>_. True) (\<lambda>_. epoch) 5 [] ?n) = Ok ()"
    by (simp add: apply_delivery_def)
  show ?thesis
    using sync_waiter_left_behind [OF ok, of 9 0 "[(2, 1)]"] apply_delivery_syncs(1) [OF ok]
    by (simp add: two_syncs [unfolded One_nat_def])
qed



end
