(* ===== verification/Lone_Node.thy ===== *)
theory Lone_Node
  imports Coordinator_Laws Consensus_Laws
begin

text \<open>
  The only member of a group: a node whose consensus has no other members, and which nobody else
  uses. What this relies on is stated as hypotheses on the libraries: the wire format reads back
  what it wrote (\<open>codec_ok\<close>), and the consensus of a single member delivers each command in a slot
  of its own (\<open>solitary\<close>). Then each request has its answer, or waits for a lock.
\<close>

section \<open>What the libraries promise\<close>

definition codec_ok :: "zerialize \<Rightarrow> bool" where
  "codec_ok z \<longleftrightarrow>
     (\<forall>r. encode_request z r \<noteq> [] \<and> decode_request z (encode_request z r) = Some r) \<and>
     (\<forall>r. zerialize_decode_response z (zerialize_encode_response z r) = Some r)"

definition solitary :: "('m, 'r, 'k) raxos \<Rightarrow> ('r \<Rightarrow> bool) \<Rightarrow> bool" where
  "solitary rx quiet \<longleftrightarrow>
     (\<forall>now data r. quiet r \<longrightarrow> (\<exists>k slot r1 r2 r3. rx_submit rx now data r = (Some k, r1) \<and>
        rx_poll_action rx r1 = (Some (Deliver slot [(k, data)]), r2) \<and> rx_poll_action rx r2 = (None, r3) \<and> quiet r3))"

lemma codec_okD:
  assumes "codec_ok z"
  shows "encode_request z r \<noteq> []" "decode_request z (encode_request z r) = Some r"
    "response_or_error z (encode_response z response) =
       (case as_error_response (as_view response) of Some e \<Rightarrow> Err e | None \<Rightarrow> Ok (as_view response))"
  using assms by (simp_all add: codec_ok_def response_or_error_def encode_response_def decode_response_def)

section \<open>A command on the node\<close>

text \<open>A proposal and the answer on its channel; \<open>None\<close> when nobody answers.\<close>

definition node_call ::
    "('m, 'r, 'k) raxos \<Rightarrow> zerialize \<Rightarrow> (nat \<Rightarrow> clock) \<Rightarrow> u64 \<Rightarrow> bytes \<Rightarrow> (('r, 'k, 'p) node, ErrorCode, Response) act" where
  "node_call rx z clk now data n =
     await (propose_raw rx z (\<lambda>_. True) clk now data n) (\<lambda>s n. map_option (\<lambda>a. (a, n)) (map_of (cn_answers n) s))"

definition node_ready :: "('r \<Rightarrow> bool) \<Rightarrow> ('r, 'k, 'p) node \<Rightarrow> bool" where
  "node_ready quiet n \<longleftrightarrow>
     \<not> cn_poisoned n \<and> quiet (cn_replica n) \<and> (\<forall>s \<in> fst ` set (cn_answers n). s < cn_next_channel n)"

lemma wake_syncs_alive: "fst (wake_syncs (\<lambda>_. True) slot ws n) = Ok ()"
  by (induction ws arbitrary: n) auto

lemma wake_syncs_fields:
  "cn_file_storage (snd (wake_syncs a slot ws n)) = cn_file_storage n"
  "cn_lock_table (snd (wake_syncs a slot ws n)) = cn_lock_table n"
  "cn_answers (snd (wake_syncs a slot ws n)) = cn_answers n"
  "cn_next_channel (snd (wake_syncs a slot ws n)) = cn_next_channel n"
  "cn_poisoned (snd (wake_syncs a slot ws n)) = cn_poisoned n"
  "cn_raft_group_id (snd (wake_syncs a slot ws n)) = cn_raft_group_id n"
  by (induction ws arbitrary: n) auto

lemma apply_delivery_fields:
  "cn_next_channel (snd (apply_delivery z alive clk slot cs n)) = cn_next_channel n"
  "cn_poisoned (snd (apply_delivery z alive clk slot cs n)) = cn_poisoned n"
  "cn_raft_group_id (snd (apply_delivery z alive clk slot cs n)) = cn_raft_group_id n"
  using apply_commands_untouched [of z alive clk cs n]
  by (auto simp: apply_delivery_def and_then_st_pair untouched_def wake_syncs_fields split: res.splits)

text \<open>Proposing on a quiet node delivers the command, and nothing else happens.\<close>

lemma propose_alone:
  assumes "solitary rx quiet" "node_ready quiet n"
  obtains k slot r2 r3 where "quiet r3"
    "propose_raw rx z alive clk now data n =
      (let s = cn_next_channel n;
           x = apply_delivery z alive clk slot [(k, data)]
                 (n\<lparr>cn_next_channel := s + 1, cn_pending_responses := (cn_pending_responses n)(k \<mapsto> s), cn_replica := r2\<rparr>)
       in if fst x = Ok () then Some (Ok s, (snd x)\<lparr>cn_replica := r3\<rparr>) else Some (Panic, (snd x)\<lparr>cn_poisoned := True\<rparr>))"
proof -
  have "quiet (cn_replica n)" "\<not> cn_poisoned n" using assms(2) by (simp_all add: node_ready_def)
  then obtain k slot r1 r2 r3 where rx: "rx_submit rx now data (cn_replica n) = (Some k, r1)"
    "rx_poll_action rx r1 = (Some (Deliver slot [(k, data)]), r2)" "rx_poll_action rx r2 = (None, r3)" "quiet r3"
    using assms(1) unfolding solitary_def by meson
  let ?s = "cn_next_channel n"
  let ?m = "n\<lparr>cn_next_channel := ?s + 1, cn_pending_responses := (cn_pending_responses n)(k \<mapsto> ?s), cn_replica := r2\<rparr>"
  let ?x = "apply_delivery z alive clk slot [(k, data)] ?m"
  have "poll_actions rx z alive clk [] (snd ?x) = Some (Ok [], (snd ?x)\<lparr>cn_replica := r3\<rparr>)"
    by (subst poll_actions.simps) (simp add: apply_delivery_replica rx)
  moreover have "submit_input rx now data ?s (n\<lparr>cn_next_channel := ?s + 1\<rparr>)
      = n\<lparr>cn_next_channel := ?s + 1, cn_pending_responses := (cn_pending_responses n)(k \<mapsto> ?s), cn_replica := r1\<rparr>"
    by (simp add: submit_input_def rx)
  ultimately have "poll_actions rx z alive clk [] (submit_input rx now data ?s (n\<lparr>cn_next_channel := ?s + 1\<rparr>)) =
      (if fst ?x = Ok () then Some (Ok [], (snd ?x)\<lparr>cn_replica := r3\<rparr>) else Some (Panic, snd ?x))"
    by (simp only:) (subst poll_actions.simps, simp add: rx split_beta)
  then have "propose_raw rx z alive clk now data n =
      (let s = ?s; x = ?x
       in if fst x = Ok () then Some (Ok s, (snd x)\<lparr>cn_replica := r3\<rparr>) else Some (Panic, (snd x)\<lparr>cn_poisoned := True\<rparr>))"
    using \<open>\<not> cn_poisoned n\<close> by (simp add: propose_raw_def drive_def Let_def)
  then show ?thesis unfolding Let_def by (rule that [OF rx(4), unfolded Let_def])
qed

text \<open>The command that is not a barrier: past the lock table, then to the storage.\<close>

definition served ::
    "zerialize \<Rightarrow> (nat \<Rightarrow> clock) \<Rightarrow> bytes \<Rightarrow> Sender \<Rightarrow> ('r, 'k, 'p) node \<Rightarrow> (ErrorCode, unit) res \<times> ('r, 'k, 'p) node" where
  "served z clk data s n =
     and_then_st (process_lock_table z (\<lambda>_. True) data (Some s) n) (\<lambda>q n. apply_requests z (\<lambda>_. True) clk q n)"

lemma apply_commands_Nil: "apply_commands z alive clk [] = Pair (Ok ())"
  by (simp add: fun_eq_iff)

lemma apply_delivery_served:
  assumes "data \<noteq> []" "cn_pending_responses n k = Some s"
  shows "apply_delivery z (\<lambda>_. True) clk slot [(k, data)] n =
    and_then_st (served z clk data s (n\<lparr>cn_pending_responses := (cn_pending_responses n)(k := None)\<rparr>)) (\<lambda>_ n.
      wake_syncs (\<lambda>_. True) slot (cn_sync_requests n) (n\<lparr>cn_applied_index := slot\<rparr>))"
  using assms
  by (cases "process_lock_table z (\<lambda>_. True) data (Some s) (n\<lparr>cn_pending_responses := (cn_pending_responses n)(k := None)\<rparr>)";
      cases "fst (process_lock_table z (\<lambda>_. True) data (Some s) (n\<lparr>cn_pending_responses := (cn_pending_responses n)(k := None)\<rparr>))")
    (auto simp: apply_delivery_def served_def apply_commands_Nil and_then_st_pair split: res.split)

text \<open>What the storage side of the node sees.\<close>

definition same_node :: "('r, 'k, 'p) node \<Rightarrow> ('r, 'k, 'p) node \<Rightarrow> bool" where
  "same_node n m \<longleftrightarrow> cn_file_storage m = cn_file_storage n \<and> cn_lock_table m = cn_lock_table n \<and>
     cn_answers m = cn_answers n \<and> cn_commits m = cn_commits n"

text \<open>An answer on a new channel is found.\<close>

lemma map_of_new_channel:
  assumes "node_ready quiet n"
  shows "map_of (cn_answers n @ [(cn_next_channel n, a)]) (cn_next_channel n) = Some a"
    "map_of (cn_answers n) (cn_next_channel n) = None"
proof -
  have "cn_next_channel n \<notin> fst ` set (cn_answers n)" using assms by (auto simp: node_ready_def)
  then show "map_of (cn_answers n) (cn_next_channel n) = None" by (simp add: map_of_eq_None_iff)
  then show "map_of (cn_answers n @ [(cn_next_channel n, a)]) (cn_next_channel n) = Some a"
    by (simp add: map_add_def)
qed

lemma node_ready_answered:
  "node_ready quiet n \<Longrightarrow> \<not> cn_poisoned n' \<Longrightarrow> quiet (cn_replica n') \<Longrightarrow> cn_next_channel n' = cn_next_channel n + 1 \<Longrightarrow>
   cn_answers n' = cn_answers n @ [(cn_next_channel n, a)] \<Longrightarrow> node_ready quiet n'"
  by (auto simp: node_ready_def)

text \<open>
  A call on \<open>n\<close> runs the command on \<open>m\<close>: it returns the answer that the command leaves on the
  channel, waits for ever when there is none, and panics when the command does.
\<close>

definition runs_on ::
    "('m, 'r, 'k) raxos \<Rightarrow> ('r \<Rightarrow> bool) \<Rightarrow> zerialize \<Rightarrow> (nat \<Rightarrow> clock) \<Rightarrow> u64 \<Rightarrow> bytes \<Rightarrow> ('r, 'k, 'p) node \<Rightarrow> ('r, 'k, 'p) node \<Rightarrow> bool" where
  "runs_on rx quiet z clk now data n m \<longleftrightarrow> same_node n m \<and>
     (let x = served z clk data (cn_next_channel n) m
      in if fst x = Ok () then
           \<exists>n'. cn_file_storage n' = cn_file_storage (snd x) \<and> cn_lock_table n' = cn_lock_table (snd x) \<and>
             cn_answers n' = cn_answers (snd x) \<and>
             \<not> cn_poisoned n' \<and> quiet (cn_replica n') \<and> cn_next_channel n' = cn_next_channel n + 1 \<and>
             node_call rx z clk now data n = map_option (\<lambda>a. (a, n')) (map_of (cn_answers (snd x)) (cn_next_channel n))
         else \<exists>n'. node_call rx z clk now data n = Some (Panic, n') \<and> cn_poisoned n' \<and> cn_lock_table n' = cn_lock_table (snd x))"

lemma node_call_served:
  fixes n :: "('r, 'k, 'p) node"
  assumes "solitary rx quiet" "node_ready quiet n" "data \<noteq> []"
  obtains m where "runs_on rx quiet z clk now data n m"
proof -
  obtain k slot r2 r3 where p: "quiet r3" "propose_raw rx z (\<lambda>_. True) clk now data n =
      (let s = cn_next_channel n;
           x = apply_delivery z (\<lambda>_. True) clk slot [(k, data)]
                 (n\<lparr>cn_next_channel := s + 1, cn_pending_responses := (cn_pending_responses n)(k \<mapsto> s), cn_replica := r2\<rparr>)
       in if fst x = Ok () then Some (Ok s, (snd x)\<lparr>cn_replica := r3\<rparr>) else Some (Panic, (snd x)\<lparr>cn_poisoned := True\<rparr>))"
    using propose_alone [OF assms(1,2)] by metis
  define s where "s = cn_next_channel n"
  define m0 where "m0 = n\<lparr>cn_next_channel := s + 1, cn_pending_responses := (cn_pending_responses n)(k \<mapsto> s), cn_replica := r2\<rparr>"
  define m where "m = m0\<lparr>cn_pending_responses := (cn_pending_responses m0)(k := None)\<rparr>"
  define x where "x = apply_delivery z (\<lambda>_. True) clk slot [(k, data)] m0"
  have call: "node_call rx z clk now data n =
      (if fst x = Ok () then map_option (\<lambda>a. (a, (snd x)\<lparr>cn_replica := r3\<rparr>)) (map_of (cn_answers (snd x)) s)
       else Some (Panic, (snd x)\<lparr>cn_poisoned := True\<rparr>))"
    unfolding node_call_def p(2) by (simp add: s_def m0_def x_def Let_def)
  have x: "x = and_then_st (served z clk data s m) (\<lambda>_ n.
      wake_syncs (\<lambda>_. True) slot (cn_sync_requests n) (n\<lparr>cn_applied_index := slot\<rparr>))"
    unfolding x_def m_def by (rule apply_delivery_served) (simp_all add: assms(3) m0_def)
  have fields: "\<not> cn_poisoned (snd x)" "cn_next_channel (snd x) = s + 1"
    using assms(2) by (simp_all add: x_def apply_delivery_fields m0_def node_ready_def)
  show thesis
  proof (rule that [of m], unfold runs_on_def Let_def s_def [symmetric], intro conjI)
    show "same_node n m" by (simp add: same_node_def m_def m0_def)
    let ?v = "served z clk data s m"
    show "if fst ?v = Ok () then
        \<exists>n'. cn_file_storage n' = cn_file_storage (snd ?v) \<and> cn_lock_table n' = cn_lock_table (snd ?v) \<and>
          cn_answers n' = cn_answers (snd ?v) \<and> \<not> cn_poisoned n' \<and> quiet (cn_replica n') \<and> cn_next_channel n' = s + 1 \<and>
          node_call rx z clk now data n = map_option (\<lambda>a. (a, n')) (map_of (cn_answers (snd ?v)) s)
      else \<exists>n'. node_call rx z clk now data n = Some (Panic, n') \<and> cn_poisoned n' \<and> cn_lock_table n' = cn_lock_table (snd ?v)"
    proof (cases "fst ?v = Ok ()")
      case True
      with x have y: "x = wake_syncs (\<lambda>_. True) slot (cn_sync_requests (snd ?v)) ((snd ?v)\<lparr>cn_applied_index := slot\<rparr>)"
        by (simp add: and_then_st_pair)
      then have "fst x = Ok ()" "cn_file_storage (snd x) = cn_file_storage (snd ?v)"
        "cn_lock_table (snd x) = cn_lock_table (snd ?v)" "cn_answers (snd x) = cn_answers (snd ?v)"
        by (simp_all add: wake_syncs_alive wake_syncs_fields)
      with call fields p(1) show ?thesis
        unfolding if_P [OF True] by (intro exI [of _ "(snd x)\<lparr>cn_replica := r3\<rparr>"]) simp
    next
      case False
      then show ?thesis using call x by (cases "fst ?v") (simp_all add: and_then_st_pair)
    qed
  qed
qed

lemma runs_on_answer:
  assumes "runs_on rx quiet z clk now data n m" "node_ready quiet n"
    and "served z clk data (cn_next_channel n) m = (Ok (), m')" "cn_answers m' = cn_answers n @ [(cn_next_channel n, a)]"
  obtains n' where "node_call rx z clk now data n = Some (a, n')" "cn_file_storage n' = cn_file_storage m'"
    "cn_lock_table n' = cn_lock_table m'" "node_ready quiet n'"
proof -
  obtain n' where "cn_file_storage n' = cn_file_storage m'" "cn_lock_table n' = cn_lock_table m'"
    "cn_answers n' = cn_answers n @ [(cn_next_channel n, a)]" "\<not> cn_poisoned n'" "quiet (cn_replica n')"
    "cn_next_channel n' = cn_next_channel n + 1" "node_call rx z clk now data n = Some (a, n')"
    using assms(1,3,4) by (auto simp: runs_on_def map_add_def map_of_new_channel(2) [OF assms(2)])
  then show thesis using node_ready_answered [OF assms(2)] by (intro that [of n']) auto
qed

lemma runs_on_silent:
  assumes "runs_on rx quiet z clk now data n m" "node_ready quiet n"
    and "served z clk data (cn_next_channel n) m = (Ok (), m')" "cn_answers m' = cn_answers n"
  shows "node_call rx z clk now data n = None"
  using assms(1,3,4) by (auto simp: runs_on_def map_of_new_channel(2) [OF assms(2)])

lemma runs_on_panic:
  assumes "runs_on rx quiet z clk now data n m" "fst (served z clk data (cn_next_channel n) m) = Panic"
  obtains n' where "node_call rx z clk now data n = Some (Panic, n')" "cn_poisoned n'"
    "cn_lock_table n' = cn_lock_table (snd (served z clk data (cn_next_channel n) m))"
  using assms by (auto simp: runs_on_def)

lemma runs_on_same: "runs_on rx quiet z clk now data n m \<Longrightarrow> same_node n m"
  by (simp add: runs_on_def)

section \<open>Requests on the node\<close>

text \<open>A request that no lock holds back.\<close>

definition let_through :: "Request \<Rightarrow> LockTable \<Rightarrow> bool" where
  "let_through r lt \<longleftrightarrow> meta_inode (meta_info r) = None \<or> is_locked lt (meta_info r) = Ok False"

lemma process_through:
  assumes "decode_request z data = Some r" "let_through r (cn_lock_table n)" "\<not> is_lock_change r"
  shows "process_lock_table z alive data p n = (Ok [(data, p)], n)"
proof (cases "meta_inode (meta_info r)")
  case (Some inode)
  with assms(2) have "is_locked (cn_lock_table n) (meta_info r) = Ok False" by (simp add: let_through_def)
  moreover have "process_unlocked z alive r data p n = (Ok [(data, p)], n)"
    using assms(3) by (cases r) (simp_all add: process_unlocked_def)
  ultimately show ?thesis using assms(1) Some by (simp add: process_lock_table_def)
qed (use assms(1) in \<open>simp add: process_lock_table_def\<close>)

lemma served_commit:
  fixes clk :: "nat \<Rightarrow> clock" and n :: "('r, 'k, 'p) node"
  assumes "decode_request z data = Some r" "let_through r (cn_lock_table n)" "\<not> is_lock_change r"
  defines "c \<equiv> commit_write (clk (cn_commits n)) r (cn_file_storage n)"
  shows "served z clk data s n =
    (if fst c = Panic then (Panic, n\<lparr>cn_file_storage := snd c, cn_commits := cn_commits n + 1\<rparr>)
     else (Ok (), n\<lparr>cn_file_storage := snd c, cn_commits := cn_commits n + 1, cn_answers := cn_answers n @ [(s, fst c)]\<rparr>))"
  unfolding served_def process_through [OF assms(1-3)] by (simp add: assms(1) c_def split_beta Let_def respond_def)

lemma node_commit:
  fixes n :: "('r, 'k, 'p) node" and clk :: "nat \<Rightarrow> clock"
  assumes rx: "solitary rx quiet" "node_ready quiet n" and z: "codec_ok z"
    and r: "let_through r (cn_lock_table n)" "\<not> is_lock_change r"
  defines "c \<equiv> commit_write (clk (cn_commits n)) r (cn_file_storage n)"
  shows "fst c = Panic \<Longrightarrow> \<exists>n'. node_call rx z clk now (encode_request z r) n = Some (Panic, n') \<and>
      cn_poisoned n' \<and> cn_lock_table n' = cn_lock_table n"
    and "fst c \<noteq> Panic \<Longrightarrow> \<exists>n'. node_call rx z clk now (encode_request z r) n = Some (fst c, n') \<and>
      cn_file_storage n' = snd c \<and> cn_lock_table n' = cn_lock_table n \<and> node_ready quiet n'"
proof -
  obtain m where m: "runs_on rx quiet z clk now (encode_request z r) n m"
    by (rule node_call_served [OF rx codec_okD(1) [OF z]])
  then have sm: "let_through r (cn_lock_table m)" "cn_commits m = cn_commits n" "cn_file_storage m = cn_file_storage n"
    "cn_answers m = cn_answers n" "cn_lock_table m = cn_lock_table n"
    using runs_on_same [OF m] r(1) by (simp_all add: same_node_def)
  note e = served_commit [OF codec_okD(2) [OF z] sm(1) r(2), of clk "cn_next_channel n", unfolded sm(2-4), folded c_def]
  show "\<exists>n'. node_call rx z clk now (encode_request z r) n = Some (Panic, n') \<and> cn_poisoned n' \<and> cn_lock_table n' = cn_lock_table n"
    if "fst c = Panic"
    by (rule runs_on_panic [OF m]) (use e that sm(5) in auto)
  assume "fst c \<noteq> Panic"
  with e show "\<exists>n'. node_call rx z clk now (encode_request z r) n = Some (fst c, n') \<and>
      cn_file_storage n' = snd c \<and> cn_lock_table n' = cn_lock_table n \<and> node_ready quiet n'"
    using runs_on_answer [OF m rx(2)] sm(5) by fastforce
qed

lemma access_blocked_cases: "access_blocked t a = Panic \<or> access_blocked t a = Ok True \<or> access_blocked t a = Ok False"
  by (cases t; cases a) simp_all

lemma is_locked_cases:
  obtains "is_locked lt meta = Panic" "meta_inode meta \<noteq> None" | "is_locked lt meta = Ok False"
    | inode where "is_locked lt meta = Ok True" "meta_inode meta = Some inode" "held_by lt inode \<noteq> None"
proof (cases "meta_inode meta")
  case (Some inode)
  show ?thesis
  proof (cases "meta_lock_id meta")
    case None
    with Some access_blocked_cases [of _ "meta_access_type meta"] that show ?thesis
      by (cases "lt_lock_ids lt inode") (fastforce simp: is_locked_def held_by_def)+
  next
    case (Some i)
    with \<open>meta_inode meta = Some inode\<close> that show ?thesis
      by (cases "lt_lock_ids lt inode"; cases "fst (the (lt_lock_ids lt inode)) = i")
        (auto simp: is_locked_def expect_def assert_that_def)
  qed
qed (use that in \<open>simp add: is_locked_def\<close>)

lemma node_blocked:
  assumes rx: "solitary rx quiet" "node_ready quiet n" and z: "codec_ok z" and inode: "meta_inode (meta_info r) = Some inode"
    and locked: "is_locked (cn_lock_table n) (meta_info r) = Ok True" "held_by (cn_lock_table n) inode \<noteq> None"
  shows "node_call rx z clk now (encode_request z r) n = None"
proof -
  obtain m where m: "runs_on rx quiet z clk now (encode_request z r) n m"
    by (rule node_call_served [OF rx codec_okD(1) [OF z]])
  then have sm: "cn_lock_table m = cn_lock_table n" "cn_answers m = cn_answers n"
    using runs_on_same [OF m] by (simp_all add: same_node_def)
  have w: "fst (wait_for_lock (cn_lock_table n) inode req) = Ok ()" for req
    using wait_for_lock_Ok(1) [OF locked(2)] .
  show ?thesis
    by (rule runs_on_silent [OF m rx(2), of "m\<lparr>cn_lock_table := snd (wait_for_lock (cn_lock_table n) inode
          (encode_request z r, Some (cn_next_channel n)))\<rparr>"])
      (simp_all add: served_def process_lock_table_def codec_okD(2) [OF z] inode sm locked(1) on_locks_def split_beta w)
qed

lemma node_panics:
  assumes rx: "solitary rx quiet" "node_ready quiet n" and z: "codec_ok z"
    and inode: "meta_inode (meta_info r) \<noteq> None" and panic: "is_locked (cn_lock_table n) (meta_info r) = Panic"
  obtains n' where "node_call rx z clk now (encode_request z r) n = Some (Panic, n')"
proof -
  obtain m where m: "runs_on rx quiet z clk now (encode_request z r) n m"
    by (rule node_call_served [OF rx codec_okD(1) [OF z]])
  then have "cn_lock_table m = cn_lock_table n" using runs_on_same [OF m] by (simp add: same_node_def)
  then show thesis
    using inode panic by (intro runs_on_panic [OF m _ that]) (auto simp: served_def process_lock_table_def codec_okD(2) [OF z])
qed

lemma node_lock:
  assumes rx: "solitary rx quiet" "node_ready quiet n" and z: "codec_ok z" and free: "held_by (cn_lock_table n) inode = None"
  obtains n' where "node_call rx z clk now (encode_request z (Request.Lock inode)) n
      = Some (Ok (Response.Lock (lt_next_id (cn_lock_table n))), n')"
    "cn_file_storage n' = cn_file_storage n" "cn_lock_table n' = snd (lock (cn_lock_table n) inode)" "node_ready quiet n'"
proof -
  obtain m where m: "runs_on rx quiet z clk now (encode_request z (Request.Lock inode)) n m"
    by (rule node_call_served [OF rx codec_okD(1) [OF z]])
  then have sm: "cn_lock_table m = cn_lock_table n" "cn_answers m = cn_answers n" "cn_file_storage m = cn_file_storage n"
    using runs_on_same [OF m] by (simp_all add: same_node_def)
  have l: "is_locked (cn_lock_table n) (meta_info (Request.Lock inode)) = Ok False"
    using free by (simp add: is_locked_def held_by_def split: option.split)
  let ?m = "m\<lparr>cn_lock_table := snd (lock (cn_lock_table n) inode),
      cn_answers := cn_answers n @ [(cn_next_channel n, Ok (Response.Lock (lt_next_id (cn_lock_table n))))]\<rparr>"
  have "served z clk (encode_request z (Request.Lock inode)) (cn_next_channel n) m = (Ok (), ?m)"
    using l lock_Ok(1) [OF free]
    by (simp add: served_def process_lock_table_def process_unlocked_def codec_okD(2) [OF z] on_locks_def split_beta sm respond_def)
  then show thesis by (rule runs_on_answer [OF m rx(2)]) (use sm(3) that in auto)
qed

lemma node_unlock:
  assumes rx: "solitary rx quiet" "node_ready quiet n" and z: "codec_ok z"
    and held: "held_by (cn_lock_table n) inode = Some k" and idle: "\<And>i. queue_of (cn_lock_table n) i = []"
  obtains n' where "node_call rx z clk now (encode_request z (Request.Unlock inode k)) n = Some (Ok Response.Empty, n')"
    "cn_file_storage n' = cn_file_storage n" "held_by (cn_lock_table n') = (held_by (cn_lock_table n))(inode := None)"
    "\<And>i. queue_of (cn_lock_table n') i = []" "node_ready quiet n'"
proof -
  obtain m where m: "runs_on rx quiet z clk now (encode_request z (Request.Unlock inode k)) n m"
    by (rule node_call_served [OF rx codec_okD(1) [OF z]])
  then have sm: "cn_lock_table m = cn_lock_table n" "cn_answers m = cn_answers n" "cn_file_storage m = cn_file_storage n"
    using runs_on_same [OF m] by (simp_all add: same_node_def)
  obtain ty where ty: "lt_lock_ids (cn_lock_table n) inode = Some (k, ty)" using held_by_Some [OF held] by blast
  have l: "is_locked (cn_lock_table n) (meta_info (Request.Unlock inode k)) = Ok False"
    by (simp add: is_locked_def ty assert_that_def)
  let ?u = "unlock z (cn_lock_table n) inode k"
  have u: "fst ?u = Ok ([], None)" "held_by (snd ?u) = (held_by (cn_lock_table n))(inode := None)" "queue_of (snd ?u) i = []" for i
    using idle [of inode] idle [of i]
    by (cases "lt_pending_requests (cn_lock_table n) inode"; auto simp: unlock_def ty queue_of_def Let_def fun_eq_iff held_by_def)+
  have "served z clk (encode_request z (Request.Unlock inode k)) (cn_next_channel n) m = (Ok (),
      m\<lparr>cn_lock_table := snd ?u, cn_answers := cn_answers n @ [(cn_next_channel n, Ok Response.Empty)]\<rparr>)"
    using l u(1)
    by (simp add: served_def process_lock_table_def process_unlocked_def codec_okD(2) [OF z] on_locks_def split_beta sm
        respond_def hand_over_def)
  then show thesis by (rule runs_on_answer [OF m rx(2)]) (use sm(3) u(2,3) that in auto)
qed

lemma node_barrier:
  assumes rx: "solitary rx quiet" "node_ready quiet n"
  obtains n' where "node_call rx z clk now [] n = Some (Ok Response.Empty, n')"
    "cn_file_storage n' = cn_file_storage n" "cn_lock_table n' = cn_lock_table n" "node_ready quiet n'"
    "cn_raft_group_id n' = cn_raft_group_id n"
proof -
  obtain k slot r2 r3 where p: "quiet r3" "propose_raw rx z (\<lambda>_. True) clk now [] n =
      (let s = cn_next_channel n;
           x = apply_delivery z (\<lambda>_. True) clk slot [(k, [])]
                 (n\<lparr>cn_next_channel := s + 1, cn_pending_responses := (cn_pending_responses n)(k \<mapsto> s), cn_replica := r2\<rparr>)
       in if fst x = Ok () then Some (Ok s, (snd x)\<lparr>cn_replica := r3\<rparr>) else Some (Panic, (snd x)\<lparr>cn_poisoned := True\<rparr>))"
    using propose_alone [OF assms] by metis
  let ?x = "apply_delivery z (\<lambda>_. True) clk slot [(k, [])]
      (n\<lparr>cn_next_channel := cn_next_channel n + 1, cn_pending_responses := (cn_pending_responses n)(k \<mapsto> cn_next_channel n),
         cn_replica := r2\<rparr>)"
  let ?n = "(snd ?x)\<lparr>cn_replica := r3\<rparr>"
  have x: "fst ?x = Ok ()" "cn_answers (snd ?x) = cn_answers n @ [(cn_next_channel n, Ok Response.Empty)]"
    "cn_file_storage (snd ?x) = cn_file_storage n" "cn_lock_table (snd ?x) = cn_lock_table n"
    by (simp_all add: apply_delivery_def apply_commands_Nil wake_syncs_alive wake_syncs_fields)
  have "node_ready quiet ?n"
    by (rule node_ready_answered [OF rx(2)])
      (use rx(2) p(1) x(2) in \<open>simp_all add: apply_delivery_fields node_ready_def\<close>)
  then show thesis
    using x p(2) by (intro that [of ?n]) (simp_all add: apply_delivery_fields node_call_def Let_def map_add_def map_of_new_channel(2) [OF rx(2)])
qed

text \<open>A poisoned node panics on every call, and stays as it is.\<close>

lemma node_dead: "cn_poisoned n \<Longrightarrow> \<exists>n'. node_call rx z clk now data n = Some (Panic, n') \<and> cn_poisoned n' \<and> cn_lock_table n' = cn_lock_table n"
  by (simp add: node_call_def propose_raw_def drive_def Let_def)

lemma node_other:
  fixes n :: "('r, 'k, 'p) node"
  assumes rx: "solitary rx quiet" "node_ready quiet n \<or> cn_poisoned n" and z: "codec_ok z" and r: "\<not> is_lock_change r"
  shows "outcome (node_call rx z clk now (encode_request z r) n)
    (\<lambda>_ n'. node_ready quiet n' \<and> cn_lock_table n' = cn_lock_table n)
    (\<lambda>n'. node_ready quiet n' \<and> cn_lock_table n' = cn_lock_table n)"
proof (cases "cn_poisoned n")
  case True
  from node_dead [OF this, of rx z clk now "encode_request z r"] show ?thesis by auto
next
  case False
  with rx(2) have ready: "node_ready quiet n" by simp
  show ?thesis
  proof (cases rule: is_locked_cases [of "cn_lock_table n" "meta_info r"])
    case 1
    show ?thesis by (rule node_panics [OF rx(1) ready z 1(2,1), where clk = clk and now = now]) simp
  next
    case 2
    then have "let_through r (cn_lock_table n)" by (simp add: let_through_def)
    note c = node_commit [OF rx(1) ready z this r, of clk now]
    show ?thesis
    proof (cases "fst (commit_write (clk (cn_commits n)) r (cn_file_storage n)) = Panic")
      case True
      then show ?thesis using c(1) by auto
    next
      case False
      then show ?thesis using c(2) by (auto intro!: outcome_give)
    qed
  qed (simp add: node_blocked [OF rx(1) ready z])
qed

end
