(* ===== verification/Standalone.thy ===== *)
theory Standalone
  imports Router Lone_Node
begin

text \<open>
  A node on its own: a cluster of one node with one group, which nobody else uses. Requests run
  through the router, the consensus node, the lock table and the storages; transactions of the
  coordinator run on top of them, and release what they lock.
\<close>

section \<open>The world of the node\<close>

text \<open>
  What the run-time system promises when nobody else uses the node: a channel that has been
  answered yields the answer and leaves the world as it is, and one that has not is waited on for
  ever.
\<close>

definition runtime_ok :: "('m, 'r, 'k, 'c, 's) runtime \<Rightarrow> ('r \<Rightarrow> bool) \<Rightarrow> bool" where
  "runtime_ok rt quiet \<longleftrightarrow>
     codec_ok (rt_zerialize rt) \<and> solitary (rt_raxos rt) quiet \<and> (\<forall>s. rt_alive rt s) \<and>
     (\<forall>s w. rt_receive rt 0 s w =
        Option.bind (map_of (gm_groups (w_raft w)) 0) (\<lambda>n. map_option (\<lambda>a. (a, w)) (map_of (cn_answers n) s)))"

text \<open>The manager of a cluster of one node, and the world with its one group.\<close>

definition lone :: "('r, 'k) LocalRaftGroupManager \<Rightarrow> bool" where
  "lone m \<longleftrightarrow> gm_total_raft_groups m = 1 \<and> lc_peers (gm_context m) = [] \<and> lc_replicas_per_raft_group (gm_context m) = 1"

definition node_of :: "('r, 'k, 'c, 's) world \<Rightarrow> ('r, 'k, TcpPeerClient) node" where
  "node_of w = the (map_of (gm_groups (w_raft w)) 0)"

definition put_node :: "('r, 'k, TcpPeerClient) node \<Rightarrow> ('r, 'k, 'c, 's) world \<Rightarrow> ('r, 'k, 'c, 's) world" where
  "put_node n w = w\<lparr>w_raft := (w_raft w)\<lparr>gm_groups := [(0, n)]\<rparr>\<rparr>"

definition standalone :: "('m, 'r, 'k, 'c, 's) runtime \<Rightarrow> ('r \<Rightarrow> bool) \<Rightarrow> ('r, 'k, 'c, 's) world \<Rightarrow> bool" where
  "standalone rt quiet w \<longleftrightarrow>
     runtime_ok rt quiet \<and> lone (w_raft w) \<and> gm_groups (w_raft w) = [(0, node_of w)] \<and>
     (node_ready quiet (node_of w) \<or> cn_poisoned (node_of w))"

lemma lone_lookup:
  assumes "lone m"
  shows "inode_stored_locally h m inode = Ok True" "raft_group_of (gm_total_raft_groups m) inode = Ok 0"
    "has_raft_group m 0 \<Longrightarrow> lookup_by_inode h m inode = Ok 0"
proof -
  have "node_index h (gm_context m) = Ok 0"
    using assms by (simp add: node_index_def sorted_node_ids_def lone_def position_def)
  moreover have "node_contains_raft_group 0 1 0 1 = Ok True"
    by (simp add: node_contains_raft_group_def Let_def)
  ultimately have c: "contains_group h (gm_context m) 0 = Ok True"
    using assms by (simp add: contains_group_def total_nodes_def lone_def)
  show g: "raft_group_of (gm_total_raft_groups m) inode = Ok 0"
    using assms by (simp add: raft_group_of_def lone_def)
  show "inode_stored_locally h m inode = Ok True" by (simp add: inode_stored_locally_def g c)
  show "has_raft_group m 0 \<Longrightarrow> lookup_by_inode h m inode = Ok 0"
    by (simp add: lookup_by_inode_def g c lookup_by_raft_group_def)
qed

lemma put_node_simps [simp]:
  "node_of (put_node n w) = n" "gm_groups (w_raft (put_node n w)) = [(0, n)]" "lone (w_raft (put_node n w)) = lone (w_raft w)"
  "w_net (put_node n w) = w_net w"
  by (simp_all add: put_node_def node_of_def lone_def)

lemma standalone_put:
  "standalone rt quiet w \<Longrightarrow> node_ready quiet n \<or> cn_poisoned n \<Longrightarrow> standalone rt quiet (put_node n w)"
  by (simp add: standalone_def)

subsection \<open>Calls\<close>

text \<open>A call on the one group is a call on the node.\<close>

lemma propose_on_node:
  assumes "standalone rt quiet w"
  shows "group_propose_raw rt data 0 w = map_option (\<lambda>(r, n). (r, put_node n w))
      (node_call (rt_raxos rt) (rt_zerialize rt) (rt_clock rt) (rt_now rt) data (node_of w))"
    and "group_read_barrier rt 0 w = await (group_propose_raw rt [] 0 w) (\<lambda>_. give (Ok ()))"
proof -
  have w: "gm_groups (w_raft w) = [(0, node_of w)]" and alive: "rt_alive rt = (\<lambda>_. True)"
    and rec: "rt_receive rt 0 s w' =
      Option.bind (map_of (gm_groups (w_raft w')) 0) (\<lambda>n. map_option (\<lambda>a. (a, w')) (map_of (cn_answers n) s))" for s w'
    using assms by (auto simp: standalone_def runtime_ok_def)
  have call: "call_group 0 call w = map_option (\<lambda>(r, n). (r, put_node n w)) (call (node_of w))" for call
    by (simp add: call_group_def w put_node_def)
  let ?p = "propose_raw (rt_raxos rt) (rt_zerialize rt) (\<lambda>_. True) (rt_clock rt) (rt_now rt) data (node_of w)"
  show "group_propose_raw rt data 0 w = map_option (\<lambda>(r, n). (r, put_node n w))
      (node_call (rt_raxos rt) (rt_zerialize rt) (rt_clock rt) (rt_now rt) data (node_of w))"
    unfolding group_propose_raw_def node_call_def call alive
    by (cases ?p; cases "fst (the ?p)") (auto simp: rec option.map_comp comp_def split: option.split)
  show "group_read_barrier rt 0 w = await (group_propose_raw rt [] 0 w) (\<lambda>_. give (Ok ()))"
    unfolding group_read_barrier_def group_propose_raw_def read_barrier_def
    by (cases "call_group 0 (propose_raw (rt_raxos rt) (rt_zerialize rt) (rt_alive rt) (rt_clock rt) (rt_now rt) []) w";
        cases "fst (the (call_group 0 (propose_raw (rt_raxos rt) (rt_zerialize rt) (rt_alive rt) (rt_clock rt) (rt_now rt) []) w))")
      (auto simp: await_def)
qed

lemma outcome_map_state:
  "outcome (map_option (\<lambda>(r, n). (r, f n)) x) Q E \<longleftrightarrow> outcome x (\<lambda>a n. Q a (f n)) (\<lambda>n. E (f n))"
  by (cases x) (auto simp: outcome_def split: res.split)

lemma standalone_lookup:
  assumes "standalone rt quiet w"
  shows "by_inode rt inode call w = call 0 w"
    "ask_group 0 query w = Some (query (node_of w), w)"
    "lookup_by_inode (rt_v6_hash rt) (w_raft w) inode = Ok 0"
proof -
  have l: "lone (w_raft w)" and w: "gm_groups (w_raft w) = [(0, node_of w)]"
    using assms by (simp_all add: standalone_def)
  then have "has_raft_group (w_raft w) 0" by (simp add: has_raft_group_def)
  then show "lookup_by_inode (rt_v6_hash rt) (w_raft w) inode = Ok 0" using lone_lookup(3) [OF l] by blast
  then show "by_inode rt inode call w = call 0 w" by (simp add: by_inode_def)
  show "ask_group 0 query w = Some (query (node_of w), w)" by (simp add: ask_group_def w)
qed

text \<open>What a transaction finds: no request waits for a lock, and the locks that are held.\<close>

definition no_waiters :: "('r, 'k, 'c, 's) world \<Rightarrow> bool" where
  "no_waiters w \<longleftrightarrow> (\<forall>i. queue_of (cn_lock_table (node_of w)) i = [])"

definition locks_of :: "('r, 'k, 'c, 's) world \<Rightarrow> (u64 \<times> u64) set" where
  "locks_of w = {(i, k). held_by (cn_lock_table (node_of w)) i = Some k}"

text \<open>
  The connections of the node lead back to it: connecting and reading leave its groups alone, and a
  frame that is written is handled by its router, or lost.
\<close>

definition loopback ::
    "('m, 'r, 'k, 'c, 's) runtime \<Rightarrow> RemoteRaftGroups \<Rightarrow> LocalContext \<Rightarrow> bool" where
  "loopback rt remote c \<longleftrightarrow>
     (\<forall>addr w r w'. tcp_connect (rt_tcp rt) addr w = Some (r, w') \<longrightarrow> w_raft w' = w_raft w) \<and>
     (\<forall>s k w r w'. tcp_read_exact (rt_tcp rt) s k w = Some (r, w') \<longrightarrow> w_raft w' = w_raft w) \<and>
     (\<forall>s data w r w'. tcp_write_all (rt_tcp rt) s (frame data) w = Some (r, w') \<longrightarrow>
        w_raft w' = w_raft w \<or> (\<exists>b v. request_router rt remote c data w = Some (b, v) \<and> w_raft w' = w_raft v))"

definition tx_ok ::
    "('m, 'r, 'k, 'c, 's) runtime \<Rightarrow> ('r \<Rightarrow> bool) \<Rightarrow> ('r, 'k) LocalRaftGroupManager \<Rightarrow> RemoteRaftGroups \<Rightarrow> LocalContext
      \<Rightarrow> ('r, 'k, 'c, 's) world \<Rightarrow> bool" where
  "tx_ok rt quiet m remote c w \<longleftrightarrow> standalone rt quiet w \<and> no_waiters w \<and> lone m \<and> loopback rt remote c"

lemma same_raft:
  assumes "w_raft w' = w_raft w"
  shows "node_of w' = node_of w" "standalone rt quiet w' = standalone rt quiet w"
    "no_waiters w' = no_waiters w" "locks_of w' = locks_of w"
  using assms by (simp_all add: node_of_def standalone_def no_waiters_def locks_of_def)

lemma world_other:
  assumes "standalone rt quiet w" "\<not> is_lock_change r"
  shows "outcome (group_propose_raw rt (encode_request (rt_zerialize rt) r) 0 w)
    (\<lambda>_ w'. standalone rt quiet w' \<and> cn_lock_table (node_of w') = cn_lock_table (node_of w))
    (\<lambda>w'. standalone rt quiet w' \<and> cn_lock_table (node_of w') = cn_lock_table (node_of w))"
proof -
  have "solitary (rt_raxos rt) quiet" "codec_ok (rt_zerialize rt)" "node_ready quiet (node_of w) \<or> cn_poisoned (node_of w)"
    using assms(1) by (simp_all add: standalone_def runtime_ok_def)
  from node_other [OF this(1,3,2) assms(2)] show ?thesis
    unfolding propose_on_node(1) [OF assms(1)] outcome_map_state
    by (rule outcome_weaken) (simp_all add: standalone_put [OF assms(1)])
qed

lemma world_barrier:
  assumes "standalone rt quiet w"
  shows "outcome (group_read_barrier rt 0 w)
    (\<lambda>_ w'. standalone rt quiet w' \<and> cn_lock_table (node_of w') = cn_lock_table (node_of w) \<and>
       cn_file_storage (node_of w') = cn_file_storage (node_of w)) (\<lambda>w'. False)"
proof -
  have rx: "solitary (rt_raxos rt) quiet" and or: "node_ready quiet (node_of w) \<or> cn_poisoned (node_of w)"
    using assms(1) by (simp_all add: standalone_def runtime_ok_def)
  show ?thesis
  proof (cases "cn_poisoned (node_of w)")
    case True
    then obtain n' where "node_call (rt_raxos rt) (rt_zerialize rt) (rt_clock rt) (rt_now rt) [] (node_of w) = Some (Panic, n')"
      using node_dead by blast
    then show ?thesis by (simp add: propose_on_node [OF assms])
  next
    case False
    then obtain n' where "node_call (rt_raxos rt) (rt_zerialize rt) (rt_clock rt) (rt_now rt) [] (node_of w) = Some (Ok Response.Empty, n')"
      "cn_file_storage n' = cn_file_storage (node_of w)" "cn_lock_table n' = cn_lock_table (node_of w)" "node_ready quiet n'"
      using node_barrier [OF rx] or by metis
    then show ?thesis by (simp add: propose_on_node [OF assms] standalone_put [OF assms])
  qed
qed

section \<open>Transactions on the node\<close>

lemma cluster_of_simps [simp]:
  "cl_inode_stored_locally (cluster_of rt m remote) = inode_stored_locally (rt_v6_hash rt) m"
  "cl_local_propose (cluster_of rt m remote) inode request =
     by_inode rt inode (group_propose_raw rt (encode_request (rt_zerialize rt) request))"
  "cl_local_read_barrier (cluster_of rt m remote) inode = by_inode rt inode (group_read_barrier rt)"
  "cl_remote_propose_to_group (cluster_of rt m remote) = propose_to_specific_group (rt_zerialize rt) (rt_tcp rt) remote"
  by (simp_all add: cluster_of_def)

lemma local_reads:
  assumes "standalone rt quiet w"
  shows "cl_local_getattr (cluster_of rt m remote) inode w = fs_getattr (cn_file_storage (node_of w)) inode"
    "cl_local_lookup (cluster_of rt m remote) inode name c w = fs_lookup (cn_file_storage (node_of w)) inode name c"
  using assms standalone_lookup(3) [OF assms] by (simp_all add: cluster_of_def standalone_def)

lemma tx_propose_alone:
  assumes "standalone rt quiet w" "lone m"
  shows "tx_propose (rt_zerialize rt) (cluster_of rt m remote) inode request w =
    await (group_propose_raw rt (encode_request (rt_zerialize rt) request) 0 w) (\<lambda>response.
      give (case as_error_response (as_view response) of
              Some e \<Rightarrow> Err e | None \<Rightarrow> Ok (encode_response (rt_zerialize rt) response)))"
proof -
  have z: "codec_ok (rt_zerialize rt)" using assms(1) by (simp add: standalone_def runtime_ok_def)
  let ?p = "group_propose_raw rt (encode_request (rt_zerialize rt) request) 0 w"
  show ?thesis
    unfolding tx_propose_def
    by (cases ?p; cases "fst (the ?p)")
      (auto simp: lone_lookup [OF assms(2)] standalone_lookup [OF assms(1)] codec_okD(3) [OF z] await_def split: option.split)
qed

text \<open>The outcome of a request on the one group, as the coordinator sees it.\<close>

lemma tx_propose_outcome:
  assumes "standalone rt quiet w" "lone m"
    and "outcome (group_propose_raw rt (encode_request (rt_zerialize rt) request) 0 w) (\<lambda>_. Q) Q"
  shows "outcome (tx_propose (rt_zerialize rt) (cluster_of rt m remote) inode request w) (\<lambda>_. Q) Q"
  unfolding tx_propose_alone [OF assms(1,2)]
  by (rule outcome_await [OF assms(3)]) (simp add: outcome_give split: option.split)

lemma tx_ok_step:
  assumes "tx_ok rt quiet m remote c w" "standalone rt quiet w'" "cn_lock_table (node_of w') = cn_lock_table (node_of w)"
  shows "tx_ok rt quiet m remote c w' \<and> locks_of w' = locks_of w"
  using assms by (simp add: tx_ok_def no_waiters_def locks_of_def)

lemma lock_inode_alone:
  assumes "tx_ok rt quiet m remote c w"
  shows "outcome (lock_inode (rt_zerialize rt) (cluster_of rt m remote) i w)
    (\<lambda>k w'. tx_ok rt quiet m remote c w' \<and> (i, k) \<notin> locks_of w \<and> locks_of w' = insert (i, k) (locks_of w))
    (\<lambda>w'. tx_ok rt quiet m remote c w' \<and> locks_of w' = locks_of w)"
proof -
  have w: "standalone rt quiet w" "lone m" and q: "queue_of (cn_lock_table (node_of w)) j = []" for j
    using assms by (simp_all add: tx_ok_def no_waiters_def)
  then have z: "codec_ok (rt_zerialize rt)" and rx: "solitary (rt_raxos rt) quiet"
    and or: "node_ready quiet (node_of w) \<or> cn_poisoned (node_of w)" by (simp_all add: standalone_def runtime_ok_def)
  consider "cn_poisoned (node_of w)" | "node_ready quiet (node_of w)" "held_by (cn_lock_table (node_of w)) i = None"
    | k where "node_ready quiet (node_of w)" "held_by (cn_lock_table (node_of w)) i = Some k" using or by (metis not_None_eq)
  then show ?thesis
  proof cases
    case 1
    then obtain n' where "node_call (rt_raxos rt) (rt_zerialize rt) (rt_clock rt) (rt_now rt)
        (encode_request (rt_zerialize rt) (Request.Lock i)) (node_of w) = Some (Panic, n')" using node_dead by blast
    then show ?thesis by (simp add: lock_inode_def tx_propose_alone [OF w] propose_on_node(1) [OF w(1)])
  next
    case 2
    obtain n' where n': "node_call (rt_raxos rt) (rt_zerialize rt) (rt_clock rt) (rt_now rt)
        (encode_request (rt_zerialize rt) (Request.Lock i)) (node_of w)
        = Some (Ok (Response.Lock (lt_next_id (cn_lock_table (node_of w)))), n')"
      "cn_lock_table n' = snd (lock (cn_lock_table (node_of w)) i)" "node_ready quiet n'"
      using node_lock [OF rx 2(1) z 2(2)] by metis
    have "queue_of (cn_lock_table n') = queue_of (cn_lock_table (node_of w))"
      "held_by (cn_lock_table n') = (held_by (cn_lock_table (node_of w)))(i \<mapsto> lt_next_id (cn_lock_table (node_of w)))"
      using 2(2) by (auto simp: n'(2) lock_def queue_of_def held_by_def Let_def fun_eq_iff)
    then show ?thesis
      using assms 2(2) q standalone_put [OF w(1)] n'(3)
      by (auto simp: lock_inode_def tx_propose_alone [OF w] propose_on_node(1) [OF w(1)] n'(1) as_error_response_def
          codec_okD(3) [OF z] tx_ok_def no_waiters_def locks_of_def split: if_splits)
  next
    case 3
    then have "is_locked (cn_lock_table (node_of w)) (meta_info (Request.Lock i)) = Ok True"
      by (cases "lt_lock_ids (cn_lock_table (node_of w)) i"; cases "snd (the (lt_lock_ids (cn_lock_table (node_of w)) i))")
        (auto simp: is_locked_def held_by_def)
    then show ?thesis
      using 3 by (simp add: lock_inode_def tx_propose_alone [OF w] propose_on_node(1) [OF w(1)] node_blocked [OF rx 3(1) z])
  qed
qed

lemma unlock_inode_alone:
  assumes "tx_ok rt quiet m remote c w" "(i, k) \<in> locks_of w"
  shows "outcome (unlock_inode (rt_zerialize rt) (cluster_of rt m remote) i k w)
    (\<lambda>_ w'. tx_ok rt quiet m remote c w' \<and> locks_of w' = locks_of w - {(i, k)}) (\<lambda>_. False)"
proof -
  have w: "standalone rt quiet w" "lone m" and q: "queue_of (cn_lock_table (node_of w)) j = []" for j
    using assms by (simp_all add: tx_ok_def no_waiters_def)
  then have z: "codec_ok (rt_zerialize rt)" and rx: "solitary (rt_raxos rt) quiet"
    and or: "node_ready quiet (node_of w) \<or> cn_poisoned (node_of w)" by (simp_all add: standalone_def runtime_ok_def)
  from assms(2) have held: "held_by (cn_lock_table (node_of w)) i = Some k" by (simp add: locks_of_def)
  show ?thesis
  proof (cases "cn_poisoned (node_of w)")
    case True
    then obtain n' where "node_call (rt_raxos rt) (rt_zerialize rt) (rt_clock rt) (rt_now rt)
        (encode_request (rt_zerialize rt) (Request.Unlock i k)) (node_of w) = Some (Panic, n')" using node_dead by blast
    then show ?thesis
      by (simp add: unlock_inode_def propose_empty_def tx_propose_alone [OF w] propose_on_node(1) [OF w(1)])
  next
    case False
    then obtain n' where n': "node_call (rt_raxos rt) (rt_zerialize rt) (rt_clock rt) (rt_now rt)
        (encode_request (rt_zerialize rt) (Request.Unlock i k)) (node_of w) = Some (Ok Response.Empty, n')"
      "held_by (cn_lock_table n') = (held_by (cn_lock_table (node_of w)))(i := None)"
      "\<And>j. queue_of (cn_lock_table n') j = []" "node_ready quiet n'"
      using node_unlock [OF rx _ z held q] or by metis
    then show ?thesis
      using assms held standalone_put [OF w(1)]
      by (auto simp: unlock_inode_def propose_empty_def tx_propose_alone [OF w] propose_on_node(1) [OF w(1)] n'(1)
          as_error_response_def as_empty_response_def codec_okD(3) [OF z] tx_ok_def no_waiters_def locks_of_def split: if_splits)
  qed
qed

lemma node_create:
  assumes rx: "solitary rx quiet" "node_ready quiet n \<or> cn_poisoned n" and z: "codec_ok z"
    and r: "meta_inode (meta_info r) = None" "\<not> is_lock_change r"
    and call: "node_call rx z clk now (encode_request z r) n = Some (b, n')"
  shows "(node_ready quiet n' \<or> cn_poisoned n') \<and> cn_lock_table n' = cn_lock_table n"
proof (cases "cn_poisoned n")
  case True
  then show ?thesis using node_dead [OF True, of rx z clk now "encode_request z r"] call by auto
next
  case False
  with rx(2) have ready: "node_ready quiet n" by simp
  have "let_through r (cn_lock_table n)" using r(1) by (simp add: let_through_def)
  note c = node_commit [OF rx(1) ready z this r(2), of clk now]
  show ?thesis
    by (cases "fst (commit_write (clk (cn_commits n)) r (cn_file_storage n)) = Panic") (use c call in auto)
qed

lemma router_create:
  assumes "tx_ok rt quiet m remote c w"
    and "request_router rt remote c (encode_request (rt_zerialize rt) (Request.CreateInode g parent uid gid mode kind)) w = Some (b, v)"
  shows "tx_ok rt quiet m remote c v \<and> locks_of v = locks_of w"
proof -
  let ?r = "Request.CreateInode g parent uid gid mode kind"
  have w: "standalone rt quiet w" using assms(1) by (simp add: tx_ok_def)
  then have z: "codec_ok (rt_zerialize rt)" and rx: "solitary (rt_raxos rt) quiet"
    and or: "node_ready quiet (node_of w) \<or> cn_poisoned (node_of w)"
    and groups: "gm_groups (w_raft w) = [(0, node_of w)]" by (simp_all add: standalone_def runtime_ok_def)
  note d = codec_okD(2) [OF z, of ?r]
  show ?thesis
  proof (cases "g = 0")
    case True
    let ?x = "group_propose_raw rt (encode_request (rt_zerialize rt) ?r) 0 w"
    have local: "can_handle_locally (rt_v6_hash rt) (meta_info ?r) (w_raft w) = Ok True"
      by (simp add: can_handle_locally_def has_raft_group_def groups True)
    have "handle_request rt remote c (encode_request (rt_zerialize rt) ?r) ?r w = ?x"
      by (simp add: handle_request_def by_raft_group_def lookup_by_raft_group_def has_raft_group_def groups True)
    then have "\<exists>b'. ?x = Some (b', v)"
      using assms(2) request_router_local [OF d local, of remote c] by auto
    then obtain b' n' where n': "node_call (rt_raxos rt) (rt_zerialize rt) (rt_clock rt) (rt_now rt)
        (encode_request (rt_zerialize rt) ?r) (node_of w) = Some (b', n')" "v = put_node n' w"
      unfolding propose_on_node(1) [OF w] by auto
    have "(node_ready quiet n' \<or> cn_poisoned n') \<and> cn_lock_table n' = cn_lock_table (node_of w)"
      by (rule node_create [OF rx or z _ _ n'(1)]) simp_all
    then show ?thesis using tx_ok_step [OF assms(1), of v] standalone_put [OF w] n'(2) by simp
  next
    case False
    then have "v = w"
      using assms(2) by (simp add: request_router_def d can_handle_locally_def has_raft_group_def groups forward_request_def
          forward_raw_request_def)
    with assms(1) show ?thesis by simp
  qed
qed

lemma same_raft_ok:
  assumes "tx_ok rt quiet m remote c w" "w_raft w' = w_raft w"
  shows "tx_ok rt quiet m remote c w'" "locks_of w' = locks_of w"
  using assms(1) same_raft(2) [OF assms(2), of rt quiet] same_raft(3,4) [OF assms(2)] by (simp_all add: tx_ok_def)

lemma create_request_alone:
  assumes "tx_ok rt quiet m remote c w"
  shows "outcome (propose_to_specific_group (rt_zerialize rt) (rt_tcp rt) remote g (Request.CreateInode g parent uid gid mode kind) w)
    (\<lambda>_ w'. tx_ok rt quiet m remote c w' \<and> locks_of w' = locks_of w) (\<lambda>w'. tx_ok rt quiet m remote c w' \<and> locks_of w' = locks_of w)"
proof -
  let ?I = "\<lambda>w'. tx_ok rt quiet m remote c w' \<and> locks_of w' = locks_of w"
  let ?data = "encode_request (rt_zerialize rt) (Request.CreateInode g parent uid gid mode kind)"
  have lb: "loopback rt remote c" using assms by (simp add: tx_ok_def)
  then have conn: "w_raft w2 = w_raft w1" if "tcp_connect (rt_tcp rt) addr w1 = Some (r, w2)" for addr w1 r w2
    using that unfolding loopback_def by blast
  from lb have reads: "w_raft w2 = w_raft w1" if "tcp_read_exact (rt_tcp rt) s k w1 = Some (r, w2)" for s k w1 r w2
    using that unfolding loopback_def by blast
  have same: "?I w2" if "?I w1" "w_raft w2 = w_raft w1" for w1 w2 using same_raft_ok [of rt quiet m remote c w1 w2] that by simp
  have raft: "w_raft (return_connection pool x w') = w_raft w'" for pool x w' by (simp add: return_connection_def)
  have con: "outcome (pc_connect (rt_tcp rt) client w1) (\<lambda>_. ?I) ?I" if "?I w1" for client w1
  proof -
    have "w_raft w2 = w_raft w1" if "pc_connect (rt_tcp rt) client w1 = Some (r, w2)" for r w2
      using that conn by (cases "pl_conns w1 (pc_pool client) = []") (auto simp: pc_connect_def Let_def)
    then show ?thesis using same [OF that] by (intro outcomeI) blast+
  qed
  have rd: "outcome (tcp_read_exact (rt_tcp rt) s k w1) (\<lambda>_. ?I) ?I" if "?I w1" for s k w1
    using same [OF that reads] by (intro outcomeI) blast+
  have "?I w2" if "tcp_write_all (rt_tcp rt) s (frame ?data) w1 = Some (r, w2)" "?I w1" for s r w1 w2
  proof -
    have "w_raft w2 = w_raft w1 \<or> (\<exists>b v. request_router rt remote c ?data w1 = Some (b, v) \<and> w_raft w2 = w_raft v)"
      using lb that(1) unfolding loopback_def by blast
    then show ?thesis using router_create [of rt quiet m remote c w1] that(2) same by metis
  qed
  then have wr: "outcome (tcp_write_all (rt_tcp rt) s (frame ?data) w1) (\<lambda>_. ?I) ?I" if "?I w1" for s w1
    using that by (intro outcomeI) blast+
  have fr: "outcome (read_frame (rt_tcp rt) s w1) (\<lambda>_. ?I) ?I" if "?I w1" for s w1
    unfolding read_frame_def by (rule outcome_await [OF rd [OF that]]) (rule rd)
  have sr: "outcome (async_send_and_receive (rt_tcp rt) s ?data pool w1) (\<lambda>_. ?I) ?I" if "?I w1" for s pool w1
    unfolding async_send_and_receive_def
    by (rule outcome_await [OF wr [OF that]], rule outcome_await [OF fr], assumption)
      (simp only: give_simps outcome_simps, rule same [OF _ raft])
  have send: "outcome (pc_send_raw (rt_tcp rt) client ?data w1) (\<lambda>_. ?I) ?I" if "?I w1" for client w1
    unfolding pc_send_raw_def by (rule outcome_await [OF con [OF that]]) (rule sr)
  have "?I w" using assms by simp
  then have client: "outcome (give (unwrap (client_of_group remote g)) w) (\<lambda>_. ?I) ?I"
    by (cases "client_of_group remote g") (simp_all add: outcome_give)
  show ?thesis
    unfolding propose_to_specific_group_def pc_send_def by (rule outcome_await [OF client]) (rule send)
qed

interpretation alone: lock_accounting "rt_zerialize rt" "cluster_of rt m remote" "tx_ok rt quiet m remote c" locks_of
  for rt :: "('m, 'r, 'k, 'c, 's) runtime" and quiet m remote c
proof
  fix w :: "('r, 'k, 'c, 's) world" and i g :: u64 and k
  assume ok: "tx_ok rt quiet m remote c w"
  then have w: "standalone rt quiet w" "lone m" by (simp_all add: tx_ok_def)
  show "outcome (lock_inode (rt_zerialize rt) (cluster_of rt m remote) i w)
    (\<lambda>k w'. tx_ok rt quiet m remote c w' \<and> (i, k) \<notin> locks_of w \<and> locks_of w' = insert (i, k) (locks_of w))
    (\<lambda>w'. tx_ok rt quiet m remote c w' \<and> locks_of w' = locks_of w)" by (rule lock_inode_alone [OF ok])
  show "outcome (unlock_inode (rt_zerialize rt) (cluster_of rt m remote) i k w)
    (\<lambda>_ w'. tx_ok rt quiet m remote c w' \<and> locks_of w' = locks_of w - {(i, k)}) (\<lambda>_. False)" if "(i, k) \<in> locks_of w"
    by (rule unlock_inode_alone [OF ok that])
  show "outcome (tx_propose (rt_zerialize rt) (cluster_of rt m remote) i r w)
      (\<lambda>_ w'. tx_ok rt quiet m remote c w' \<and> locks_of w' = locks_of w) (\<lambda>w'. tx_ok rt quiet m remote c w' \<and> locks_of w' = locks_of w)"
    if "\<not> is_lock_change r" for r
    by (rule tx_propose_outcome [OF w], rule outcome_weaken [OF world_other [OF w(1) that]]) (use tx_ok_step [OF ok] in auto)
  show "outcome (cl_remote_propose_to_group (cluster_of rt m remote) g (Request.CreateInode g parent uid gid mode kind) w)
      (\<lambda>_ w'. tx_ok rt quiet m remote c w' \<and> locks_of w' = locks_of w) (\<lambda>w'. tx_ok rt quiet m remote c w' \<and> locks_of w' = locks_of w)"
    for g parent uid gid mode kind
    using create_request_alone [OF ok] by simp
  have barrier: "outcome (group_read_barrier rt 0 w)
      (\<lambda>_ w'. tx_ok rt quiet m remote c w' \<and> locks_of w' = locks_of w) (\<lambda>w'. tx_ok rt quiet m remote c w' \<and> locks_of w' = locks_of w)"
    by (rule outcome_weaken [OF world_barrier [OF w(1)]]) (use tx_ok_step [OF ok] in auto)
  show "outcome (getattrs (rt_zerialize rt) (cluster_of rt m remote) i w)
      (\<lambda>_ w'. tx_ok rt quiet m remote c w' \<and> locks_of w' = locks_of w) (\<lambda>w'. tx_ok rt quiet m remote c w' \<and> locks_of w' = locks_of w)"
    unfolding getattrs_def
    by (simp add: lone_lookup [OF w(2)] standalone_lookup [OF w(1)]) (rule outcome_await [OF barrier], rule outcome_give)
  show "outcome (tx_lookup (rt_zerialize rt) (cluster_of rt m remote) i name ctx w)
      (\<lambda>_ w'. tx_ok rt quiet m remote c w' \<and> locks_of w' = locks_of w) (\<lambda>w'. tx_ok rt quiet m remote c w' \<and> locks_of w' = locks_of w)"
    for name ctx
    unfolding tx_lookup_def
    by (simp add: lone_lookup [OF w(2)] standalone_lookup [OF w(1)]) (rule outcome_await [OF barrier], rule outcome_give)
qed

end
