(* ===== verification/Standalone_Files.thy ===== *)
theory Standalone_Files
  imports Standalone File_Group
begin

text \<open>
  The files of a node on its own: writes and reads that the router handles act on the contents of
  the files as the plain operations on byte lists do.
\<close>

section \<open>The state\<close>

definition holds_files ::
    "('m, 'r, 'k, 'c, 's) runtime \<Rightarrow> ('r \<Rightarrow> bool) \<Rightarrow> (u64 \<rightharpoonup> bytes) \<Rightarrow> ('r, 'k, 'c, 's) world \<Rightarrow> bool" where
  "holds_files rt quiet files w \<longleftrightarrow>
     standalone rt quiet w \<and> \<not> cn_poisoned (node_of w) \<and>
     \<not> ms_poisoned (fs_metadata (cn_file_storage (node_of w))) \<and> file_group 0 [cn_file_storage (node_of w)] files"

definition unlocked :: "u64 \<Rightarrow> ('r, 'k, 'c, 's) world \<Rightarrow> bool" where
  "unlocked inode w \<longleftrightarrow> held_by (cn_lock_table (node_of w)) inode = None"

lemma holds_files_same:
  "w_raft w' = w_raft w \<Longrightarrow> holds_files rt quiet files w' = holds_files rt quiet files w"
  "w_raft w' = w_raft w \<Longrightarrow> unlocked inode w' = unlocked inode w"
  by (simp_all add: holds_files_def unlocked_def same_raft(1) [of w' w] same_raft(2) [of w' w])

lemma unlocked_through:
  assumes "unlocked inode w" "meta_inode (meta_info r) = Some inode" "meta_lock_id (meta_info r) = None"
  shows "let_through r (cn_lock_table (node_of w))"
  using assms by (simp add: let_through_def unlocked_def is_locked_def held_by_def split: option.splits)

lemma file_known:
  assumes "file_group g [fs] files" "files inode = Some content"
  obtains a where "table_get (ATTR_TABLE (ms_storage (fs_metadata fs))) inode = Some a"
    "attr_kind a \<noteq> Directory" "ds_node_ids (fs_data fs) \<noteq> []" "inode \<noteq> ROOT_INODE"
proof -
  obtain z where "size_of fs inode = Some z" using file_groupD(6) [OF assms(1), of inode] assms(2) by auto
  moreover have "ds_node_ids (fs_data fs) \<noteq> []"
    using file_group_backed [OF assms(1), of fs] by (simp add: files_backed_def)
  moreover have "inode \<noteq> ROOT_INODE" using file_groupD(5) [OF assms(1)] assms(2) by auto
  ultimately show thesis using that by (auto simp: size_in_def split: option.splits if_splits)
qed

section \<open>Requests on the router\<close>

lemma router_write:
  fixes rt :: "('m, 'r, 'k, 'c, 's) runtime"
  assumes w: "holds_files rt quiet files w" "unlocked inode w" and f: "files inode = Some content"
    and fits: "length data < 2 ^ 32" "fits (unat off + length data) 1"
  defines "r \<equiv> Request.Write inode off data"
  obtains n' where "\<And>w1. w_raft w1 = w_raft w \<Longrightarrow>
      request_router rt remote c (encode_request (rt_zerialize rt) r) w1
      = Some (Ok (encode_response (rt_zerialize rt) (Response.Written (of_nat (length data)))), put_node n' w1)"
    "\<And>w1. w_raft w1 = w_raft w \<Longrightarrow> holds_files rt quiet (files(inode \<mapsto> write_at content (unat off) data)) (put_node n' w1)"
    "\<And>i w1. unlocked i (put_node n' w1) = unlocked i w"
proof -
  let ?n = "node_of w" and ?fs = "cn_file_storage (node_of w)" and ?z = "rt_zerialize rt"
  have s: "standalone rt quiet w" and fg: "file_group 0 [?fs] files" and np: "\<not> ms_poisoned (fs_metadata ?fs)"
    and z: "codec_ok ?z" and rx: "solitary (rt_raxos rt) quiet" "node_ready quiet ?n"
    using w(1) by (auto simp: holds_files_def standalone_def runtime_ok_def)
  obtain a where a: "table_get (ATTR_TABLE (ms_storage (fs_metadata ?fs))) inode = Some a" "ds_node_ids (fs_data ?fs) \<noteq> []"
    using file_known [OF fg f] by metis
  let ?clk = "rt_clock rt (cn_commits ?n)"
  note cw = commit_write_Ok [OF np a(1,2), of ?clk off data]
  have c1: "fst (commit_write ?clk r ?fs) = Ok (Response.Written (of_nat (length data)))"
    "ms_poisoned (fs_metadata (snd (commit_write ?clk r ?fs))) = False" using cw by (simp_all add: r_def)
  have through: "let_through r (cn_lock_table ?n)" using unlocked_through [OF w(2)] by (simp add: r_def)
  have nl: "\<not> is_lock_change r" by (simp add: r_def)
  obtain n' where n': "node_call (rt_raxos rt) ?z (rt_clock rt) (rt_now rt) (encode_request ?z r) ?n
      = Some (Ok (Response.Written (of_nat (length data))), n')"
    "cn_file_storage n' = snd (commit_write ?clk r ?fs)" "cn_lock_table n' = cn_lock_table ?n" "node_ready quiet n'"
    using node_commit(2) [OF rx z through nl, of "rt_clock rt" "rt_now rt"] c1(1) by auto
  have "group_effect [?clk] r [?fs] = Wrote inode off data" using c1(1) by (simp add: group_effect_def r_def)
  then have fg': "file_group 0 [cn_file_storage n'] (files(inode \<mapsto> write_at content (unat off) data))"
    using file_group_step [OF fg, of "[?clk]" r] fits f n'(2) by (simp add: group_commit_def r_def)
  show thesis
  proof
    fix w1 :: "('r, 'k, 'c, 's) world" assume e: "w_raft w1 = w_raft w"
    note s1 = same_raft(2) [OF e, THEN iffD2, OF s] and n1 = same_raft(1) [OF e]
    have local: "can_handle_locally (rt_v6_hash rt) (meta_info r) (w_raft w1) = Ok True"
      using s1 by (simp add: can_handle_locally_def r_def standalone_def lone_lookup(1))
    have "handle_request rt remote c (encode_request ?z r) r w1 = Some (Ok (Response.Written (of_nat (length data))), put_node n' w1)"
      by (simp add: handle_request_def r_def standalone_lookup [OF s1] propose_on_node(1) [OF s1] n1 n'(1) [unfolded r_def])
    then show "request_router rt remote c (encode_request ?z r) w1
        = Some (Ok (encode_response ?z (Response.Written (of_nat (length data)))), put_node n' w1)"
      using request_router_local [OF codec_okD(2) [OF z] local, of remote c] by (simp add: encode_result_def)
    show "holds_files rt quiet (files(inode \<mapsto> write_at content (unat off) data)) (put_node n' w1)"
      using fg' n'(2,4) c1(2) standalone_put [OF s1] by (simp add: holds_files_def node_ready_def)
  qed (simp add: unlocked_def n'(3))
qed

lemma router_read:
  fixes rt :: "('m, 'r, 'k, 'c, 's) runtime"
  assumes w: "holds_files rt quiet files w" and f: "files inode = Some content" and fits: "fits (unat off + unat sz) 1"
  defines "r \<equiv> Request.Read inode off sz"
  obtains n' where "\<And>w1. w_raft w1 = w_raft w \<Longrightarrow>
      request_router rt remote c (encode_request (rt_zerialize rt) r) w1
      = Some (Ok (encode_response (rt_zerialize rt) (Response.Read (take (unat sz) (drop (unat off) content)))), put_node n' w1)"
    "\<And>w1. w_raft w1 = w_raft w \<Longrightarrow> holds_files rt quiet files (put_node n' w1)"
    "\<And>i w1. unlocked i (put_node n' w1) = unlocked i w"
proof -
  let ?n = "node_of w" and ?fs = "cn_file_storage (node_of w)" and ?z = "rt_zerialize rt"
  have s: "standalone rt quiet w" and fg: "file_group 0 [?fs] files" and np: "\<not> ms_poisoned (fs_metadata ?fs)"
    and z: "codec_ok ?z" and rx: "solitary (rt_raxos rt) quiet" "node_ready quiet ?n"
    using w(1) by (auto simp: holds_files_def standalone_def runtime_ok_def)
  have nr: "inode \<noteq> ROOT_INODE" using file_known [OF fg f] by metis
  obtain n' where n': "node_call (rt_raxos rt) ?z (rt_clock rt) (rt_now rt) [] ?n = Some (Ok Response.Empty, n')"
    "cn_file_storage n' = ?fs" "cn_lock_table n' = cn_lock_table ?n" "node_ready quiet n'"
    using node_barrier [OF rx] by metis
  have ids: "ds_node_ids (fs_data ?fs) = [ds_local_node_id (fs_data ?fs)]"
    using file_groupD(1) [OF fg] by (simp add: stripe_group_def)
  have fsr: "fs_read p ?fs inode off sz ci = Ok (Response.Read (take (unat sz) (drop (unat off) content)))" for p ci
  proof -
    have "peers_answer p [fs_data ?fs]" by (simp add: peers_answer_def)
    from group_read [OF _ this, of 0 inode content off sz ci] show ?thesis
      using file_groupD(1,7) [OF fg] f fits nr by (simp add: fs_read_def)
  qed
  have peers: "read_peers ?fs inode off sz = []" by (simp add: read_peers_def ids split: res.split)
  show thesis
  proof
    fix w1 :: "('r, 'k, 'c, 's) world" assume e: "w_raft w1 = w_raft w"
    note s1 = same_raft(2) [OF e, THEN iffD2, OF s] and n1 = same_raft(1) [OF e]
    note s2 = standalone_put [OF s1, of n']
    have local: "can_handle_locally (rt_v6_hash rt) (meta_info r) (w_raft w1) = Ok True"
      using s1 by (simp add: can_handle_locally_def r_def standalone_def lone_lookup(1))
    have "handle_request rt remote c (encode_request ?z r) r w1
        = Some (Ok (Response.Read (take (unat sz) (drop (unat off) content))), put_node n' w1)"
      using s2 n'(4)
      by (simp add: handle_request_def r_def standalone_lookup [OF s1] propose_on_node [OF s1] n1 n'(1,2) standalone_lookup [OF s2]
          group_read_def Let_def peers fsr)
    then show "request_router rt remote c (encode_request ?z r) w1
        = Some (Ok (encode_response ?z (Response.Read (take (unat sz) (drop (unat off) content)))), put_node n' w1)"
      using request_router_local [OF codec_okD(2) [OF z] local, of remote c] by (simp add: encode_result_def)
    show "holds_files rt quiet files (put_node n' w1)"
      using fg n'(2,4) np standalone_put [OF s1] by (simp add: holds_files_def node_ready_def)
  qed (simp add: unlocked_def n'(3))
qed

end
