(* ===== verification/Node_Client.thy ===== *)
theory Node_Client
  imports Network_Clients Metadata_Storage
begin

text \<open>
  The client of the file system: \<^verbatim>\<open>src/src/client/node_client.rs\<close>. Each operation sends one request
  and reads the answer. The state is the client's connection beside the world it talks to. The
  thread's buffer is only reused memory, and is left out.
\<close>

section \<open>Attributes\<close>

datatype FileType = RegularFile | DirectoryType | SymlinkType

fun to_fuse_file_type :: "FileKind \<Rightarrow> FileType" where
  "to_fuse_file_type File = RegularFile"
| "to_fuse_file_type Directory = DirectoryType"
| "to_fuse_file_type Symlink = SymlinkType"

record StatFS =
  st_block_size :: u32
  st_max_name_length :: u32

text \<open>A \<^verbatim>\<open>SystemTime\<close> is its distance from the epoch, in seconds and nanoseconds.\<close>

record FileAttr =
  at_ino :: u64
  at_size :: u64
  at_blocks :: u64
  at_atime :: "int \<times> int"
  at_mtime :: "int \<times> int"
  at_ctime :: "int \<times> int"
  at_crtime :: "int \<times> int"
  at_kind :: FileType
  at_perm :: u16
  at_nlink :: u32
  at_uid :: u32
  at_gid :: u32
  at_rdev :: u32
  at_flags :: u32
  at_blksize :: u32

definition metadata_to_fuse_fileattr :: "EntryMetadata \<Rightarrow> (ErrorCode, FileAttr) res" where
  "metadata_to_fuse_fileattr metadata =
     and_then (unwrap (SystemTime_from_Timestamp (em_last_access_time metadata))) (\<lambda>atime.
     and_then (unwrap (SystemTime_from_Timestamp (em_last_modified_time metadata))) (\<lambda>mtime.
     and_then (unwrap (SystemTime_from_Timestamp (em_last_metadata_modified_time metadata))) (\<lambda>ctime.
     Ok \<lparr>at_ino = em_inode metadata, at_size = em_size_bytes metadata, at_blocks = em_size_blocks metadata,
         at_atime = atime, at_mtime = mtime, at_ctime = ctime, at_crtime = (0, 0),
         at_kind = to_fuse_file_type (em_kind metadata), at_perm = em_mode metadata, at_nlink = em_hard_links metadata,
         at_uid = em_user_id metadata, at_gid = em_group_id metadata, at_rdev = em_device_id metadata, at_flags = 0,
         at_blksize = em_block_size metadata\<rparr>)))"

section \<open>Sending a request\<close>

definition NodeClient_new :: "SocketAddr \<Rightarrow> 'c TcpClient" where
  "NodeClient_new server_ip_port = TcpClient_new server_ip_port"

definition nc_send :: "zerialize \<Rightarrow> ('c, 'w) tcp \<Rightarrow> Request \<Rightarrow> ('c TcpClient \<times> 'w, ErrorCode, WireResponse) act" where
  "nc_send z tcp request s =
     await (await_map_err (\<lambda>_. Uncategorized) (send_and_receive tcp (encode_request z request) s)) (\<lambda>buffer.
     give (response_or_error z buffer))"

text \<open>\<^verbatim>\<open>as_empty_response().ok_or(BadResponse)\<close>, and \<^verbatim>\<open>as_attr_response().unwrap()\<close> with the conversion.\<close>

definition nc_send_empty :: "zerialize \<Rightarrow> ('c, 'w) tcp \<Rightarrow> Request \<Rightarrow> ('c TcpClient \<times> 'w, ErrorCode, unit) act" where
  "nc_send_empty z tcp request s =
     await (nc_send z tcp request s) (\<lambda>response. give (ok_or (as_empty_response response) BadResponse))"

definition nc_send_attr :: "zerialize \<Rightarrow> ('c, 'w) tcp \<Rightarrow> Request \<Rightarrow> ('c TcpClient \<times> 'w, ErrorCode, FileAttr) act" where
  "nc_send_attr z tcp request s =
     await (nc_send z tcp request s) (\<lambda>response.
     give (and_then (expect (as_attr_response response)) metadata_to_fuse_fileattr))"

text \<open>\<^verbatim>\<open>assert_ne!(inode, ROOT_INODE)\<close>\<close>

definition not_root :: "u64 \<Rightarrow> ('s, ErrorCode, 'a) act \<Rightarrow> ('s, ErrorCode, 'a) act" where
  "not_root inode call s = (if inode = ROOT_INODE then Some (Panic, s) else call s)"

section \<open>Operations\<close>

definition filesystem_ready :: "zerialize \<Rightarrow> ('c, 'w) tcp \<Rightarrow> ('c TcpClient \<times> 'w, ErrorCode, unit) act" where
  "filesystem_ready z tcp = nc_send_empty z tcp Request.FilesystemReady"

definition nc_fsck :: "zerialize \<Rightarrow> ('c, 'w) tcp \<Rightarrow> ('c TcpClient \<times> 'w, ErrorCode, unit) act" where
  "nc_fsck z tcp = nc_send_empty z tcp Request.FilesystemCheck"

definition nc_mkdir ::
    "zerialize \<Rightarrow> ('c, 'w) tcp \<Rightarrow> u64 \<Rightarrow> string \<Rightarrow> u32 \<Rightarrow> u32 \<Rightarrow> u16 \<Rightarrow> ('c TcpClient \<times> 'w, ErrorCode, FileAttr) act" where
  "nc_mkdir z tcp parent name uid gid mode = nc_send_attr z tcp (Request.Mkdir parent name uid gid mode)"

definition nc_lookup ::
    "zerialize \<Rightarrow> ('c, 'w) tcp \<Rightarrow> u64 \<Rightarrow> string \<Rightarrow> UserContext \<Rightarrow> ('c TcpClient \<times> 'w, ErrorCode, u64) act" where
  "nc_lookup z tcp parent name context s =
     await (nc_send z tcp (Request.Lookup parent name context) s) (\<lambda>response.
     give (ok_or (as_inode_response response) BadResponse))"

definition nc_create ::
    "zerialize \<Rightarrow> ('c, 'w) tcp \<Rightarrow> u64 \<Rightarrow> string \<Rightarrow> u32 \<Rightarrow> u32 \<Rightarrow> u16 \<Rightarrow> FileKind
      \<Rightarrow> ('c TcpClient \<times> 'w, ErrorCode, FileAttr) act" where
  "nc_create z tcp parent name uid gid mode kind = nc_send_attr z tcp (Request.Create parent name uid gid mode kind)"

definition nc_statfs :: "zerialize \<Rightarrow> ('c, 'w) tcp \<Rightarrow> ('c TcpClient \<times> 'w, ErrorCode, StatFS) act" where
  "nc_statfs z tcp s =
     await (nc_send z tcp Request.FilesystemInformation s) (\<lambda>response.
     give (case response of
             WireResponse.FilesystemInformation block_size max_name_length \<Rightarrow>
               Ok \<lparr>st_block_size = block_size, st_max_name_length = max_name_length\<rparr>
           | _ \<Rightarrow> Err BadResponse))"

definition nc_getattr :: "zerialize \<Rightarrow> ('c, 'w) tcp \<Rightarrow> u64 \<Rightarrow> ('c TcpClient \<times> 'w, ErrorCode, FileAttr) act" where
  "nc_getattr z tcp inode = nc_send_attr z tcp (Request.GetAttr inode)"

definition nc_getxattr ::
    "zerialize \<Rightarrow> ('c, 'w) tcp \<Rightarrow> u64 \<Rightarrow> string \<Rightarrow> UserContext \<Rightarrow> ('c TcpClient \<times> 'w, ErrorCode, bytes) act" where
  "nc_getxattr z tcp inode key context s =
     await (nc_send z tcp (Request.GetXattr inode key context) s) (\<lambda>response.
     give (ok_or (as_read_response response) BadResponse))"

definition nc_listxattr :: "zerialize \<Rightarrow> ('c, 'w) tcp \<Rightarrow> u64 \<Rightarrow> ('c TcpClient \<times> 'w, ErrorCode, string list) act" where
  "nc_listxattr z tcp inode s =
     await (nc_send z tcp (Request.ListXattrs inode) s) (\<lambda>response.
     give (ok_or (as_xattrs_response response) BadResponse))"

definition nc_setxattr ::
    "zerialize \<Rightarrow> ('c, 'w) tcp \<Rightarrow> u64 \<Rightarrow> string \<Rightarrow> bytes \<Rightarrow> UserContext \<Rightarrow> ('c TcpClient \<times> 'w, ErrorCode, unit) act" where
  "nc_setxattr z tcp inode key value context = nc_send_empty z tcp (Request.SetXattr inode key value context)"

definition nc_removexattr ::
    "zerialize \<Rightarrow> ('c, 'w) tcp \<Rightarrow> u64 \<Rightarrow> string \<Rightarrow> UserContext \<Rightarrow> ('c TcpClient \<times> 'w, ErrorCode, unit) act" where
  "nc_removexattr z tcp inode key context = nc_send_empty z tcp (Request.RemoveXattr inode key context)"

definition nc_utimens ::
    "zerialize \<Rightarrow> ('c, 'w) tcp \<Rightarrow> u64 \<Rightarrow> Timestamp option \<Rightarrow> Timestamp option \<Rightarrow> UserContext
      \<Rightarrow> ('c TcpClient \<times> 'w, ErrorCode, unit) act" where
  "nc_utimens z tcp inode atime mtime context =
     not_root inode (nc_send_empty z tcp (Request.Utimens inode atime mtime context))"

definition nc_chmod ::
    "zerialize \<Rightarrow> ('c, 'w) tcp \<Rightarrow> u64 \<Rightarrow> u32 \<Rightarrow> UserContext \<Rightarrow> ('c TcpClient \<times> 'w, ErrorCode, unit) act" where
  "nc_chmod z tcp inode mode context s =
     (if inode = ROOT_INODE then give (Err OperationNotPermitted) s
      else nc_send_empty z tcp (Request.Chmod inode mode context) s)"

definition nc_chown ::
    "zerialize \<Rightarrow> ('c, 'w) tcp \<Rightarrow> u64 \<Rightarrow> u32 option \<Rightarrow> u32 option \<Rightarrow> UserContext
      \<Rightarrow> ('c TcpClient \<times> 'w, ErrorCode, unit) act" where
  "nc_chown z tcp inode uid gid context =
     not_root inode (nc_send_empty z tcp (Request.Chown inode uid gid context))"

definition nc_hardlink ::
    "zerialize \<Rightarrow> ('c, 'w) tcp \<Rightarrow> u64 \<Rightarrow> u64 \<Rightarrow> string \<Rightarrow> UserContext \<Rightarrow> ('c TcpClient \<times> 'w, ErrorCode, FileAttr) act" where
  "nc_hardlink z tcp inode new_parent new_name context =
     not_root inode (nc_send_attr z tcp (Request.Hardlink inode new_parent new_name context))"

definition nc_rename ::
    "zerialize \<Rightarrow> ('c, 'w) tcp \<Rightarrow> u64 \<Rightarrow> string \<Rightarrow> u64 \<Rightarrow> string \<Rightarrow> UserContext
      \<Rightarrow> ('c TcpClient \<times> 'w, ErrorCode, unit) act" where
  "nc_rename z tcp parent name new_parent new_name context =
     nc_send_empty z tcp (Request.Rename parent name new_parent new_name context)"

definition nc_readlink :: "zerialize \<Rightarrow> ('c, 'w) tcp \<Rightarrow> u64 \<Rightarrow> ('c TcpClient \<times> 'w, ErrorCode, bytes) act" where
  "nc_readlink z tcp inode =
     not_root inode (\<lambda>s.
       await (nc_send z tcp (Request.Read inode 0 999999) s) (\<lambda>response.
       give (ok_or (as_read_response response) BadResponse)))"

text \<open>\<open>nc_read\<close> returns what it passes to its callback.\<close>

definition nc_read ::
    "zerialize \<Rightarrow> ('c, 'w) tcp \<Rightarrow> u64 \<Rightarrow> u64 \<Rightarrow> u32 \<Rightarrow> ('c TcpClient \<times> 'w, ErrorCode, bytes) act" where
  "nc_read z tcp inode offset read_size =
     not_root inode (\<lambda>s.
       await (nc_send z tcp (Request.Read inode offset read_size) s) (\<lambda>response.
       give (expect (as_read_response response))))"

definition nc_readdir ::
    "zerialize \<Rightarrow> ('c, 'w) tcp \<Rightarrow> u64 \<Rightarrow> ('c TcpClient \<times> 'w, ErrorCode, (u64 \<times> string \<times> FileType) list) act" where
  "nc_readdir z tcp inode s =
     await (nc_send z tcp (Request.ListDir inode) s) (\<lambda>response.
     give (map_ok (map (\<lambda>entry. (de_inode entry, de_name entry, to_fuse_file_type (de_kind entry))))
       (ok_or (as_directory_listing_response response) BadResponse)))"

definition nc_truncate ::
    "zerialize \<Rightarrow> ('c, 'w) tcp \<Rightarrow> u64 \<Rightarrow> u64 \<Rightarrow> UserContext \<Rightarrow> ('c TcpClient \<times> 'w, ErrorCode, unit) act" where
  "nc_truncate z tcp inode len context =
     not_root inode (nc_send_empty z tcp (Request.Truncate inode len context))"

definition nc_write ::
    "zerialize \<Rightarrow> ('c, 'w) tcp \<Rightarrow> u64 \<Rightarrow> bytes \<Rightarrow> u64 \<Rightarrow> ('c TcpClient \<times> 'w, ErrorCode, u32) act" where
  "nc_write z tcp inode data offset s =
     await (nc_send z tcp (Request.Write inode offset data) s) (\<lambda>response.
     give (ok_or (as_bytes_written_response response) BadResponse))"

definition nc_fsync :: "zerialize \<Rightarrow> ('c, 'w) tcp \<Rightarrow> u64 \<Rightarrow> ('c TcpClient \<times> 'w, ErrorCode, unit) act" where
  "nc_fsync z tcp inode = nc_send_empty z tcp (Request.Fsync inode)"

definition nc_unlink ::
    "zerialize \<Rightarrow> ('c, 'w) tcp \<Rightarrow> u64 \<Rightarrow> string \<Rightarrow> UserContext \<Rightarrow> ('c TcpClient \<times> 'w, ErrorCode, unit) act" where
  "nc_unlink z tcp parent name context = nc_send_empty z tcp (Request.Unlink parent name context)"

definition nc_rmdir ::
    "zerialize \<Rightarrow> ('c, 'w) tcp \<Rightarrow> u64 \<Rightarrow> string \<Rightarrow> UserContext \<Rightarrow> ('c TcpClient \<times> 'w, ErrorCode, unit) act" where
  "nc_rmdir z tcp parent name context = nc_send_empty z tcp (Request.Rmdir parent name context)"

end
