(* ===== verification/Client_Session.thy ===== *)
theory Client_Session
  imports Standalone_Files Node_Client
begin

text \<open>
  A client and a node on its own, joined by a stream: a call of the client is a frame to the
  connection handler of the node, which the router answers with a frame.
\<close>

section \<open>The stream\<close>

text \<open>
  What TCP and the frame decoder promise. Connecting gives a stream with nothing to read; what the
  handler writes to its end \<open>server s\<close> can be read at the end \<open>s\<close> of the client, in order; and a
  frame that the client writes reaches the handler as one frame, when it is not longer than the
  decoder accepts (8 MiB).
\<close>

definition wired ::
    "('c, ('r, 'k, 'c, 's) world) tcp \<Rightarrow> ('m, 'r, 'k, 'c, 's) runtime \<Rightarrow> RemoteRaftGroups \<Rightarrow> LocalContext
      \<Rightarrow> ('s \<Rightarrow> 'c \<Rightarrow> bytes) \<Rightarrow> ('c \<Rightarrow> 'c) \<Rightarrow> bool" where
  "wired tcp rt remote c inbox server \<longleftrightarrow>
     (\<forall>addr w. \<exists>s w'. tcp_connect tcp addr w = Some (Ok s, w') \<and> w_raft w' = w_raft w \<and> inbox (w_net w') s = []) \<and>
     (\<forall>s k w. k \<le> length (inbox (w_net w) s) \<longrightarrow>
        (\<exists>w'. tcp_read_exact tcp s k w = Some (Ok (take k (inbox (w_net w) s)), w') \<and> w_raft w' = w_raft w \<and>
           inbox (w_net w') s = drop k (inbox (w_net w) s))) \<and>
     (\<forall>s b w. \<exists>w'. tcp_write_all (rt_tcp rt) (server s) b w = Some (Ok (), w') \<and> w_raft w' = w_raft w \<and>
        inbox (w_net w') s = inbox (w_net w) s @ b) \<and>
     (\<forall>s data w w'. length data \<le> 8388608 \<longrightarrow> connection_handler rt remote c (server s) [Ok data] w = Some (Ok (), w') \<longrightarrow>
        tcp_write_all tcp s (frame data) w = Some (Ok (), w'))"

definition idle :: "('s \<Rightarrow> 'c \<Rightarrow> bytes) \<Rightarrow> 'c TcpClient \<times> ('r, 'k, 'c, 's) world \<Rightarrow> bool" where
  "idle inbox s \<longleftrightarrow> (case tc_connection (fst s) of None \<Rightarrow> True | Some stream \<Rightarrow> inbox (w_net (snd s)) stream = [])"

lemma wiredD:
  assumes "wired tcp rt remote c inbox server"
  shows "\<exists>s w'. tcp_connect tcp addr w = Some (Ok s, w') \<and> w_raft w' = w_raft w \<and> inbox (w_net w') s = []"
    "k \<le> length (inbox (w_net w) s) \<Longrightarrow> \<exists>w'. tcp_read_exact tcp s k w = Some (Ok (take k (inbox (w_net w) s)), w') \<and>
       w_raft w' = w_raft w \<and> inbox (w_net w') s = drop k (inbox (w_net w) s)"
    "\<exists>w'. tcp_write_all (rt_tcp rt) (server s) b w = Some (Ok (), w') \<and> w_raft w' = w_raft w \<and>
        inbox (w_net w') s = inbox (w_net w) s @ b"
    "length data \<le> 8388608 \<Longrightarrow> connection_handler rt remote c (server s) [Ok data] w = Some (Ok (), w') \<Longrightarrow>
        tcp_write_all tcp s (frame data) w = Some (Ok (), w')"
  using assms unfolding wired_def by blast+

text \<open>Reading a frame that is there.\<close>

lemma read_frame_wired:
  assumes "wired tcp rt remote c inbox server" "inbox (w_net w) s = frame b" "length b < 2 ^ 32"
  obtains w' where "read_frame tcp s w = Some (Ok b, w')" "w_raft w' = w_raft w" "inbox (w_net w') s = []"
proof -
  obtain w1 where w1: "tcp_read_exact tcp s 4 w = Some (Ok (take 4 (frame b)), w1)" "w_raft w1 = w_raft w"
    "inbox (w_net w1) s = b"
    using wiredD(2) [OF assms(1), of 4 w s] by (auto simp: assms(2) frame_parts)
  obtain w2 where "tcp_read_exact tcp s (length b) w1 = Some (Ok b, w2)" "w_raft w2 = w_raft w1" "inbox (w_net w2) s = []"
    using wiredD(2) [OF assms(1), of "length b" w1 s] by (auto simp: w1(3))
  then show thesis using w1 by (intro that [of w2]) (simp_all add: read_frame_def frame_length [OF assms(3)])
qed

text \<open>A call of the client is a run of the router.\<close>

lemma exchange:
  assumes wi: "wired tcp rt remote c inbox server" and i: "idle inbox (client, w)"
    and len: "length data \<le> 8388608" "length b < 2 ^ 32"
    and r: "\<And>w1. w_raft w1 = w_raft w \<Longrightarrow> request_router rt remote c data w1 = Some (Ok b, put_node n w1)"
  obtains client' w' where "send_and_receive tcp data (client, w) = Some (Ok b, client', w')"
    "w_raft w' = w_raft (put_node n w)" "idle inbox (client', w')"
proof -
  obtain s w1 where w1: "(case tc_connection client of
        None \<Rightarrow> beside (tcp_connect tcp (tc_server client)) (client, w)
      | Some stream \<Rightarrow> give (Ok stream) (client, w)) = Some (Ok s, client, w1)"
    "w_raft w1 = w_raft w" "inbox (w_net w1) s = []"
  proof (cases "tc_connection client")
    case None
    then show thesis using wiredD(1) [OF wi, of "tc_server client" w] that by (auto simp: beside_def)
  qed (use i that in \<open>auto simp: idle_def\<close>)
  obtain w2 where w2: "tcp_write_all (rt_tcp rt) (server s) (frame b) (put_node n w1) = Some (Ok (), w2)"
    "w_raft w2 = w_raft (put_node n w1)" "inbox (w_net w2) s = frame b"
    using wiredD(3) [OF wi, of s "frame b" "put_node n w1"] by (auto simp: w1(3))
  have "connection_handler rt remote c (server s) [Ok data] w1 = Some (Ok (), w2)"
    using r [OF w1(2)] w2(1) by simp
  note wr = wiredD(4) [OF wi len(1) this]
  obtain w3 where w3: "read_frame tcp s w2 = Some (Ok b, w3)" "w_raft w3 = w_raft w2" "inbox (w_net w3) s = []"
    using read_frame_wired [OF wi w2(3) len(2)] .
  show thesis
  proof
    show "send_and_receive tcp data (client, w) = Some (Ok b, client\<lparr>tc_connection := Some s\<rparr>, w3)"
      unfolding send_and_receive_def fst_conv snd_conv w1(1)
      by (simp add: Let_def set_connection_def beside_def wr w3(1))
    show "w_raft w3 = w_raft (put_node n w)" using w3(2) w2(2) w1(2) by (simp add: put_node_def)
    show "idle inbox (client\<lparr>tc_connection := Some s\<rparr>, w3)" by (simp add: idle_def w3(3))
  qed
qed

section \<open>Writing and reading\<close>

text \<open>A request whose frame and the frame of whose answer can be sent.\<close>

definition sendable :: "zerialize \<Rightarrow> Request \<Rightarrow> Response \<Rightarrow> bool" where
  "sendable z request response \<longleftrightarrow>
     length (encode_request z request) \<le> 8388608 \<and> length (encode_response z response) < 2 ^ 32"

lemma nc_write_holds:
  assumes wi: "wired tcp rt remote c inbox server" and i: "idle inbox (client, w)"
    and w: "holds_files rt quiet files w" "unlocked inode w" and f: "files inode = Some content"
    and fits: "length data < 2 ^ 32" "fits (unat off + length data) 1"
    and s: "sendable (rt_zerialize rt) (Request.Write inode off data) (Response.Written (of_nat (length data)))"
  obtains client' w' where
    "nc_write (rt_zerialize rt) tcp inode data off (client, w) = Some (Ok (of_nat (length data)), client', w')"
    "idle inbox (client', w')" "holds_files rt quiet (files(inode \<mapsto> write_at content (unat off) data)) w'"
    "\<And>i. unlocked i w' = unlocked i w"
proof -
  obtain n' where n': "\<And>w1. w_raft w1 = w_raft w \<Longrightarrow>
      request_router rt remote c (encode_request (rt_zerialize rt) (Request.Write inode off data)) w1
      = Some (Ok (encode_response (rt_zerialize rt) (Response.Written (of_nat (length data)))), put_node n' w1)"
    "holds_files rt quiet (files(inode \<mapsto> write_at content (unat off) data)) (put_node n' w)"
    "\<And>i. unlocked i (put_node n' w) = unlocked i w"
    using router_write [OF w f fits, of remote c] by metis
  obtain client' w' where x: "send_and_receive tcp (encode_request (rt_zerialize rt) (Request.Write inode off data)) (client, w)
      = Some (Ok (encode_response (rt_zerialize rt) (Response.Written (of_nat (length data)))), client', w')"
    "w_raft w' = w_raft (put_node n' w)" "idle inbox (client', w')"
    using exchange [OF wi i _ _ n'(1)] s unfolding sendable_def by metis
  have z: "codec_ok (rt_zerialize rt)" using w(1) by (simp add: holds_files_def standalone_def runtime_ok_def)
  show thesis
  proof (rule that [of client' w'])
    show "nc_write (rt_zerialize rt) tcp inode data off (client, w) = Some (Ok (of_nat (length data)), client', w')"
      by (simp add: nc_write_def nc_send_def x(1) codec_okD(3) [OF z] await_map_err_def as_error_response_def
          as_bytes_written_response_def)
  qed (use x(3) n'(2,3) in \<open>simp_all add: holds_files_same [OF x(2)]\<close>)
qed

lemma nc_read_holds:
  assumes wi: "wired tcp rt remote c inbox server" and i: "idle inbox (client, w)"
    and w: "holds_files rt quiet files w" and f: "files inode = Some content"
    and fits: "fits (unat off + unat sz) 1"
    and s: "sendable (rt_zerialize rt) (Request.Read inode off sz) (Response.Read (take (unat sz) (drop (unat off) content)))"
  obtains client' w' where
    "nc_read (rt_zerialize rt) tcp inode off sz (client, w) = Some (Ok (take (unat sz) (drop (unat off) content)), client', w')"
    "idle inbox (client', w')" "holds_files rt quiet files w'" "\<And>i. unlocked i w' = unlocked i w"
proof -
  obtain n' where n': "\<And>w1. w_raft w1 = w_raft w \<Longrightarrow>
      request_router rt remote c (encode_request (rt_zerialize rt) (Request.Read inode off sz)) w1
      = Some (Ok (encode_response (rt_zerialize rt) (Response.Read (take (unat sz) (drop (unat off) content)))), put_node n' w1)"
    "holds_files rt quiet files (put_node n' w)" "\<And>i. unlocked i (put_node n' w) = unlocked i w"
    using router_read [OF w f fits, of remote c] by metis
  obtain client' w' where x: "send_and_receive tcp (encode_request (rt_zerialize rt) (Request.Read inode off sz)) (client, w)
      = Some (Ok (encode_response (rt_zerialize rt) (Response.Read (take (unat sz) (drop (unat off) content)))), client', w')"
    "w_raft w' = w_raft (put_node n' w)" "idle inbox (client', w')"
    using exchange [OF wi i _ _ n'(1)] s unfolding sendable_def by metis
  have z: "codec_ok (rt_zerialize rt)" using w(1) by (simp add: holds_files_def standalone_def runtime_ok_def)
  have "inode \<noteq> ROOT_INODE" using w f file_known unfolding holds_files_def by metis
  then have "nc_read (rt_zerialize rt) tcp inode off sz (client, w) = Some (Ok (take (unat sz) (drop (unat off) content)), client', w')"
    by (simp add: nc_read_def not_root_def nc_send_def x(1) codec_okD(3) [OF z] await_map_err_def as_error_response_def
        as_read_response_def)
  then show thesis
    by (rule that) (use x(3) n'(2,3) in \<open>simp_all add: holds_files_same [OF x(2)]\<close>)
qed

end
