(* ===== verification/Sample_Codec.thy ===== *)
theory Sample_Codec
  imports Lone_Node "HOL-Library.Countable"
begin

text \<open>
  A wire format that reads back what it wrote: it numbers the messages, and writes a message as a
  byte string whose length is its number; the messages of a given list come first,
  in its order. It shows that the promises on the wire format can be kept, and stands for the wire
  format in the examples.
\<close>

section \<open>The messages are countable\<close>

instance FileKind :: countable by countable_datatype

instance ErrorCode :: countable by countable_datatype

instance CommitId_ext :: (countable) countable
  by (rule countable_classI [of "\<lambda>x. to_nat (commit_term x, commit_index x, CommitId.more x)"]) simp

instance InodeUidPair_ext :: (countable) countable
  by (rule countable_classI [of "\<lambda>x. to_nat (pair_inode x, pair_uid x, InodeUidPair.more x)"]) simp

instance UserContext_ext :: (countable) countable
  by (rule countable_classI [of "\<lambda>x. to_nat (ctx_uid x, ctx_gid x, UserContext.more x)"]) simp

instance Timestamp_ext :: (countable) countable
  by (rule countable_classI [of "\<lambda>x. to_nat (ts_seconds x, ts_nanos x, Timestamp.more x)"]) simp

instance EntryMetadata_ext :: (countable) countable
  by (rule countable_classI [of "\<lambda>x. to_nat (em_inode x, em_size_bytes x, em_size_blocks x, em_last_access_time x, em_last_modified_time x, em_last_metadata_modified_time x, em_kind x, em_mode x, em_hard_links x, em_user_id x, em_group_id x, em_device_id x, em_block_size x, em_directory_entries x, EntryMetadata.more x)"]) simp

instance DirectoryEntry_ext :: (countable) countable
  by (rule countable_classI [of "\<lambda>x. to_nat (de_inode x, de_name x, de_kind x, DirectoryEntry.more x)"]) simp

instance Checksum_ext :: (countable) countable
  by (rule countable_classI [of "\<lambda>x. to_nat (cs_raft_group x, cs_checksum x, Checksum.more x)"]) simp

instance Request :: countable by countable_datatype

instance WireResponse :: countable by countable_datatype

section \<open>The format\<close>

text \<open>A message of the list \<open>xs\<close> is its position in it.\<close>

definition number :: "'a :: countable list \<Rightarrow> 'a \<Rightarrow> bytes" where
  "number xs x = (case position x xs of Some i \<Rightarrow> 0 # replicate i 0 | None \<Rightarrow> 1 # replicate (to_nat x) 0)"

definition numbered :: "'a :: countable list \<Rightarrow> bytes \<Rightarrow> 'a" where
  "numbered xs b = (if hd b = 0 then xs ! (length b - 1) else from_nat (length b - 1))"

lemma numbered_number: "numbered xs (number xs x) = x" "number xs x \<noteq> []"
  by (auto simp: number_def numbered_def position_Some_nth split: option.split)

definition sample_codec :: "Request list \<Rightarrow> WireResponse list \<Rightarrow> zerialize" where
  "sample_codec requests responses =
     \<lparr>zerialize_encode_request = number requests,
      zerialize_decode_request = (\<lambda>b. Some (numbered requests b)),
      zerialize_encode_response = number responses,
      zerialize_decode_response = (\<lambda>b. Some (numbered responses b))\<rparr>"

lemma sample_codec_ok: "codec_ok (sample_codec requests responses)"
  by (simp add: codec_ok_def sample_codec_def encode_request_def decode_request_def numbered_number)

lemma sample_codec_length:
  "x \<in> set xs \<Longrightarrow> length (number xs x) \<le> length xs"
  by (cases "position x xs") (auto simp: number_def position_None_iff dest: position_Some_nth)

end
