(* ===== verification/Sample_Node.thy ===== *)
theory Sample_Node
  imports Client_Session Sample_Codec
begin

text \<open>
  An example of the libraries and of a node on its own: a consensus of one member, streams between
  a client and the node, and a run-time system without other users. It shows that the promises of
  the libraries can be kept, and is the input of the examples.
\<close>

section \<open>A consensus of one member\<close>

text \<open>The replica is the next slot and the commands that have not been delivered yet.\<close>

definition lone_raxos :: "(unit, u64 \<times> (nat \<times> bytes) list, nat) raxos" where
  "lone_raxos =
     \<lparr>rx_new = (\<lambda>ids node seed. Some (1, [])),
      rx_submit = (\<lambda>time request r. (Some (unat (fst r)), (fst r, snd r @ [(unat (fst r), request)]))),
      rx_receive = (\<lambda>time message r. r), rx_tick = (\<lambda>time r. r),
      rx_poll_action = (\<lambda>r. case snd r of [] \<Rightarrow> (None, r) | x # xs \<Rightarrow> (Some (Deliver (fst r) [x]), (fst r + 1, xs))),
      rx_leader = (\<lambda>r. 1), rx_retained_bytes = (\<lambda>r. 0), rx_encode = (\<lambda>m. []), rx_decode = (\<lambda>b. Some ())\<rparr>"

lemma lone_raxos_solitary: "solitary lone_raxos (\<lambda>r. snd r = [])"
  by (auto simp: solitary_def lone_raxos_def)

section \<open>Streams\<close>

text \<open>
  Both ends of a stream have the same number; \<open>w_net\<close> is what the client can read on each. The node
  connects to nobody.
\<close>

type_synonym sample_world = "(u64 \<times> (nat \<times> bytes) list, nat, nat, nat \<Rightarrow> bytes) world"

type_synonym sample_runtime = "(unit, u64 \<times> (nat \<times> bytes) list, nat, nat, nat \<Rightarrow> bytes) runtime"

definition node_tcp :: "(nat, sample_world) tcp" where
  "node_tcp =
     \<lparr>tcp_connect = (\<lambda>addr w. Some (Err (from_raw_os_error ENOENT), w)),
      tcp_write_all = (\<lambda>s b w. Some (Ok (), w\<lparr>w_net := (w_net w)(s := w_net w s @ b)\<rparr>)),
      tcp_read_exact = (\<lambda>s k w. Some (Err (from_raw_os_error ENOENT), w))\<rparr>"

definition sample_runtime :: "zerialize \<Rightarrow> sample_runtime" where
  "sample_runtime z =
     \<lparr>rt_zerialize = z, rt_v6_hash = (\<lambda>_ _. 1), rt_raxos = lone_raxos, rt_alive = (\<lambda>_. True), rt_clock = (\<lambda>_. epoch),
      rt_now = 0,
      rt_receive = (\<lambda>g s w. Option.bind (map_of (gm_groups (w_raft w)) g) (\<lambda>n. map_option (\<lambda>a. (a, w)) (map_of (cn_answers n) s))),
      rt_synced = (\<lambda>g s w. None), rt_tcp = node_tcp, rt_sha256 = rev, rt_walk = (\<lambda>dir files. []), rt_hash_order = rev,
      rt_random_group = 0\<rparr>"

definition no_remote :: RemoteRaftGroups where
  "no_remote = \<lparr>rr_total_raft_groups = 1, rr_groups = []\<rparr>"

definition sample_context :: LocalContext where
  "sample_context = \<lparr>lc_data_dir = ''/data'', lc_server_ip_port = \<lparr>sa_ip = V4 127 0 0 1, sa_port = 3000\<rparr>, lc_peers = [], lc_node_id = 5,
     lc_replicas_per_raft_group = 1\<rparr>"

definition client_tcp :: "zerialize \<Rightarrow> (nat, sample_world) tcp" where
  "client_tcp z =
     \<lparr>tcp_connect = (\<lambda>addr w. Some (Ok 0, w\<lparr>w_net := (w_net w)(0 := [])\<rparr>)),
      tcp_write_all = (\<lambda>s b w.
        case connection_handler (sample_runtime z) no_remote sample_context s [Ok (drop 4 b)] w of
          Some (Ok _, w) \<Rightarrow> Some (Ok (), w) | _ \<Rightarrow> Some (Err (from_raw_os_error ENOENT), w)),
      tcp_read_exact = (\<lambda>s k w. Some (Ok (take k (w_net w s)), w\<lparr>w_net := (w_net w)(s := drop k (w_net w s))\<rparr>))\<rparr>"

lemma sample_runtime_ok: "codec_ok z \<Longrightarrow> runtime_ok (sample_runtime z) (\<lambda>r. snd r = [])"
  using lone_raxos_solitary by (simp add: runtime_ok_def sample_runtime_def)

lemma sample_wired: "wired (client_tcp z) (sample_runtime z) no_remote sample_context id id"
  unfolding wired_def
  by (auto simp: client_tcp_def frame_parts sample_runtime_def node_tcp_def)

section \<open>A node with a file\<close>

definition sample_storage :: "TcpPeerClient file_storage" where
  "sample_storage =
     snd (commit_write epoch (Request.CreateInode 0 1 0 0 420 File)
       \<lparr>fs_data = \<lparr>ds_node_ids = [5], ds_local_rank = 0, ds_local_node_id = 5, ds_local_data_dir = ''/data'',
          ds_peers = [], ds_files = Map.empty\<rparr>, fs_metadata = fresh_storage\<rparr>)"

lemma sample_storage_group: "file_group 0 [sample_storage] [2 \<mapsto> []]" "\<not> ms_poisoned (fs_metadata sample_storage)"
proof -
  let ?fs = "\<lparr>fs_data = \<lparr>ds_node_ids = [5], ds_local_rank = 0, ds_local_node_id = 5, ds_local_data_dir = ''/data'',
          ds_peers = [] :: (u64 \<times> TcpPeerClient) list, ds_files = Map.empty\<rparr>, fs_metadata = fresh_storage\<rparr>"
  have g: "file_group 0 [?fs] Map.empty"
    using fresh_storage_wf by (simp add: file_group_def stripe_group_def storage_agree_def metadata_agree_def fresh_storage_def)
  have "group_effect [epoch] (Request.CreateInode 0 1 0 0 420 File) [?fs] = Made 2"
    by (simp add: group_effect_def fs_create_inode_def and_then_st_pair on_metadata_def
        create_inode_def allocate_inode_def Let_def txn_simps split_beta fresh_storage_def on_data_def truncate_Ok)
  then show "file_group 0 [sample_storage] [2 \<mapsto> []]"
    using file_group_step [OF g, of "[epoch]" "Request.CreateInode 0 1 0 0 420 File"]
    by (simp add: sample_storage_def group_commit_def fresh_storage_def)
  show "\<not> ms_poisoned (fs_metadata sample_storage)"
    by (simp add: sample_storage_def fs_create_inode_def and_then_st_pair on_metadata_def create_inode_def allocate_inode_def
        Let_def txn_simps split_beta fresh_storage_def on_data_def)
qed

definition sample_node :: "(u64 \<times> (nat \<times> bytes) list, nat, TcpPeerClient) node" where
  "sample_node =
     \<lparr>cn_replica = (1, []), cn_pending_responses = Map.empty, cn_sync_requests = [], cn_applied_index = 0,
      cn_peers = [], cn_raft_group_id = 0, cn_file_storage = sample_storage, cn_lock_table = LockTable_new,
      cn_last_retained_warn = 0, cn_poisoned = False, cn_next_channel = 0, cn_commits = 0, cn_answers = [], cn_synced = [],
      cn_outbox = []\<rparr>"

definition sample_world :: sample_world where
  "sample_world =
     \<lparr>pl_conns = (\<lambda>_. []), pl_next = 0,
      w_raft = \<lparr>gm_context = sample_context, gm_total_raft_groups = 1, gm_groups = [(0, sample_node)]\<rparr>, w_net = (\<lambda>_. [])\<rparr>"

lemma sample_world_holds:
  assumes "codec_ok z"
  shows "holds_files (sample_runtime z) (\<lambda>r. snd r = []) [2 \<mapsto> []] sample_world" "unlocked i sample_world"
    "no_waiters sample_world" "locks_of sample_world = {}"
  using sample_runtime_ok [OF assms] sample_storage_group
  by (simp_all add: holds_files_def standalone_def sample_world_def node_of_def sample_node_def lone_def sample_context_def
      node_ready_def unlocked_def LockTable_new_def held_by_def no_waiters_def queue_of_def locks_of_def)

text \<open>The messages of the list are short.\<close>

lemma sample_sendable:
  assumes "request \<in> set requests" "as_view response \<in> set responses" "length requests \<le> 8388608" "length responses < 2 ^ 32"
  shows "sendable (sample_codec requests responses) request response"
  using sample_codec_length [OF assms(1)] sample_codec_length [OF assms(2)] assms(3,4)
  by (simp add: sendable_def sample_codec_def encode_request_def encode_response_def)

end
