(* ===== verification/Fuse_Adapter.thy ===== *)
theory Fuse_Adapter
  imports Node_Client
begin

unbundle bit_operations_syntax

text \<open>
  The mounted file system: \<^verbatim>\<open>src/src/fuse_adapter.rs\<close>. Each callback of the \<^verbatim>\<open>Filesystem\<close> trait is an
  action on the adapter and the world; its result is the reply it gives. The values that are the
  same in every reply (no caching time, generation 0) are left out, and so are the log lines and
  the callbacks that do nothing (\<^verbatim>\<open>init\<close>, \<^verbatim>\<open>forget\<close>).

  From the libraries come as arguments: \<open>acc_mode\<close> (the access mode in open flags, of \<^verbatim>\<open>fuser\<close>),
  \<open>buffer_full\<close> (whether an entry no longer fits into the reply, of \<^verbatim>\<open>fuser\<close>), and \<open>status\<close> (the lines of
  \<^verbatim>\<open>/proc/<pid>/task/<pid>/status\<close>). A name is the result of \<^verbatim>\<open>to_str\<close>: \<open>None\<close> when it is not UTF-8.
\<close>

section \<open>Replies\<close>

datatype Errno =
    ENOENT | EBADF | EIO | EFBIG | EACCES | EPERM | ENAMETOOLONG | ENOTEMPTY | NO_XATTR | EEXIST | ENOTSUP
  | EINVAL | ENOSYS | ERANGE

datatype Reply =
    Error Errno
  | Done
  | Entry FileAttr
  | Attr FileAttr
  | Data bytes
  | Opened \<comment> \<open>handle, direct I/O\<close> u64 bool
  | Written u32
  | Entries "(u64 \<times> u64 \<times> FileType \<times> string) list"
  | Statfs \<comment> \<open>blocks, free, available, files, free files, block size, name length, fragment size\<close>
      u64 u64 u64 u64 u64 u32 u32 u32
  | XattrSize u32
  | Created FileAttr u64 bool

fun into_fuse_error :: "ErrorCode \<Rightarrow> Errno" where
  "into_fuse_error DoesNotExist = Errno.ENOENT"
| "into_fuse_error InodeDoesNotExist = Errno.EBADF"
| "into_fuse_error Uncategorized = Errno.EIO"
| "into_fuse_error Corrupted = Errno.EIO"
| "into_fuse_error RaftFailure = Errno.EIO"
| "into_fuse_error BadResponse = Errno.EIO"
| "into_fuse_error BadRequest = Errno.EIO"
| "into_fuse_error FileTooLarge = Errno.EFBIG"
| "into_fuse_error AccessDenied = Errno.EACCES"
| "into_fuse_error OperationNotPermitted = Errno.EPERM"
| "into_fuse_error NameTooLong = Errno.ENAMETOOLONG"
| "into_fuse_error NotEmpty = Errno.ENOTEMPTY"
| "into_fuse_error MissingXattrKey = Errno.NO_XATTR"
| "into_fuse_error AlreadyExists = Errno.EEXIST"
| "into_fuse_error InvalidXattrNamespace = Errno.ENOTSUP"

section \<open>The adapter\<close>

definition FMODE_EXEC :: u32 where "FMODE_EXEC = 0x20"
definition O_TRUNC :: u32 where "O_TRUNC = 0x200"
definition S_IFMT :: u32 where "S_IFMT = 0xF000"
definition S_IFREG :: u32 where "S_IFREG = 0x8000"
definition S_IFLNK :: u32 where "S_IFLNK = 0xA000"
definition S_IFDIR :: u32 where "S_IFDIR = 0x4000"

record FileHandleAttributes =
  fh_read :: bool
  fh_write :: bool

record 'c FleetFUSE =
  ff_client :: "'c TcpClient"
  ff_next_file_handle :: u64
  ff_direct_io :: bool
  ff_file_handles :: "u64 \<rightharpoonup> FileHandleAttributes"

definition FleetFUSE_new :: "SocketAddr \<Rightarrow> bool \<Rightarrow> 'c FleetFUSE" where
  "FleetFUSE_new server_ip_port direct_io =
     \<lparr>ff_client = NodeClient_new server_ip_port, ff_next_file_handle = 1, ff_direct_io = direct_io,
      ff_file_handles = Map.empty\<rparr>"

definition allocate_file_handle :: "'c FleetFUSE \<Rightarrow> bool \<Rightarrow> bool \<Rightarrow> u64 \<times> 'c FleetFUSE" where
  "allocate_file_handle f readable writable =
     (let handle = ff_next_file_handle f
      in (handle, f\<lparr>ff_next_file_handle := handle + 1,
                    ff_file_handles := (ff_file_handles f)(handle \<mapsto> \<lparr>fh_read = readable, fh_write = writable\<rparr>)\<rparr>))"

definition deallocate_file_handle :: "'c FleetFUSE \<Rightarrow> u64 \<Rightarrow> 'c FleetFUSE" where
  "deallocate_file_handle f handle = f\<lparr>ff_file_handles := (ff_file_handles f)(handle := None)\<rparr>"

definition check_read :: "'c FleetFUSE \<Rightarrow> u64 \<Rightarrow> bool" where
  "check_read f handle = (case ff_file_handles f handle of Some x \<Rightarrow> fh_read x | None \<Rightarrow> False)"

definition check_write :: "'c FleetFUSE \<Rightarrow> u64 \<Rightarrow> bool" where
  "check_write f handle = (case ff_file_handles f handle of Some x \<Rightarrow> fh_write x | None \<Rightarrow> False)"

definition as_file_kind :: "u32 \<Rightarrow> (ErrorCode, FileKind) res" where
  "as_file_kind mode =
     (let mode = mode AND S_IFMT
      in if mode = S_IFREG then Ok File
         else if mode = S_IFLNK then Ok Symlink
         else if mode = S_IFDIR then Ok Directory
         else Panic)"

section \<open>Calls of the client\<close>

type_synonym ('c, 'w) callback = "('c FleetFUSE \<times> 'w, ErrorCode, Reply) act"

definition on_client :: "('c TcpClient \<times> 'w, 'e, 'a) act \<Rightarrow> ('c FleetFUSE \<times> 'w, 'e, 'a) act" where
  "on_client call s =
     map_option (\<lambda>(r, client, w). (r, ((fst s)\<lparr>ff_client := client\<rparr>, w))) (call (ff_client (fst s), snd s))"

text \<open>
  \<open>replying\<close> ends a callback with a reply made of the result; \<open>checked\<close> goes on with the result. In
  both an error of the call is the reply.
\<close>

definition checked ::
    "(('e \<Rightarrow> Errno)) \<Rightarrow> (('e, 'a) res \<times> 's) option \<Rightarrow> ('a \<Rightarrow> ('s, ErrorCode, Reply) act)
      \<Rightarrow> ((ErrorCode, Reply) res \<times> 's) option" where
  "checked errno x f =
     attempt x (\<lambda>r. case r of Inr a \<Rightarrow> f a | Inl e \<Rightarrow> give (Ok (Error (errno e))))"

definition replying ::
    "('c TcpClient \<times> 'w, ErrorCode, 'a) act \<Rightarrow> ('a \<Rightarrow> Reply) \<Rightarrow> ('c, 'w) callback" where
  "replying call reply s = checked into_fuse_error (on_client call s) (\<lambda>a. give (Ok (reply a)))"

definition with_name :: "string option \<Rightarrow> (string \<Rightarrow> ('c, 'w) callback) \<Rightarrow> ('c, 'w) callback" where
  "with_name name f = (case name of Some value \<Rightarrow> f value | None \<Rightarrow> give (Ok (Error Errno.EINVAL)))"

record FuseRequest =
  rq_uid :: u32
  rq_gid :: u32
  rq_pid :: u32

definition user :: "FuseRequest \<Rightarrow> UserContext" where
  "user req = \<lparr>ctx_uid = rq_uid req, ctx_gid = rq_gid req\<rparr>"

section \<open>The groups of a process\<close>

fun split_on :: "char \<Rightarrow> string \<Rightarrow> string list" where
  "split_on sep [] = [[]]"
| "split_on sep (x # xs) =
     (if x = sep then [] # split_on sep xs
      else case split_on sep xs of [] \<Rightarrow> [[x]] | w # ws \<Rightarrow> (x # w) # ws)"

text \<open>White space of a status line, which is ASCII.\<close>

definition is_blank :: "string \<Rightarrow> bool" where
  "is_blank s \<longleftrightarrow> list_all (\<lambda>x. let c = of_char x :: nat in c = 32 \<or> 9 \<le> c \<and> c \<le> 13) s"

definition digits_value :: "string \<Rightarrow> nat option" where
  "digits_value s =
     (if s \<noteq> [] \<and> list_all (\<lambda>x. let c = of_char x :: nat in 48 \<le> c \<and> c \<le> 57) s
      then Some (foldl (\<lambda>acc x. 10 * acc + (of_char x - 48)) 0 s) else None)"

definition parse_u32 :: "string \<Rightarrow> u32 option" where
  "parse_u32 s =
     (case digits_value (case s of x # xs \<Rightarrow> if x = CHR ''+'' then xs else s | [] \<Rightarrow> []) of
        Some n \<Rightarrow> if n < 2 ^ 32 then Some (of_nat n) else None
      | None \<Rightarrow> None)"

primrec parse_all :: "string list \<Rightarrow> (ErrorCode, u32 list) res" where
  "parse_all [] = Ok []"
| "parse_all (x # xs) = and_then (expect (parse_u32 x)) (\<lambda>g. map_ok ((#) g) (parse_all xs))"

text \<open>The slice \<^verbatim>\<open>line[8..]\<close> panics on a shorter line, and inside of a character.\<close>

definition parse_groups :: "string \<Rightarrow> (ErrorCode, u32 list) res" where
  "parse_groups line =
     (if length line < 8 then Panic
      else if 8 < length line \<and> (let c = of_char (line ! 8) :: nat in 128 \<le> c \<and> c < 192) then Panic
      else parse_all (filter (\<lambda>x. \<not> is_blank x) (split_on (CHR '' '') (drop 8 line))))"

primrec find_groups :: "(io_error, string) res list \<Rightarrow> (ErrorCode, u32 list) res" where
  "find_groups [] = Ok []"
| "find_groups (l # ls) =
     and_then (unwrap l) (\<lambda>line. if take 7 line = ''Groups:'' then parse_groups line else find_groups ls)"

definition get_groups :: "(u32 \<Rightarrow> (io_error, string) res list option) \<Rightarrow> u32 \<Rightarrow> (ErrorCode, u32 list) res" where
  "get_groups status pid = and_then (expect (status pid)) find_groups"

section \<open>Time stamps\<close>

text \<open>A \<^verbatim>\<open>SystemTime\<close> that the kernel passes is its distance from the epoch in nanoseconds.\<close>

datatype TimeOrNow = SpecificTime int | Now

definition as_i64 :: "int \<Rightarrow> int" where
  "as_i64 x = (x + 2 ^ 63) mod 2 ^ 64 - 2 ^ 63"

fun to_timestamp :: "TimeOrNow \<Rightarrow> Timestamp" where
  "to_timestamp (SpecificTime ns) =
     (if 0 \<le> ns then \<lparr>ts_seconds = as_i64 (ns div 1000000000), ts_nanos = ns mod 1000000000\<rparr>
      else \<lparr>ts_seconds = as_i64 (- as_i64 ((- ns) div 1000000000)), ts_nanos = (- ns) mod 1000000000\<rparr>)"
| "to_timestamp Now = \<lparr>ts_seconds = 0, ts_nanos = UTIME_NOW\<rparr>"

section \<open>Callbacks\<close>

definition fuse_lookup :: "zerialize \<Rightarrow> ('c, 'w) tcp \<Rightarrow> FuseRequest \<Rightarrow> u64 \<Rightarrow> string option \<Rightarrow> ('c, 'w) callback" where
  "fuse_lookup z tcp req parent name =
     with_name name (\<lambda>name s.
       checked into_fuse_error (on_client (nc_lookup z tcp parent name (user req)) s) (\<lambda>inode.
       replying (nc_getattr z tcp inode) Entry))"

definition fuse_getattr :: "zerialize \<Rightarrow> ('c, 'w) tcp \<Rightarrow> u64 \<Rightarrow> ('c, 'w) callback" where
  "fuse_getattr z tcp inode = replying (nc_getattr z tcp inode) Attr"

text \<open>The four parts of \<^verbatim>\<open>setattr\<close>; each ends the callback with a reply when it fails.\<close>

definition setattr_mode ::
    "zerialize \<Rightarrow> ('c, 'w) tcp \<Rightarrow> FuseRequest \<Rightarrow> u64 \<Rightarrow> u32 option \<Rightarrow> ('c, 'w) callback \<Rightarrow> ('c, 'w) callback" where
  "setattr_mode z tcp req inode mode rest s =
     (case mode of
        Some mode \<Rightarrow> checked into_fuse_error (on_client (nc_chmod z tcp inode mode (user req)) s) (\<lambda>_. rest)
      | None \<Rightarrow> rest s)"

definition setattr_owner ::
    "zerialize \<Rightarrow> ('c, 'w) tcp \<Rightarrow> (u32 \<Rightarrow> (io_error, string) res list option) \<Rightarrow> FuseRequest \<Rightarrow> u64 \<Rightarrow> u32 option \<Rightarrow> u32 option
      \<Rightarrow> ('c, 'w) callback \<Rightarrow> ('c, 'w) callback" where
  "setattr_owner z tcp status req inode uid gid rest s =
     (if uid = None \<and> gid = None then rest s
      else
        await (give (case gid of
                       Some gid \<Rightarrow>
                         if rq_uid req \<noteq> 0 then map_ok (\<lambda>groups. gid \<in> set groups) (get_groups status (rq_pid req)) else Ok True
                     | None \<Rightarrow> Ok True) s) (\<lambda>member s.
        if \<not> member then give (Ok (Error Errno.EPERM)) s
        else checked into_fuse_error (on_client (nc_chown z tcp inode uid gid (user req)) s) (\<lambda>_. rest)))"

definition setattr_size ::
    "zerialize \<Rightarrow> ('c, 'w) tcp \<Rightarrow> FuseRequest \<Rightarrow> u64 \<Rightarrow> u64 option \<Rightarrow> u64 option \<Rightarrow> ('c, 'w) callback \<Rightarrow> ('c, 'w) callback" where
  "setattr_size z tcp req inode new_size fh rest s =
     (case new_size of
        None \<Rightarrow> rest s
      | Some new_size \<Rightarrow>
          (case fh of
             Some handle \<Rightarrow>
               if check_write (fst s) handle then
                 checked into_fuse_error (on_client (nc_truncate z tcp inode new_size \<lparr>ctx_uid = 0, ctx_gid = 0\<rparr>) s) (\<lambda>_. rest)
               else give (Ok (Error Errno.EACCES)) s
           | None \<Rightarrow> checked into_fuse_error (on_client (nc_truncate z tcp inode new_size (user req)) s) (\<lambda>_. rest)))"

definition setattr_times ::
    "zerialize \<Rightarrow> ('c, 'w) tcp \<Rightarrow> FuseRequest \<Rightarrow> u64 \<Rightarrow> TimeOrNow option \<Rightarrow> TimeOrNow option \<Rightarrow> ('c, 'w) callback
      \<Rightarrow> ('c, 'w) callback" where
  "setattr_times z tcp req inode atime mtime rest s =
     (if atime = None \<and> mtime = None then rest s
      else checked into_fuse_error
        (on_client (nc_utimens z tcp inode (map_option to_timestamp atime) (map_option to_timestamp mtime) (user req)) s) (\<lambda>_. rest))"

definition fuse_setattr ::
    "zerialize \<Rightarrow> ('c, 'w) tcp \<Rightarrow> (u32 \<Rightarrow> (io_error, string) res list option) \<Rightarrow> FuseRequest \<Rightarrow> u64 \<Rightarrow> u32 option
      \<Rightarrow> u32 option \<Rightarrow> u32 option \<Rightarrow> u64 option \<Rightarrow> TimeOrNow option \<Rightarrow> TimeOrNow option \<Rightarrow> u64 option \<Rightarrow> ('c, 'w) callback" where
  "fuse_setattr z tcp status req inode mode uid gid new_size atime mtime fh =
     setattr_mode z tcp req inode mode
       (setattr_owner z tcp status req inode uid gid
         (setattr_size z tcp req inode new_size fh
           (setattr_times z tcp req inode atime mtime
             (replying (nc_getattr z tcp inode) Attr))))"

definition fuse_readlink :: "zerialize \<Rightarrow> ('c, 'w) tcp \<Rightarrow> u64 \<Rightarrow> ('c, 'w) callback" where
  "fuse_readlink z tcp inode = replying (nc_readlink z tcp inode) Data"

definition fuse_mknod ::
    "zerialize \<Rightarrow> ('c, 'w) tcp \<Rightarrow> FuseRequest \<Rightarrow> u64 \<Rightarrow> string option \<Rightarrow> u32 \<Rightarrow> ('c, 'w) callback" where
  "fuse_mknod z tcp req parent name mode =
     with_name name (\<lambda>name s.
       let file_type = mode AND S_IFMT
       in if file_type \<noteq> S_IFREG \<and> file_type \<noteq> S_IFLNK \<and> file_type \<noteq> S_IFDIR then give (Ok (Error Errno.ENOSYS)) s
          else await (give (as_file_kind mode) s) (\<lambda>kind.
            replying (nc_create z tcp parent name (rq_uid req) (rq_gid req) (ucast mode) kind) Entry))"

definition fuse_mkdir ::
    "zerialize \<Rightarrow> ('c, 'w) tcp \<Rightarrow> FuseRequest \<Rightarrow> u64 \<Rightarrow> string option \<Rightarrow> u32 \<Rightarrow> ('c, 'w) callback" where
  "fuse_mkdir z tcp req parent name mode =
     with_name name (\<lambda>name. replying (nc_mkdir z tcp parent name (rq_uid req) (rq_gid req) (ucast mode)) Entry)"

definition fuse_unlink :: "zerialize \<Rightarrow> ('c, 'w) tcp \<Rightarrow> FuseRequest \<Rightarrow> u64 \<Rightarrow> string option \<Rightarrow> ('c, 'w) callback" where
  "fuse_unlink z tcp req parent name =
     with_name name (\<lambda>name. replying (nc_unlink z tcp parent name (user req)) (\<lambda>_. Done))"

definition fuse_rmdir :: "zerialize \<Rightarrow> ('c, 'w) tcp \<Rightarrow> FuseRequest \<Rightarrow> u64 \<Rightarrow> string option \<Rightarrow> ('c, 'w) callback" where
  "fuse_rmdir z tcp req parent name =
     with_name name (\<lambda>name. replying (nc_rmdir z tcp parent name (user req)) (\<lambda>_. Done))"

text \<open>The bytes of a string.\<close>

definition string_bytes :: "string \<Rightarrow> bytes" where
  "string_bytes s = map (\<lambda>x. of_nat (of_char x)) s"

definition fuse_symlink ::
    "zerialize \<Rightarrow> ('c, 'w) tcp \<Rightarrow> FuseRequest \<Rightarrow> u64 \<Rightarrow> string option \<Rightarrow> string option \<Rightarrow> ('c, 'w) callback" where
  "fuse_symlink z tcp req parent name link =
     with_name name (\<lambda>name. with_name link (\<lambda>link s.
       checked into_fuse_error (on_client (nc_create z tcp parent name (rq_uid req) (rq_gid req) 0x1ED Symlink) s) (\<lambda>attrs s.
       checked into_fuse_error (on_client (nc_truncate z tcp (at_ino attrs) 0 (user req)) s) (\<lambda>_ s.
       checked into_fuse_error (on_client (nc_write z tcp (at_ino attrs) (string_bytes link) 0) s) (\<lambda>_.
       give (Ok (Entry attrs)))))))"

definition fuse_rename ::
    "zerialize \<Rightarrow> ('c, 'w) tcp \<Rightarrow> FuseRequest \<Rightarrow> u64 \<Rightarrow> string option \<Rightarrow> u64 \<Rightarrow> string option \<Rightarrow> ('c, 'w) callback" where
  "fuse_rename z tcp req parent name new_parent new_name =
     with_name name (\<lambda>name. with_name new_name (\<lambda>new_name.
       replying (nc_rename z tcp parent name new_parent new_name (user req)) (\<lambda>_. Done)))"

definition fuse_link ::
    "zerialize \<Rightarrow> ('c, 'w) tcp \<Rightarrow> FuseRequest \<Rightarrow> u64 \<Rightarrow> u64 \<Rightarrow> string option \<Rightarrow> ('c, 'w) callback" where
  "fuse_link z tcp req inode new_parent new_name =
     with_name new_name (\<lambda>new_name. replying (nc_hardlink z tcp inode new_parent new_name (user req)) Entry)"

datatype OpenAccMode = O_RDONLY | O_WRONLY | O_RDWR

text \<open>The access that an open asks for: the mask, and whether the handle may read and write.\<close>

definition open_access :: "OpenAccMode \<Rightarrow> bool \<Rightarrow> bool \<Rightarrow> (u32 \<times> bool \<times> bool) option" where
  "open_access mode trunc exec =
     (case mode of
        O_RDONLY \<Rightarrow>
          if trunc then None
          else if exec then Some (X_OK, True, False) else Some (R_OK, True, False)
      | O_WRONLY \<Rightarrow> Some (W_OK, False, True)
      | O_RDWR \<Rightarrow> Some (R_OK OR W_OK, True, True))"

text \<open>The rest of \<^verbatim>\<open>open\<close> and \<^verbatim>\<open>opendir\<close>.\<close>

definition open_with ::
    "zerialize \<Rightarrow> ('c, 'w) tcp \<Rightarrow> FuseRequest \<Rightarrow> u64 \<Rightarrow> (u32 \<times> bool \<times> bool) option \<Rightarrow> ('c, 'w) callback" where
  "open_with z tcp req inode access s =
     (case access of
        None \<Rightarrow> give (Ok (Error Errno.EACCES)) s
      | Some (access_mask, readable, writable) \<Rightarrow>
          checked into_fuse_error (on_client (nc_getattr z tcp inode) s) (\<lambda>attr s.
          if check_access (at_uid attr) (at_gid attr) (at_perm attr) (rq_uid req) (rq_gid req) access_mask then
            let (handle, f) = allocate_file_handle (fst s) readable writable
            in give (Ok (Opened handle (ff_direct_io f))) (f, snd s)
          else give (Ok (Error Errno.EACCES)) s))"

definition fuse_open ::
    "zerialize \<Rightarrow> ('c, 'w) tcp \<Rightarrow> (u32 \<Rightarrow> OpenAccMode) \<Rightarrow> FuseRequest \<Rightarrow> u64 \<Rightarrow> u32 \<Rightarrow> ('c, 'w) callback" where
  "fuse_open z tcp acc_mode req inode flags =
     open_with z tcp req inode (open_access (acc_mode flags) (flags AND O_TRUNC \<noteq> 0) (flags AND FMODE_EXEC \<noteq> 0))"

definition fuse_opendir ::
    "zerialize \<Rightarrow> ('c, 'w) tcp \<Rightarrow> (u32 \<Rightarrow> OpenAccMode) \<Rightarrow> FuseRequest \<Rightarrow> u64 \<Rightarrow> u32 \<Rightarrow> ('c, 'w) callback" where
  "fuse_opendir z tcp acc_mode req inode flags =
     open_with z tcp req inode (open_access (acc_mode flags) (flags AND O_TRUNC \<noteq> 0) False)"

definition fuse_read :: "zerialize \<Rightarrow> ('c, 'w) tcp \<Rightarrow> u64 \<Rightarrow> u64 \<Rightarrow> u64 \<Rightarrow> u32 \<Rightarrow> ('c, 'w) callback" where
  "fuse_read z tcp inode fh offset read_size s =
     (if \<not> check_read (fst s) fh then give (Ok (Error Errno.EACCES)) s
      else replying (nc_read z tcp inode offset read_size) Data s)"

definition fuse_write :: "zerialize \<Rightarrow> ('c, 'w) tcp \<Rightarrow> u64 \<Rightarrow> u64 \<Rightarrow> u64 \<Rightarrow> bytes \<Rightarrow> ('c, 'w) callback" where
  "fuse_write z tcp inode fh offset data s =
     (if \<not> check_write (fst s) fh then give (Ok (Error Errno.EACCES)) s
      else replying (nc_write z tcp inode data offset) Written s)"

definition fuse_flush :: "('c, 'w) callback" where
  "fuse_flush = give (Ok (Error Errno.ENOSYS))"

definition fuse_release :: "u64 \<Rightarrow> ('c, 'w) callback" where
  "fuse_release fh s = give (Ok Done) (deallocate_file_handle (fst s) fh, snd s)"

definition fuse_fsync :: "zerialize \<Rightarrow> ('c, 'w) tcp \<Rightarrow> u64 \<Rightarrow> ('c, 'w) callback" where
  "fuse_fsync z tcp inode = replying (nc_fsync z tcp inode) (\<lambda>_. Done)"

primrec add_entries ::
    "((u64 \<times> u64 \<times> FileType \<times> string) list \<Rightarrow> (u64 \<times> u64 \<times> FileType \<times> string) \<Rightarrow> bool) \<Rightarrow> u64
      \<Rightarrow> (u64 \<times> string \<times> FileType) list \<Rightarrow> (u64 \<times> u64 \<times> FileType \<times> string) list
      \<Rightarrow> (u64 \<times> u64 \<times> FileType \<times> string) list" where
  "add_entries buffer_full next_offset [] reply = reply"
| "add_entries buffer_full next_offset (e # es) reply =
     (let entry = (fst e, next_offset, snd (snd e), fst (snd e))
      in if buffer_full reply entry then reply
         else add_entries buffer_full (next_offset + 1) es (reply @ [entry]))"

definition fuse_readdir ::
    "zerialize \<Rightarrow> ('c, 'w) tcp \<Rightarrow> ((u64 \<times> u64 \<times> FileType \<times> string) list \<Rightarrow> (u64 \<times> u64 \<times> FileType \<times> string) \<Rightarrow> bool)
      \<Rightarrow> u64 \<Rightarrow> u64 \<Rightarrow> ('c, 'w) callback" where
  "fuse_readdir z tcp buffer_full inode offset =
     replying (nc_readdir z tcp inode) (\<lambda>es. Entries (add_entries buffer_full (offset + 1) (drop (unat offset) es) []))"

definition fuse_releasedir :: "u64 \<Rightarrow> ('c, 'w) callback" where
  "fuse_releasedir fh s = give (Ok Done) (deallocate_file_handle (fst s) fh, snd s)"

definition fuse_fsyncdir :: "zerialize \<Rightarrow> ('c, 'w) tcp \<Rightarrow> u64 \<Rightarrow> ('c, 'w) callback" where
  "fuse_fsyncdir z tcp inode = replying (nc_fsync z tcp inode) (\<lambda>_. Done)"

definition fuse_statfs :: "zerialize \<Rightarrow> ('c, 'w) tcp \<Rightarrow> ('c, 'w) callback" where
  "fuse_statfs z tcp =
     replying (nc_statfs z tcp) (\<lambda>info. Statfs 10 10 10 1 10 (st_block_size info) (st_max_name_length info) 4096)"

definition fuse_setxattr ::
    "zerialize \<Rightarrow> ('c, 'w) tcp \<Rightarrow> FuseRequest \<Rightarrow> u64 \<Rightarrow> string option \<Rightarrow> bytes \<Rightarrow> ('c, 'w) callback" where
  "fuse_setxattr z tcp req inode name value =
     with_name name (\<lambda>name. replying (nc_setxattr z tcp inode name value (user req)) (\<lambda>_. Done))"

text \<open>The reply to a request for an attribute into a buffer of the given size.\<close>

definition xattr_reply :: "u32 \<Rightarrow> bytes \<Rightarrow> Reply" where
  "xattr_reply buffer_size data =
     (if buffer_size = 0 then XattrSize (of_nat (length data))
      else if length data \<le> unat buffer_size then Data data
      else Error Errno.ERANGE)"

definition fuse_getxattr ::
    "zerialize \<Rightarrow> ('c, 'w) tcp \<Rightarrow> FuseRequest \<Rightarrow> u64 \<Rightarrow> string option \<Rightarrow> u32 \<Rightarrow> ('c, 'w) callback" where
  "fuse_getxattr z tcp req inode name buffer_size =
     with_name name (\<lambda>name. replying (nc_getxattr z tcp inode name (user req)) (xattr_reply buffer_size))"

definition fuse_listxattr :: "zerialize \<Rightarrow> ('c, 'w) tcp \<Rightarrow> u64 \<Rightarrow> u32 \<Rightarrow> ('c, 'w) callback" where
  "fuse_listxattr z tcp inode buffer_size =
     replying (nc_listxattr z tcp inode) (\<lambda>xattrs.
       xattr_reply buffer_size (concat (map (\<lambda>attr. string_bytes attr @ [0]) xattrs)))"

definition fuse_removexattr ::
    "zerialize \<Rightarrow> ('c, 'w) tcp \<Rightarrow> FuseRequest \<Rightarrow> u64 \<Rightarrow> string option \<Rightarrow> ('c, 'w) callback" where
  "fuse_removexattr z tcp req inode name =
     with_name name (\<lambda>name. replying (nc_removexattr z tcp inode name (user req)) (\<lambda>_. Done))"

definition fuse_access :: "zerialize \<Rightarrow> ('c, 'w) tcp \<Rightarrow> FuseRequest \<Rightarrow> u64 \<Rightarrow> u32 \<Rightarrow> ('c, 'w) callback" where
  "fuse_access z tcp req inode access_mask =
     replying (nc_getattr z tcp inode) (\<lambda>attr.
       if check_access (at_uid attr) (at_gid attr) (at_perm attr) (rq_uid req) (rq_gid req) access_mask then Done
       else Error Errno.EACCES)"

definition fuse_create ::
    "zerialize \<Rightarrow> ('c, 'w) tcp \<Rightarrow> (u32 \<Rightarrow> OpenAccMode) \<Rightarrow> FuseRequest \<Rightarrow> u64 \<Rightarrow> string option \<Rightarrow> u32 \<Rightarrow> u32 \<Rightarrow> ('c, 'w) callback" where
  "fuse_create z tcp acc_mode req parent name mode flags =
     with_name name (\<lambda>name s.
       let (readable, writable) =
         (case acc_mode flags of O_RDONLY \<Rightarrow> (True, False) | O_WRONLY \<Rightarrow> (False, True) | O_RDWR \<Rightarrow> (True, True))
       in await (give (as_file_kind mode) s) (\<lambda>kind s.
          checked into_fuse_error (on_client (nc_create z tcp parent name (rq_uid req) (rq_gid req) (ucast mode) kind) s) (\<lambda>attr s.
          let (handle, f) = allocate_file_handle (fst s) readable writable
          in give (Ok (Created attr handle (ff_direct_io f))) (f, snd s))))"

definition fuse_getlk :: "('c, 'w) callback" where
  "fuse_getlk = give (Ok (Error Errno.ENOSYS))"

definition fuse_setlk :: "('c, 'w) callback" where
  "fuse_setlk = give (Ok (Error Errno.ENOSYS))"

definition fuse_bmap :: "('c, 'w) callback" where
  "fuse_bmap = give (Ok (Error Errno.ENOSYS))"

end
