(* ===== verification/Mounted_Session.thy ===== *)
theory Mounted_Session
  imports Sample_Node Fuse_Adapter
begin

text \<open>
  The whole stack at work: a program reads and writes files through the FUSE adapter, its client, a
  stream, the router, the consensus node and the storages of a node on its own, and sees plain
  byte lists.
\<close>

section \<open>Sessions\<close>

text \<open>The calls of a session: the inode, the file handle, the offset, and the data or the size.\<close>

datatype file_call = WriteCall u64 u64 u64 bytes | ReadCall u64 u64 u64 u32

fun perform :: "zerialize \<Rightarrow> ('c, 'w) tcp \<Rightarrow> file_call \<Rightarrow> ('c, 'w) callback" where
  "perform z tcp (WriteCall inode fh off data) = fuse_write z tcp inode fh off data"
| "perform z tcp (ReadCall inode fh off sz) = fuse_read z tcp inode fh off sz"

primrec session :: "zerialize \<Rightarrow> ('c, 'w) tcp \<Rightarrow> file_call list \<Rightarrow> ('c FleetFUSE \<times> 'w, ErrorCode, Reply list) act" where
  "session z tcp [] s = give (Ok []) s"
| "session z tcp (x # xs) s =
     await (perform z tcp x s) (\<lambda>reply s. await (session z tcp xs s) (\<lambda>replies. give (Ok (reply # replies))))"

text \<open>What they do to the contents of the files, and their replies.\<close>

fun effect_on :: "(u64 \<rightharpoonup> FileHandleAttributes) \<Rightarrow> file_call \<Rightarrow> (u64 \<rightharpoonup> bytes) \<Rightarrow> Reply \<times> (u64 \<rightharpoonup> bytes)" where
  "effect_on handles (WriteCall inode fh off data) files =
     (if map_option fh_write (handles fh) = Some True
      then (Written (of_nat (length data)), files(inode \<mapsto> write_at (the (files inode)) (unat off) data))
      else (Error Errno.EACCES, files))"
| "effect_on handles (ReadCall inode fh off sz) files =
     (if map_option fh_read (handles fh) = Some True
      then Data (take (unat sz) (drop (unat off) (the (files inode)))) else Error Errno.EACCES, files)"

primrec replies_on :: "(u64 \<rightharpoonup> FileHandleAttributes) \<Rightarrow> file_call list \<Rightarrow> (u64 \<rightharpoonup> bytes) \<Rightarrow> Reply list" where
  "replies_on handles [] files = []"
| "replies_on handles (x # xs) files =
     fst (effect_on handles x files) # replies_on handles xs (snd (effect_on handles x files))"

text \<open>A call on a file that exists, within the range of positions, and small enough to be sent.\<close>

fun call_fits :: "zerialize \<Rightarrow> file_call \<Rightarrow> (u64 \<rightharpoonup> bytes) \<Rightarrow> bool" where
  "call_fits z (WriteCall inode fh off data) files \<longleftrightarrow>
     files inode \<noteq> None \<and> length data < 2 ^ 32 \<and> fits (unat off + length data) 1 \<and>
     sendable z (Request.Write inode off data) (Response.Written (of_nat (length data)))"
| "call_fits z (ReadCall inode fh off sz) files \<longleftrightarrow>
     files inode \<noteq> None \<and> fits (unat off + unat sz) 1 \<and>
     sendable z (Request.Read inode off sz) (Response.Read (take (unat sz) (drop (unat off) (the (files inode)))))"

primrec calls_fit :: "zerialize \<Rightarrow> (u64 \<rightharpoonup> FileHandleAttributes) \<Rightarrow> file_call list \<Rightarrow> (u64 \<rightharpoonup> bytes) \<Rightarrow> bool" where
  "calls_fit z handles [] files \<longleftrightarrow> True"
| "calls_fit z handles (x # xs) files \<longleftrightarrow>
     call_fits z x files \<and> calls_fit z handles xs (snd (effect_on handles x files))"

section \<open>The simulation\<close>

text \<open>The adapter and the node stand for the files.\<close>

definition mounted ::
    "('m, 'r, 'k, 'c, 's) runtime \<Rightarrow> ('r \<Rightarrow> bool) \<Rightarrow> ('s \<Rightarrow> 'c \<Rightarrow> bytes) \<Rightarrow> (u64 \<rightharpoonup> bytes)
      \<Rightarrow> 'c FleetFUSE \<times> ('r, 'k, 'c, 's) world \<Rightarrow> bool" where
  "mounted rt quiet inbox files s \<longleftrightarrow>
     holds_files rt quiet files (snd s) \<and> (\<forall>i. unlocked i (snd s)) \<and> idle inbox (ff_client (fst s), snd s)"

lemma perform_mounted:
  assumes wi: "wired tcp rt remote c inbox server" and m: "mounted rt quiet inbox files s"
    and f: "call_fits (rt_zerialize rt) x files"
  obtains s' where "perform (rt_zerialize rt) tcp x s = Some (Ok (fst (effect_on (ff_file_handles (fst s)) x files)), s')"
    "mounted rt quiet inbox (snd (effect_on (ff_file_handles (fst s)) x files)) s'" "ff_file_handles (fst s') = ff_file_handles (fst s)"
proof -
  let ?z = "rt_zerialize rt" and ?w = "snd s" and ?client = "ff_client (fst s)" and ?h = "ff_file_handles (fst s)"
  have i: "idle inbox (?client, ?w)" and w: "holds_files rt quiet files ?w" "\<And>i. unlocked i ?w"
    using m by (simp_all add: mounted_def)
  show thesis
  proof (cases x)
    case (WriteCall inode fh off data)
    show thesis
    proof (cases "check_write (fst s) fh")
      case True
      obtain content where content: "files inode = Some content" using f by (auto simp: WriteCall)
      obtain client' w' where n: "nc_write ?z tcp inode data off (?client, ?w) = Some (Ok (of_nat (length data)), client', w')"
        "idle inbox (client', w')" "holds_files rt quiet (files(inode \<mapsto> write_at content (unat off) data)) w'"
        "\<And>i. unlocked i w' = unlocked i ?w"
        by (rule nc_write_holds [OF wi i w content, of data off]) (use f in \<open>auto simp: WriteCall\<close>)
      show thesis
        by (rule that [of "((fst s)\<lparr>ff_client := client'\<rparr>, w')"])
          (use True n w(2) content in \<open>auto simp: WriteCall fuse_write_def replying_def checked_def on_client_def mounted_def
            check_write_def split: option.splits\<close>)
    next
      case False
      with m show thesis
        by (intro that [of s]) (auto simp: WriteCall fuse_write_def check_write_def split: option.splits)
    qed
  next
    case (ReadCall inode fh off sz)
    show thesis
    proof (cases "check_read (fst s) fh")
      case True
      obtain content where content: "files inode = Some content" using f by (auto simp: ReadCall)
      obtain client' w' where n: "nc_read ?z tcp inode off sz (?client, ?w)
          = Some (Ok (take (unat sz) (drop (unat off) content)), client', w')"
        "idle inbox (client', w')" "holds_files rt quiet files w'" "\<And>i. unlocked i w' = unlocked i ?w"
        by (rule nc_read_holds [OF wi i w(1) content, of off sz]) (use f content in \<open>auto simp: ReadCall\<close>)
      show thesis
        by (rule that [of "((fst s)\<lparr>ff_client := client'\<rparr>, w')"])
          (use True n w(2) content in \<open>auto simp: ReadCall fuse_read_def replying_def checked_def on_client_def mounted_def
            check_read_def split: option.splits\<close>)
    next
      case False
      with m show thesis
        by (intro that [of s]) (auto simp: ReadCall fuse_read_def check_read_def split: option.splits)
    qed
  qed
qed

text \<open>
  C1. A mounted file system is its files. Whatever sequence of reads and writes a program makes
  through the FUSE adapter of a node on its own, every call is answered, and the replies are those
  of plain byte lists: a read gives the bytes that the writes before it left there (short at the
  end of the file), a write is acknowledged in full, and a call on a handle that was not opened for
  it is refused with \<^verbatim>\<open>EACCES\<close> and changes nothing.
\<close>
theorem mounted_session:
  assumes "wired tcp rt remote c inbox server" "mounted rt quiet inbox files s"
    and "calls_fit (rt_zerialize rt) (ff_file_handles (fst s)) calls files"
  shows "\<exists>s'. session (rt_zerialize rt) tcp calls s = Some (Ok (replies_on (ff_file_handles (fst s)) calls files), s')"
  using assms(2,3)
proof (induction calls arbitrary: s files)
  case (Cons x xs)
  from Cons.prems(2) have f: "call_fits (rt_zerialize rt) x files"
    "calls_fit (rt_zerialize rt) (ff_file_handles (fst s)) xs (snd (effect_on (ff_file_handles (fst s)) x files))" by simp_all
  obtain s' where s': "perform (rt_zerialize rt) tcp x s = Some (Ok (fst (effect_on (ff_file_handles (fst s)) x files)), s')"
    "mounted rt quiet inbox (snd (effect_on (ff_file_handles (fst s)) x files)) s'" "ff_file_handles (fst s') = ff_file_handles (fst s)"
    using perform_mounted [OF assms(1) Cons.prems(1) f(1)] .
  obtain s'' where "session (rt_zerialize rt) tcp xs s'
      = Some (Ok (replies_on (ff_file_handles (fst s)) xs (snd (effect_on (ff_file_handles (fst s)) x files))), s'')"
    using Cons.IH [OF s'(2)] f(2) s'(3) by auto
  then show ?case using s'(1) by simp
qed simp

theorem mounted_session_witness:
  "let z = sample_codec [Request.Write 2 1 [7, 8], Request.Read 2 0 10, Request.Write 2 0 [9]]
         [WireResponse.Written 2, WireResponse.Read [0, 7, 8], WireResponse.Written 1];
       f = (FleetFUSE_new \<lparr>sa_ip = V4 127 0 0 1, sa_port = 3000\<rparr> False)
         \<lparr>ff_file_handles := [1 \<mapsto> \<lparr>fh_read = False, fh_write = True\<rparr>, 2 \<mapsto> \<lparr>fh_read = True, fh_write = False\<rparr>]\<rparr>
   in \<exists>s. session z (client_tcp z) [WriteCall 2 1 1 [7, 8], ReadCall 2 2 0 10, WriteCall 2 2 0 [9]] (f, sample_world)
        = Some (Ok [Written 2, Data [0, 7, 8], Error Errno.EACCES], s)"
proof -
  let ?z = "sample_codec [Request.Write 2 1 [7, 8], Request.Read 2 0 10, Request.Write 2 0 [9]]
         [WireResponse.Written 2, WireResponse.Read [0, 7, 8], WireResponse.Written 1]"
  let ?f = "(FleetFUSE_new \<lparr>sa_ip = V4 127 0 0 1, sa_port = 3000\<rparr> False)
         \<lparr>ff_file_handles := [1 \<mapsto> \<lparr>fh_read = False, fh_write = True\<rparr>, 2 \<mapsto> \<lparr>fh_read = True, fh_write = False\<rparr>]\<rparr>"
  let ?calls = "[WriteCall 2 1 1 [7, 8], ReadCall 2 2 0 10, WriteCall 2 2 0 [9]]"
  have z: "rt_zerialize (sample_runtime ?z) = ?z" by (simp add: sample_runtime_def)
  have m: "mounted (sample_runtime ?z) (\<lambda>r. snd r = []) id [2 \<mapsto> []] (?f, sample_world)"
    using sample_world_holds [OF sample_codec_ok]
    by (simp add: mounted_def idle_def FleetFUSE_new_def NodeClient_new_def TcpClient_new_def)
  have w: "write_at [] (Suc 0) [7, 8] = [0, 7, 8]" by (simp add: write_at_def)
  have "calls_fit ?z (ff_file_handles ?f) ?calls [2 \<mapsto> []]"
    by (simp add: w sample_sendable)
  from mounted_session [OF sample_wired m, of ?calls] this show ?thesis by (simp add: z w)
qed

end
