(* ===== verification/Transactions_Alone.thy ===== *)
theory Transactions_Alone
  imports Sample_Node
begin

text \<open>
  Transactions of the coordinator on a node on its own: they release what they lock; and a rename
  comes to an end exactly when it does not lock the same inode twice.
\<close>

section \<open>Calls that return\<close>

definition returns :: "(('e, 'a) res \<times> 's) option \<Rightarrow> ('a \<Rightarrow> 's \<Rightarrow> bool) \<Rightarrow> ('s \<Rightarrow> bool) \<Rightarrow> bool" where
  "returns x Q E \<longleftrightarrow> x \<noteq> None \<and> outcome x Q E"

lemma returns_simps [simp]:
  "\<not> returns None Q E" "returns (Some (Ok a, s)) Q E \<longleftrightarrow> Q a s" "returns (Some (Err e, s)) Q E \<longleftrightarrow> E s"
  "returns (Some (Panic, s)) Q E"
  by (simp_all add: returns_def)

lemma returns_give: "(\<And>a. r = Ok a \<Longrightarrow> Q a s) \<Longrightarrow> (\<And>e. r = Err e \<Longrightarrow> E s) \<Longrightarrow> returns (Some (r, s)) Q E"
  by (simp add: returns_def outcome_give)

lemma returns_await:
  assumes "returns x P E" "\<And>a s. P a s \<Longrightarrow> returns (f a s) Q E"
  shows "returns (await x f) Q E"
proof -
  obtain r s where "x = Some (r, s)" using assms(1) by (auto simp: returns_def)
  then show ?thesis using assms by (cases r) auto
qed

lemma returns_weaken: "returns x P F \<Longrightarrow> (\<And>a s. P a s \<Longrightarrow> Q a s) \<Longrightarrow> (\<And>s. F s \<Longrightarrow> E s) \<Longrightarrow> returns x Q E"
  unfolding returns_def using outcome_weaken by blast

lemma await_None: "returns x P E \<Longrightarrow> (\<And>a s. P a s \<Longrightarrow> f a s = None) \<Longrightarrow> (\<exists>a s. x = Some (Ok a, s)) \<Longrightarrow> await x f = None"
  by auto

section \<open>Steps of a rename\<close>

text \<open>
  The state of a rename: the node is at work, nobody waits, and the locks that are held are those
  of the guard.
\<close>

definition renaming ::
    "('m, 'r, 'k, 'c, 's) runtime \<Rightarrow> ('r \<Rightarrow> bool) \<Rightarrow> ('r, 'k, 'c, 's) world guarded \<Rightarrow> bool" where
  "renaming rt quiet s \<longleftrightarrow>
     standalone rt quiet (fst s) \<and> no_waiters (fst s) \<and> \<not> cn_poisoned (node_of (fst s)) \<and> locks_of (fst s) = set (snd s) \<and>
     distinct (snd s)"

abbreviation storage_in :: "('r, 'k, 'c, 's) world guarded \<Rightarrow> TcpPeerClient file_storage" where
  "storage_in s \<equiv> cn_file_storage (node_of (fst s))"

lemma renamingD:
  assumes "renaming rt quiet s"
  shows "standalone rt quiet (fst s)" "lone (w_raft (fst s))" "codec_ok (rt_zerialize rt)" "solitary (rt_raxos rt) quiet"
    "node_ready quiet (node_of (fst s))" "queue_of (cn_lock_table (node_of (fst s))) i = []"
    "held_by (cn_lock_table (node_of (fst s))) i = Some k \<longleftrightarrow> (i, k) \<in> set (snd s)" "distinct (snd s)"
  using assms by (auto simp: renaming_def standalone_def runtime_ok_def no_waiters_def locks_of_def)

lemma renaming_put:
  assumes "renaming rt quiet s" "node_ready quiet n'" "\<And>i. queue_of (cn_lock_table n') i = []"
    and "distinct ls" "\<And>i k. held_by (cn_lock_table n') i = Some k \<longleftrightarrow> (i, k) \<in> set ls"
  shows "renaming rt quiet (put_node n' (fst s), ls)"
  using standalone_put [OF renamingD(1) [OF assms(1)], of n'] assms(2,4)
  by (simp add: renaming_def no_waiters_def locks_of_def node_ready_def assms(3,5))

lemma lock_step:
  assumes s: "renaming rt quiet s" and m: "lone m"
  shows "i \<notin> fst ` set (snd s) \<Longrightarrow> \<exists>k s'. lock_guarded (rt_zerialize rt) (cluster_of rt m remote) i s = Some (Ok k, s') \<and>
      renaming rt quiet s' \<and> set (snd s') = insert (i, k) (set (snd s)) \<and> storage_in s' = storage_in s"
    and "i \<in> fst ` set (snd s) \<Longrightarrow> lock_guarded (rt_zerialize rt) (cluster_of rt m remote) i s = None"
proof -
  note d = renamingD [OF s]
  let ?n = "node_of (fst s)"
  assume "i \<notin> fst ` set (snd s)"
  then have free: "held_by (cn_lock_table ?n) i = None" using d(7) [of i] by (cases "held_by (cn_lock_table ?n) i") force+
  obtain n' where n': "node_call (rt_raxos rt) (rt_zerialize rt) (rt_clock rt) (rt_now rt)
      (encode_request (rt_zerialize rt) (Request.Lock i)) ?n = Some (Ok (Response.Lock (lt_next_id (cn_lock_table ?n))), n')"
    "cn_file_storage n' = cn_file_storage ?n" "cn_lock_table n' = snd (lock (cn_lock_table ?n) i)" "node_ready quiet n'"
    using node_lock [OF d(4,5,3) free] by metis
  have l: "queue_of (cn_lock_table n') = queue_of (cn_lock_table ?n)"
    "held_by (cn_lock_table n') = (held_by (cn_lock_table ?n))(i \<mapsto> lt_next_id (cn_lock_table ?n))"
    using free by (auto simp: n'(3) lock_def queue_of_def held_by_def Let_def fun_eq_iff)
  let ?ls = "List.insert (i, lt_next_id (cn_lock_table ?n)) (snd s)"
  have "renaming rt quiet (put_node n' (fst s), ?ls)"
    by (rule renaming_put [OF s n'(4)]) (use d(6,8) free in \<open>auto simp: l distinct_insert simp flip: d(7)\<close>)
  moreover have "lock_guarded (rt_zerialize rt) (cluster_of rt m remote) i s = Some (Ok (lt_next_id (cn_lock_table ?n)), put_node n' (fst s), ?ls)"
    by (simp add: lock_guarded_def in_guard_def lock_inode_def tx_propose_alone [OF d(1) m] propose_on_node(1) [OF d(1)] n'(1)
        as_error_response_def codec_okD(3) [OF d(3)])
  ultimately show "\<exists>k s'. lock_guarded (rt_zerialize rt) (cluster_of rt m remote) i s = Some (Ok k, s') \<and>
      renaming rt quiet s' \<and> set (snd s') = insert (i, k) (set (snd s)) \<and> storage_in s' = storage_in s"
    using n'(2) by fastforce
next
  note d = renamingD [OF s]
  let ?n = "node_of (fst s)"
  assume "i \<in> fst ` set (snd s)"
  then obtain k where "held_by (cn_lock_table ?n) i = Some k" using d(7) by force
  then have "is_locked (cn_lock_table ?n) (meta_info (Request.Lock i)) = Ok True" "held_by (cn_lock_table ?n) i \<noteq> None"
    by (cases "lt_lock_ids (cn_lock_table ?n) i"; cases "snd (the (lt_lock_ids (cn_lock_table ?n) i))";
        auto simp: is_locked_def held_by_def)+
  from node_blocked [OF d(4,5,3) _ this] show "lock_guarded (rt_zerialize rt) (cluster_of rt m remote) i s = None"
    by (simp add: lock_guarded_def in_guard_def lock_inode_def tx_propose_alone [OF d(1) m] propose_on_node(1) [OF d(1)])
qed

lemma returns_in_guard:
  "returns (in_guard call s) Q E \<longleftrightarrow> returns (call (fst s)) (\<lambda>a w. Q a (w, snd s)) (\<lambda>w. E (w, snd s))"
proof (cases "call (fst s)")
  case (Some y)
  then show ?thesis by (cases y; cases "fst y") (auto simp: in_guard_def)
qed (simp add: in_guard_def)

lemma barrier_step:
  assumes "renaming rt quiet (w, ls)"
  obtains w' where "group_read_barrier rt 0 w = Some (Ok (), w')" "renaming rt quiet (w', ls)"
    "cn_file_storage (node_of w') = cn_file_storage (node_of w)"
proof -
  note d = renamingD [OF assms, simplified]
  obtain n' where n': "node_call (rt_raxos rt) (rt_zerialize rt) (rt_clock rt) (rt_now rt) [] (node_of w) = Some (Ok Response.Empty, n')"
    "cn_file_storage n' = cn_file_storage (node_of w)" "cn_lock_table n' = cn_lock_table (node_of w)" "node_ready quiet n'"
    using node_barrier [OF d(4,5)] by metis
  have "renaming rt quiet (put_node n' w, ls)"
    using renaming_put [OF assms n'(4), of ls] d(6-8) by (simp add: n'(3))
  then show thesis using n'(1,2) that by (simp add: propose_on_node [OF d(1)])
qed

lemma lookup_step:
  assumes "renaming rt quiet (w, ls)" "lone m"
  obtains w' where "tx_lookup (rt_zerialize rt) (cluster_of rt m remote) i name ctx w =
      Some (and_then (fs_lookup (cn_file_storage (node_of w)) i name ctx) (\<lambda>response.
        case response of Response.Inode inode \<Rightarrow> Ok inode | _ \<Rightarrow> Err BadResponse), w')"
    "renaming rt quiet (w', ls)" "cn_file_storage (node_of w') = cn_file_storage (node_of w)"
proof -
  obtain w' where w': "group_read_barrier rt 0 w = Some (Ok (), w')" "renaming rt quiet (w', ls)"
    "cn_file_storage (node_of w') = cn_file_storage (node_of w)" using barrier_step [OF assms(1)] .
  note d = renamingD(1) [OF assms(1), simplified] and d' = renamingD(1) [OF w'(2), simplified]
  show thesis
    by (rule that [OF _ w'(2,3)])
      (simp add: tx_lookup_def lone_lookup [OF assms(2)] standalone_lookup [OF d] w' local_reads [OF d'])
qed

lemma getattrs_step:
  assumes "renaming rt quiet (w, ls)" "lone m"
  shows "returns (getattrs (rt_zerialize rt) (cluster_of rt m remote) i w)
    (\<lambda>_ w'. renaming rt quiet (w', ls)) (\<lambda>w'. renaming rt quiet (w', ls))"
proof -
  obtain w' where w': "group_read_barrier rt 0 w = Some (Ok (), w')" "renaming rt quiet (w', ls)"
    using barrier_step [OF assms(1)] by metis
  note d = renamingD(1) [OF assms(1), simplified]
  show ?thesis
    unfolding getattrs_def
    by (simp add: lone_lookup [OF assms(2)] standalone_lookup [OF d] w'(1)) (rule returns_give, simp_all add: w'(2))
qed

text \<open>A request that shows the lock id of a lock in the guard is let through.\<close>

lemma propose_step:
  assumes s: "renaming rt quiet (w, ls)" "lone m"
    and r: "meta_inode (meta_info r) = Some i" "meta_lock_id (meta_info r) = Some k" "(i, k) \<in> set ls" "\<not> is_lock_change r"
  shows "returns (tx_propose (rt_zerialize rt) (cluster_of rt m remote) j r w)
    (\<lambda>_ w'. renaming rt quiet (w', ls)) (\<lambda>w'. renaming rt quiet (w', ls))"
proof -
  note d = renamingD [OF s(1), simplified]
  let ?n = "node_of w"
  have "held_by (cn_lock_table ?n) i = Some k" using d(7) r(3) by simp
  then have t: "let_through r (cn_lock_table ?n)"
    using held_by_Some r(1,2) by (fastforce simp: let_through_def is_locked_def assert_that_def)
  let ?c = "commit_write (rt_clock rt (cn_commits ?n)) r (cn_file_storage ?n)"
  have "returns (group_propose_raw rt (encode_request (rt_zerialize rt) r) 0 w)
      (\<lambda>_ w'. renaming rt quiet (w', ls)) (\<lambda>w'. renaming rt quiet (w', ls))"
  proof (cases "fst ?c = Panic")
    case True
    from node_commit(1) [OF d(4,5,3) t r(4), of "rt_clock rt" "rt_now rt"] True obtain n' where
      "node_call (rt_raxos rt) (rt_zerialize rt) (rt_clock rt) (rt_now rt) (encode_request (rt_zerialize rt) r) ?n = Some (Panic, n')"
      by blast
    then show ?thesis by (simp add: propose_on_node(1) [OF d(1)])
  next
    case False
    from node_commit(2) [OF d(4,5,3) t r(4), of "rt_clock rt" "rt_now rt"] False obtain n' where n':
      "node_call (rt_raxos rt) (rt_zerialize rt) (rt_clock rt) (rt_now rt) (encode_request (rt_zerialize rt) r) ?n = Some (fst ?c, n')"
      "cn_lock_table n' = cn_lock_table ?n" "node_ready quiet n'" by blast
    have "renaming rt quiet (put_node n' w, ls)"
      using renaming_put [OF s(1) n'(3), of ls] d(6-8) by (simp add: n'(2))
    then show ?thesis unfolding propose_on_node(1) [OF d(1)] n'(1) by (simp add: returns_give)
  qed
  then show ?thesis
    unfolding tx_propose_alone [OF d(1) s(2)] by (rule returns_await) (simp split: option.split)
qed

section \<open>Renames that end\<close>

text \<open>The inode that a name leads to, and the renames that lock an inode which they have locked before.\<close>

definition found :: "'p file_storage \<Rightarrow> u64 \<Rightarrow> string \<Rightarrow> UserContext \<Rightarrow> u64 option" where
  "found fs parent name ctx = (case fs_lookup fs parent name ctx of Ok (Response.Inode i) \<Rightarrow> Some i | _ \<Rightarrow> None)"

definition locks_twice :: "'p file_storage \<Rightarrow> u64 \<Rightarrow> string \<Rightarrow> u64 \<Rightarrow> string \<Rightarrow> UserContext \<Rightarrow> bool" where
  "locks_twice fs parent name new_parent new_name ctx \<longleftrightarrow>
     (case found fs parent name ctx of
        None \<Rightarrow> False
      | Some inode \<Rightarrow>
          inode \<in> {parent, new_parent} \<or>
          (case found fs new_parent new_name ctx of
             None \<Rightarrow> False
           | Some existing \<Rightarrow> existing \<in> {parent, new_parent, inode}))"

lemma lock_returns:
  assumes "renaming rt quiet s" "lone m" "i \<notin> fst ` set (snd s)"
  shows "returns (lock_guarded (rt_zerialize rt) (cluster_of rt m remote) i s)
    (\<lambda>k s'. renaming rt quiet s' \<and> set (snd s') = insert (i, k) (set (snd s)) \<and> storage_in s' = storage_in s) (renaming rt quiet)"
proof -
  obtain k s' where "lock_guarded (rt_zerialize rt) (cluster_of rt m remote) i s = Some (Ok k, s')" "renaming rt quiet s'"
    "set (snd s') = insert (i, k) (set (snd s))" "storage_in s' = storage_in s" using lock_step(1) [OF assms] by blast
  then show ?thesis by simp
qed

text \<open>The lookup of the name, and of the destination.\<close>

lemma found_iff:
  "and_then (fs_lookup fs i name ctx) (\<lambda>response. case response of Response.Inode inode \<Rightarrow> Ok inode | _ \<Rightarrow> Err BadResponse) = Ok inode
    \<longleftrightarrow> found fs i name ctx = Some inode"
  by (auto simp: found_def res_simps split: res.splits Response.splits)

lemma lookup_returns:
  assumes "renaming rt quiet s" "lone m"
  shows "returns (in_guard (tx_lookup (rt_zerialize rt) (cluster_of rt m remote) i name ctx) s)
      (\<lambda>inode s'. renaming rt quiet s' \<and> snd s' = snd s \<and> storage_in s' = storage_in s \<and> found (storage_in s) i name ctx = Some inode)
      (renaming rt quiet)"
    and "returns (in_guard (find_existing (rt_zerialize rt) (cluster_of rt m remote) i name ctx) s)
      (\<lambda>existing s'. renaming rt quiet s' \<and> snd s' = snd s \<and> storage_in s' = storage_in s \<and> existing = found (storage_in s) i name ctx)
      (renaming rt quiet)"
proof -
  define r where "r = and_then (fs_lookup (storage_in s) i name ctx) (\<lambda>response.
        case response of Response.Inode inode \<Rightarrow> Ok inode | _ \<Rightarrow> Err BadResponse)"
  have r: "r = Ok inode \<longleftrightarrow> found (storage_in s) i name ctx = Some inode" for inode unfolding r_def by (rule found_iff)
  obtain w' where w': "tx_lookup (rt_zerialize rt) (cluster_of rt m remote) i name ctx (fst s) = Some (r, w')"
    "renaming rt quiet (w', snd s)" "cn_file_storage (node_of w') = storage_in s"
    using lookup_step [of rt quiet "fst s" "snd s" m remote i name ctx] assms by (auto simp: r_def)
  show "returns (in_guard (tx_lookup (rt_zerialize rt) (cluster_of rt m remote) i name ctx) s)
      (\<lambda>inode s'. renaming rt quiet s' \<and> snd s' = snd s \<and> storage_in s' = storage_in s \<and> found (storage_in s) i name ctx = Some inode)
      (renaming rt quiet)"
    unfolding returns_in_guard w'(1) by (rule returns_give) (use w'(2,3) r in auto)
  have n: "found (storage_in s) i name ctx = None" if "r = Err e" for e
    using that r by (cases "found (storage_in s) i name ctx") auto
  show "returns (in_guard (find_existing (rt_zerialize rt) (cluster_of rt m remote) i name ctx) s)
      (\<lambda>existing s'. renaming rt quiet s' \<and> snd s' = snd s \<and> storage_in s' = storage_in s \<and> existing = found (storage_in s) i name ctx)
      (renaming rt quiet)"
    unfolding returns_in_guard find_existing_def w'(1)
    using w'(2,3) n r [THEN iffD1] by (cases r) auto
qed

text \<open>The end of a rename, when everything is locked.\<close>

lemma answer_step:
  assumes "renaming rt quiet (w, ls)" "lone m" "meta_inode (meta_info r) = Some i" "meta_lock_id (meta_info r) = Some k"
    "(i, k) \<in> set ls" "\<not> is_lock_change r"
  shows "returns (await (tx_propose (rt_zerialize rt) (cluster_of rt m remote) i r w) (\<lambda>data. give (f data)))
      (\<lambda>_ w'. renaming rt quiet (w', ls)) (\<lambda>w'. renaming rt quiet (w', ls))"
    and "returns (map_option (\<lambda>(x, w). (and_then (unwrap x) h, w)) (tx_propose (rt_zerialize rt) (cluster_of rt m remote) i r w))
      (\<lambda>_ w'. renaming rt quiet (w', ls)) (\<lambda>w'. renaming rt quiet (w', ls))"
proof -
  note p = propose_step [OF assms, of remote i]
  show "returns (await (tx_propose (rt_zerialize rt) (cluster_of rt m remote) i r w) (\<lambda>data. give (f data)))
      (\<lambda>_ w'. renaming rt quiet (w', ls)) (\<lambda>w'. renaming rt quiet (w', ls))"
    by (rule returns_await [OF p]) (simp add: returns_give)
  show "returns (map_option (\<lambda>(x, w). (and_then (unwrap x) h, w)) (tx_propose (rt_zerialize rt) (cluster_of rt m remote) i r w))
      (\<lambda>_ w'. renaming rt quiet (w', ls)) (\<lambda>w'. renaming rt quiet (w', ls))"
    using p by (cases "tx_propose (rt_zerialize rt) (cluster_of rt m remote) i r w";
        cases "fst (the (tx_propose (rt_zerialize rt) (cluster_of rt m remote) i r w))") (auto simp: split_beta intro!: returns_give)
qed

lemma destination_returns:
  assumes "renaming rt quiet (w, ls)" "lone m" "(new_parent, np) \<in> set ls"
    and "\<And>e a. existing = Some (e, a) \<Longrightarrow> \<exists>k. lock_id = Some k \<and> (e, k) \<in> set ls"
  shows "returns (rename_destination (rt_zerialize rt) (cluster_of rt m remote) new_parent new_name ctx inode kind np existing lock_id w)
    (\<lambda>_ w'. renaming rt quiet (w', ls)) (\<lambda>w'. renaming rt quiet (w', ls))"
proof (cases existing)
  case None
  then show ?thesis
    using assms(3) unfolding rename_destination_def by (simp add: answer_step(1) [OF assms(1,2)])
next
  case (Some x)
  obtain e a where x: "x = (e, a)" by (cases x)
  obtain k where k: "lock_id = Some k" "(e, k) \<in> set ls" using assms(4) Some x by blast
  have dec: "returns (decrement_inode (rt_zerialize rt) (cluster_of rt m remote) e count (Some k) w1)
      (\<lambda>_ w'. renaming rt quiet (w', ls)) (\<lambda>w'. renaming rt quiet (w', ls))" if "renaming rt quiet (w1, ls)" for count w1
    unfolding decrement_inode_def by (rule answer_step(2) [OF that assms(2)]) (use k(2) in simp_all)
  have rep: "returns (tx_replace_link (rt_zerialize rt) (cluster_of rt m remote) new_parent new_name inode kind np ctx w)
      (\<lambda>_ w'. renaming rt quiet (w', ls)) (\<lambda>w'. renaming rt quiet (w', ls))"
    unfolding tx_replace_link_def by (rule answer_step(1) [OF assms(1,2)]) (use assms(3) in simp_all)
  show ?thesis
    unfolding rename_destination_def Some x k(1) option.case prod.case
    by (rule returns_await [OF rep]) (auto simp: assert_that_def intro!: dec)
qed

abbreviation within :: "('m, 'r, 'k, 'c, 's) runtime \<Rightarrow> ('r \<Rightarrow> bool) \<Rightarrow> (u64 \<times> u64) list \<Rightarrow> ('r, 'k, 'c, 's) world guarded \<Rightarrow> bool" where
  "within rt quiet ls s \<equiv> renaming rt quiet s \<and> snd s = ls"

lemma guard_returns:
  assumes "returns (call w) (\<lambda>_ w'. renaming rt quiet (w', ls)) (\<lambda>w'. renaming rt quiet (w', ls))"
  shows "returns (in_guard call (w, ls)) (\<lambda>_. within rt quiet ls) (renaming rt quiet)"
  unfolding returns_in_guard using assms by simp

lemma getattrs_returns:
  "renaming rt quiet (w, ls) \<Longrightarrow> lone m \<Longrightarrow> returns (in_guard (getattrs (rt_zerialize rt) (cluster_of rt m remote) i) (w, ls))
    (\<lambda>_. within rt quiet ls) (renaming rt quiet)"
  by (rule guard_returns, rule getattrs_step)

lemma existing_attrs_returns:
  assumes "renaming rt quiet (w, ls)" "lone m"
  shows "returns (case existing of
        Some existing \<Rightarrow> await (in_guard (getattrs (rt_zerialize rt) (cluster_of rt m remote) existing) (w, ls)) (\<lambda>attrs. give (Ok (Some (existing, attrs))))
      | None \<Rightarrow> give (Ok None) (w, ls))
      (\<lambda>x s. within rt quiet ls s \<and> map_option fst x = existing) (renaming rt quiet)"
  using assms(1) by (auto split: option.split intro!: returns_await [OF getattrs_returns [OF assms]])

text \<open>A step of the form \<open>await x f\<close> that keeps the guard.\<close>

lemma returns_within:
  assumes "returns x (\<lambda>_. within rt quiet ls) (renaming rt quiet)"
    and "\<And>a w. renaming rt quiet (w, ls) \<Longrightarrow> returns (f a (w, ls)) Q (renaming rt quiet)"
  shows "returns (await x f) Q (renaming rt quiet)"
  by (rule returns_await [OF assms(1)]) (use assms(2) in auto)

lemma end_returns:
  assumes "renaming rt quiet (w, ls)" "lone m" "(parent, pk) \<in> set ls" "(new_parent, np) \<in> set ls" "(inode, ik) \<in> set ls"
    and "\<And>e. existing = Some e \<Longrightarrow> \<exists>k. lock_id = Some k \<and> (e, k) \<in> set ls"
  shows "returns
    (await (in_guard (getattrs (rt_zerialize rt) (cluster_of rt m remote) parent) (w, ls)) (\<lambda>parent_attrs s.
     await (in_guard (getattrs (rt_zerialize rt) (cluster_of rt m remote) new_parent) s) (\<lambda>new_parent_attrs s.
     await (in_guard (getattrs (rt_zerialize rt) (cluster_of rt m remote) inode) s) (\<lambda>inode_attrs s.
     await (case existing of
              Some existing \<Rightarrow> await (in_guard (getattrs (rt_zerialize rt) (cluster_of rt m remote) existing) s) (\<lambda>attrs. give (Ok (Some (existing, attrs))))
            | None \<Rightarrow> give (Ok None) s) (\<lambda>existing s.
     await (give (rename_check_access parent_attrs new_parent_attrs inode_attrs (map_option snd existing) ctx) s) (\<lambda>_ s.
     await (in_guard (rename_destination (rt_zerialize rt) (cluster_of rt m remote) new_parent new_name ctx inode (fa_kind inode_attrs) np
              existing lock_id) s) (\<lambda>_ s.
     await (in_guard (tx_remove_link (rt_zerialize rt) (cluster_of rt m remote) parent name (Some (inode, fa_uid inode_attrs)) (Some pk) ctx) s) (\<lambda>_ s.
     await (if fa_kind inode_attrs = Directory then in_guard (tx_update_parent (rt_zerialize rt) (cluster_of rt m remote) inode new_parent (Some ik)) s
            else give (Ok ()) s) (\<lambda>_ s.
     await (in_guard (tx_update_metadata_changed_time (rt_zerialize rt) (cluster_of rt m remote) inode (Some ik)) s) (\<lambda>_.
     give (Ok Response.Empty)))))))))))
    (\<lambda>_. renaming rt quiet) (renaming rt quiet)"
proof -
  have answers: "returns (in_guard (\<lambda>w. await (tx_propose (rt_zerialize rt) (cluster_of rt m remote) i r w) (\<lambda>data. give (f data))) (w, ls))
      (\<lambda>_. within rt quiet ls) (renaming rt quiet)"
    if "renaming rt quiet (w, ls)" "meta_inode (meta_info r) = Some i" "meta_lock_id (meta_info r) = Some k" "(i, k) \<in> set ls"
      "\<not> is_lock_change r" for w i k r and f :: "bytes \<Rightarrow> (ErrorCode, unit) res"
    by (rule guard_returns, rule answer_step(1) [OF that(1) assms(2) that(2-5)])
  have removed: "returns (in_guard (tx_remove_link (rt_zerialize rt) (cluster_of rt m remote) parent name p (Some pk) ctx) (w, ls))
      (\<lambda>_. within rt quiet ls) (renaming rt quiet)" if "renaming rt quiet (w, ls)" for w p
    unfolding tx_remove_link_def [abs_def]
    by (rule guard_returns, rule answer_step(1) [OF that assms(2)]) (use assms(3) in simp_all)
  have updated: "returns (in_guard (tx_update_parent (rt_zerialize rt) (cluster_of rt m remote) inode new_parent (Some ik)) (w, ls))
      (\<lambda>_. within rt quiet ls) (renaming rt quiet)"
    "returns (in_guard (tx_update_metadata_changed_time (rt_zerialize rt) (cluster_of rt m remote) inode (Some ik)) (w, ls))
      (\<lambda>_. within rt quiet ls) (renaming rt quiet)" if "renaming rt quiet (w, ls)" for w
    unfolding tx_update_parent_def tx_update_metadata_changed_time_def propose_empty_def [abs_def]
    by (rule answers [OF that]; use assms(5) in simp)+
  show ?thesis
    apply (rule returns_within [OF getattrs_returns [OF assms(1,2)]])
    apply (rule returns_within [OF getattrs_returns [OF _ assms(2)]], assumption)
    apply (rule returns_within [OF getattrs_returns [OF _ assms(2)]], assumption)
    apply (rule returns_await [OF existing_attrs_returns [OF _ assms(2)]], assumption)
    apply (rule returns_within [where ls = ls])
    subgoal by (simp add: returns_give)
    apply (rule returns_within, rule guard_returns, rule destination_returns [OF _ assms(2,4)], assumption)
    subgoal using assms(6) by auto
    apply (rule returns_within [OF removed], assumption)
    apply (rule returns_within [where ls = ls])
    subgoal using updated(1) by simp
    apply (rule returns_within [OF updated(2)], assumption)
    apply simp
    done
qed

text \<open>The locks of the two directories.\<close>

lemma directories_locked:
  assumes "renaming rt quiet (w, [])" "lone m"
  obtains pk s np s2 where
    "lock_guarded (rt_zerialize rt) (cluster_of rt m remote) parent (w, []) = Some (Ok pk, s)"
    "(if parent \<noteq> new_parent then lock_guarded (rt_zerialize rt) (cluster_of rt m remote) new_parent s else give (Ok pk) s)
       = Some (Ok np, s2)" "renaming rt quiet s2" "(parent, pk) \<in> set (snd s2)" "(new_parent, np) \<in> set (snd s2)"
    "fst ` set (snd s2) = {parent, new_parent}" "storage_in s2 = cn_file_storage (node_of w)"
proof -
  obtain pk s where s: "lock_guarded (rt_zerialize rt) (cluster_of rt m remote) parent (w, []) = Some (Ok pk, s)" "renaming rt quiet s"
    "set (snd s) = {(parent, pk)}" "storage_in s = cn_file_storage (node_of w)"
    using lock_step(1) [OF assms, of parent remote] by auto
  show thesis
  proof (cases "parent = new_parent")
    case True
    then show thesis using s that [of pk s pk s] by simp
  next
    case False
    then obtain np s2 where "lock_guarded (rt_zerialize rt) (cluster_of rt m remote) new_parent s = Some (Ok np, s2)" "renaming rt quiet s2"
      "set (snd s2) = insert (new_parent, np) (set (snd s))" "storage_in s2 = storage_in s"
      using lock_step(1) [OF s(2) assms(2), of new_parent remote] s(3) by auto
    then show thesis using s False that [of pk s np s2] by auto
  qed
qed

lemma lookup_found:
  assumes "renaming rt quiet s" "lone m" "found (storage_in s) i name ctx = Some inode"
  obtains s' where "in_guard (tx_lookup (rt_zerialize rt) (cluster_of rt m remote) i name ctx) s = Some (Ok inode, s')"
    "in_guard (find_existing (rt_zerialize rt) (cluster_of rt m remote) i name ctx) s = Some (Ok (Some inode), s')"
    "renaming rt quiet s'" "snd s' = snd s" "storage_in s' = storage_in s"
proof -
  obtain w' where w': "tx_lookup (rt_zerialize rt) (cluster_of rt m remote) i name ctx (fst s) = Some (Ok inode, w')"
    "renaming rt quiet (w', snd s)" "cn_file_storage (node_of w') = storage_in s"
    using lookup_step [of rt quiet "fst s" "snd s" m remote i name ctx] assms(1,2) found_iff [THEN iffD2, OF assms(3)] by auto
  then show thesis by (intro that [of "(w', snd s)"]) (simp_all add: in_guard_def find_existing_def)
qed

lemma existing_lock_returns:
  assumes "renaming rt quiet s" "lone m" "\<And>e. existing = Some e \<Longrightarrow> e \<notin> fst ` set (snd s)"
  shows "returns (case existing of
      Some existing \<Rightarrow> await (lock_guarded (rt_zerialize rt) (cluster_of rt m remote) existing s) (\<lambda>lock_id. give (Ok (Some lock_id)))
    | None \<Rightarrow> give (Ok None) s)
    (\<lambda>lock_id s'. renaming rt quiet s' \<and> set (snd s) \<subseteq> set (snd s') \<and>
       (\<forall>e. existing = Some e \<longrightarrow> (\<exists>k. lock_id = Some k \<and> (e, k) \<in> set (snd s')))) (renaming rt quiet)"
  using assms(1,3) by (auto split: option.split intro!: returns_await [OF lock_returns [OF assms(1,2)]])

lemma context_ends:
  fixes ctx :: UserContext and parent new_parent :: u64 and name new_name :: string and remote :: RemoteRaftGroups
  assumes s: "renaming rt quiet (w, [])" "lone m"
  defines "twice \<equiv> locks_twice (cn_file_storage (node_of w)) parent name new_parent new_name ctx"
    and "result \<equiv> rename_transaction_lock_context (rt_zerialize rt) (cluster_of rt m remote) parent name new_parent new_name ctx (w, [])"
  shows "\<not> twice \<Longrightarrow> returns result (\<lambda>_. renaming rt quiet) (renaming rt quiet)" and "twice \<Longrightarrow> result = None"
proof -
  obtain pk s1 np s2 where l: "lock_guarded (rt_zerialize rt) (cluster_of rt m remote) parent (w, []) = Some (Ok pk, s1)"
    "(if parent \<noteq> new_parent then lock_guarded (rt_zerialize rt) (cluster_of rt m remote) new_parent s1 else give (Ok pk) s1)
       = Some (Ok np, s2)" and s2: "renaming rt quiet s2" "(parent, pk) \<in> set (snd s2)" "(new_parent, np) \<in> set (snd s2)"
    "fst ` set (snd s2) = {parent, new_parent}" "storage_in s2 = cn_file_storage (node_of w)"
    by (rule directories_locked [OF s])
  note result = result_def [unfolded rename_transaction_lock_context_def l(1) await_simps l(2)]
  note ends = end_returns [where w = "fst x" and ls = "snd x" for x, unfolded prod.collapse, OF _ s(2)]
  assume once: "\<not> twice"
  show "returns result (\<lambda>_. renaming rt quiet) (renaming rt quiet)"
    unfolding result
    apply (rule returns_await [OF lookup_returns(1) [OF s2(1) s(2)]], elim conjE)
    apply (rule returns_await [OF lock_returns [OF _ s(2)]], assumption)
    subgoal using once s2(4,5) by (auto simp: twice_def locks_twice_def)
    apply (elim conjE, rule returns_await [OF lookup_returns(2) [OF _ s(2)]], assumption)
    apply (elim conjE, rule returns_await [OF existing_lock_returns [OF _ s(2)]], assumption)
    subgoal using once s2(4,5) by (force simp: twice_def locks_twice_def)
    apply (elim conjE, rule ends, assumption)
    subgoal using s2(2) by auto
    subgoal using s2(3) by auto
    subgoal by auto
    subgoal by auto
    done
next
  obtain pk s1 np s2 where l: "lock_guarded (rt_zerialize rt) (cluster_of rt m remote) parent (w, []) = Some (Ok pk, s1)"
    "(if parent \<noteq> new_parent then lock_guarded (rt_zerialize rt) (cluster_of rt m remote) new_parent s1 else give (Ok pk) s1)
       = Some (Ok np, s2)" and s2: "renaming rt quiet s2" "fst ` set (snd s2) = {parent, new_parent}" "storage_in s2 = cn_file_storage (node_of w)"
    by (rule directories_locked [OF s])
  note result = result_def [unfolded rename_transaction_lock_context_def l(1) await_simps l(2)]
  assume twice
  then obtain inode where inode: "found (storage_in s2) parent name ctx = Some inode"
    "inode \<in> {parent, new_parent} \<or> (\<exists>e. found (storage_in s2) new_parent new_name ctx = Some e \<and> e \<in> {parent, new_parent, inode})"
    unfolding twice_def locks_twice_def s2(3) by (auto split: option.splits)
  obtain s3 where s3: "in_guard (tx_lookup (rt_zerialize rt) (cluster_of rt m remote) parent name ctx) s2 = Some (Ok inode, s3)"
    "renaming rt quiet s3" "snd s3 = snd s2" "storage_in s3 = storage_in s2"
    using lookup_found [OF s2(1) s(2) inode(1)] by metis
  show "result = None"
  proof (cases "inode \<in> {parent, new_parent}")
    case True
    then show ?thesis using lock_step(2) [OF s3(2) s(2), of inode remote] s3(1,3) s2(2) by (simp add: result)
  next
    case False
    with inode(2) obtain e where e: "found (storage_in s2) new_parent new_name ctx = Some e" "e \<in> {parent, new_parent, inode}" by blast
    obtain k s4 where s4: "lock_guarded (rt_zerialize rt) (cluster_of rt m remote) inode s3 = Some (Ok k, s4)" "renaming rt quiet s4"
      "set (snd s4) = insert (inode, k) (set (snd s3))" "storage_in s4 = storage_in s3"
      using lock_step(1) [OF s3(2) s(2), of inode remote] False s3(3) s2(2) by auto
    obtain s5 where s5: "in_guard (find_existing (rt_zerialize rt) (cluster_of rt m remote) new_parent new_name ctx) s4 = Some (Ok (Some e), s5)"
      "renaming rt quiet s5" "snd s5 = snd s4"
      using lookup_found [OF s4(2) s(2), of new_parent new_name ctx e] e(1) s4(4) s3(4) by metis
    have "e \<in> fst ` set (snd s5)" using e(2) s2(2) by (auto simp: s5(3) s4(3) s3(3))
    then show ?thesis using lock_step(2) [OF s5(2) s(2)] by (simp add: result s3(1) s4(1) s5(1))
  qed
qed

lemma unlock_all_returns:
  assumes "renaming rt quiet (w, ls)" "lone m" "distinct ls"
  shows "\<exists>w'. unlock_all (rt_zerialize rt) (cluster_of rt m remote) ls w = Some (Ok (), w')"
  using assms(1,3)
proof (induction ls arbitrary: w)
  case (Cons l ls)
  note d = renamingD [OF Cons.prems(1), simplified]
  let ?n = "node_of w"
  obtain i k where l: "l = (i, k)" by (cases l)
  have held: "held_by (cn_lock_table ?n) i = Some k" using d(7) by (simp add: l)
  obtain n' where n': "node_call (rt_raxos rt) (rt_zerialize rt) (rt_clock rt) (rt_now rt)
      (encode_request (rt_zerialize rt) (Request.Unlock i k)) ?n = Some (Ok Response.Empty, n')"
    "held_by (cn_lock_table n') = (held_by (cn_lock_table ?n))(i := None)" "\<And>j. queue_of (cn_lock_table n') j = []" "node_ready quiet n'"
    using node_unlock [OF d(4,5,3) held d(6)] by metis
  have "renaming rt quiet (put_node n' w, ls)"
  proof (rule renaming_put [OF Cons.prems(1) n'(4,3), of ls, simplified])
    have "(j, q) \<notin> set ls" if "j = i" for j q
      using d(7) [of i q] held Cons.prems(2) that by (auto simp: l)
    then show "held_by (cn_lock_table n') j = Some q \<longleftrightarrow> (j, q) \<in> set ls" for j q
      using d(7) [of j q] by (auto simp: n'(2) l)
  qed (use Cons.prems(2) in simp)
  moreover have "unlock_inode (rt_zerialize rt) (cluster_of rt m remote) i k w = Some (Ok (), put_node n' w)"
    by (simp add: unlock_inode_def propose_empty_def tx_propose_alone [OF d(1) assms(2)] propose_on_node(1) [OF d(1)] n'(1)
        as_error_response_def as_empty_response_def codec_okD(3) [OF d(3)])
  ultimately show ?case using Cons.IH Cons.prems(2) l by simp
qed simp

text \<open>A map that only reorders lists, as the order in which a hash set is drained.\<close>

definition reorders :: "('a list \<Rightarrow> 'a list) \<Rightarrow> bool" where
  "reorders order \<longleftrightarrow> (\<forall>ls. distinct ls \<longrightarrow> distinct (order ls) \<and> set (order ls) = set ls)"

lemma reordered_unlock:
  assumes "renaming rt quiet (w, ls)" "lone m" "reorders order"
  shows "\<exists>w'. unlock_all (rt_zerialize rt) (cluster_of rt m remote) (order ls) w = Some (Ok (), w')"
  by (rule unlock_all_returns) (use assms in \<open>auto simp: renaming_def reorders_def\<close>)

lemma rename_missing:
  assumes s: "renaming rt quiet (w, [])" "lone m" and o: "reorders order"
    and missing: "fs_lookup (cn_file_storage (node_of w)) parent name ctx = Err e"
  shows "\<exists>w'. rename_transaction (rt_zerialize rt) order (cluster_of rt m remote) parent name new_parent new_name ctx w = Some (Err e, w')"
proof -
  obtain pk s1 np s2 where l: "lock_guarded (rt_zerialize rt) (cluster_of rt m remote) parent (w, []) = Some (Ok pk, s1)"
    "(if parent \<noteq> new_parent then lock_guarded (rt_zerialize rt) (cluster_of rt m remote) new_parent s1 else give (Ok pk) s1)
       = Some (Ok np, s2)" and s2: "renaming rt quiet s2" "storage_in s2 = cn_file_storage (node_of w)"
    using directories_locked [OF s, of remote parent new_parent] by metis
  obtain w3 where w3: "tx_lookup (rt_zerialize rt) (cluster_of rt m remote) parent name ctx (fst s2) = Some (Err e, w3)"
    "renaming rt quiet (w3, snd s2)"
    using lookup_step [of rt quiet "fst s2" "snd s2" m remote parent name ctx] s2 s(2) missing by auto
  have "rename_transaction_lock_context (rt_zerialize rt) (cluster_of rt m remote) parent name new_parent new_name ctx (w, [])
      = Some (Err e, w3, snd s2)"
    unfolding rename_transaction_lock_context_def l(1) await_simps l(2) by (simp add: in_guard_def w3(1))
  then show ?thesis using reordered_unlock [OF w3(2) s(2) o, of remote] by (auto simp: rename_transaction_def)
qed

lemma rename_ends:
  assumes s: "renaming rt quiet (w, [])" "lone m" and o: "reorders order"
  shows "rename_transaction (rt_zerialize rt) order (cluster_of rt m remote) parent name new_parent new_name ctx w = None
    \<longleftrightarrow> locks_twice (cn_file_storage (node_of w)) parent name new_parent new_name ctx"
proof (cases "locks_twice (cn_file_storage (node_of w)) parent name new_parent new_name ctx")
  case True
  then show ?thesis using context_ends(2) [OF s True, of remote] by (simp add: rename_transaction_def)
next
  case False
  let ?x = "rename_transaction_lock_context (rt_zerialize rt) (cluster_of rt m remote) parent name new_parent new_name ctx (w, [])"
  have r: "returns ?x (\<lambda>_. renaming rt quiet) (renaming rt quiet)" by (rule context_ends(1) [OF s False])
  then obtain y where y: "?x = Some y" by (auto simp: returns_def)
  obtain r w' ls where x: "?x = Some (r, w', ls)" using y by (cases y) auto
  show ?thesis
  proof (cases "r = Panic")
    case False
    then have "renaming rt quiet (w', ls)" using r x by (cases r) auto
    from reordered_unlock [OF this s(2) o, of remote] show ?thesis
      using \<open>\<not> locks_twice _ _ _ _ _ _\<close> False by (auto simp: rename_transaction_def x)
  qed (use \<open>\<not> locks_twice _ _ _ _ _ _\<close> x in \<open>simp add: rename_transaction_def\<close>)
qed

section \<open>Properties\<close>

text \<open>The node of the example with a name for its file.\<close>

definition linked_storage :: "TcpPeerClient file_storage" where
  "linked_storage = snd (commit_write epoch (Request.CreateLink 1 ''a'' 2 File None root_user) sample_storage)"

definition linked_world :: sample_world where
  "linked_world = put_node (sample_node\<lparr>cn_file_storage := linked_storage\<rparr>) sample_world"

lemma linked_storage_found: "found linked_storage 1 ''a'' root_user = Some 2"
  by code_simp

lemma linked_world_node: "node_of linked_world = sample_node\<lparr>cn_file_storage := linked_storage\<rparr>"
  by (simp add: linked_world_def)

lemma linked_world_standalone:
  assumes "codec_ok z"
  shows "standalone (sample_runtime z) (\<lambda>r. snd r = []) linked_world" "no_waiters linked_world" "locks_of linked_world = {}"
    "\<not> cn_poisoned (node_of linked_world)"
proof -
  have "standalone (sample_runtime z) (\<lambda>r. snd r = []) sample_world"
    using sample_world_holds(1) [OF assms] by (simp add: holds_files_def)
  then show "standalone (sample_runtime z) (\<lambda>r. snd r = []) linked_world"
    unfolding linked_world_def by (rule standalone_put) (simp add: node_ready_def sample_node_def)
qed (simp_all add: no_waiters_def locks_of_def linked_world_node sample_node_def LockTable_new_def queue_of_def held_by_def)

text \<open>The requests that the coordinator carries out.\<close>

fun is_transaction :: "Request \<Rightarrow> bool" where
  "is_transaction (Request.Unlink parent name context) = True"
| "is_transaction (Request.Rmdir parent name context) = True"
| "is_transaction (Request.Mkdir parent name uid gid mode) = True"
| "is_transaction (Request.Create parent name uid gid mode kind) = True"
| "is_transaction (Request.Hardlink inode new_parent new_name context) = True"
| "is_transaction (Request.Rename parent name new_parent new_name context) = True"
| "is_transaction _ = False"

lemma router_transaction:
  assumes "standalone rt quiet w" "is_transaction r"
  shows "request_router rt remote c (encode_request (rt_zerialize rt) r) w =
    map_option (\<lambda>(x, v). (encode_result (rt_zerialize rt) x, v)) (handle_request rt remote c (encode_request (rt_zerialize rt) r) r w)"
proof (rule request_router_local)
  show "decode_request (rt_zerialize rt) (encode_request (rt_zerialize rt) r) = Some r"
    using assms(1) by (simp add: standalone_def runtime_ok_def codec_okD)
  show "can_handle_locally (rt_v6_hash rt) (meta_info r) (w_raft w) = Ok True"
    using assms by (cases r) (simp_all add: can_handle_locally_def standalone_def lone_lookup(1))
qed

text \<open>
  C4. Transactions give their locks back. Whenever the router of a node on its own has answered a
  transaction (an unlink, rmdir, mkdir, create, hardlink or rename, with success or with an error),
  the locks that are held are those that were held before, and nobody waits for one.
\<close>
theorem transactions_release_locks:
  assumes "standalone rt quiet w" "no_waiters w" "loopback rt remote c" "reorders (rt_hash_order rt)" "is_transaction r"
    and "request_router rt remote c (encode_request (rt_zerialize rt) r) w = Some (Ok b, w')"
  shows "locks_of w' = locks_of w \<and> no_waiters w' \<and> standalone rt quiet w'"
proof -
  have ok: "tx_ok rt quiet (w_raft w) remote c w"
    using assms(1-3) by (simp add: tx_ok_def standalone_def)
  let ?x = "handle_request rt remote c (encode_request (rt_zerialize rt) r) r w"
  have o: "distinct ls \<Longrightarrow> distinct (rt_hash_order rt ls) \<and> set (rt_hash_order rt ls) = set ls" for ls
    using assms(4) by (simp add: reorders_def)
  have "outcome ?x (\<lambda>_ v. tx_ok rt quiet (w_raft w) remote c v \<and> locks_of v = locks_of w)
      (\<lambda>v. tx_ok rt quiet (w_raft w) remote c v \<and> locks_of v = locks_of w)"
    using assms(5) alone.unlink_keeps [OF ok] alone.rmdir_keeps [OF ok] alone.create_keeps [OF ok] alone.hardlink_keeps [OF ok]
      alone.rename_releases [OF ok o]
    by (cases r) (simp_all add: handle_request_def Let_def)
  moreover obtain x where "?x = Some (x, w')" "encode_result (rt_zerialize rt) x = Ok b"
    using assms(6) unfolding router_transaction [OF assms(1,5)] by auto
  ultimately show ?thesis by (cases x) (auto simp: encode_result_def tx_ok_def)
qed

text \<open>
  C12. When a rename ends. On a node on its own that is not at work on anything else, the router
  answers a rename exactly when it does not come to an inode that it has locked already: the
  inode to rename is not one of the two directories, and the inode that the new name leads to is
  neither a directory of the rename nor the inode itself. So a rename of a file to another of its
  names, or to its own name, waits for its own lock for ever.
\<close>
theorem rename_returns_unless_locked_twice:
  assumes "standalone rt quiet w" "no_waiters w" "locks_of w = {}" "\<not> cn_poisoned (node_of w)" "reorders (rt_hash_order rt)"
  shows "request_router rt remote c (encode_request (rt_zerialize rt) (Request.Rename parent name new_parent new_name ctx)) w = None
    \<longleftrightarrow> locks_twice (cn_file_storage (node_of w)) parent name new_parent new_name ctx"
proof -
  have s: "renaming rt quiet (w, [])" "lone (w_raft w)" using assms(1-4) by (simp_all add: renaming_def standalone_def)
  note r = router_transaction [OF assms(1), of "Request.Rename parent name new_parent new_name ctx" remote c]
  have "handle_request rt remote c (encode_request (rt_zerialize rt) (Request.Rename parent name new_parent new_name ctx))
      (Request.Rename parent name new_parent new_name ctx) w
      = rename_transaction (rt_zerialize rt) (rt_hash_order rt) (cluster_of rt (w_raft w) remote) parent name new_parent new_name ctx w"
    by (simp add: handle_request_def)
  then show ?thesis using rename_ends [OF s assms(5), of remote] r by simp
qed

lemma sample_loopback: "loopback (sample_runtime z) no_remote sample_context" "reorders (rt_hash_order (sample_runtime z))"
  by (simp_all add: loopback_def sample_runtime_def node_tcp_def reorders_def)

theorem rename_returns_unless_locked_twice_witness:
  "let z = sample_codec [] []; rename = (\<lambda>new. encode_request z (Request.Rename 1 ''a'' 1 new root_user))
   in request_router (sample_runtime z) no_remote sample_context (rename ''a'') linked_world = None
      \<and> request_router (sample_runtime z) no_remote sample_context (rename ''b'') linked_world \<noteq> None"
proof -
  let ?z = "sample_codec [] []"
  have z: "rt_zerialize (sample_runtime ?z) = ?z" by (simp add: sample_runtime_def)
  note ok = sample_codec_ok [of "[]" "[]"]
  have f: "found linked_storage 1 ''b'' root_user = None" by code_simp
  note r = rename_returns_unless_locked_twice [OF linked_world_standalone [OF ok] sample_loopback(2), unfolded z]
  show ?thesis unfolding Let_def r by (simp add: locks_twice_def linked_world_node linked_storage_found f)
qed

theorem transactions_release_locks_witness:
  "let z = sample_codec [] []
   in \<exists>b w. request_router (sample_runtime z) no_remote sample_context (encode_request z (Request.Rename 1 ''c'' 1 ''b'' root_user)) linked_world
        = Some (Ok b, w) \<and> locks_of w = {}"
proof -
  let ?z = "sample_codec [] []"
  have z: "rt_zerialize (sample_runtime ?z) = ?z" by (simp add: sample_runtime_def)
  note ok = sample_codec_ok [of "[]" "[]"]
  obtain b w where r: "request_router (sample_runtime ?z) no_remote sample_context
      (encode_request ?z (Request.Rename 1 ''c'' 1 ''b'' root_user)) linked_world = Some (Ok b, w)"
  proof -
    have "fs_lookup linked_storage 1 ''c'' root_user = Err DoesNotExist" by code_simp
    then obtain w where "rename_transaction ?z (rt_hash_order (sample_runtime ?z)) (cluster_of (sample_runtime ?z) (w_raft linked_world) no_remote)
        1 ''c'' 1 ''b'' root_user linked_world = Some (Err DoesNotExist, w)"
      using rename_missing [OF _ _ sample_loopback(2) [of ?z], of "sample_runtime ?z" "\<lambda>r. snd r = []" linked_world "w_raft linked_world"
          1 "''c''" root_user DoesNotExist no_remote 1 "''b''", unfolded z] linked_world_standalone [OF ok]
      by (auto simp: renaming_def standalone_def linked_world_node)
    then show thesis
      using that router_transaction [OF linked_world_standalone(1) [OF ok], unfolded z]
      by (simp add: handle_request_def z encode_result_def)
  qed
  from transactions_release_locks [OF linked_world_standalone(1,2) [OF ok] sample_loopback, unfolded z, OF _ r]
  show ?thesis using r linked_world_standalone(3) [OF ok] by auto
qed

end
