(* ===== verification/Group_Layout.thy ===== *)
theory Group_Layout
  imports Group_Manager "HOL-Library.Multiset"
begin

text \<open>
  The nodes of a cluster agree on where its groups are: the address that a node has for a group is
  that of a node which replicates the group.
\<close>

section \<open>Clusters\<close>

text \<open>
  A cluster of nodes with different ids, whose number is a multiple of the number of replicas of a
  group; and the context of one of its nodes, which may list its peers in any order.
\<close>

definition cluster_ok :: "(128 word \<Rightarrow> u16 \<Rightarrow> u64) \<Rightarrow> SocketAddr list \<Rightarrow> nat \<Rightarrow> bool" where
  "cluster_ok h members r \<longleftrightarrow>
     distinct members \<and> inj_on (node_id_from_address h) (set members) \<and> 0 < r \<and> r dvd length members \<and>
     0 < length members \<and> length members < 2 ^ 16"

definition cluster_member :: "(128 word \<Rightarrow> u16 \<Rightarrow> u64) \<Rightarrow> SocketAddr list \<Rightarrow> nat \<Rightarrow> LocalContext \<Rightarrow> bool" where
  "cluster_member h members r c \<longleftrightarrow>
     lc_server_ip_port c \<in> set members \<and> distinct (lc_peers c) \<and> set (lc_peers c) = set members - {lc_server_ip_port c} \<and>
     lc_node_id c = node_id_from_address h (lc_server_ip_port c) \<and> lc_replicas_per_raft_group c = r"

abbreviation ids_of :: "(128 word \<Rightarrow> u16 \<Rightarrow> u64) \<Rightarrow> SocketAddr list \<Rightarrow> u64 list" where
  "ids_of h members \<equiv> sort (map (node_id_from_address h) members)"

lemma member_ids:
  assumes "cluster_ok h members r" "cluster_member h members r c"
  shows "sorted_node_ids h c = ids_of h members" "total_nodes c = length members"
proof -
  have "mset (lc_server_ip_port c # lc_peers c) = mset members"
    using assms by (intro set_eq_iff_mset_eq_distinct [THEN iffD1]) (auto simp: cluster_ok_def cluster_member_def)
  then have m: "mset (map (node_id_from_address h) (lc_server_ip_port c # lc_peers c)) = mset (map (node_id_from_address h) members)"
    and l: "length (lc_server_ip_port c # lc_peers c) = length members"
    by (metis mset_map, metis size_mset)
  have "sort (map (node_id_from_address h) (lc_server_ip_port c # lc_peers c)) = ids_of h members"
    using m by (metis sorted_list_of_multiset_mset)
  then show "sorted_node_ids h c = ids_of h members"
    using assms(2) by (simp add: sorted_node_ids_def cluster_member_def)
  show "total_nodes c = length members" using l by (simp add: total_nodes_def)
qed

definition index_of :: "(128 word \<Rightarrow> u16 \<Rightarrow> u64) \<Rightarrow> SocketAddr list \<Rightarrow> SocketAddr \<Rightarrow> nat" where
  "index_of h members addr = the (position (node_id_from_address h addr) (ids_of h members))"

lemma index_of_position:
  assumes "addr \<in> set members"
  shows "position (node_id_from_address h addr) (ids_of h members) = Some (index_of h members addr)"
    "index_of h members addr < length members"
  using position_ex [of "node_id_from_address h addr" "ids_of h members"] assms by (auto simp: index_of_def)

lemma some_index:
  assumes "i < length members"
  obtains addr where "addr \<in> set members" "cluster_ok h members r \<Longrightarrow> index_of h members addr = i"
proof -
  have "ids_of h members ! i \<in> set (ids_of h members)" using assms by (intro nth_mem) simp
  then obtain addr where addr: "addr \<in> set members" "node_id_from_address h addr = ids_of h members ! i" by auto
  have "index_of h members addr = i" if "cluster_ok h members r"
  proof -
    have "distinct (ids_of h members)" using that by (simp add: cluster_ok_def distinct_map)
    from position_Some_iff [OF this, of "ids_of h members ! i" i] addr(2) assms show ?thesis by (simp add: index_of_def)
  qed
  with addr(1) show thesis by (rule that)
qed

text \<open>Whether the node at an address replicates a group.\<close>

definition replicates :: "(128 word \<Rightarrow> u16 \<Rightarrow> u64) \<Rightarrow> SocketAddr list \<Rightarrow> nat \<Rightarrow> u16 \<Rightarrow> SocketAddr \<Rightarrow> bool" where
  "replicates h members r g addr \<longleftrightarrow> index_of h members addr div r = unat g mod (length members div r)"

lemma contains_index:
  assumes "cluster_ok h members r" "i < length members"
  shows "node_contains_raft_group i (length members) g r = Ok (i div r = unat g mod (length members div r))"
proof (rule node_contains_raft_group_eq)
  have "r \<le> length members" "0 < r" using assms by (auto simp: cluster_ok_def intro: dvd_imp_le)
  then show "0 < length members div r" by (simp add: div_greater_zero_iff)
  show "length members div r < 2 ^ 16"
    using assms by (auto simp: cluster_ok_def intro: le_less_trans [OF div_le_dividend])
qed (use assms in \<open>auto simp: cluster_ok_def\<close>)

lemma contains_member:
  assumes "cluster_ok h members r" "cluster_member h members r c"
  shows "contains_group h c g = Ok (replicates h members r g (lc_server_ip_port c))"
proof -
  have "lc_server_ip_port c \<in> set members" "lc_node_id c = node_id_from_address h (lc_server_ip_port c)"
    "lc_replicas_per_raft_group c = r" using assms(2) by (simp_all add: cluster_member_def)
  then show ?thesis
    using contains_index [OF assms(1) index_of_position(2)] index_of_position(1)
    by (simp add: contains_group_def node_index_def member_ids [OF assms] replicates_def)
qed

section \<open>Addresses of groups\<close>

lemma replicated_somewhere:
  assumes "cluster_ok h members r"
  obtains addr where "addr \<in> set members" "replicates h members r g addr"
proof -
  let ?k = "unat g mod (length members div r)"
  have r: "0 < r" "r dvd length members" "0 < length members" using assms by (simp_all add: cluster_ok_def)
  then have "0 < length members div r" by (simp add: div_greater_zero_iff dvd_imp_le)
  then have "Suc ?k * r \<le> length members div r * r" by (intro mult_le_mono1) (simp add: Suc_leI)
  then have "?k * r < length members" using r by simp
  then obtain addr where a: "addr \<in> set members" "index_of h members addr = ?k * r"
    using some_index [of "?k * r" members h r] assms by metis
  then have "replicates h members r g addr" unfolding replicates_def a(2) using r(1) by simp
  with a(1) show thesis by (rule that)
qed

lemma indices_of_members:
  assumes "set ps \<subseteq> set members"
  shows "indices_of h (ids_of h members) ps = Ok (map (\<lambda>p. (p, index_of h members p)) ps)"
  using assms by (induction ps) (auto simp: index_of_position)

lemma find_member_finds:
  assumes k: "cluster_ok h members r" and c: "total_nodes c = length members" "lc_replicas_per_raft_group c = r"
    and ps: "set ps \<subseteq> set members" and a: "addr \<in> set ps" "replicates h members r g addr"
  obtains addr' where "find_member c g (map (\<lambda>p. (p, index_of h members p)) ps) = Ok addr'"
    "addr' \<in> set members" "replicates h members r g addr'"
  using ps a
proof (induction ps arbitrary: thesis)
  case (Cons p ps)
  have "p \<in> set members" using Cons.prems(2) by simp
  then have e: "node_contains_raft_group (index_of h members p) (total_nodes c) g (lc_replicas_per_raft_group c) = Ok (replicates h members r g p)"
    using contains_index [OF k index_of_position(2)] by (simp add: c replicates_def)
  show ?case
  proof (cases "replicates h members r g p")
    case True
    then show ?thesis using Cons.prems(1) [of p] e \<open>p \<in> set members\<close> by simp
  next
    case False
    then have "addr \<in> set ps" using Cons.prems(3,4) by auto
    then obtain addr' where "find_member c g (map (\<lambda>p. (p, index_of h members p)) ps) = Ok addr'"
      "addr' \<in> set members" "replicates h members r g addr'" using Cons.IH Cons.prems(2,4) by auto
    then show ?thesis using Cons.prems(1) [of addr'] e False by simp
  qed
qed simp

lemma group_address_replicates:
  assumes "cluster_ok h members r" "cluster_member h members r c"
  obtains addr where "group_address h c g = Ok addr" "addr \<in> set members" "replicates h members r g addr"
proof (cases "replicates h members r g (lc_server_ip_port c)")
  case True
  then show thesis
    using that assms(2) by (simp add: group_address_def contains_member [OF assms] cluster_member_def)
next
  case False
  have c: "total_nodes c = length members" "lc_replicas_per_raft_group c = r" "set (lc_peers c) = set members - {lc_server_ip_port c}"
    using member_ids [OF assms] assms(2) by (simp_all add: cluster_member_def)
  obtain a where "a \<in> set members" "replicates h members r g a" using replicated_somewhere [OF assms(1)] by metis
  then obtain addr where "find_member c g (map (\<lambda>p. (p, index_of h members p)) (lc_peers c)) = Ok addr"
      "addr \<in> set members" "replicates h members r g addr"
    using find_member_finds [OF assms(1) c(1,2), of "lc_peers c" a g] c(3) False by auto
  then show thesis
    using that False indices_of_members [of "lc_peers c" members h] c(3)
    by (auto simp: group_address_def contains_member [OF assms] peers_with_node_indices_def member_ids [OF assms])
qed

section \<open>The maps of groups\<close>

lemma connect_groups_Ok:
  assumes "\<And>g. g \<in> set gs \<Longrightarrow> group_address h c g = Ok (addr g)"
  obtains groups' w' where "connect_groups h c gs groups w = (Ok groups', w')"
    "\<And>g. g \<in> set gs \<Longrightarrow> map_option pc_server_ip_port (map_of groups' g) = Some (addr g)"
    "\<And>g. g \<notin> set gs \<Longrightarrow> map_of groups' g = map_of groups g"
  using assms
proof (induction gs arbitrary: groups w thesis)
  case Nil
  show ?case by (rule Nil.prems(1) [of groups w]) simp_all
next
  case (Cons g gs)
  let ?c = "fst (TcpPeerClient_new (addr g) w)" and ?w = "snd (TcpPeerClient_new (addr g) w)"
  obtain groups' w' where c: "connect_groups h c gs (AList.update g ?c groups) ?w = (Ok groups', w')"
    "\<And>g. g \<in> set gs \<Longrightarrow> map_option pc_server_ip_port (map_of groups' g) = Some (addr g)"
    "\<And>g'. g' \<notin> set gs \<Longrightarrow> map_of groups' g' = map_of (AList.update g ?c groups) g'"
    using Cons.IH [of "AList.update g ?c groups" ?w] Cons.prems(2) by auto
  show ?case
  proof (rule Cons.prems(1))
    show "connect_groups h c (g # gs) groups w = (Ok groups', w')"
      using c(1) Cons.prems(2) [of g] by (simp add: split_beta)
    show "map_option pc_server_ip_port (map_of groups' j) = Some (addr j)" if "j \<in> set (g # gs)" for j
    proof (cases "j \<in> set gs")
      case False
      then show ?thesis using that c(3) [of j] by (simp add: update_conv TcpPeerClient_new_def)
    qed (rule c(2))
    show "map_of groups' j = map_of groups j" if "j \<notin> set (g # gs)" for j
      using that c(3) [of j] by (simp add: update_conv)
  qed
qed

lemma create_groups_members:
  assumes "create_groups h c start gs groups = Some (Ok groups')"
  shows "g \<in> set gs \<Longrightarrow> contains_group h c g = Ok True \<Longrightarrow> map_of groups' g \<noteq> None"
    and "map_of groups g \<noteq> None \<Longrightarrow> map_of groups' g \<noteq> None"
proof -
  have "map_of groups' g \<noteq> None" if "g \<in> set gs \<and> contains_group h c g = Ok True \<or> map_of groups g \<noteq> None"
    using assms that
  proof (induction gs arbitrary: groups)
    case (Cons i gs)
    show ?case
    proof (cases "contains_group h c i")
      case (Ok b)
      show ?thesis
      proof (cases b)
        case True
        then obtain node where "create_groups h c start gs (AList.update i node groups) = Some (Ok groups')"
          using Cons.prems(1) Ok by (cases "start i"; cases "the (start i)") auto
        then show ?thesis by (rule Cons.IH) (use Cons.prems(2) in \<open>auto simp: update_conv\<close>)
      next
        case False
        show ?thesis by (rule Cons.IH [of groups]) (use Cons.prems Ok False in auto)
      qed
    qed (use Cons.prems(1) in auto)
  qed simp
  then show "g \<in> set gs \<Longrightarrow> contains_group h c g = Ok True \<Longrightarrow> map_of groups' g \<noteq> None"
    "map_of groups g \<noteq> None \<Longrightarrow> map_of groups' g \<noteq> None" by blast+
qed

lemma group_range_iff: "g \<in> set (group_range n) \<longleftrightarrow> g < n"
proof
  assume "g < n"
  then have "g = of_nat (unat g)" "unat g < unat n" by (simp_all add: word_less_nat_alt)
  then show "g \<in> set (group_range n)" unfolding group_range_def by (metis atLeastLessThan_iff image_eqI le0 set_map set_upt)
qed (auto simp: group_range_def word_less_nat_alt unat_of_nat intro: le_less_trans [OF mod_less_eq_dividend])

lemma raft_group_in_range:
  assumes "0 < n"
  obtains g where "raft_group_of n inode = Ok g" "g < n"
proof -
  have "unat (inode mod ucast n) < unat n"
    using assms by (simp add: unat_mod word_less_nat_alt)
  then have "ucast (inode mod ucast n) < n"
    by (auto simp: word_less_nat_alt unsigned_ucast_eq take_bit_eq_mod intro: le_less_trans [OF mod_less_eq_dividend])
  then show thesis by (rule that [rotated]) (use assms in \<open>auto simp: raft_group_of_def\<close>)
qed

section \<open>Properties\<close>

text \<open>
  C10. Forwarded requests arrive. In a cluster with distinct node ids, whose nodes may know their
  peers in any order, every node has a client for the group of every inode, and that client leads
  to a node that replicates the group: there the request is found to be local, is not forwarded
  again, and the lookup of its group does not panic.
\<close>
theorem forwarded_requests_arrive:
  fixes p :: "('c, 'z) pools_scheme" and start :: "u16 \<Rightarrow> u16 \<Rightarrow> (ErrorCode, ('r, 'k, TcpPeerClient) node) res option"
  assumes "cluster_ok h members r" "cluster_member h members r c"
  shows "\<exists>remote p' client. RemoteRaftGroups_new h (of_nat (length members)) c p = (Ok remote, p')
    \<and> client_of_inode remote inode = Ok client \<and> pc_server_ip_port client \<in> set members
    \<and> (\<forall>c' m. cluster_member h members r c' \<and> lc_server_ip_port c' = pc_server_ip_port client \<and>
          LocalRaftGroupManager_new h start (of_nat (length members)) c' = Some (Ok m) \<longrightarrow>
        inode_stored_locally h m inode = Ok True \<and> (\<exists>g. lookup_by_inode h m inode = Ok g))"
proof -
  let ?n = "of_nat (length members) :: u16"
  have "0 < length members" "length members < 2 ^ 16" using assms(1) by (simp_all add: cluster_ok_def)
  then have n: "0 < ?n" by (simp add: word_less_nat_alt unat_of_nat)
  have "\<exists>a. group_address h c g = Ok a \<and> a \<in> set members \<and> replicates h members r g a" for g
    using group_address_replicates [OF assms, of g] by metis
  then obtain addr where addr: "group_address h c g = Ok (addr g)" "addr g \<in> set members" "replicates h members r g (addr g)" for g
    by metis
  obtain groups p' where groups: "connect_groups h c (group_range ?n) [] p = (Ok groups, p')"
    "\<And>g. g \<in> set (group_range ?n) \<Longrightarrow> map_option pc_server_ip_port (map_of groups g) = Some (addr g)"
    using connect_groups_Ok [where addr = addr and gs = "group_range ?n" and groups = "[]" and w = p] addr(1) by metis
  obtain g where g: "raft_group_of ?n inode = Ok g" "g < ?n" by (rule raft_group_in_range [OF n])
  then obtain client where client: "map_of groups g = Some client" "pc_server_ip_port client = addr g"
    using groups(2) [of g] by (auto simp: group_range_iff)
  have "inode_stored_locally h m inode = Ok True \<and> lookup_by_inode h m inode = Ok g"
    if c': "cluster_member h members r c'" "lc_server_ip_port c' = addr g" and m: "LocalRaftGroupManager_new h start ?n c' = Some (Ok m)" for c' m
  proof -
    have con: "contains_group h c' g = Ok True" using addr(3) [of g] by (simp add: contains_member [OF assms(1) c'(1)] c'(2))
    obtain local where local: "create_groups h c' (\<lambda>i. start i ?n) (group_range ?n) [] = Some (Ok local)"
      "m = \<lparr>gm_context = c', gm_total_raft_groups = ?n, gm_groups = local\<rparr>"
      using m unfolding LocalRaftGroupManager_new_def by (cases "create_groups h c' (\<lambda>i. start i ?n) (group_range ?n) []";
          cases "the (create_groups h c' (\<lambda>i. start i ?n) (group_range ?n) [])") auto
    have "map_of local g \<noteq> None" by (rule create_groups_members(1) [OF local(1) _ con]) (simp add: group_range_iff g(2))
    then show ?thesis
      by (simp add: inode_stored_locally_def lookup_by_inode_def lookup_by_raft_group_def has_raft_group_def local(2) g(1) con)
  qed
  then show ?thesis
    using addr(2) [of g] client groups(1) g(1) by (auto simp: RemoteRaftGroups_new_def client_of_inode_def client_of_group_def)
qed

theorem forwarded_requests_arrive_witness:
  "let addr = (\<lambda>k. \<lparr>sa_ip = V4 10 0 0 k, sa_port = 3000\<rparr>); h = (\<lambda>_ _. 0); members = [addr 1, addr 2, addr 3, addr 4];
       c = LocalContext_new ''/d'' (addr 4) [addr 3, addr 1, addr 2] (node_id_from_address h (addr 4)) 2
   in \<exists>remote p client. RemoteRaftGroups_new h 4 c (\<lparr>pl_conns = (\<lambda>_. []), pl_next = 0\<rparr> :: nat pools) = (Ok remote, p)
        \<and> client_of_inode remote 6 = Ok client \<and> pc_server_ip_port client \<in> set members"
proof -
  let ?addr = "\<lambda>k. \<lparr>sa_ip = V4 10 0 0 k, sa_port = 3000\<rparr>" and ?h = "\<lambda>_ _. 0 :: u64"
  let ?members = "[?addr 1, ?addr 2, ?addr 3, ?addr 4]"
  let ?c = "LocalContext_new ''/d'' (?addr 4) [?addr 3, ?addr 1, ?addr 2] (node_id_from_address ?h (?addr 4)) 2"
  let ?p = "\<lparr>pl_conns = (\<lambda>_. []), pl_next = 0\<rparr> :: nat pools"
  have "cluster_ok ?h ?members 2" "cluster_member ?h ?members 2 ?c"
    by (auto simp: cluster_ok_def cluster_member_def LocalContext_new_def inj_on_def node_id_from_address_def)
  from forwarded_requests_arrive [OF this, of ?p 6 "\<lambda>_ _. None"] show ?thesis by (auto simp: Let_def)
qed

end
