(* ===== verification/Fsck_Laws.thy ===== *)
theory Fsck_Laws
  imports Sample_Node
begin

text \<open>
  The check of the file system: it reports success exactly when all the checksums of each group
  that it has collected, from the node itself and from its peers, are equal.
\<close>

section \<open>Comparing checksums\<close>

lemma update_new: "g \<notin> fst ` set xs \<Longrightarrow> AList.update g x xs = xs @ [(g, x)]"
  by (induction xs) auto

lemma compare_checksums_spec:
  assumes "distinct (map fst known)"
  shows "if single_valued (set known \<union> set cs)
    then \<exists>known'. compare_checksums cs known = Ok known' \<and> distinct (map fst known') \<and> set known' = set known \<union> set cs
    else compare_checksums cs known = Err Corrupted"
  using assms
proof (induction cs arbitrary: known)
  case Nil
  then have "single_valued (set known)" by (auto simp: single_valued_def dest: eq_key_imp_eq_value)
  with Nil show ?case by simp
next
  case (Cons c cs)
  obtain g x where c: "c = (g, x)" by (cases c)
  show ?case
  proof (cases "map_of known g")
    case None
    then have "g \<notin> fst ` set known" by (simp add: map_of_eq_None_iff)
    then have "AList.update g x known = known @ [(g, x)]" "distinct (map fst (known @ [(g, x)]))"
      using Cons.prems by (simp_all add: update_new)
    then show ?thesis using Cons.IH [of "known @ [(g, x)]"] None by (auto simp: c)
  next
    case (Some y)
    then have y: "(g, y) \<in> set known" by (rule map_of_SomeD)
    show ?thesis
    proof (cases "x = y")
      case True
      with y have "set known \<union> set (c # cs) = set known \<union> set cs" by (auto simp: c)
      then show ?thesis using Cons.IH [OF Cons.prems] Some True by (simp add: c)
    next
      case False
      with y have "\<not> single_valued (set known \<union> set (c # cs))" by (auto simp: c single_valued_def)
      then show ?thesis using Some False by (simp add: c)
    qed
  qed
qed

lemma single_valued_mono: "single_valued B \<Longrightarrow> A \<subseteq> B \<Longrightarrow> single_valued A"
  by (rule single_valued_subset)

lemma compare_peers_spec:
  assumes "distinct (map fst known)"
  shows "compare_peers (map Ok answers) known =
    (if single_valued (set known \<union> \<Union> (set ` set answers)) then Ok Response.Empty else Err Corrupted)"
  using assms
proof (induction answers arbitrary: known)
  case (Cons a answers)
  note s = compare_checksums_spec [OF Cons.prems, of a]
  show ?case
  proof (cases "single_valued (set known \<union> set a)")
    case True
    then obtain known' where k: "compare_checksums a known = Ok known'" "distinct (map fst known')" "set known' = set known \<union> set a"
      using s by auto
    then show ?thesis using Cons.IH [OF k(2)] by (simp add: Un_assoc)
  next
    case False
    then have "\<not> single_valued (set known \<union> (set a \<union> \<Union> (set ` set answers)))" by (auto dest: single_valued_mono)
    then show ?thesis using s False by simp
  qed
qed (auto simp: single_valued_def dest: eq_key_imp_eq_value)

lemma local_checksums_distinct:
  "local_checksums rt gs known w = Some (Ok cs, w') \<Longrightarrow> distinct (map fst known) \<Longrightarrow> distinct (map fst cs)"
  by (induction gs arbitrary: known w) (auto simp: await_eq_Some split_beta intro: distinct_update)

section \<open>Properties\<close>

text \<open>
  C11. What the check of the file system finds. When the node has computed the checksums of its own
  groups, and all its peers have answered with theirs, the check answers with success exactly when
  no group has two different checksums among all of them, and with \<^verbatim>\<open>Corrupted\<close> otherwise.
\<close>
theorem fsck_ok_iff_checksums_agree:
  assumes "local_checksums rt (all_groups (w_raft w)) [] w = Some (Ok local, w1)" "new_clients (lc_peers c) w1 = (clients, w2)"
    and "join_all (map (filesystem_checksum (rt_zerialize rt) (rt_tcp rt)) clients) w2
      = Some (Ok (map Ok answers) :: (ErrorCode, _) res, w3)"
  shows "fsck rt c w =
    Some (if single_valued (set local \<union> \<Union> (set ` set answers)) then Ok Response.Empty else Err Corrupted, w3)"
  using compare_peers_spec [OF local_checksums_distinct [OF assms(1)], of answers] assms by (simp add: fsck_def)

text \<open>A peer that answers with the checksum \<open>[2]\<close> of group 0, where the node has the empty one.\<close>

definition peer_tcp :: "(nat, sample_world) tcp" where
  "peer_tcp =
     \<lparr>tcp_connect = (\<lambda>addr w. Some (Ok 0, w)), tcp_write_all = (\<lambda>s b w. Some (Ok (), w)),
      tcp_read_exact = (\<lambda>s k w. Some (Ok (if k = 4 then [1, 0, 0, 0] else [0]), w))\<rparr>"

definition peer_runtime :: sample_runtime where
  "peer_runtime = (sample_runtime (sample_codec [Request.FilesystemChecksum]
     [WireResponse.Checksums [\<lparr>cs_raft_group = 0, cs_checksum = [2]\<rparr>]]))\<lparr>rt_tcp := peer_tcp\<rparr>"

lemma peer_sends: "\<exists>w'. pc_send z peer_tcp client request w = Some (Ok [0], w')"
  by (cases "pl_conns w (pc_pool client) = []")
    (simp_all add: pc_send_def pc_send_raw_def pc_connect_def async_send_and_receive_def read_frame_def peer_tcp_def Let_def
      read_u32_def)

lemma sample_checksums:
  assumes "rt_walk rt = (\<lambda>dir files. [])" "rt_sha256 rt = rev" "standalone rt quiet sample_world"
  shows "\<exists>w. local_checksums rt (all_groups (w_raft sample_world)) [] sample_world = Some (Ok [(0, [])], w)"
proof -
  let ?n = "node_of sample_world"
  have rx: "solitary (rt_raxos rt) quiet" "node_ready quiet ?n"
    using assms(3) by (auto simp: standalone_def runtime_ok_def sample_world_def node_of_def sample_node_def)
  obtain n' where n': "node_call (rt_raxos rt) (rt_zerialize rt) (rt_clock rt) (rt_now rt) [] ?n = Some (Ok Response.Empty, n')"
    "cn_file_storage n' = cn_file_storage ?n" "node_ready quiet n'" "cn_raft_group_id n' = cn_raft_group_id ?n"
    using node_barrier [OF rx] by metis
  have "fs_local_data_checksum rev (\<lambda>dir files. []) sample_storage = Ok []" by code_simp
  then have c: "cn_local_data_checksum (rt_sha256 rt) (rt_walk rt) n' = Ok []" "cn_raft_group_id n' = 0"
    by (simp_all add: cn_local_data_checksum_def assms(1,2) n' sample_world_def node_of_def sample_node_def)
  have "all_groups (w_raft sample_world) = [0]" by (simp add: all_groups_def sample_world_def)
  then show ?thesis
    using c standalone_put [OF assms(3)] n'(3)
    by (simp add: propose_on_node [OF assms(3)] n'(1) ask_group_def)
qed

theorem fsck_ok_iff_checksums_agree_witness:
  "\<exists>w. fsck peer_runtime (sample_context\<lparr>lc_peers := [\<lparr>sa_ip = V4 10 0 0 2, sa_port = 3000\<rparr>]\<rparr>) sample_world = Some (Err Corrupted, w)"
proof -
  let ?c = "sample_context\<lparr>lc_peers := [\<lparr>sa_ip = V4 10 0 0 2, sa_port = 3000\<rparr>]\<rparr>"
  let ?z = "sample_codec [Request.FilesystemChecksum] [WireResponse.Checksums [\<lparr>cs_raft_group = 0, cs_checksum = [2]\<rparr>]]"
  have "standalone peer_runtime (\<lambda>r. snd r = []) sample_world"
    using sample_world_holds(1) [OF sample_codec_ok [of "[Request.FilesystemChecksum]"
        "[WireResponse.Checksums [\<lparr>cs_raft_group = 0, cs_checksum = [2]\<rparr>]]"]]
    by (auto simp: holds_files_def standalone_def runtime_ok_def peer_runtime_def)
  then obtain w1 where w1: "local_checksums peer_runtime (all_groups (w_raft sample_world)) [] sample_world = Some (Ok [(0, [])], w1)"
    using sample_checksums [of peer_runtime] by (auto simp: peer_runtime_def sample_runtime_def)
  obtain client w2 where w2: "new_clients (lc_peers ?c) w1 = ([client], w2)" by (simp add: split_beta)
  have z: "rt_zerialize peer_runtime = ?z" "rt_tcp peer_runtime = peer_tcp" by (simp_all add: peer_runtime_def sample_runtime_def)
  obtain w3 where "pc_send ?z peer_tcp client Request.FilesystemChecksum w2 = Some (Ok [0], w3)" using peer_sends by blast
  then have w3: "join_all (map (filesystem_checksum (rt_zerialize peer_runtime) (rt_tcp peer_runtime)) [client]) w2
      = Some (Ok (map Ok [[(0, [2])]]) :: (ErrorCode, _) res, w3)"
    by (simp add: z filesystem_checksum_def await_map_err_def response_or_error_def decode_response_def sample_codec_def numbered_def
        as_error_response_def as_checksum_response_def)
  from fsck_ok_iff_checksums_agree [OF w1 w2 w3] show ?thesis by (auto simp: single_valued_def)
qed

end
