(* ===== verification/Answers.thy ===== *)
theory Answers
  imports Sample_Node
begin

text \<open>
  Requests and answers fit together. Every request has a kind of answer, the one its senders read
  with \<^verbatim>\<open>as_..._response\<close>, and a node on its own answers a request with that kind or with an error.
\<close>

section \<open>Kinds of answers\<close>

datatype (plugins only: code size) kind =
    LockKind | InformationKind | NodeIdKind | InodeKind | RemovedKind | WrittenKind | XattrsKind | DataKind | CommitKind
  | ListingKind | MetadataKind | HardlinkKind | EmptyKind | ErrorKind | ChecksumsKind

fun answer_kind :: "Response \<Rightarrow> kind" where
  "answer_kind (Response.Lock _) = LockKind"
| "answer_kind (Response.FilesystemInformation _ _) = InformationKind"
| "answer_kind (Response.NodeId _) = NodeIdKind"
| "answer_kind (Response.Inode _) = InodeKind"
| "answer_kind (Response.RemovedInode _ _) = RemovedKind"
| "answer_kind (Response.Written _) = WrittenKind"
| "answer_kind (Response.Xattrs _) = XattrsKind"
| "answer_kind (Response.Read _) = DataKind"
| "answer_kind (Response.LatestCommit _ _) = CommitKind"
| "answer_kind (Response.DirectoryListing _) = ListingKind"
| "answer_kind (Response.EntryMetadata _) = MetadataKind"
| "answer_kind (Response.HardlinkTransaction _ _) = HardlinkKind"
| "answer_kind Response.Empty = EmptyKind"
| "answer_kind (Response.ErrorOccurred _) = ErrorKind"
| "answer_kind (Response.Checksums _) = ChecksumsKind"

text \<open>What the sender of a request expects.\<close>

definition expected :: "Request \<Rightarrow> kind" where
  "expected r =
     (case r of
        Request.FilesystemInformation \<Rightarrow> InformationKind
      | Request.FilesystemChecksum \<Rightarrow> ChecksumsKind
      | Request.CreateInode _ _ _ _ _ _ \<Rightarrow> MetadataKind
      | Request.RemoveLink _ _ _ _ _ \<Rightarrow> RemovedKind
      | Request.ReplaceLink _ _ _ _ _ _ \<Rightarrow> InodeKind
      | Request.HardlinkIncrement _ \<Rightarrow> HardlinkKind
      | Request.Write _ _ _ \<Rightarrow> WrittenKind
      | Request.Lock _ \<Rightarrow> LockKind
      | Request.Read _ _ _ \<Rightarrow> DataKind
      | Request.ReadRaw _ _ _ _ \<Rightarrow> DataKind
      | Request.Mkdir _ _ _ _ _ \<Rightarrow> MetadataKind
      | Request.Create _ _ _ _ _ _ \<Rightarrow> MetadataKind
      | Request.Lookup _ _ _ \<Rightarrow> InodeKind
      | Request.GetXattr _ _ _ \<Rightarrow> DataKind
      | Request.Hardlink _ _ _ _ \<Rightarrow> MetadataKind
      | Request.GetAttr _ \<Rightarrow> MetadataKind
      | Request.ListDir _ \<Rightarrow> ListingKind
      | Request.ListXattrs _ \<Rightarrow> XattrsKind
      | Request.LatestCommit _ \<Rightarrow> CommitKind
      | Request.RaftGroupLeader _ \<Rightarrow> NodeIdKind
      | _ \<Rightarrow> EmptyKind)"

text \<open>A result that, when it is a success, is an answer of the kind; and a call that returns such a result.\<close>

definition kinded :: "kind \<Rightarrow> ('e, Response) res \<Rightarrow> bool" where
  "kinded k r \<longleftrightarrow> (\<forall>a. r = Ok a \<longrightarrow> answer_kind a = k)"

definition answers :: "kind \<Rightarrow> (('e, Response) res \<times> 'w) option \<Rightarrow> bool" where
  "answers k x \<longleftrightarrow> (\<forall>r w. x = Some (r, w) \<longrightarrow> kinded k r)"

lemma kinded_simps [simp]:
  "kinded k (Ok a) \<longleftrightarrow> answer_kind a = k" "kinded k (Err e)" "kinded k Panic"
  by (simp_all add: kinded_def)

lemma kinded_map_ok: "(\<And>a. answer_kind (f a) = k) \<Longrightarrow> kinded k (map_ok f r)"
  by (cases r) simp_all

lemma kinded_map_err: "kinded k r \<Longrightarrow> kinded k (map_err f r)"
  by (cases r) simp_all

lemma kinded_and_then: "(\<And>a. kinded k (f a)) \<Longrightarrow> kinded k (and_then r f)"
  by (cases r) simp_all

lemma kinded_and_then_st: "(\<And>a s. kinded k (fst (f a s))) \<Longrightarrow> kinded k (fst (and_then_st x f))"
  by (cases x; cases "fst x") auto

lemma kinded_answer: "(\<And>a. answer_kind (f a) = k) \<Longrightarrow> kinded k (fst (answer f x))"
  by (simp add: answer_def kinded_map_ok)

lemma answers_simps [simp]: "answers k (Some (r, w)) \<longleftrightarrow> kinded k r" "answers k None"
  by (simp_all add: answers_def)

lemma answers_await: "(\<And>a w. answers k (f a w)) \<Longrightarrow> answers k (await x f)"
  by (cases x; cases "fst (the x)") auto

lemma answers_attempt: "(\<And>a w. answers k (f a w)) \<Longrightarrow> answers k (attempt x f)"
  by (cases x; cases "fst (the x)") auto

lemmas kinded_intros = kinded_map_ok kinded_map_err kinded_and_then kinded_and_then_st kinded_answer

lemmas answers_intros = answers_await answers_attempt

section \<open>The storage\<close>

lemma commit_write_kind: "kinded (expected r) (fst (commit_write t r fs))"
  by (cases r)
    (auto simp: expected_def fs_fsync_def fs_hardlink_rollback_def fs_utimens_def fs_set_xattr_def fs_remove_xattr_def fs_chmod_def
      fs_chown_def fs_truncate_def fs_write_def fs_remove_link_def fs_replace_link_def fs_create_link_def fs_create_inode_def
      fs_hardlink_stage0_link_increment_def fs_update_parent_def fs_update_metadata_changed_time_def
      fs_decrement_inode_link_count_def to_fileattr_response_def Let_def split_beta
      intro!: kinded_intros split: option.splits)

section \<open>The node\<close>

lemma node_kind:
  fixes n :: "('r, 'k, 'p) node"
  assumes rx: "solitary rx quiet" "node_ready quiet n \<or> cn_poisoned n" and z: "codec_ok z"
    and idle: "\<And>i. queue_of (cn_lock_table n) i = []"
  shows "answers (expected r) (node_call rx z clk t (encode_request z r) n)"
proof (cases "cn_poisoned n")
  case True
  from node_dead [OF this, of rx z clk t "encode_request z r"] show ?thesis by auto
next
  case False
  with rx(2) have ready: "node_ready quiet n" by simp
  show ?thesis
  proof (cases rule: is_locked_cases [of "cn_lock_table n" "meta_info r"])
    case 1
    show ?thesis by (rule node_panics [OF rx(1) ready z 1(2,1), where clk = clk and now = t]) simp
  next
    case 2
    then have through: "let_through r (cn_lock_table n)" by (simp add: let_through_def)
    consider "\<not> is_lock_change r" | i where "r = Request.Lock i" | i k where "r = Request.Unlock i k"
      by (cases r) auto
    then show ?thesis
    proof cases
      case 1
      note c = node_commit [OF rx(1) ready z through 1, of clk t]
      from commit_write_kind [of r "clk (cn_commits n)" "cn_file_storage n"] show ?thesis
        by (cases "fst (commit_write (clk (cn_commits n)) r (cn_file_storage n)) = Panic") (use c in auto)
    next
      case (2 i)
      then have "held_by (cn_lock_table n) i = None"
        using \<open>is_locked (cn_lock_table n) (meta_info r) = Ok False\<close>
        by (cases "lt_lock_ids (cn_lock_table n) i"; cases "snd (the (lt_lock_ids (cn_lock_table n) i))")
          (auto simp: is_locked_def held_by_def)
      then show ?thesis
        unfolding 2 by (rule node_lock [OF rx(1) ready z, where clk = clk and now = t]) (simp add: expected_def)
    next
      case (3 i k)
      then have "held_by (cn_lock_table n) i = Some k"
        using \<open>is_locked (cn_lock_table n) (meta_info r) = Ok False\<close>
        by (cases "lt_lock_ids (cn_lock_table n) i") (auto simp: is_locked_def held_by_def assert_that_def expect_def split: if_splits)
      then show ?thesis
        unfolding 3 by (rule node_unlock [OF rx(1) ready z _ idle, where clk = clk and now = t]) (simp add: expected_def)
    qed
  qed (simp add: node_blocked [OF rx(1) ready z])
qed

lemma propose_kind:
  assumes "standalone rt quiet w" "no_waiters w"
  shows "answers (expected r) (group_propose_raw rt (encode_request (rt_zerialize rt) r) 0 w)"
proof -
  have "answers (expected r) (node_call (rt_raxos rt) (rt_zerialize rt) (rt_clock rt) (rt_now rt) (encode_request (rt_zerialize rt) r) (node_of w))"
    by (rule node_kind) (use assms in \<open>auto simp: standalone_def runtime_ok_def no_waiters_def\<close>)
  then show ?thesis
    unfolding propose_on_node(1) [OF assms(1)] by (auto simp: answers_def)
qed

section \<open>The router\<close>

lemma compare_peers_kind: "kinded EmptyKind (compare_peers ps cs)"
  by (induction ps arbitrary: cs) (auto intro!: kinded_and_then)

lemma ask_group_kind: "(\<And>n. kinded k (query n)) \<Longrightarrow> answers k (ask_group g query w)"
  by (simp add: ask_group_def split: option.split)

lemma by_inode_kind: "(\<And>g w. answers k (call g w)) \<Longrightarrow> answers k (by_inode rt inode call w)"
  by (simp add: by_inode_def answers_await)

lemma by_raft_group_kind: "(\<And>g w. answers k (call g w)) \<Longrightarrow> answers k (by_raft_group g' call w)"
  by (simp add: by_raft_group_def answers_await)

lemma read_after_barrier_kind: "(\<And>fs. kinded k (query fs)) \<Longrightarrow> answers k (read_after_barrier rt inode query w)"
  unfolding read_after_barrier_def by (intro answers_await by_inode_kind ask_group_kind)

lemma query_kinds:
  "kinded InodeKind (fs_lookup fs inode name ctx)" "kinded DataKind (fs_get_xattr fs inode key ctx)" "kinded MetadataKind (fs_getattr fs inode)"
  "kinded ListingKind (fs_readdir fs inode)" "kinded XattrsKind (fs_list_xattrs fs inode)"
  "kinded DataKind (fs_read peers fs inode offset len commit)" "kinded DataKind (fs_read_raw fs inode offset len)"
  by (auto simp: fs_lookup_def fs_get_xattr_def fs_getattr_def fs_readdir_def fs_list_xattrs_def fs_read_def fs_read_raw_def
      to_fileattr_response_def split_beta intro!: kinded_intros split: option.split)

text \<open>Transactions end with an answer of their own.\<close>

lemma rename_context_kind:
  "answers EmptyKind (rename_transaction_lock_context z cl parent name new_parent new_name ctx s)"
  unfolding rename_transaction_lock_context_def by (intro answers_await) simp

lemma rename_kind: "answers EmptyKind (rename_transaction z order cl parent name new_parent new_name ctx w)"
  using rename_context_kind [of z cl parent name new_parent new_name ctx "(w, [])"] unfolding rename_transaction_def
  by (cases "rename_transaction_lock_context z cl parent name new_parent new_name ctx (w, [])") (auto intro!: answers_await)

lemma transaction_kinds:
  "answers EmptyKind (unlink_transaction z cl parent name ctx w)"
  "answers EmptyKind (rmdir_transaction z cl parent name ctx w)"
  "answers MetadataKind (create_transaction z g cl parent name uid gid mode kind w)"
  "answers MetadataKind (hardlink_transaction z cl inode parent name ctx w)"
  unfolding unlink_transaction_def rmdir_transaction_def create_transaction_def hardlink_transaction_def
  by (auto simp: Let_def split_beta intro!: answers_intros split: sum.split)

lemma handle_request_kind:
  assumes "standalone rt quiet w" "no_waiters w" "can_handle_locally (rt_v6_hash rt) (meta_info r) (w_raft w) = Ok True"
  shows "answers (expected r) (handle_request rt remote c (encode_request (rt_zerialize rt) r) r w)"
proof -
  note p = propose_kind [OF assms(1,2)]
  have i: "answers (expected r') (by_inode rt inode (group_propose_raw rt (encode_request (rt_zerialize rt) r')) w)" for r' inode
    unfolding standalone_lookup(1) [OF assms(1)] by (rule p)
  have g: "answers (expected r') (by_raft_group g (group_propose_raw rt (encode_request (rt_zerialize rt) r')) w)" for r' g
  proof (cases "g = 0")
    case False
    then have "lookup_by_raft_group (w_raft w) g = Panic"
      using assms(1) by (simp add: lookup_by_raft_group_def standalone_def has_raft_group_def)
    then show ?thesis by (simp add: by_raft_group_def)
  qed (use p assms(1) in \<open>auto simp: by_raft_group_def lookup_by_raft_group_def standalone_def has_raft_group_def\<close>)
  show ?thesis
    by (cases r; simp only: handle_request_def Let_def Request.case i g; simp add: expected_def)
      (auto simp: Let_def fsck_def checksum_request_def ask_group_def split_beta
        transaction_kinds rename_kind query_kinds compare_peers_kind fs_statfs_def group_read_def
       intro!: answers_intros by_inode_kind by_raft_group_kind read_after_barrier_kind split: list.split option.split)
qed

section \<open>Properties\<close>

text \<open>
  C6. Answers have the type their readers expect. Whatever request a client or a coordinator sends
  to a node on its own, when the router answers, the answer encodes either an error or a response
  of the kind that belongs to the request, for plain requests, reads, locks and transactions alike.
\<close>
theorem answers_in_kind:
  assumes "standalone rt quiet w" "no_waiters w"
    and "request_router rt remote c (encode_request (rt_zerialize rt) r) w = Some (Ok b, w')"
  shows "\<exists>response. b = encode_response (rt_zerialize rt) response \<and> (answer_kind response = expected r \<or> answer_kind response = ErrorKind)"
proof -
  have d: "decode_request (rt_zerialize rt) (encode_request (rt_zerialize rt) r) = Some r"
    using assms(1) by (simp add: standalone_def runtime_ok_def codec_okD)
  show ?thesis
  proof (cases "can_handle_locally (rt_v6_hash rt) (meta_info r) (w_raft w) = Ok True")
    case True
    obtain x where "handle_request rt remote c (encode_request (rt_zerialize rt) r) r w = Some (x, w')"
      "encode_result (rt_zerialize rt) x = Ok b"
      using assms(3) unfolding request_router_local [OF d True] by auto
    moreover from this(1) handle_request_kind [OF assms(1,2) True, of remote c] have "kinded (expected r) x" by simp
    ultimately show ?thesis by (cases x) (auto simp: encode_result_def to_error_response_def)
  next
    case False
    have "can_handle_locally (rt_v6_hash rt) (meta_info r) (w_raft w) = Ok False" "meta_inode (meta_info r) = None"
      using False assms(1) by (cases r; auto simp: can_handle_locally_def standalone_def lone_lookup(1))+
    then have "request_router rt remote c (encode_request (rt_zerialize rt) r) w = Some (Panic, w)"
      by (simp add: request_router_def d forward_request_def forward_raw_request_def)
    with assms(3) show ?thesis by simp
  qed
qed

theorem answers_in_kind_witness:
  "let z = sample_codec [] []
   in \<exists>b w response. request_router (sample_runtime z) no_remote sample_context (encode_request z (Request.Write 2 1 [7, 8])) sample_world
        = Some (Ok b, w) \<and> b = encode_response z response \<and> (answer_kind response = WrittenKind \<or> answer_kind response = ErrorKind)"
proof -
  let ?z = "sample_codec [] []"
  have z: "rt_zerialize (sample_runtime ?z) = ?z" by (simp add: sample_runtime_def)
  note ok = sample_world_holds [OF sample_codec_ok [of "[]" "[]"]]
  obtain b w where r: "request_router (sample_runtime ?z) no_remote sample_context
      (encode_request (rt_zerialize (sample_runtime ?z)) (Request.Write 2 1 [7, 8])) sample_world = Some (Ok b, w)"
    by (rule router_write [OF ok(1,2), where off = 1 and data = "[7, 8]"]) auto
  have "standalone (sample_runtime ?z) (\<lambda>r. snd r = []) sample_world" using ok(1) by (simp add: holds_files_def)
  from answers_in_kind [OF this ok(3) r] r show ?thesis unfolding z Let_def by (auto simp: expected_def)
qed

end
