(* ===== verification/Fuse_Handles.thy ===== *)
theory Fuse_Handles
  imports Fuse_Adapter
begin

text \<open>
  File handles are what a program can read and write with: the adapter's table of handles is, at
  every moment of every sequence of callbacks, what the replies so far have handed out and the
  releases so far have taken back, and only \<open>read\<close> and \<open>write\<close> on such handles are passed on.
\<close>

section \<open>Callbacks\<close>

text \<open>The callbacks of the kernel with their arguments, and the method that serves each.\<close>

datatype (plugins only: code size) FuseCall =
    LookupCall FuseRequest u64 "string option"
  | GetattrCall u64
  | SetattrCall FuseRequest u64 "u32 option" "u32 option" "u32 option" "u64 option" "TimeOrNow option" "TimeOrNow option" "u64 option"
  | ReadlinkCall u64
  | MknodCall FuseRequest u64 "string option" u32
  | MkdirCall FuseRequest u64 "string option" u32
  | UnlinkCall FuseRequest u64 "string option"
  | RmdirCall FuseRequest u64 "string option"
  | SymlinkCall FuseRequest u64 "string option" "string option"
  | RenameCall FuseRequest u64 "string option" u64 "string option"
  | LinkCall FuseRequest u64 u64 "string option"
  | OpenCall FuseRequest u64 u32
  | ReadCall u64 u64 u64 u32
  | WriteCall u64 u64 u64 bytes
  | FlushCall
  | ReleaseCall u64
  | FsyncCall u64
  | OpendirCall FuseRequest u64 u32
  | ReaddirCall u64 u64
  | ReleasedirCall u64
  | FsyncdirCall u64
  | StatfsCall
  | SetxattrCall FuseRequest u64 "string option" bytes
  | GetxattrCall FuseRequest u64 "string option" u32
  | ListxattrCall u64 u32
  | RemovexattrCall FuseRequest u64 "string option"
  | AccessCall FuseRequest u64 u32
  | CreateCall FuseRequest u64 "string option" u32 u32
  | LockCall
  | BmapCall

text \<open>What the callbacks use of libraries and of the host.\<close>

record ('c, 'w) fuse_env =
  fe_zerialize :: zerialize
  fe_tcp :: "('c, 'w) tcp"
  fe_acc_mode :: "u32 \<Rightarrow> OpenAccMode"
  fe_status :: "u32 \<Rightarrow> (io_error, string) res list option"
  fe_buffer_full :: "(u64 \<times> u64 \<times> FileType \<times> string) list \<Rightarrow> (u64 \<times> u64 \<times> FileType \<times> string) \<Rightarrow> bool"

definition serve :: "('c, 'w) fuse_env \<Rightarrow> FuseCall \<Rightarrow> ('c, 'w) callback" where
  "serve env call =
     (let z = fe_zerialize env; tcp = fe_tcp env; acc_mode = fe_acc_mode env
      in case call of
        LookupCall req parent name \<Rightarrow> fuse_lookup z tcp req parent name
      | GetattrCall inode \<Rightarrow> fuse_getattr z tcp inode
      | SetattrCall req inode mode uid gid new_size atime mtime fh \<Rightarrow>
          fuse_setattr z tcp (fe_status env) req inode mode uid gid new_size atime mtime fh
      | ReadlinkCall inode \<Rightarrow> fuse_readlink z tcp inode
      | MknodCall req parent name mode \<Rightarrow> fuse_mknod z tcp req parent name mode
      | MkdirCall req parent name mode \<Rightarrow> fuse_mkdir z tcp req parent name mode
      | UnlinkCall req parent name \<Rightarrow> fuse_unlink z tcp req parent name
      | RmdirCall req parent name \<Rightarrow> fuse_rmdir z tcp req parent name
      | SymlinkCall req parent name link \<Rightarrow> fuse_symlink z tcp req parent name link
      | RenameCall req parent name new_parent new_name \<Rightarrow> fuse_rename z tcp req parent name new_parent new_name
      | LinkCall req inode new_parent new_name \<Rightarrow> fuse_link z tcp req inode new_parent new_name
      | OpenCall req inode flags \<Rightarrow> fuse_open z tcp acc_mode req inode flags
      | ReadCall inode fh offset read_size \<Rightarrow> fuse_read z tcp inode fh offset read_size
      | WriteCall inode fh offset data \<Rightarrow> fuse_write z tcp inode fh offset data
      | FlushCall \<Rightarrow> fuse_flush
      | ReleaseCall fh \<Rightarrow> fuse_release fh
      | FsyncCall inode \<Rightarrow> fuse_fsync z tcp inode
      | OpendirCall req inode flags \<Rightarrow> fuse_opendir z tcp acc_mode req inode flags
      | ReaddirCall inode offset \<Rightarrow> fuse_readdir z tcp (fe_buffer_full env) inode offset
      | ReleasedirCall fh \<Rightarrow> fuse_releasedir fh
      | FsyncdirCall inode \<Rightarrow> fuse_fsyncdir z tcp inode
      | StatfsCall \<Rightarrow> fuse_statfs z tcp
      | SetxattrCall req inode name value \<Rightarrow> fuse_setxattr z tcp req inode name value
      | GetxattrCall req inode name buffer_size \<Rightarrow> fuse_getxattr z tcp req inode name buffer_size
      | ListxattrCall inode buffer_size \<Rightarrow> fuse_listxattr z tcp inode buffer_size
      | RemovexattrCall req inode name \<Rightarrow> fuse_removexattr z tcp req inode name
      | AccessCall req inode access_mask \<Rightarrow> fuse_access z tcp req inode access_mask
      | CreateCall req parent name mode flags \<Rightarrow> fuse_create z tcp acc_mode req parent name mode flags
      | LockCall \<Rightarrow> fuse_getlk
      | BmapCall \<Rightarrow> fuse_bmap)"

primrec serve_all :: "('c, 'w) fuse_env \<Rightarrow> FuseCall list \<Rightarrow> ('c FleetFUSE \<times> 'w, ErrorCode, Reply list) act" where
  "serve_all env [] s = give (Ok []) s"
| "serve_all env (call # calls) s =
     await (serve env call s) (\<lambda>reply s. await (serve_all env calls s) (\<lambda>replies. give (Ok (reply # replies))))"

section \<open>Handles in a history\<close>

text \<open>The access that a call asks for, and the handle that a reply gives out.\<close>

fun asks_for :: "('c, 'w) fuse_env \<Rightarrow> FuseCall \<Rightarrow> FileHandleAttributes" where
  "asks_for env (OpenCall _ _ flags) = \<lparr>fh_read = fe_acc_mode env flags \<noteq> O_WRONLY, fh_write = fe_acc_mode env flags \<noteq> O_RDONLY\<rparr>"
| "asks_for env (OpendirCall _ _ flags) = \<lparr>fh_read = fe_acc_mode env flags \<noteq> O_WRONLY, fh_write = fe_acc_mode env flags \<noteq> O_RDONLY\<rparr>"
| "asks_for env (CreateCall _ _ _ _ flags) = \<lparr>fh_read = fe_acc_mode env flags \<noteq> O_WRONLY, fh_write = fe_acc_mode env flags \<noteq> O_RDONLY\<rparr>"
| "asks_for env _ = \<lparr>fh_read = False, fh_write = False\<rparr>"

fun gives :: "Reply \<Rightarrow> u64 option" where
  "gives (Opened h _) = Some h"
| "gives (Created _ h _) = Some h"
| "gives _ = None"

fun takes_back :: "FuseCall \<Rightarrow> u64 option" where
  "takes_back (ReleaseCall h) = Some h"
| "takes_back (ReleasedirCall h) = Some h"
| "takes_back _ = None"

definition after :: "('c, 'w) fuse_env \<Rightarrow> FuseCall \<times> Reply \<Rightarrow> (u64 \<rightharpoonup> FileHandleAttributes) \<Rightarrow> u64 \<rightharpoonup> FileHandleAttributes" where
  "after env step handles =
     (case gives (snd step) of
        Some h \<Rightarrow> handles(h \<mapsto> asks_for env (fst step))
      | None \<Rightarrow> (case takes_back (fst step) of Some h \<Rightarrow> handles(h := None) | None \<Rightarrow> handles))"

text \<open>The handles that are out after a history, and those that it ever gave.\<close>

definition handles_out :: "('c, 'w) fuse_env \<Rightarrow> (FuseCall \<times> Reply) list \<Rightarrow> u64 \<rightharpoonup> FileHandleAttributes" where
  "handles_out env history = fold (after env) history Map.empty"

definition handles_given :: "Reply list \<Rightarrow> u64 list" where
  "handles_given replies = List.map_filter gives replies"

section \<open>Callbacks that leave the table alone\<close>

definition same_handles :: "'c FleetFUSE \<Rightarrow> 'c FleetFUSE \<Rightarrow> bool" where
  "same_handles f f' \<longleftrightarrow> ff_file_handles f' = ff_file_handles f \<and> ff_next_file_handle f' = ff_next_file_handle f"

definition inert :: "('c, 'w) callback \<Rightarrow> bool" where
  "inert call \<longleftrightarrow> (\<forall>s r s'. call s = Some (Ok r, s') \<longrightarrow> same_handles (fst s) (fst s') \<and> gives r = None)"

lemma inertD: "inert call \<Longrightarrow> call s = Some (Ok r, s') \<Longrightarrow> same_handles (fst s) (fst s')" "inert call \<Longrightarrow> call s = Some (Ok r, s') \<Longrightarrow> gives r = None"
  unfolding inert_def by blast+

lemma same_handles_refl [simp]: "same_handles f f"
  by (simp add: same_handles_def)

lemma same_handles_trans: "same_handles f g \<Longrightarrow> same_handles g h \<Longrightarrow> same_handles f h"
  by (simp add: same_handles_def)

lemma on_client_same: "on_client call s = Some (r, s') \<Longrightarrow> same_handles (fst s) (fst s')"
  by (auto simp: on_client_def same_handles_def)

lemma checked_eq_Some:
  "checked errno x f = Some (r, s') \<longleftrightarrow> (\<exists>a s1. x = Some (Ok a, s1) \<and> f a s1 = Some (r, s')) \<or>
     (\<exists>e. x = Some (Err e, s') \<and> r = Ok (Error (errno e))) \<or> (x = Some (Panic, s') \<and> r = Panic)"
  by (cases x; cases "fst (the x)") (auto simp: checked_def)

lemma inert_checked: "(\<And>a. inert (f a)) \<Longrightarrow> inert (\<lambda>s. checked errno (on_client call s) f)"
  unfolding inert_def checked_eq_Some by (fastforce dest: on_client_same intro: same_handles_trans)

lemma inert_give: "gives r = None \<Longrightarrow> inert (give (Ok r))"
  by (simp add: inert_def)

lemma inert_replying: "(\<And>a. gives (reply a) = None) \<Longrightarrow> inert (replying call reply)"
  unfolding replying_def by (intro inert_checked inert_give)

lemma inert_with_name: "(\<And>v. inert (f v)) \<Longrightarrow> inert (with_name name f)"
  by (cases name) (simp_all add: with_name_def inert_give)

lemma inert_if: "inert x \<Longrightarrow> inert y \<Longrightarrow> inert (\<lambda>s. if b s then x s else y s)"
  by (auto simp: inert_def)

lemma inert_await: "(\<And>a. inert (f a)) \<Longrightarrow> inert (\<lambda>s. await (give r s) f)"
  by (cases r) (simp_all add: inert_def)

lemmas inert_intros = inert_checked inert_replying inert_with_name inert_if inert_await inert_give

lemma inert_setattr: "inert (fuse_setattr z tcp status req inode mode uid gid new_size atime mtime fh)"
proof -
  have t: "inert (setattr_times z tcp req inode atime mtime rest)" if "inert rest" for rest :: "('c, 'w) callback" and z tcp
    unfolding setattr_times_def [abs_def] by (intro inert_intros that)
  have s: "inert (setattr_size z tcp req inode new_size fh rest)" if "inert rest" for rest :: "('c, 'w) callback" and z tcp
    by (cases new_size; cases fh)
      (use that in \<open>auto simp: setattr_size_def [abs_def] give_def [symmetric] simp del: give_simps intro!: inert_intros\<close>)
  have o: "inert (setattr_owner z tcp status req inode uid gid rest)" if "inert rest" for rest :: "('c, 'w) callback" and z tcp
    unfolding setattr_owner_def [abs_def] by (intro inert_intros that) simp
  have m: "inert (setattr_mode z tcp req inode mode rest)" if "inert rest" for rest :: "('c, 'w) callback" and z tcp
    by (cases mode) (use that in \<open>auto simp: setattr_mode_def [abs_def] intro!: inert_intros\<close>)
  show ?thesis unfolding fuse_setattr_def by (intro m o s t inert_intros) simp
qed

section \<open>One callback\<close>

text \<open>What a callback does to the table and to the counter, from its reply.\<close>

definition tracks :: "('c, 'w) fuse_env \<Rightarrow> FuseCall \<Rightarrow> ('c, 'w) callback \<Rightarrow> bool" where
  "tracks env call callback \<longleftrightarrow> (\<forall>s r s'. callback s = Some (Ok r, s') \<longrightarrow>
     ff_file_handles (fst s') = after env (call, r) (ff_file_handles (fst s)) \<and>
     (case gives r of
        Some h \<Rightarrow> h = ff_next_file_handle (fst s) \<and> ff_next_file_handle (fst s') = h + 1
      | None \<Rightarrow> ff_next_file_handle (fst s') = ff_next_file_handle (fst s)))"

lemma tracks_inert: "inert callback \<Longrightarrow> takes_back call = None \<Longrightarrow> tracks env call callback"
  by (fastforce simp: tracks_def inert_def same_handles_def after_def)

lemma tracks_open_with:
  assumes "takes_back call = None"
    and "\<And>m readable writable. access = Some (m, readable, writable) \<Longrightarrow> asks_for env call = \<lparr>fh_read = readable, fh_write = writable\<rparr>"
  shows "tracks env call (open_with z tcp req inode access)"
  using assms
  by (auto simp: tracks_def open_with_def checked_eq_Some allocate_file_handle_def Let_def after_def same_handles_def
      dest!: on_client_same split: option.splits if_splits)

lemma tracks_create: "tracks env (CreateCall req parent name mode flags) (fuse_create z tcp (fe_acc_mode env) req parent name mode flags)"
  by (cases name; cases "as_file_kind mode"; cases "fe_acc_mode env flags")
    (auto simp: tracks_def fuse_create_def with_name_def checked_eq_Some allocate_file_handle_def Let_def after_def same_handles_def
      dest!: on_client_same)

lemma serve_tracks: "tracks env call (serve env call)"
proof (cases call)
  case (OpenCall req inode flags)
  then show ?thesis
    by (auto simp: serve_def Let_def fuse_open_def open_access_def intro!: tracks_open_with split: OpenAccMode.splits if_splits)
next
  case (OpendirCall req inode flags)
  then show ?thesis
    by (auto simp: serve_def Let_def fuse_opendir_def open_access_def intro!: tracks_open_with split: OpenAccMode.splits if_splits)
next
  case (CreateCall req parent name mode flags)
  then show ?thesis by (simp add: serve_def Let_def tracks_create)
next
  case (ReleaseCall fh)
  then show ?thesis by (simp add: serve_def Let_def tracks_def fuse_release_def deallocate_file_handle_def after_def)
next
  case (ReleasedirCall fh)
  then show ?thesis by (simp add: serve_def Let_def tracks_def fuse_releasedir_def deallocate_file_handle_def after_def)
qed (auto simp: serve_def Let_def fuse_lookup_def fuse_getattr_def inert_setattr fuse_readlink_def fuse_mknod_def fuse_mkdir_def
    fuse_unlink_def fuse_rmdir_def fuse_symlink_def fuse_rename_def fuse_link_def fuse_read_def [abs_def] fuse_write_def [abs_def]
    fuse_flush_def fuse_fsync_def fuse_readdir_def fuse_fsyncdir_def fuse_statfs_def fuse_setxattr_def fuse_getxattr_def
    fuse_listxattr_def fuse_removexattr_def fuse_access_def fuse_getlk_def fuse_bmap_def xattr_reply_def give_def [symmetric]
    simp del: give_simps intro!: tracks_inert inert_intros)

lemma serve_step:
  assumes "serve env call s = Some (Ok r, s')"
  shows "ff_file_handles (fst s') = after env (call, r) (ff_file_handles (fst s))"
    "gives r = None \<Longrightarrow> ff_next_file_handle (fst s') = ff_next_file_handle (fst s)"
    "gives r = Some h \<Longrightarrow> h = ff_next_file_handle (fst s) \<and> ff_next_file_handle (fst s') = h + 1"
  using serve_tracks [of env call] assms unfolding tracks_def by fastforce+

section \<open>Histories\<close>

lemma serve_all_Cons:
  assumes "serve_all env (call # calls) s = Some (Ok replies, s')"
  obtains r s1 rs where "serve env call s = Some (Ok r, s1)" "serve_all env calls s1 = Some (Ok rs, s')" "replies = r # rs"
  using assms by (auto simp: await_eq_Some)

lemma serve_all_table:
  "serve_all env calls s = Some (Ok replies, s') \<Longrightarrow>
     length replies = length calls \<and>
     ff_file_handles (fst s') = fold (after env) (zip calls replies) (ff_file_handles (fst s))"
proof (induction calls arbitrary: s replies)
  case (Cons call calls)
  from Cons.prems obtain r s1 rs where "serve env call s = Some (Ok r, s1)" "serve_all env calls s1 = Some (Ok rs, s')" "replies = r # rs"
    by (rule serve_all_Cons)
  with Cons.IH [of s1 rs] serve_step(1) [of env call s r s1] show ?case by simp
qed simp

lemma serve_all_given:
  "serve_all env calls s = Some (Ok replies, s') \<Longrightarrow>
     handles_given replies = map (\<lambda>k. ff_next_file_handle (fst s) + of_nat k) [0..<length (handles_given replies)]"
proof (induction calls arbitrary: s replies)
  case (Cons call calls)
  from Cons.prems obtain r s1 rs where r: "serve env call s = Some (Ok r, s1)" "serve_all env calls s1 = Some (Ok rs, s')" "replies = r # rs"
    by (rule serve_all_Cons)
  note IH = Cons.IH [OF r(2)]
  show ?case
  proof (cases "gives r")
    case None
    then show ?thesis using IH serve_step(2) [OF r(1)] r(3) by (simp add: handles_given_def map_filter_simps)
  next
    case (Some h)
    let ?n = "length (handles_given rs)"
    have "handles_given replies = h # handles_given rs" using Some r(3) by (simp add: handles_given_def map_filter_simps)
    moreover have "map (\<lambda>k. h + of_nat k) [1..<Suc ?n] = map (\<lambda>k. h + 1 + of_nat k) [0..<?n]"
      by (rule nth_equalityI) (simp_all add: add.assoc del: upt_Suc)
    then have "handles_given rs = map (\<lambda>k. h + of_nat k) [1..<Suc ?n]"
      using IH serve_step(3) [OF r(1) Some] by simp
    ultimately show ?thesis using serve_step(3) [OF r(1) Some] by (simp add: upt_conv_Cons del: upt_Suc)
  qed
qed (simp add: handles_given_def map_filter_simps)

text \<open>A reply with data, or with the number of bytes written, came through a handle that is out.\<close>

fun allowed :: "FuseCall \<Rightarrow> Reply \<Rightarrow> (u64 \<rightharpoonup> FileHandleAttributes) \<Rightarrow> bool" where
  "allowed (ReadCall _ h _ _) (Data _) handles \<longleftrightarrow> map_option fh_read (handles h) = Some True"
| "allowed (WriteCall _ h _ _) (Written _) handles \<longleftrightarrow> map_option fh_write (handles h) = Some True"
| "allowed _ _ _ \<longleftrightarrow> True"

lemma serve_allowed: "serve env call s = Some (Ok r, s') \<Longrightarrow> allowed call r (ff_file_handles (fst s))"
  by (cases "(call, r, ff_file_handles (fst s))" rule: allowed.cases)
    (auto simp: serve_def fuse_read_def fuse_write_def check_read_def check_write_def Let_def split: if_splits option.splits)

lemma serve_all_allowed:
  assumes "serve_all env calls s = Some (Ok replies, s')" "i < length calls"
  shows "allowed (calls ! i) (replies ! i) (fold (after env) (take i (zip calls replies)) (ff_file_handles (fst s)))"
  using assms
proof (induction calls arbitrary: s replies i)
  case (Cons call calls)
  from Cons.prems(1) obtain r s1 rs where r: "serve env call s = Some (Ok r, s1)" "serve_all env calls s1 = Some (Ok rs, s')" "replies = r # rs"
    by (rule serve_all_Cons)
  then show ?case
    using Cons.IH [OF r(2), of "i - 1"] Cons.prems(2) serve_step(1) [OF r(1)] serve_allowed [OF r(1)] by (cases i) simp_all
qed simp

section \<open>Properties\<close>

text \<open>
  C5. File handles are capabilities. After any sequence of callbacks on a new mount, the table of
  handles is what the replies gave out and the releases took back. Handles are given in increasing
  order from 1, so none is given twice (before \<open>2\<^sup>6\<^sup>4\<close> of them). A read was served only through a handle that was out
  for reading at that moment, and a write only through one that was out for writing.
\<close>
theorem handles_are_capabilities:
  assumes "serve_all env calls (FleetFUSE_new addr direct_io, w) = Some (Ok replies, f, w')"
  shows "ff_file_handles f = handles_out env (zip calls replies)
    \<and> handles_given replies = map (\<lambda>k. 1 + of_nat k) [0..<length (handles_given replies)]
    \<and> (length calls < 2 ^ 64 \<longrightarrow> distinct (handles_given replies))
    \<and> (\<forall>i < length calls. allowed (calls ! i) (replies ! i) (handles_out env (take i (zip calls replies))))"
proof (intro conjI impI allI)
  let ?n = "length (handles_given replies)"
  show g: "handles_given replies = map (\<lambda>k. 1 + of_nat k) [0..<?n]"
    using serve_all_given [OF assms] by (simp add: FleetFUSE_new_def)
  show "distinct (handles_given replies)" if "length calls < 2 ^ 64"
  proof (subst g, unfold distinct_map, intro conjI inj_onI)
    have "?n \<le> length replies" by (simp add: handles_given_def map_filter_def)
    then have n: "?n < 2 ^ 64" using serve_all_table [OF assms] that by simp
    show "x = y" if "x \<in> set [0..<?n]" "y \<in> set [0..<?n]" "(1 :: u64) + of_nat x = 1 + of_nat y" for x y
      using that n by (simp add: word_of_nat_eq_iff take_bit_nat_eq_self)
  qed simp
  show "ff_file_handles f = handles_out env (zip calls replies)"
    using serve_all_table [OF assms] by (simp add: handles_out_def FleetFUSE_new_def)
  show "allowed (calls ! i) (replies ! i) (handles_out env (take i (zip calls replies)))" if "i < length calls" for i
    using serve_all_allowed [OF assms that] by (simp add: handles_out_def FleetFUSE_new_def)
qed

text \<open>A server that gives its answers one after the other.\<close>

definition answer_tcp :: "(unit, u8) tcp" where
  "answer_tcp =
     \<lparr>tcp_connect = (\<lambda>addr w. Some (Ok (), w)), tcp_write_all = (\<lambda>s b w. Some (Ok (), w)),
      tcp_read_exact = (\<lambda>s k w. if k = 4 then Some (Ok [1, 0, 0, 0], w) else Some (Ok [w], w + 1))\<rparr>"

definition answer_metadata :: EntryMetadata where
  "answer_metadata =
     \<lparr>em_inode = 2, em_size_bytes = 1, em_size_blocks = 1, em_last_access_time = \<lparr>ts_seconds = 0, ts_nanos = 0\<rparr>, em_last_modified_time = \<lparr>ts_seconds = 0, ts_nanos = 0\<rparr>,
      em_last_metadata_modified_time = \<lparr>ts_seconds = 0, ts_nanos = 0\<rparr>, em_kind = File, em_mode = 420, em_hard_links = 1, em_user_id = 0,
      em_group_id = 0, em_device_id = 0, em_block_size = 512, em_directory_entries = None\<rparr>"

definition answer_env :: "(unit, u8) fuse_env" where
  "answer_env =
     \<lparr>fe_zerialize =
        \<lparr>zerialize_encode_request = (\<lambda>_. [0]), zerialize_decode_request = (\<lambda>_. None), zerialize_encode_response = (\<lambda>_. [0]),
         zerialize_decode_response = (\<lambda>b. Some (if b = [0] then WireResponse.EntryMetadata answer_metadata else WireResponse.Read [7]))\<rparr>,
      fe_tcp = answer_tcp, fe_acc_mode = (\<lambda>_. O_RDONLY), fe_status = (\<lambda>_. None), fe_buffer_full = (\<lambda>_ _. False)\<rparr>"

theorem handles_are_capabilities_witness:
  "let calls = [OpenCall \<lparr>rq_uid = 0, rq_gid = 0, rq_pid = 1\<rparr> 2 0, ReadCall 2 1 0 10, ReleaseCall 1, ReadCall 2 1 0 10];
       replies = [Opened 1 False, Data [7], Done, Error Errno.EACCES]
   in \<exists>f w. serve_all answer_env calls (FleetFUSE_new \<lparr>sa_ip = V4 127 0 0 1, sa_port = 3000\<rparr> False, 0) = Some (Ok replies, f, w)
        \<and> ff_file_handles f = handles_out answer_env (zip calls replies) \<and> handles_out answer_env (zip calls replies) 1 = None"
proof -
  let ?calls = "[OpenCall \<lparr>rq_uid = 0, rq_gid = 0, rq_pid = 1\<rparr> 2 0, ReadCall 2 1 0 10, ReleaseCall 1, ReadCall 2 1 0 10]"
  let ?replies = "[Opened 1 False, Data [7], Done, Error Errno.EACCES]"
  have "map_option fst (serve_all answer_env ?calls (FleetFUSE_new \<lparr>sa_ip = V4 127 0 0 1, sa_port = 3000\<rparr> False, 0)) = Some (Ok ?replies)"
    by code_simp
  then obtain f w where r: "serve_all answer_env ?calls (FleetFUSE_new \<lparr>sa_ip = V4 127 0 0 1, sa_port = 3000\<rparr> False, 0) = Some (Ok ?replies, f, w)"
    by auto
  from handles_are_capabilities [OF this] r show ?thesis
    unfolding Let_def by (auto simp: handles_out_def after_def)
qed

end
