(* ===== verification/Program_Entry.thy ===== *)
theory Program_Entry
  imports Fuse_Adapter Router
begin

text \<open>
  The program: \<^verbatim>\<open>src/src/main.rs\<close>, and the loops of \<^verbatim>\<open>Node::run\<close> in \<^verbatim>\<open>src/src/storage/storage_node.rs\<close>.

  The command line is read by \<^verbatim>\<open>clap\<close>; what \<^verbatim>\<open>main\<close> takes from it is the record \<open>Matches\<close>. Numbers and
  addresses are read as the standard library reads them. What comes from the host are the fields of
  \<open>host\<close>: the answers of DNS, the lines of \<^verbatim>\<open>/etc/fuse.conf\<close>, and the calls that do not come back as
  long as the program runs (\<^verbatim>\<open>Node::run\<close> on the host's network, \<^verbatim>\<open>fuser::mount\<close>). Lines that are printed are kept as
  messages; log lines are left out. Text is ASCII.
\<close>

section \<open>Numbers\<close>

definition digit_value :: "char \<Rightarrow> int" where
  "digit_value c =
     (if CHR ''0'' \<le> c \<and> c \<le> CHR ''9'' then of_char c - 48
      else if CHR ''a'' \<le> c \<and> c \<le> CHR ''z'' then of_char c - 87
      else if CHR ''A'' \<le> c \<and> c \<le> CHR ''Z'' then of_char c - 55
      else 36)"

definition radix_value :: "int \<Rightarrow> string \<Rightarrow> int" where
  "radix_value radix digits = foldl (\<lambda>v c. v * radix + digit_value c) 0 digits"

text \<open>\<^verbatim>\<open>str::parse\<close> of an unsigned integer below \<open>bound\<close>.\<close>

definition parse_number :: "int \<Rightarrow> string \<Rightarrow> int option" where
  "parse_number bound s =
     (let digits = (case s of c # rest \<Rightarrow> if c = CHR ''+'' then rest else s | [] \<Rightarrow> [])
      in if digits = [] \<or> (\<exists>c \<in> set digits. 10 \<le> digit_value c) \<or> bound \<le> radix_value 10 digits then None
         else Some (radix_value 10 digits))"

section \<open>Addresses\<close>

text \<open>
  The parser of \<^verbatim>\<open>std::net\<close>. A parser takes the text that is left, and gives a value and the text
  behind it, or \<open>None\<close> without reading anything.
\<close>

type_synonym 'a parser = "string \<Rightarrow> ('a \<times> string) option"

definition read_given_char :: "char \<Rightarrow> unit parser" where
  "read_given_char c s = (case s of x # rest \<Rightarrow> if x = c then Some ((), rest) else None | [] \<Rightarrow> None)"

definition read_number :: "int \<Rightarrow> nat option \<Rightarrow> bool \<Rightarrow> int \<Rightarrow> int parser" where
  "read_number radix max_digits allow_zero_prefix bound s =
     (let digits = takeWhile (\<lambda>c. digit_value c < radix) s
      in if digits = [] \<or> (case max_digits of Some m \<Rightarrow> m < length digits | None \<Rightarrow> False)
            \<or> \<not> allow_zero_prefix \<and> hd digits = CHR ''0'' \<and> 1 < length digits \<or> bound \<le> radix_value radix digits then None
         else Some (radix_value radix digits, drop (length digits) s))"

definition read_octet :: "int parser" where
  "read_octet = read_number 10 (Some 3) False 256"

definition read_ipv4_addr :: "(int \<times> int \<times> int \<times> int) parser" where
  "read_ipv4_addr s =
     Option.bind (read_octet s) (\<lambda>(a, s). Option.bind (read_given_char CHR ''.'' s) (\<lambda>(_, s).
     Option.bind (read_octet s) (\<lambda>(b, s). Option.bind (read_given_char CHR ''.'' s) (\<lambda>(_, s).
     Option.bind (read_octet s) (\<lambda>(c, s). Option.bind (read_given_char CHR ''.'' s) (\<lambda>(_, s).
     map_option (\<lambda>(d, s). ((a, b, c, d), s)) (read_octet s)))))))"

text \<open>
  Up to \<open>limit\<close> groups of an IPv6 address, separated by colons; the last two can be an IPv4 address,
  which is reported with them.
\<close>

primrec read_groups :: "nat \<Rightarrow> bool \<Rightarrow> string \<Rightarrow> int list \<times> bool \<times> string" where
  "read_groups 0 first s = ([], False, s)"
| "read_groups (Suc left) first s =
     (let behind = (if first then Some ((), s) else read_given_char CHR '':'' s)
      in case (if 0 < left then Option.bind behind (\<lambda>(_, s). read_ipv4_addr s) else None) of
           Some ((a, b, c, d), rest) \<Rightarrow> ([a * 256 + b, c * 256 + d], True, rest)
         | None \<Rightarrow>
             (case Option.bind behind (\<lambda>(_, s). read_number 16 (Some 4) True 65536 s) of
                Some (g, rest) \<Rightarrow> (let (groups, ipv4, rest) = read_groups left False rest in (g # groups, ipv4, rest))
              | None \<Rightarrow> ([], False, s)))"

definition read_ipv6_addr :: "int list parser" where
  "read_ipv6_addr s =
     (let (head, head_ipv4, s) = read_groups 8 True s
      in if length head = 8 then Some (head, s)
         else if head_ipv4 then None
         else
           Option.bind (read_given_char CHR '':'' s) (\<lambda>(_, s). Option.bind (read_given_char CHR '':'' s) (\<lambda>(_, s).
           let (tail, _, s) = read_groups (8 - (length head + 1)) True s
           in Some (head @ replicate (8 - length head - length tail) 0 @ tail, s))))"

definition v4_addr :: "int \<times> int \<times> int \<times> int \<Rightarrow> IpAddr" where
  "v4_addr x = (case x of (a, b, c, d) \<Rightarrow> V4 (of_int a) (of_int b) (of_int c) (of_int d))"

definition v6_addr :: "int list \<Rightarrow> IpAddr" where
  "v6_addr groups = V6 (of_int (foldl (\<lambda>v g. v * 65536 + g) 0 groups))"

definition read_port :: "int parser" where
  "read_port s = Option.bind (read_given_char CHR '':'' s) (\<lambda>(_, s). read_number 10 None True 65536 s)"

definition read_socket_addr_v4 :: "SocketAddr parser" where
  "read_socket_addr_v4 s =
     Option.bind (read_ipv4_addr s) (\<lambda>(ip, s).
     map_option (\<lambda>(port, s). (\<lparr>sa_ip = v4_addr ip, sa_port = of_int port\<rparr>, s)) (read_port s))"

text \<open>The scope of an IPv6 address may be given; an address is its IP address and port here.\<close>

definition skip_scope_id :: "string \<Rightarrow> string" where
  "skip_scope_id s =
     (case Option.bind (read_given_char CHR ''%'' s) (\<lambda>(_, s). read_number 10 None True (2 ^ 32) s) of
        Some (_, rest) \<Rightarrow> rest | None \<Rightarrow> s)"

definition read_socket_addr_v6 :: "SocketAddr parser" where
  "read_socket_addr_v6 s =
     Option.bind (read_given_char CHR ''['' s) (\<lambda>(_, s). Option.bind (read_ipv6_addr s) (\<lambda>(ip, s).
     Option.bind (read_given_char CHR '']'' (skip_scope_id s)) (\<lambda>(_, s).
     map_option (\<lambda>(port, s). (\<lparr>sa_ip = v6_addr ip, sa_port = of_int port\<rparr>, s)) (read_port s))))"

definition or_else :: "'a option \<Rightarrow> 'a option \<Rightarrow> 'a option" where
  "or_else x y = (case x of Some a \<Rightarrow> Some a | None \<Rightarrow> y)"

text \<open>\<^verbatim>\<open>parse_with\<close>: nothing may be left.\<close>

definition whole :: "('a \<times> string) option \<Rightarrow> 'a option" where
  "whole x = (case x of Some (a, rest) \<Rightarrow> if rest = [] then Some a else None | None \<Rightarrow> None)"

definition parse_ip :: "string \<Rightarrow> IpAddr option" where
  "parse_ip s =
     whole (or_else (map_option (\<lambda>(ip, s). (v4_addr ip, s)) (read_ipv4_addr s))
                    (map_option (\<lambda>(ip, s). (v6_addr ip, s)) (read_ipv6_addr s)))"

definition parse_socket_addr :: "string \<Rightarrow> SocketAddr option" where
  "parse_socket_addr s = whole (or_else (read_socket_addr_v4 s) (read_socket_addr_v6 s))"

section \<open>The command line\<close>

record Matches =
  m_port :: string
  m_bind_ip :: string
  m_data_dir :: string
  m_peers :: string
  m_num_peers :: string
  m_redundancy_level :: "string option"
  m_server_ip_port :: string
  m_mount_point :: string
  m_direct_io :: bool
  m_fsck :: bool
  m_get_leader :: bool
  m_verbosity :: u8

definition default_matches :: Matches where
  "default_matches =
     \<lparr>m_port = ''3000'', m_bind_ip = ''127.0.0.1'', m_data_dir = ''/tmp/fleetfs'', m_peers = [], m_num_peers = ''0'',
      m_redundancy_level = None, m_server_ip_port = ''127.0.0.1:3000'', m_mount_point = [], m_direct_io = False,
      m_fsck = False, m_get_leader = False, m_verbosity = 0\<rparr>"

datatype LevelFilter = ErrorLevel | Warn | Info | Debug | Trace

definition log_level :: "u8 \<Rightarrow> LevelFilter" where
  "log_level verbosity =
     (if verbosity = 0 then ErrorLevel else if verbosity = 1 then Warn else if verbosity = 2 then Info
      else if verbosity = 3 then Debug else Trace)"

subsection \<open>Peers\<close>

definition resolve :: "(nat \<Rightarrow> string \<Rightarrow> (io_error, SocketAddr list) res) \<Rightarrow> string \<Rightarrow> nat \<Rightarrow> SocketAddr list" where
  "resolve dns record_name k = (case dns k record_name of Ok addresses \<Rightarrow> addresses | _ \<Rightarrow> [])"

text \<open>\<open>k\<close> is the number of lookups so far.\<close>

partial_function (option) wait_for_peers ::
    "(nat \<Rightarrow> string \<Rightarrow> (io_error, SocketAddr list) res) \<Rightarrow> string \<Rightarrow> int \<Rightarrow> nat \<Rightarrow> SocketAddr list \<Rightarrow> SocketAddr list option" where
  "wait_for_peers dns record_name num_peers k found_peers =
     (if int (length found_peers) < num_peers
      then wait_for_peers dns record_name num_peers (k + 1) (resolve dns record_name k)
      else Some found_peers)"

primrec parse_addrs :: "string list \<Rightarrow> (ErrorCode, SocketAddr list) res" where
  "parse_addrs [] = Ok []"
| "parse_addrs (x # xs) = and_then (expect (parse_socket_addr x)) (\<lambda>addr. map_ok ((#) addr) (parse_addrs xs))"

definition main_peers ::
    "(nat \<Rightarrow> string \<Rightarrow> (io_error, SocketAddr list) res) \<Rightarrow> string \<Rightarrow> int \<Rightarrow> int \<Rightarrow> SocketAddr
      \<Rightarrow> (ErrorCode, SocketAddr list) res option" where
  "main_peers dns peers port num_peers bind_address =
     (if 0 < num_peers then
        let record_name = peers @ '':'' @ show_nat (nat port)
        in map_option (\<lambda>found_peers. Ok (filter (\<lambda>x. x \<noteq> bind_address) found_peers))
             (wait_for_peers dns record_name num_peers 1 (resolve dns record_name 0))
      else Some (parse_addrs (filter (\<lambda>x. x \<noteq> []) (split_on CHR '','' peers))))"

definition replicas_of :: "string option \<Rightarrow> SocketAddr list \<Rightarrow> (ErrorCode, nat) res" where
  "replicas_of redundancy_level peers =
     (case redundancy_level of
        Some redundancy \<Rightarrow> map_ok (\<lambda>r. 2 * nat r + 1) (expect (parse_number (2 ^ 64) redundancy))
      | None \<Rightarrow> Ok (length peers + 1))"

subsection \<open>The configuration of FUSE\<close>

definition is_space :: "char \<Rightarrow> bool" where
  "is_space c \<longleftrightarrow> c = CHR '' '' \<or> (9 \<le> (of_char c :: nat) \<and> (of_char c :: nat) \<le> 13)"

primrec find_user_allow_other :: "(io_error, string) res list \<Rightarrow> (io_error, bool) res" where
  "find_user_allow_other [] = Ok False"
| "find_user_allow_other (line # lines) =
     and_then line (\<lambda>line.
     if take 16 (dropWhile is_space line) = ''user_allow_other'' then Ok True else find_user_allow_other lines)"

definition fuse_allow_other_enabled :: "(io_error, (io_error, string) res list) res \<Rightarrow> (io_error, bool) res" where
  "fuse_allow_other_enabled fuse_conf = and_then fuse_conf find_user_allow_other"

datatype MountOption = FSName string | AutoUnmount
datatype SessionACL = All_Users | Owner

record Config =
  cf_mount_options :: "MountOption list"
  cf_acl :: SessionACL

section \<open>The program\<close>

datatype Message =
    FilesystemOk | FilesystemCorrupted | FilesystemCheckFailed | FilesystemIsReady | Starting "SocketAddr list"
  | Connecting SocketAddr string | UsingDirectIO | UnableToReadFuseConf

record ('r, 'k, 'c, 'w) host =
  ho_dns :: "nat \<Rightarrow> string \<Rightarrow> (io_error, SocketAddr list) res"
  ho_fuse_conf :: "(io_error, (io_error, string) res list) res"
  ho_run :: "('r, 'k) Node \<Rightarrow> ('w, ErrorCode, unit) act"
  ho_mount :: "'c FleetFUSE \<Rightarrow> string \<Rightarrow> Config \<Rightarrow> ('w, io_error, unit) act"

definition say :: "Message \<Rightarrow> Message list \<times> 'w \<Rightarrow> Message list \<times> 'w" where
  "say message s = (fst s @ [message], snd s)"

definition with_client ::
    "SocketAddr \<Rightarrow> ('c TcpClient \<times> 'w, 'e, 'a) act \<Rightarrow> (Message list \<times> 'w, 'e, 'a) act" where
  "with_client server_ip_port call s =
     map_option (\<lambda>(r, _, w). (r, (fst s, w))) (call (NodeClient_new server_ip_port, snd s))"

definition main_fsck :: "zerialize \<Rightarrow> ('c, 'w) tcp \<Rightarrow> SocketAddr \<Rightarrow> (Message list \<times> 'w, ErrorCode, unit) act" where
  "main_fsck z tcp server_ip_port s =
     attempt (with_client server_ip_port (nc_fsck z tcp) s) (\<lambda>result s.
       case result of
         Inr _ \<Rightarrow> give (Ok ()) (say FilesystemOk s)
       | Inl e \<Rightarrow> give (Err e) (say (if e = Corrupted then FilesystemCorrupted else FilesystemCheckFailed) s))"

definition main_mount ::
    "('r, 'k, 'c, 'w) host \<Rightarrow> SocketAddr \<Rightarrow> string \<Rightarrow> bool \<Rightarrow> (Message list \<times> 'w, ErrorCode, unit) act" where
  "main_mount h server_ip_port mount_point direct_io s =
     (let s = say (Connecting server_ip_port mount_point) s;
          s = (if direct_io then say UsingDirectIO s else s);
          (allow_other, s) = (case fuse_allow_other_enabled (ho_fuse_conf h) of
             Ok enabled \<Rightarrow> (enabled, s) | _ \<Rightarrow> (False, say UnableToReadFuseConf s));
          config = \<lparr>cf_mount_options = [FSName ''fleetfs'', AutoUnmount], cf_acl = if allow_other then All_Users else Owner\<rparr>
      in map_option (\<lambda>(r, s). (unwrap r, s))
           (beside (ho_mount h (FleetFUSE_new server_ip_port direct_io) mount_point config) s))"

definition main ::
    "('r, 'k, 'c, ('c, 'z) pools_scheme) host \<Rightarrow> zerialize \<Rightarrow> ('c, ('c, 'z) pools_scheme) tcp \<Rightarrow> (128 word \<Rightarrow> u16 \<Rightarrow> u64)
      \<Rightarrow> (LocalContext \<Rightarrow> u16 \<Rightarrow> u16 \<Rightarrow> (ErrorCode, ('r, 'k, TcpPeerClient) node) res option) \<Rightarrow> Matches
      \<Rightarrow> (Message list \<times> ('c, 'z) pools_scheme, ErrorCode, unit) act" where
  "main h z tcp v6_hash start m s =
     await (give (expect (parse_number (2 ^ 16) (m_port m))) s) (\<lambda>port s.
     await (give (expect (parse_ip (m_bind_ip m))) s) (\<lambda>bind_ip s.
     let bind_address = \<lparr>sa_ip = bind_ip, sa_port = of_int port\<rparr> in
     await (give (expect (parse_socket_addr (m_server_ip_port m))) s) (\<lambda>server_ip_port s.
     await (give (expect (parse_number (2 ^ 64) (m_num_peers m))) s) (\<lambda>num_peers s.
     await (map_option (\<lambda>r. (r, s)) (main_peers (ho_dns h) (m_peers m) port num_peers bind_address)) (\<lambda>peers s.
     await (give (replicas_of (m_redundancy_level m) peers) s) (\<lambda>replicas_per_raft_group s.
     if m_fsck m then main_fsck z tcp server_ip_port s
     else if m_get_leader m then
       await (with_client server_ip_port (filesystem_ready z tcp) s) (\<lambda>_ s. give (Ok ()) (say FilesystemIsReady s))
     else if m_mount_point m = [] then
       await (beside (Node_new v6_hash start (m_data_dir m) bind_address peers replicas_per_raft_group) (say (Starting peers) s))
         (\<lambda>node. beside (ho_run h node))
     else main_mount h server_ip_port (m_mount_point m) (m_direct_io m) s))))))"

section \<open>Running a node\<close>

text \<open>
  \<^verbatim>\<open>Node::run\<close> starts two tasks. The server accepts connections and spawns a handler for each
  (\<open>connection_handler\<close>); it ends at once when the address cannot be bound. The other one lets the
  groups tick, and the program ends when it panics. Which of them goes on, and when, is the run-time
  system's choice: \<open>run_events\<close> takes what happens in the order in which it happens.
\<close>

record ('r, 'k, 'c) running =
  rn_manager :: "('r, 'k) LocalRaftGroupManager"
  rn_listening :: bool
  rn_spawned :: "'c list"

datatype 'c RunEvent = Accepted "(io_error, 'c) res" | Ticked \<comment> \<open>the clock, before and after\<close> u64 u64

definition Node_run ::
    "(io_error, unit) res \<Rightarrow> (io_error, unit) res \<Rightarrow> ('r, 'k) Node \<Rightarrow> (ErrorCode, ('r, 'k, 'c) running) res" where
  "Node_run create_dir_all bind_result node =
     map_ok (\<lambda>_. \<lparr>rn_manager = nd_raft_manager node, rn_listening = is_ok bind_result, rn_spawned = []\<rparr>) (unwrap create_dir_all)"

definition run_event ::
    "('m, 'r, 'k, 'c, 's) runtime \<Rightarrow> 'c RunEvent \<Rightarrow> (('r, 'k, 'c) running, ErrorCode, unit) act" where
  "run_event rt e s =
     (case e of
        Accepted socket \<Rightarrow>
          Some (Ok (), case socket of
              Ok c \<Rightarrow> if rn_listening s then s\<lparr>rn_spawned := rn_spawned s @ [c]\<rparr> else s
            | _ \<Rightarrow> s)
      | Ticked t t' \<Rightarrow>
          map_option (\<lambda>(r, m). (r, s\<lparr>rn_manager := m\<rparr>))
            (gm_background_tick (background_tick (rt_raxos rt) (rt_zerialize rt) (rt_alive rt) (rt_clock rt) t t') (rn_manager s)))"

primrec run_events ::
    "('m, 'r, 'k, 'c, 's) runtime \<Rightarrow> 'c RunEvent list \<Rightarrow> (('r, 'k, 'c) running, ErrorCode, unit) act" where
  "run_events rt [] s = give (Ok ()) s"
| "run_events rt (e # es) s = await (run_event rt e s) (\<lambda>_. run_events rt es)"

end
