(* ===== verification/Start_Up.thy ===== *)
theory Start_Up
  imports Sample_Node
begin

text \<open>
  Starting a node on its own, on an empty disk: it comes up, and is in the state that the
  properties of the node start from.
\<close>

section \<open>An empty storage\<close>

lemma new_metadata:
  obtains m where "MetadataStorage_new now 0 1 empty_tables = Some (Ok m)" "storage_wf 0 m" "size_in (ms_storage m) = Map.empty"
    "\<not> ms_poisoned m"
proof -
  have "start_inode_loop 1 0 2 = Some 2" by (subst start_inode_loop.simps) simp
  then obtain m where m: "MetadataStorage_new now 0 1 empty_tables = Some (Ok m)"
    "ms_storage m = empty_tables\<lparr>PARENTS_TABLE := table_insert ROOT_INODE ROOT_INODE (PARENTS_TABLE empty_tables),
       ATTR_TABLE := table_insert ROOT_INODE (root_attributes now) (ATTR_TABLE empty_tables)\<rparr>" "\<not> ms_poisoned m"
    by (simp add: MetadataStorage_new_def Let_def ROOT_INODE_def)
  from m(1) have "metadata_reachable 0 1 m" unfolding metadata_reachable_def by blast
  from metadata_reachable_wf [OF this] have "storage_wf 0 m" by simp
  moreover have "size_in (ms_storage m) = Map.empty"
    by (simp add: m(2) size_in_def fun_eq_iff kv.get_ins kv.get_empty empty_tables_def root_attributes_def)
  ultimately show thesis using that m(1,3) by blast
qed

lemma new_file_storage:
  obtains fs where "FileStorage_new h connect now node_id 0 1 dir [] empty_tables Map.empty = Some (Ok fs)"
    "file_group 0 [fs] Map.empty" "\<not> ms_poisoned (fs_metadata fs)"
proof -
  obtain m where m: "MetadataStorage_new now 0 1 empty_tables = Some (Ok m)" "storage_wf 0 m"
    "size_in (ms_storage m) = Map.empty" "\<not> ms_poisoned m" using new_metadata [of now] by metis
  let ?d = "\<lparr>ds_node_ids = [node_id], ds_local_rank = 0, ds_local_node_id = node_id, ds_local_data_dir = path_join dir ''data'',
     ds_peers = [], ds_files = Map.empty\<rparr>"
  have "FileStorage_new h connect now node_id 0 1 dir [] empty_tables Map.empty = Some (Ok \<lparr>fs_data = ?d, fs_metadata = m\<rparr>)"
    by (simp add: FileStorage_new_def m(1) DataStorage_new_def position_def)
  moreover have "file_group 0 [\<lparr>fs_data = ?d, fs_metadata = m\<rparr>] Map.empty"
    using m(2,3) by (simp add: file_group_def stripe_group_def storage_agree_def metadata_agree_def)
  ultimately show thesis using that m(4) by simp
qed

section \<open>The node\<close>

text \<open>\<^verbatim>\<open>ConsensusNode::new\<close> on an empty disk.\<close>

definition start_empty ::
    "('m, 'r, 'k, 'c, 's) runtime \<Rightarrow> (SocketAddr \<Rightarrow> TcpPeerClient) \<Rightarrow> clock \<Rightarrow> u64 \<Rightarrow> LocalContext \<Rightarrow> u16 \<Rightarrow> u16
      \<Rightarrow> (ErrorCode, ('r, 'k, TcpPeerClient) node) res option" where
  "start_empty rt connect time seed c g n =
     ConsensusNode_new (rt_raxos rt) (rt_v6_hash rt) connect time seed c g n empty_tables Map.empty"

text \<open>
  A node on its own comes up. Started without peers on an empty disk, the node is built: its one
  group serves no files yet, holds no locks and has no waiters, and the client for that group leads
  to the node itself. This is the state that the properties of a node on its own start from.
\<close>
theorem new_node_serves:
  fixes rt :: "('m, 'r, 'k, 'c, 's) runtime" and p :: "'d pools"
  assumes "runtime_ok rt quiet"
    and "let i = node_id_from_address (rt_v6_hash rt) addr in rx_new (rt_raxos rt) [i] i seed = Some r" "quiet r"
  shows "\<exists>node p' client. Node_new (rt_v6_hash rt) (start_empty rt connect time seed) dir addr [] 1 p = Some (Ok node, p')
    \<and> (\<forall>w :: ('r, 'k, 'c, 's) world. w_raft w = nd_raft_manager node \<longrightarrow>
         holds_files rt quiet Map.empty w \<and> locks_of w = {} \<and> no_waiters w)
    \<and> client_of_group (nd_remote_rafts node) 0 = Ok client \<and> pc_server_ip_port client = addr"
proof -
  let ?start = "start_empty rt connect time seed" and ?h = "rt_v6_hash rt" and ?i = "node_id_from_address (rt_v6_hash rt) addr"
  define c where "c = LocalContext_new (path_join dir ''data'') addr [] ?i 1"
  have c: "lc_peers c = []" "lc_replicas_per_raft_group c = 1" "lc_node_id c = ?i" "lc_server_ip_port c = addr"
    "total_nodes c = 1" by (simp_all add: c_def LocalContext_new_def total_nodes_def)
  have idx: "node_index ?h c = Ok 0" "peers_with_node_indices ?h c = Ok []"
    by (simp_all add: node_index_def sorted_node_ids_def peers_with_node_indices_def c position_def)
  have one: "node_contains_raft_group 0 1 0 1 = Ok True" by (simp add: node_contains_raft_group_def Let_def)
  have cg: "contains_group ?h c 0 = Ok True" by (simp add: contains_group_def idx c one del: One_nat_def)
  obtain fs where fs: "FileStorage_new ?h connect time ?i 0 1 (path_join (lc_data_dir c) (''rgroup_'' @ show_word (0 :: u16))) []
      empty_tables Map.empty = Some (Ok fs)" "file_group 0 [fs] Map.empty" "\<not> ms_poisoned (fs_metadata fs)"
    using new_file_storage by metis
  obtain n where n: "?start c 0 1 = Some (Ok n)" "cn_replica n = r" "cn_file_storage n = fs" "cn_lock_table n = LockTable_new"
    "\<not> cn_poisoned n" "cn_answers n = []"
    using assms(2) fs(1) by (simp add: start_empty_def ConsensusNode_new_def idx c one Let_def del: One_nat_def)
  let ?m = "\<lparr>gm_context = c, gm_total_raft_groups = 1, gm_groups = [(0, n)]\<rparr>"
  have m: "LocalRaftGroupManager_new ?h (?start c) 1 c = Some (Ok ?m)"
    by (simp add: LocalRaftGroupManager_new_def group_range_def cg n(1))
  obtain p' client where remote: "RemoteRaftGroups_new ?h 1 c p = (Ok \<lparr>rr_total_raft_groups = 1, rr_groups = [(0, client)]\<rparr>, p')"
    "pc_server_ip_port client = addr"
    by (simp add: RemoteRaftGroups_new_def group_range_def group_address_def cg c TcpPeerClient_new_def)
  have "Node_new ?h ?start dir addr [] 1 p = Some (Ok \<lparr>nd_context = c, nd_raft_manager = ?m,
      nd_remote_rafts = \<lparr>rr_total_raft_groups = 1, rr_groups = [(0, client)]\<rparr>, nd_bind_address = addr\<rparr>, p')"
    by (simp add: Node_new_def Let_def c m remote flip: c_def del: One_nat_def)
  moreover have "holds_files rt quiet Map.empty w \<and> locks_of w = {} \<and> no_waiters w" if "w_raft w = ?m"
    for w :: "('r, 'k, 'c, 's) world"
    using that assms(1,3) fs(2,3) n
    by (simp add: holds_files_def standalone_def node_of_def lone_def c node_ready_def locks_of_def no_waiters_def LockTable_new_def
        held_by_def queue_of_def)
  ultimately show ?thesis using remote(2) by (auto simp: client_of_group_def)
qed

theorem new_node_serves_witness:
  "let rt = sample_runtime (sample_codec [] []); addr = \<lparr>sa_ip = V4 127 0 0 1, sa_port = 3000\<rparr>;
       pools = (\<lparr>pl_conns = (\<lambda>_. []), pl_next = 0\<rparr> :: nat pools)
   in \<exists>node p client. Node_new (rt_v6_hash rt) (start_empty rt (\<lambda>a. \<lparr>pc_server_ip_port = a, pc_pool = 0\<rparr>) epoch 7) ''/d'' addr [] 1 pools
        = Some (Ok node, p) \<and> holds_files rt (\<lambda>r. snd r = []) Map.empty (sample_world\<lparr>w_raft := nd_raft_manager node\<rparr>)"
proof -
  let ?rt = "sample_runtime (sample_codec [] [])" and ?a = "\<lparr>sa_ip = V4 127 0 0 1, sa_port = 3000\<rparr>"
  let ?p = "\<lparr>pl_conns = (\<lambda>_. []), pl_next = 0\<rparr> :: nat pools"
  have "let i = node_id_from_address (rt_v6_hash ?rt) ?a in rx_new (rt_raxos ?rt) [i] i 7 = Some (1, [])"
    by (simp add: sample_runtime_def lone_raxos_def Let_def)
  from new_node_serves [OF sample_runtime_ok [OF sample_codec_ok] this, of "\<lambda>a. \<lparr>pc_server_ip_port = a, pc_pool = 0\<rparr>" epoch "''/d''" ?p]
  show ?thesis unfolding Let_def by force
qed

end
