(* ===== verification/Program_Laws.thy ===== *)
theory Program_Laws
  imports Program_Entry Start_Up
begin

text \<open>
  What the program makes of its command line: the peers that it is given or finds, the node that it
  starts, and the loops that the node is left to.
\<close>

section \<open>Numbers and addresses\<close>

lemma digit_value_shown: "d < 10 \<Longrightarrow> digit_value (char_of (48 + d)) = int d"
proof -
  assume d: "d < 10"
  have "(of_char (char_of (48 + d)) :: int) = int (of_char (char_of (48 + d)))" by (simp only: of_nat_of_char)
  with d show ?thesis by (simp add: digit_value_def less_eq_char_def)
qed

lemma number_snoc: "radix_value r (ds @ [c]) = radix_value r ds * r + digit_value c"
  by (simp add: radix_value_def)

lemma number_shown: "radix_value 10 (show_nat n) = int n"
proof (induction n rule: show_nat.induct)
  case (1 n)
  show ?case
  proof (cases "n < 10")
    case True
    then show ?thesis by (simp add: show_nat.simps [of n] radix_value_def digit_value_shown)
  next
    case False
    have "int (n div 10) * 10 + int (n mod 10) = int n" by (simp add: zdiv_int zmod_int)
    with False show ?thesis using 1 by (simp add: show_nat.simps [of n] number_snoc digit_value_shown)
  qed
qed

lemma shown_digits: "c \<in> set (show_nat n) \<Longrightarrow> \<exists>d<10::nat. c = char_of (48 + d)"
proof (induction n rule: show_nat.induct)
  case (1 n)
  then show ?case
    by (cases "n < 10") (auto simp: show_nat.simps [of n] intro: exI [of _ n] exI [of _ "n mod 10"])
qed

lemma shown_char:
  assumes "c \<in> set (show_nat n)"
  shows "digit_value c < 10" "c \<noteq> CHR '',''"
proof -
  obtain d :: nat where d: "d < 10" "c = char_of (48 + d)" using shown_digits [OF assms] by blast
  then show "digit_value c < 10" by (simp add: digit_value_shown)
  have "of_char c = 48 + d" using d by simp
  then show "c \<noteq> CHR '',''" by auto
qed

lemma shown_not_empty: "show_nat n \<noteq> []"
  by (simp add: show_nat.simps [of n])

lemma shown_length: "n < 10 ^ k \<Longrightarrow> 0 < k \<Longrightarrow> length (show_nat n) \<le> k"
proof (induction n arbitrary: k rule: show_nat.induct)
  case (1 n)
  show ?case
  proof (cases "n < 10")
    case False
    then obtain j where j: "k = Suc j" "0 < j" using 1(2,3) by (cases k; cases "k - 1") auto
    then have "n div 10 < 10 ^ j" using 1(2) by (simp add: div_less_iff_less_mult mult.commute)
    then show ?thesis using 1(1) [OF False, of j] j by (simp add: show_nat.simps [of n])
  qed (use 1(3) in \<open>simp add: show_nat.simps [of n]\<close>)
qed

lemma shown_leading_zero: "hd (show_nat n) = CHR ''0'' \<Longrightarrow> length (show_nat n) = 1"
proof (induction n rule: show_nat.induct)
  case (1 n)
  show ?case
  proof (cases "n < 10")
    case False
    have "hd (show_nat (n div 10)) = CHR ''0''"
      using 1(2) False by (simp add: show_nat.simps [of n] shown_not_empty)
    with 1(1) [OF False] have "length (show_nat (n div 10)) = 1" by simp
    then have "n div 10 < 10" "show_nat (n div 10) = [char_of (48 + n div 10)]"
      using shown_not_empty by (auto simp: show_nat.simps [of "n div 10"] split: if_splits)
    with \<open>hd (show_nat (n div 10)) = CHR ''0''\<close> have "(of_char (char_of (48 + n div 10)) :: nat) = of_char CHR ''0''" by simp
    with \<open>n div 10 < 10\<close> False show ?thesis by simp
  qed (simp add: show_nat.simps [of n])
qed

text \<open>A number that was printed is read back, up to a character that is not a digit.\<close>

definition stops :: "string \<Rightarrow> bool" where
  "stops s \<longleftrightarrow> (case s of [] \<Rightarrow> True | c # _ \<Rightarrow> 10 \<le> digit_value c)"

lemma read_shown:
  assumes "int n < bound" "stops rest" "case mx of Some m \<Rightarrow> length (show_nat n) \<le> m | None \<Rightarrow> True"
  shows "read_number 10 mx zero bound (show_nat n @ rest) = Some (int n, rest)"
proof -
  have "takeWhile (\<lambda>c. digit_value c < 10) (show_nat n @ rest) = show_nat n"
    using assms(2) shown_char(1) by (cases rest) (auto simp: stops_def takeWhile_append)
  then show ?thesis
    using assms shown_leading_zero [of n]
    by (auto simp: read_number_def Let_def number_shown shown_not_empty split: option.splits)
qed

lemma read_octet_shown: "stops rest \<Longrightarrow> read_octet (show_nat (unat (a :: u8)) @ rest) = Some (int (unat a), rest)"
proof -
  assume "stops rest"
  moreover have a: "unat a < 256" using unsigned_less [of a, where 'a = nat] by simp
  moreover have "length (show_nat (unat a)) \<le> 3" by (rule shown_length) (use a in simp_all)
  ultimately show ?thesis unfolding read_octet_def by (intro read_shown) (use unsigned_less [of a, where 'a = int] in simp_all)
qed

definition show_v4 :: "u8 \<times> u8 \<times> u8 \<times> u8 \<times> u16 \<Rightarrow> string" where
  "show_v4 x = (case x of (a, b, c, d, port) \<Rightarrow>
     show_nat (unat a) @ ''.'' @ show_nat (unat b) @ ''.'' @ show_nat (unat c) @ ''.'' @ show_nat (unat d) @ '':'' @ show_nat (unat port))"

definition v4_socket :: "u8 \<times> u8 \<times> u8 \<times> u8 \<times> u16 \<Rightarrow> SocketAddr" where
  "v4_socket x = (case x of (a, b, c, d, port) \<Rightarrow> \<lparr>sa_ip = V4 a b c d, sa_port = port\<rparr>)"

lemma stops_separators: "stops (CHR ''.'' # s)" "stops (CHR '':'' # s)" "stops []"
  by (simp_all add: stops_def digit_value_def less_eq_char_def)

lemma parse_shown: "parse_socket_addr (show_v4 x) = Some (v4_socket x)"
proof -
  obtain a b c d port where x: "x = (a, b, c, d, port)" by (cases x)
  have p: "read_number 10 None True 65536 (show_nat (unat port)) = Some (int (unat port), [])"
    using read_shown [of "unat port" 65536 "[]" None True] unsigned_less [of port, where 'a = int] by (simp add: stops_separators)
  have "read_socket_addr_v4 (show_v4 x) = Some (v4_socket x, [])"
    by (simp add: x show_v4_def v4_socket_def read_socket_addr_v4_def read_ipv4_addr_def read_octet_shown stops_separators
        read_given_char_def read_port_def p v4_addr_def)
  then show ?thesis by (simp add: parse_socket_addr_def or_else_def whole_def)
qed

lemma show_v4_char: "CHR '','' \<notin> set (show_v4 x)" "show_v4 x \<noteq> []"
  using shown_char(2) by (auto simp: show_v4_def split: prod.split)

section \<open>Peers\<close>

primrec join_commas :: "string list \<Rightarrow> string" where
  "join_commas [] = []"
| "join_commas (x # xs) = x @ (if xs = [] then [] else CHR '','' # join_commas xs)"

lemma split_piece: "c \<notin> set p \<Longrightarrow> split_on c (p @ c # s) = p # split_on c s" "c \<notin> set p \<Longrightarrow> split_on c p = [p]"
  by (induction p) auto

lemma split_joined: "(\<And>p. p \<in> set ps \<Longrightarrow> CHR '','' \<notin> set p) \<Longrightarrow> ps \<noteq> [] \<Longrightarrow> split_on CHR '','' (join_commas ps) = ps"
  by (induction ps) (auto simp: split_piece)

lemma parse_addrs_shown: "parse_addrs (map show_v4 xs) = Ok (map v4_socket xs)"
  by (induction xs) (simp_all add: parse_shown)

text \<open>The name of the record in DNS, and the lookups that give enough addresses.\<close>

definition record_name :: "string \<Rightarrow> int \<Rightarrow> string" where
  "record_name peers port = peers @ '':'' @ show_nat (nat port)"

definition enough :: "(nat \<Rightarrow> string \<Rightarrow> (io_error, SocketAddr list) res) \<Rightarrow> string \<Rightarrow> int \<Rightarrow> nat \<Rightarrow> bool" where
  "enough dns name n k \<longleftrightarrow> n \<le> int (length (resolve dns name k))"

lemma wait_returns:
  assumes "wait_for_peers dns name n k found = Some y"
  shows "n \<le> int (length found) \<or> (\<exists>j \<ge> k. enough dns name n j)"
proof (rule wait_for_peers.raw_induct [OF _ assms, where P = "\<lambda>dns name n k found y. n \<le> int (length found) \<or> (\<exists>j \<ge> k. enough dns name n j)"])
  fix f :: "(nat \<Rightarrow> string \<Rightarrow> (io_error, SocketAddr list) res) \<Rightarrow> string \<Rightarrow> int \<Rightarrow> nat \<Rightarrow> SocketAddr list \<Rightarrow> SocketAddr list option"
  fix dns name n k found y
  assume IH: "\<And>dns name n k found y. f dns name n k found = Some y \<Longrightarrow> n \<le> int (length found) \<or> (\<exists>j \<ge> k. enough dns name n j)"
    and f: "(if int (length found) < n then f dns name n (k + 1) (resolve dns name k) else Some found) = Some y"
  show "n \<le> int (length found) \<or> (\<exists>j \<ge> k. enough dns name n j)"
  proof (cases "int (length found) < n")
    case True
    with f have "f dns name n (k + 1) (resolve dns name k) = Some y" by simp
    from IH [OF this] show ?thesis by (auto simp: enough_def intro: Suc_leD)
  qed simp
qed

lemma wait_first:
  assumes "\<And>i. k \<le> i \<Longrightarrow> i < k + d \<Longrightarrow> \<not> enough dns name n i" "enough dns name n (k + d)"
  shows "wait_for_peers dns name n (k + 1) (resolve dns name k) = Some (resolve dns name (k + d))"
  using assms
proof (induction d arbitrary: k)
  case 0
  then show ?case by (subst wait_for_peers.simps) (simp add: enough_def)
next
  case (Suc d)
  from Suc.prems(1) [of k] have "int (length (resolve dns name k)) < n" by (simp add: enough_def)
  moreover have "wait_for_peers dns name n (k + 1 + 1) (resolve dns name (k + 1)) = Some (resolve dns name (k + 1 + d))"
    by (rule Suc.IH) (use Suc.prems in auto)
  ultimately show ?case by (subst wait_for_peers.simps) simp
qed

section \<open>The loops of a node\<close>

text \<open>The consensus of one member has nothing to do when it ticks.\<close>

definition still :: "('m, 'r, 'k) raxos \<Rightarrow> ('r \<Rightarrow> bool) \<Rightarrow> bool" where
  "still rx quiet \<longleftrightarrow> (\<forall>t r. quiet r \<longrightarrow> (\<exists>r'. rx_poll_action rx (rx_tick rx t r) = (None, r') \<and> quiet r'))"

lemma tick_alone:
  assumes "still rx quiet" "node_ready quiet n"
  obtains n' where "background_tick rx z alive clk t t' n = Some (Ok (), n')" "node_ready quiet n'"
    "cn_file_storage n' = cn_file_storage n" "cn_lock_table n' = cn_lock_table n"
proof -
  obtain r' where r': "rx_poll_action rx (rx_tick rx t (cn_replica n)) = (None, r')" "quiet r'"
    using assms unfolding still_def node_ready_def by blast
  have "poll_actions rx z alive clk [] (n\<lparr>cn_replica := rx_tick rx t (cn_replica n)\<rparr>) = Some (Ok [], n\<lparr>cn_replica := r'\<rparr>)"
    by (subst poll_actions.simps) (simp add: r'(1))
  then have d: "drive rx z alive clk (\<lambda>n. n\<lparr>cn_replica := rx_tick rx t (cn_replica n)\<rparr>) n = Some (Ok (), n\<lparr>cn_replica := r'\<rparr>)"
    using assms(2) by (simp add: drive_def node_ready_def)
  show thesis
    by (rule that [of "snd (the (background_tick rx z alive clk t t' n))"])
      (use assms(2) r'(2) in \<open>auto simp: background_tick_def d node_ready_def Let_def\<close>)
qed

primrec accepted :: "'c RunEvent list \<Rightarrow> 'c list" where
  "accepted [] = []"
| "accepted (e # es) = (case e of Accepted (Ok c) \<Rightarrow> c # accepted es | _ \<Rightarrow> accepted es)"

lemma run_event_alone:
  fixes w :: "('r, 'k, 'c, 's) world"
  assumes "holds_files rt quiet files w" "still (rt_raxos rt) quiet" "rn_manager s = w_raft w"
  obtains s' where "run_event rt e s = Some (Ok (), s')" "holds_files rt quiet files (w\<lparr>w_raft := rn_manager s'\<rparr>)"
    "rn_listening s' = rn_listening s" "rn_spawned s' = rn_spawned s @ (if rn_listening s then accepted [e] else [])"
    "locks_of (w\<lparr>w_raft := rn_manager s'\<rparr>) = locks_of w" "no_waiters (w\<lparr>w_raft := rn_manager s'\<rparr>) = no_waiters w"
proof (cases e)
  case (Accepted socket)
  then show thesis
    using assms by (intro that [of "snd (the (run_event rt e s))"]) (auto simp: run_event_def split: res.splits)
next
  case (Ticked t t')
  have w: "gm_groups (w_raft w) = [(0, node_of w)]" "node_ready quiet (node_of w)"
    using assms(1) by (auto simp: holds_files_def standalone_def)
  obtain n' where n': "background_tick (rt_raxos rt) (rt_zerialize rt) (rt_alive rt) (rt_clock rt) t t' (node_of w) = Some (Ok (), n')"
    "node_ready quiet n'" "cn_file_storage n' = cn_file_storage (node_of w)" "cn_lock_table n' = cn_lock_table (node_of w)"
    using tick_alone [OF assms(2) w(2)] .
  let ?m = "(w_raft w)\<lparr>gm_groups := [(0, n')]\<rparr>"
  have p: "w\<lparr>w_raft := ?m\<rparr> = put_node n' w" by (simp add: put_node_def)
  have r: "run_event rt e s = Some (Ok (), s\<lparr>rn_manager := ?m\<rparr>)"
    by (simp add: run_event_def Ticked gm_background_tick_def assms(3) w(1) n'(1))
  have "holds_files rt quiet files (put_node n' w)"
    using assms(1) n' standalone_put by (fastforce simp: holds_files_def node_ready_def)
  then show thesis
    using n'(4) by (intro that [OF r]) (simp_all add: p Ticked locks_of_def no_waiters_def)
qed

section \<open>Properties\<close>

text \<open>
  Peers on the command line. The addresses of peers, written in the usual way and joined by
  commas, are read back as these addresses in the same order; the bind address is not taken out.
\<close>
theorem peer_list_roundtrip:
  "main_peers dns (join_commas (map show_v4 xs)) port 0 bind_address = Some (Ok (map v4_socket xs))"
proof (cases "xs = []")
  case False
  then have "split_on CHR '','' (join_commas (map show_v4 xs)) = map show_v4 xs"
    by (intro split_joined) (auto simp: show_v4_char)
  moreover have "filter (\<lambda>x. x \<noteq> []) (map show_v4 xs) = map show_v4 xs"
    by (simp add: filter_map comp_def show_v4_char(2))
  ultimately show ?thesis by (simp add: main_peers_def parse_addrs_shown)
qed (simp add: main_peers_def)

text \<open>
  C27. Peers from DNS. With a number of peers to expect, the program looks the record up until an
  answer has at least that many addresses, and takes the addresses of the first such answer except
  its own; lookups that fail count as empty. When no answer ever has enough, it waits for ever.
\<close>
theorem dns_peers_found:
  assumes "0 < n"
  shows "main_peers dns peers port n bind_address =
    (if \<exists>k. enough dns (record_name peers port) n k
     then Some (Ok (filter (\<lambda>x. x \<noteq> bind_address)
       (resolve dns (record_name peers port) (LEAST k. enough dns (record_name peers port) n k))))
     else None)"
proof -
  let ?name = "record_name peers port"
  have m: "main_peers dns peers port n bind_address = map_option (\<lambda>found. Ok (filter (\<lambda>x. x \<noteq> bind_address) found))
      (wait_for_peers dns ?name n 1 (resolve dns ?name 0))"
    using assms by (simp add: main_peers_def record_name_def Let_def)
  show ?thesis
  proof (cases "\<exists>k. enough dns ?name n k")
    case True
    have "wait_for_peers dns ?name n (0 + 1) (resolve dns ?name 0) = Some (resolve dns ?name (0 + (LEAST k. enough dns ?name n k)))"
      by (rule wait_first) (use True in \<open>auto dest: not_less_Least intro: LeastI_ex\<close>)
    then show ?thesis using m True by simp
  next
    case False
    then have "wait_for_peers dns ?name n 1 (resolve dns ?name 0) = None"
      using wait_returns [of dns ?name n 1 "resolve dns ?name 0"] by (cases "wait_for_peers dns ?name n 1 (resolve dns ?name 0)")
        (auto simp: enough_def)
    then show ?thesis using m False by simp
  qed
qed

theorem dns_peers_found_witness:
  "let a = (\<lambda>k. \<lparr>sa_ip = V4 10 0 0 k, sa_port = 3000\<rparr>);
       dns = (\<lambda>k name. if k < 2 then Err (from_raw_os_error Data_Storage.ENOENT) else Ok [a 1, a 2, a 3])
   in main_peers dns ''db'' 3000 3 (a 2) = Some (Ok [a 1, a 3])"
proof -
  let ?a = "\<lambda>k. \<lparr>sa_ip = V4 10 0 0 k, sa_port = 3000\<rparr>"
  let ?dns = "\<lambda>(k :: nat) (name :: string). if k < 2 then Err (from_raw_os_error Data_Storage.ENOENT) else Ok [?a 1, ?a 2, ?a 3]"
  have e: "enough ?dns name 3 k \<longleftrightarrow> 2 \<le> k" for name k by (simp add: enough_def resolve_def)
  have "(LEAST k. 2 \<le> k) = (2 :: nat)" by (rule Least_equality) simp_all
  then show ?thesis
    using dns_peers_found [of 3 ?dns "''db''" 3000 "?a 2"] unfolding e Let_def by (auto simp: resolve_def)
qed



text \<open>
  C15. The program starts a node that serves. Without peers, flags and mount point, the program reads its
  address, builds the node on an empty disk, and leaves it to run in a state where its one group
  serves no files yet, holds no locks and has no waiters.
\<close>
theorem program_starts_node:
  fixes rt :: "('m, 'r, 'k, 'c, 's) runtime" and p :: "'c pools" and h :: "('r, 'k, 'c, 'c pools) host"
  assumes "runtime_ok rt quiet"
    and "let i = node_id_from_address (rt_v6_hash rt) \<lparr>sa_ip = ip, sa_port = of_int port\<rparr>
         in rx_new (rt_raxos rt) [i] i seed = Some r" "quiet r"
    and "parse_number (2 ^ 16) (m_port m) = Some port" "parse_ip (m_bind_ip m) = Some ip"
    and "parse_socket_addr (m_server_ip_port m) = Some server" "m_num_peers m = ''0''" "m_peers m = []" "m_redundancy_level m = None"
    and "\<not> m_fsck m" "\<not> m_get_leader m" "m_mount_point m = []"
  shows "\<exists>node p'. main h z tcp (rt_v6_hash rt) (start_empty rt connect t seed) m (out, p)
      = beside (ho_run h node) (out @ [Starting []], p')
    \<and> (\<forall>w :: ('r, 'k, 'c, 's) world. w_raft w = nd_raft_manager node \<longrightarrow>
         holds_files rt quiet Map.empty w \<and> locks_of w = {} \<and> no_waiters w)"
proof -
  have z: "parse_number (2 ^ 64) ''0'' = Some 0" by code_simp
  have "main_peers (ho_dns h) [] port 0 bind_address = Some (Ok [])" for bind_address
    by (simp add: main_peers_def)
  then have "main h z tcp (rt_v6_hash rt) (start_empty rt connect t seed) m (out, p) =
      await (beside (Node_new (rt_v6_hash rt) (start_empty rt connect t seed) (m_data_dir m) \<lparr>sa_ip = ip, sa_port = of_int port\<rparr> [] 1)
        (out @ [Starting []], p)) (\<lambda>node. beside (ho_run h node))"
    using assms(4-) z by (simp add: main_def replicas_of_def say_def)
  moreover obtain node p' where "Node_new (rt_v6_hash rt) (start_empty rt connect t seed) (m_data_dir m)
      \<lparr>sa_ip = ip, sa_port = of_int port\<rparr> [] 1 p = Some (Ok node, p')"
    "\<forall>w :: ('r, 'k, 'c, 's) world. w_raft w = nd_raft_manager node \<longrightarrow>
       holds_files rt quiet Map.empty w \<and> locks_of w = {} \<and> no_waiters w"
    using new_node_serves [OF assms(1-3), of connect t "m_data_dir m" p] by blast
  ultimately show ?thesis by (intro exI [of _ node] exI [of _ p']) (simp add: beside_def)
qed

theorem program_starts_node_witness:
  "let rt = sample_runtime (sample_codec [] []);
       h = (\<lparr>ho_dns = (\<lambda>k name. Ok []), ho_fuse_conf = Ok [], ho_run = (\<lambda>node w. Some (Ok (), w)), ho_mount = (\<lambda>f dir c w. None)\<rparr>
         :: (u64 \<times> (nat \<times> bytes) list, nat, nat, nat pools) host);
       tcp = (\<lparr>tcp_connect = (\<lambda>addr w. None), tcp_write_all = (\<lambda>s b w. None), tcp_read_exact = (\<lambda>s k w. None)\<rparr> :: (nat, nat pools) tcp);
       pools = \<lparr>pl_conns = (\<lambda>_. []), pl_next = 0\<rparr>
   in \<exists>p. main h (rt_zerialize rt) tcp (rt_v6_hash rt) (start_empty rt (\<lambda>a. \<lparr>pc_server_ip_port = a, pc_pool = 0\<rparr>) epoch 7)
        default_matches ([], pools) = Some (Ok (), [Starting []], p)"
proof -
  let ?rt = "sample_runtime (sample_codec [] [])"
  let ?h = "\<lparr>ho_dns = (\<lambda>k name. Ok []), ho_fuse_conf = Ok [], ho_run = (\<lambda>node w. Some (Ok (), w)), ho_mount = (\<lambda>f dir c w. None)\<rparr>
         :: (u64 \<times> (nat \<times> bytes) list, nat, nat, nat pools) host"
  let ?tcp = "\<lparr>tcp_connect = (\<lambda>addr w. None), tcp_write_all = (\<lambda>s b w. None), tcp_read_exact = (\<lambda>s k w. None)\<rparr> :: (nat, nat pools) tcp"
  let ?p = "\<lparr>pl_conns = (\<lambda>_. []), pl_next = 0\<rparr> :: nat pools"
  have n: "let i = node_id_from_address (rt_v6_hash ?rt) \<lparr>sa_ip = V4 127 0 0 1, sa_port = of_int 3000\<rparr>
      in rx_new (rt_raxos ?rt) [i] i 7 = Some (1, [])"
    by (simp add: sample_runtime_def lone_raxos_def Let_def)
  have d: "parse_number (2 ^ 16) (m_port default_matches) = Some 3000" "parse_ip (m_bind_ip default_matches) = Some (V4 127 0 0 1)"
    "parse_socket_addr (m_server_ip_port default_matches) = Some \<lparr>sa_ip = V4 127 0 0 1, sa_port = 3000\<rparr>"
    by code_simp+
  from program_starts_node [OF sample_runtime_ok [OF sample_codec_ok] n _ d, where h = ?h and p = ?p and tcp = ?tcp and t = epoch
      and connect = "\<lambda>a. \<lparr>pc_server_ip_port = a, pc_pool = 0\<rparr>" and out = "[]" and z = "rt_zerialize ?rt"]
  show ?thesis unfolding Let_def by (auto simp: default_matches_def beside_def)
qed

end
