(* ===== verification/Spec2Isabelle.thy ===== *)
theory Spec2Isabelle
  imports Mounted_Session Transactions_Alone Group_Layout Fsck_Laws Answers Fuse_Handles Program_Laws
begin

text \<open>
  A verification of FleetFS, a distributed file system in Rust (\<^verbatim>\<open>src/src\<close>).

  \<^bold>\<open>The program.\<close> A program that mounts the file system talks to the FUSE adapter
  (\<^verbatim>\<open>fuse_adapter.rs\<close>), which turns callbacks of the kernel into calls of the client (\<^verbatim>\<open>client/\<close>). The
  client sends frames to a node. There the router (\<^verbatim>\<open>storage/message_handlers/router.rs\<close>) decides
  whether the node has the raft group of the inode, forwards the request if not, and otherwise
  runs it: a read after a barrier, a write through the consensus of the group, an operation on
  several inodes as a transaction of the coordinator (\<^verbatim>\<open>transaction_coordinator.rs\<close>), which takes
  locks on inodes. The member of a group (\<^verbatim>\<open>raft_node.rs\<close>) applies what the consensus delivers, past
  the lock table (\<^verbatim>\<open>lock_table.rs\<close>), to its file storage (\<^verbatim>\<open>storage/local/\<close>): metadata in tables, which
  all members hold, and contents, of which each member holds the blocks that are striped to it.
  \<^verbatim>\<open>main.rs\<close> starts a node, a mount or a check.

  \<^bold>\<open>How it is modelled.\<close> Machine integers are words (\<open>u8\<close>, \<open>u16\<close>, \<open>u32\<close>, \<open>u64\<close>), sizes (\<^verbatim>\<open>usize\<close>) are \<open>nat\<close>, time stamps
  are pairs of integers. A fallible function returns \<open>res\<close> (\<open>Ok\<close>, \<open>Err\<close>, or \<open>Panic\<close>). A method
  that changes its object takes and returns it. A function that waits is an \<open>act\<close> on the state of its surroundings, where
  \<open>None\<close> is a call that never returns. A poisoned mutex, and a consensus node that has panicked, are
  flags of the state. Libraries are arguments: the wire format (\<open>zerialize\<close>), the consensus (\<open>raxos\<close>), streams (\<open>tcp\<close>), hashes, the
  walk over a directory, the order of a hash set, DNS, and the run-time system that wakes waiting tasks (\<open>runtime\<close>).
  What the theorems need of them are named hypotheses (\<open>codec_ok\<close>, \<open>solitary\<close>, \<open>runtime_ok\<close>,
  \<open>wired\<close>, \<open>loopback\<close>, \<open>reorders\<close>, \<open>still\<close>), which \<open>Sample_Codec\<close> and \<open>Sample_Node\<close> show to hold of concrete
  libraries.

  \<^bold>\<open>Theories.\<close> Each model theory follows the source it names, function by function.

    \<^item> \<open>Fleet_Prelude\<close>, \<open>Async\<close>: results, word and list lemmas; calls that wait and what holds after them.
    \<^item> \<open>Message_Types\<close>, \<open>Base_Utils\<close>: requests, responses and their metadata
      (\<^verbatim>\<open>base/message_types.rs\<close>); permissions, placement of groups, node ids (\<^verbatim>\<open>base/utils.rs\<close>, \<^verbatim>\<open>base/local_context.rs\<close>).
    \<^item> \<open>KV_Table\<close>, \<open>Metadata_Storage\<close>: ordered tables with the laws of the locale \<open>kv_table\<close>, and all
      operations of \<^verbatim>\<open>metadata_storage.rs\<close> on them. \<open>Metadata_Invariants\<close>: what every history of operations keeps.
      \<open>Metadata_Laws\<close>: permissions, round trips, listings, rollbacks, durability and restarts.
    \<^item> \<open>Data_Storage\<close>: \<^verbatim>\<open>data_storage.rs\<close>. \<open>Striping\<close>: the arithmetic of blocks and shares.
      \<open>Data_Group\<close>: the members of a group together refine one plain file (locale \<open>byte_store\<close>).
    \<^item> \<open>File_Storage\<close>: \<^verbatim>\<open>file_storage.rs\<close> and \<^verbatim>\<open>write_handler.rs\<close>. \<open>Replica_Agreement\<close>: replicas that apply the same log
      agree up to time stamps (locale \<open>replicated_machine\<close>). \<open>File_Group\<close>: a group refines a map
      from inodes to byte lists.
    \<^item> \<open>Lock_Table\<close>: \<^verbatim>\<open>lock_table.rs\<close> with the contract \<open>lock_service\<close>.
    \<^item> \<open>Consensus_Node\<close>, \<open>Consensus_Laws\<close>: \<^verbatim>\<open>raft_node.rs\<close>; nodes agree, with locks and queues, and lose no client.
    \<^item> \<open>Transaction_Coordinator\<close>, \<open>Coordinator_Laws\<close>: the transactions, and that they release what
      they lock (locale \<open>lock_accounting\<close>, over what they use of the groups).
    \<^item> \<open>Network_Clients\<close>, \<open>Group_Manager\<close>, \<open>Router\<close>: \<^verbatim>\<open>tcp_client.rs\<close>, \<^verbatim>\<open>peer_client.rs\<close>, \<^verbatim>\<open>cluster_client.rs\<close>, \<^verbatim>\<open>raft_group_manager.rs\<close>,
      \<^verbatim>\<open>storage_node.rs\<close>, \<^verbatim>\<open>router.rs\<close>, \<^verbatim>\<open>fsck_handler.rs\<close>. \<open>Group_Layout\<close>: forwarding reaches a member.
      \<open>Fsck_Laws\<close>: what the check of the file system decides.
    \<^item> \<open>Lone_Node\<close>, \<open>Standalone\<close>, \<open>Standalone_Files\<close>: a cluster of one node, where a request has its answer at once or waits for
      ever; it provides \<open>lock_accounting\<close>. \<open>Transactions_Alone\<close>: locks after transactions, and
      when a rename ends. \<open>Answers\<close>: every answer has the kind its request expects.
    \<^item> \<open>Node_Client\<close>, \<open>Fuse_Adapter\<close>: \<^verbatim>\<open>node_client.rs\<close>, \<^verbatim>\<open>fuse_adapter.rs\<close>. \<open>Fuse_Handles\<close>: the table of file handles.
      \<open>Client_Session\<close>, \<open>Mounted_Session\<close>: reads and writes through the whole stack are those of byte lists.
    \<^item> \<open>Program_Entry\<close>, \<open>Start_Up\<close>, \<open>Program_Laws\<close>: \<^verbatim>\<open>main.rs\<close>, the loops of \<^verbatim>\<open>Node::run\<close>, and starting on an empty disk.

  \<^bold>\<open>Bounds.\<close> No model function uses fuel. Loops that may run for ever are partial functions
  into \<open>option\<close> (\<open>start_inode_loop\<close>, \<open>poll_actions\<close>, \<open>remove_loop\<close>, \<open>wait_for_peers\<close>), and
  that they return is proved where it is claimed. Statements on file positions ask that positions
  and a block per member stay below \<open>2\<^sup>6\<^sup>4\<close> (\<open>fits\<close>); frames from a client are at most 8 MiB, the limit
  of the frame decoder. The end-to-end statements are about a node on its own, without other users;
  those on groups, logs, striping, locks and forwarding are about any number of members.

  \<^bold>\<open>Simplifications.\<close> The futures of \<^verbatim>\<open>join_all\<close> are run one after the other. A call on a local group acts on
  its node at once, and \<open>rt_receive\<close> waits for the channel while other tasks go on. The hash
  that numbers IPv6 nodes is an argument, since the standard library leaves it open. An IPv6
  address is without its scope. Text is ASCII where the program looks into it.

  \<^bold>\<open>Not modelled.\<close> Log lines; the bytes of the wire format and of \<^verbatim>\<open>redb\<close> files, and the creation of
  directories, which are the libraries' and the host's; the reading of command line text by
  \<^verbatim>\<open>clap\<close>; which task the run-time system lets go on; derived traits (\<^verbatim>\<open>Debug\<close>, \<^verbatim>\<open>Clone\<close>); module files and the tests in the sources.
\<close>

end
